(* ===== verification/Prelude.thy ===== *)
theory Prelude
  imports Main "HOL-Library.Word"
begin

text \<open>
  Shared vocabulary of the development: fixed-width Go integers written out over
  \<open>int\<close>, clock readings, error codes of the RPC layer and of database/sql, and the
  generic facts on lists (a table is a list of rows) that the component theories share.
\<close>

section \<open>Collections of facts\<close>

named_theorems query_defs \<open>definitions of the SQL statements\<close>
named_theorems handler_defs \<open>definitions of the RPC handlers and their helpers\<close>

section \<open>Go integers\<close>

text \<open>
  A Go \<open>int64\<close> (and \<open>time.Duration\<close>, which is one) is an \<open>int\<close> in the range of
  \<open>in_i64\<close>; arithmetic that can leave the range is passed through \<open>wrap64\<close>, the two's
  complement reading of the low 64 bits. \<open>int32\<close> likewise.
\<close>

definition wrap64 :: "int \<Rightarrow> int" where
  "wrap64 x = (x + 2 ^ 63) mod 2 ^ 64 - 2 ^ 63"

definition wrap32 :: "int \<Rightarrow> int" where
  "wrap32 x = (x + 2 ^ 31) mod 2 ^ 32 - 2 ^ 31"

definition in_i64 :: "int \<Rightarrow> bool" where
  "in_i64 x \<longleftrightarrow> - (2 ^ 63) \<le> x \<and> x < 2 ^ 63"

definition in_i32 :: "int \<Rightarrow> bool" where
  "in_i32 x \<longleftrightarrow> - (2 ^ 31) \<le> x \<and> x < 2 ^ 31"

lemma wrap64_id: "in_i64 x \<Longrightarrow> wrap64 x = x"
  by (simp add: wrap64_def in_i64_def)

lemma wrap32_id: "in_i32 x \<Longrightarrow> wrap32 x = x"
  by (simp add: wrap32_def in_i32_def)

lemma wrap64_range: "in_i64 (wrap64 x)"
proof -
  have "0 \<le> (x + 2 ^ 63) mod 2 ^ 64" and "(x + 2 ^ 63) mod 2 ^ 64 < 2 ^ 64"
    by simp_all
  then show ?thesis by (simp add: wrap64_def in_i64_def)
qed

lemma wrap32_range: "in_i32 (wrap32 x)"
proof -
  have "0 \<le> (x + 2 ^ 31) mod 2 ^ 32" and "(x + 2 ^ 31) mod 2 ^ 32 < 2 ^ 32"
    by simp_all
  then show ?thesis by (simp add: wrap32_def in_i32_def)
qed

text \<open>Go's integer division truncates towards zero.\<close>

definition go_div :: "int \<Rightarrow> int \<Rightarrow> int" where
  "go_div a b = sgn a * sgn b * (\<bar>a\<bar> div \<bar>b\<bar>)"

lemma go_div_nonneg: "0 \<le> a \<Longrightarrow> 0 < b \<Longrightarrow> go_div a b = a div b"
  by (cases "a = 0") (simp_all add: go_div_def)

lemma go_div_neg: "a < 0 \<Longrightarrow> 0 < b \<Longrightarrow> go_div a b = - ((- a) div b)"
  by (simp add: go_div_def)

section \<open>Time\<close>

text \<open>
  A \<open>time.Time\<close> is its number of nanoseconds since the Unix epoch, a \<open>time.Duration\<close> its
  number of nanoseconds. \<open>Sub\<close> saturates as Go's does. PostgreSQL keeps microseconds:
  a parameter bound to a TIMESTAMPTZ loses the rest (\<open>pg_ts\<close>).
\<close>

type_synonym time = int
type_synonym duration = int

definition millisecond :: duration where "millisecond = 1000000"
definition second :: duration where "second = 1000000000"
definition minute :: duration where "minute = 60 * second"
definition hour :: duration where "hour = 60 * minute"

lemmas time_units = millisecond_def second_def minute_def hour_def

definition time_sub :: "time \<Rightarrow> time \<Rightarrow> duration" where
  "time_sub a b = max (- (2 ^ 63)) (min (2 ^ 63 - 1) (a - b))"

definition pg_ts :: "time \<Rightarrow> time" where
  "pg_ts t = (t div 1000) * 1000"

lemma pg_ts_le: "pg_ts t \<le> t"
  unfolding pg_ts_def by linarith

lemma pg_ts_gt: "t - 1000 < pg_ts t"
  unfolding pg_ts_def by linarith

lemma pg_ts_mono: "s \<le> t \<Longrightarrow> pg_ts s \<le> pg_ts t"
  unfolding pg_ts_def by (simp add: zdiv_mono1)

lemma pg_ts_idem [simp]: "pg_ts (pg_ts t) = pg_ts t"
  unfolding pg_ts_def by simp

section \<open>Errors\<close>

text \<open>The codes of \<open>connect.NewError\<close> that the code uses.\<close>

datatype rpc_code = Unauthenticated | InvalidArgument | NotFound | Internal | Unimplemented

text \<open>
  What a call of the generated store can return as its \<open>error\<close>: \<open>sql.ErrNoRows\<close>, a
  violated uniqueness, foreign key or CHECK constraint, a LIMIT below zero, a value the destination of
  \<open>Scan\<close> refuses, a statement sent in an aborted transaction, or a lost connection or
  deadline.
\<close>

datatype db_error =
  ErrNoRows | ErrUnique | ErrForeign | ErrCheck | ErrLimit | ErrScan | ErrAborted | ErrConn

text \<open>
  What the network does with one statement: it is served; it is lost before it reaches the
  server; or it is executed and its answer is lost.
\<close>

datatype outcome = Served | LostBefore | LostAfter

definition call :: "outcome \<Rightarrow> ('s \<Rightarrow> (db_error + 'a) \<times> 's) \<Rightarrow> 's \<Rightarrow> (db_error + 'a) \<times> 's" where
  "call n f s =
     (case n of
        Served \<Rightarrow> f s
      | LostBefore \<Rightarrow> (Inl ErrConn, s)
      | LostAfter \<Rightarrow> (Inl ErrConn, snd (f s)))"

lemma call_Served [simp]: "call Served f s = f s"
  by (simp add: call_def)

lemma call_Inr: "call n f s = (Inr x, s') \<Longrightarrow> f s = (Inr x, s')"
  by (auto simp: call_def split: outcome.splits)

lemma call_state_cases: "snd (call n f s) = s \<or> snd (call n f s) = snd (f s)"
  by (cases n) (simp_all add: call_def)

lemma call_preserves: "P s \<Longrightarrow> P (snd (f s)) \<Longrightarrow> P (snd (call n f s))"
  by (cases n) (simp_all add: call_def)

section \<open>Tables as lists of rows\<close>

text \<open>
  A table is the list of its rows; its order stands for whatever order the server meets
  the rows in. \<open>update_where\<close> is UPDATE \<dots> SET \<dots> WHERE, \<open>first_row\<close> is a
  QueryRow of the matching rows.
\<close>

definition update_where :: "('r \<Rightarrow> bool) \<Rightarrow> ('r \<Rightarrow> 'r) \<Rightarrow> 'r list \<Rightarrow> 'r list" where
  "update_where P f xs = map (\<lambda>r. if P r then f r else r) xs"

definition first_row :: "'r list \<Rightarrow> db_error + 'r" where
  "first_row xs = (case xs of [] \<Rightarrow> Inl ErrNoRows | r # _ \<Rightarrow> Inr r)"

lemma first_row_simps [simp]: "first_row [] = Inl ErrNoRows" "first_row (r # rs) = Inr r"
  by (simp_all add: first_row_def)

lemma first_row_Inr: "first_row xs = Inr r \<Longrightarrow> r \<in> set xs"
  by (auto simp: first_row_def split: list.splits)

lemma first_row_Inl: "first_row xs = Inl e \<longleftrightarrow> xs = [] \<and> e = ErrNoRows"
  by (auto simp: first_row_def split: list.splits)

lemma update_where_Nil [simp]: "update_where P f [] = []"
  by (simp add: update_where_def)

lemma update_where_Cons [simp]:
  "update_where P f (r # rs) = (if P r then f r else r) # update_where P f rs"
  by (simp add: update_where_def)

lemma length_update_where [simp]: "length (update_where P f xs) = length xs"
  by (simp add: update_where_def)

lemma set_update_where: "set (update_where P f xs) = (\<lambda>r. if P r then f r else r) ` set xs"
  by (simp add: update_where_def)

lemma update_where_none: "(\<And>r. r \<in> set xs \<Longrightarrow> \<not> P r) \<Longrightarrow> update_where P f xs = xs"
  by (induction xs) simp_all

lemma update_where_cong_key:
  "(\<And>r. P r \<Longrightarrow> k (f r) = k r) \<Longrightarrow> map k (update_where P f xs) = map k xs"
  by (simp add: update_where_def)

lemma in_update_where:
  "r' \<in> set (update_where P f xs) \<longleftrightarrow>
     (\<exists>r \<in> set xs. (P r \<and> r' = f r) \<or> (\<not> P r \<and> r' = r))"
  by (auto simp: set_update_where)

lemma update_where_hit: "r \<in> set xs \<Longrightarrow> P r \<Longrightarrow> f r \<in> set (update_where P f xs)"
  by (auto simp: in_update_where)

lemma update_where_miss: "r \<in> set xs \<Longrightarrow> \<not> P r \<Longrightarrow> r \<in> set (update_where P f xs)"
  by (auto simp: in_update_where)

text \<open>Rows with a primary key: at most one row has a given key.\<close>

lemma distinct_key_unique:
  "distinct (map k xs) \<Longrightarrow> r \<in> set xs \<Longrightarrow> r' \<in> set xs \<Longrightarrow> k r = k r' \<Longrightarrow> r = r'"
  by (metis distinct_map inj_onD)

lemma distinct_key_filter:
  "distinct (map k xs) \<Longrightarrow> r \<in> set xs \<Longrightarrow> filter (\<lambda>r'. k r' = k r) xs = [r]"
proof (induction xs)
  case Nil
  then show ?case by simp
next
  case (Cons a xs)
  show ?case
  proof (cases "r = a")
    case True
    with Cons.prems have "filter (\<lambda>r'. k r' = k r) xs = []"
      by (auto simp: filter_empty_conv image_iff)
    with True show ?thesis by simp
  next
    case False
    with Cons.prems have "r \<in> set xs" by simp
    moreover from this Cons.prems have "k a \<noteq> k r" by auto
    ultimately show ?thesis using Cons by simp
  qed
qed

lemma first_row_key:
  "distinct (map k xs) \<Longrightarrow> r \<in> set xs \<Longrightarrow> k r = i \<Longrightarrow> P r \<Longrightarrow>
     first_row (filter (\<lambda>r'. k r' = i \<and> P r') xs) = Inr r"
proof -
  assume d: "distinct (map k xs)" and r: "r \<in> set xs" and i: "k r = i" and P: "P r"
  have "filter (\<lambda>r'. k r' = i \<and> P r') xs = filter P (filter (\<lambda>r'. k r' = k r) xs)"
    using i by (auto simp: conj_commute)
  also have "\<dots> = [r]" using distinct_key_filter [OF d r] P by simp
  finally show ?thesis by simp
qed

text \<open>ORDER BY is a stable sort, LIMIT a prefix; a negative LIMIT is an error.\<close>

definition sql_limit :: "int \<Rightarrow> 'r list \<Rightarrow> db_error + 'r list" where
  "sql_limit n xs = (if n < 0 then Inl ErrLimit else Inr (take (nat n) xs))"

lemma set_take_sort_key: "set (take n (sort_key k xs)) \<subseteq> set xs"
  by (metis set_sort set_take_subset)

text \<open>
  Two stable sorts in a row order by the outer key first and keep the inner order among
  rows with the same outer key: ORDER BY with two expressions.
\<close>

lemma set_insort_key_eq: "set (insort_key k x xs) = insert x (set xs)"
  by (simp add: set_insort_key)

lemma insort_key_lex:
  assumes "sorted_wrt (\<lambda>x y. k x < k y \<or> k x = k y \<and> R x y) ys" and "\<forall>y \<in> set ys. R x y"
  shows "sorted_wrt (\<lambda>x y. k x < k y \<or> k x = k y \<and> R x y) (insort_key (k :: 'r \<Rightarrow> 'k :: linorder) x ys)"
  using assms
proof (induction ys)
  case Nil
  then show ?case by simp
next
  case (Cons y ys)
  show ?case
  proof (cases "k x \<le> k y")
    case True
    with Cons.prems show ?thesis by fastforce
  next
    case False
    with Cons show ?thesis by (auto simp: set_insort_key_eq)
  qed
qed

lemma sort_key_lex:
  assumes "sorted_wrt R xs"
  shows "sorted_wrt (\<lambda>x y. k x < k y \<or> k x = k y \<and> R x y) (sort_key (k :: 'r \<Rightarrow> 'k :: linorder) xs)"
  using assms
proof (induction xs)
  case Nil
  then show ?case by simp
next
  case (Cons x xs)
  then have "sorted_wrt (\<lambda>x y. k x < k y \<or> k x = k y \<and> R x y) (sort_key k xs)"
    and "\<forall>y \<in> set (sort_key k xs). R x y"
    by simp_all
  then show ?case by (simp add: insort_key_lex)
qed

lemma sorted_wrt_sort_key: "sorted_wrt (\<lambda>x y. k x \<le> k y) (sort_key (k :: 'r \<Rightarrow> 'k :: linorder) xs)"
  using sorted_sort_key [of k xs] by (simp add: sorted_map)

lemma sorted_wrt_take_rest:
  assumes "sorted_wrt R xs" and "x \<in> set (take n xs)" and "y \<in> set xs" and "y \<notin> set (take n xs)"
  shows "R x y"
proof -
  have "sorted_wrt R (take n xs @ drop n xs)" using assms(1) by simp
  moreover have "y \<in> set (drop n xs)"
    using assms(3,4) by (metis UnE append_take_drop_id set_append)
  ultimately show ?thesis using assms(2) by (simp only: sorted_wrt_append)
qed

lemma distinct_map_filter_key: "distinct (map k xs) \<Longrightarrow> distinct (map k (filter P xs))"
  by (simp add: distinct_map inj_on_def)

text \<open>A unique key of the rows that satisfy \<open>A\<close> survives an update that keeps the key and
  never makes a row satisfy \<open>A\<close> that did not.\<close>

lemma update_where_partial_key:
  assumes "distinct (map k (filter A xs))"
    and "\<And>r. r \<in> set xs \<Longrightarrow> P r \<Longrightarrow> A (f r) \<Longrightarrow> A r \<and> k (f r) = k r"
  shows "distinct (map k (filter A (update_where P f xs)))"
proof -
  have sub: "k ` set (filter A (update_where P f ys)) \<subseteq> k ` set (filter A ys)"
    if "set ys \<subseteq> set xs" for ys
  proof
    fix key assume "key \<in> k ` set (filter A (update_where P f ys))"
    then obtain r where r: "r \<in> set ys" "A (if P r then f r else r)" "key = k (if P r then f r else r)"
      by (auto simp: in_update_where set_update_where)
    then have "A r \<and> key = k r" using that assms(2) by (auto split: if_splits)
    with r(1) show "key \<in> k ` set (filter A ys)" by auto
  qed
  have "distinct (map k (filter A (update_where P f ys)))"
    if "set ys \<subseteq> set xs" and "distinct (map k (filter A ys))" for ys
    using that
  proof (induction ys)
    case Nil
    then show ?case by simp
  next
    case (Cons a ys)
    let ?a = "if P a then f a else a"
    have tail: "distinct (map k (filter A (update_where P f ys)))"
      using Cons by (auto split: if_splits)
    show ?case
    proof (cases "A ?a")
      case False
      with tail show ?thesis by (cases "P a") simp_all
    next
      case True
      then have a: "A a" "k ?a = k a" using Cons.prems(1) assms(2) by (auto split: if_splits)
      then have "k a \<notin> k ` set (filter A ys)" using Cons.prems(2) by simp
      then have "k ?a \<notin> k ` set (filter A (update_where P f ys))"
        using a(2) sub [of ys] Cons.prems(1) by auto
      with tail True show ?thesis by (cases "P a") simp_all
    qed
  qed
  with assms(1) show ?thesis by blast
qed

end
