(* ===== verification/Store_Types.thy ===== *)
theory Store_Types
  imports Prelude Complex_Main
begin

text \<open>
  The data model of \<open>internal/app/control-plane/store/sqlc/models.go\<close>: one record per
  table row with the columns of the Go struct, the database as a record of tables, and the
  environment of a statement (clocks, network, rows locked by concurrent transactions).
  A \<open>sql.NullX\<close> is an option. A status column with a CHECK constraint that every writer
  respects is a datatype; the status of a result is a string, because the code can send one
  that the constraint refuses.
\<close>

section \<open>Rows\<close>

datatype job_status = Ready | Leased | Done

fun job_status_text :: "job_status \<Rightarrow> string" where
  "job_status_text Ready = ''ready''"
| "job_status_text Leased = ''leased''"
| "job_status_text Done = ''done''"

record app_job =
  j_run_id :: string
  j_monitor_id :: string
  j_region :: string
  j_status :: job_status
  j_scheduled_at :: time
  j_lease_expires_at :: "time option"
  j_worker_id :: "string option"
  j_created_at :: time
  j_deleted_at :: "time option"

record app_monitor =
  m_id :: string
  m_url :: string
  m_interval_ms :: int
  m_timeout_ms :: int
  m_regions :: "string list"
  m_jitter_seed :: int
  m_rate_limit_key :: "string option"
  m_method :: string
  m_headers :: "string option"
  m_assertions :: "string option"
  m_enabled :: "bool option"
  m_last_scheduled_at :: "time option"
  m_next_due_at :: "time option"
  m_user_id :: "string option"
  m_created_at :: time
  m_updated_at :: time
  m_name :: string
  m_deleted_at :: "time option"

datatype worker_status = Enrolled | Active | Inactive | Revoked

fun worker_status_text :: "worker_status \<Rightarrow> string" where
  "worker_status_text Enrolled = ''enrolled''"
| "worker_status_text Active = ''active''"
| "worker_status_text Inactive = ''inactive''"
| "worker_status_text Revoked = ''revoked''"

record app_worker =
  w_id :: string
  w_region :: string
  w_version :: string
  w_last_seen_at :: time
  w_registered_at :: time
  w_status :: worker_status
  w_hostname :: "string option"
  w_enrolled_at :: time
  w_revoked_at :: "time option"
  w_revoked_reason :: "string option"
  w_token_hash :: "string option"

record app_worker_capability =
  c_worker_id :: string
  c_capability_key :: string
  c_capability_value :: string

record ts_result_raw =
  r_run_id :: string
  r_monitor_id :: string
  r_region :: string
  r_event_at :: time
  r_status :: string
  r_http_code :: "int option"
  r_dns_ms :: "int option"
  r_connect_ms :: "int option"
  r_tls_ms :: "int option"
  r_ttfb_ms :: "int option"
  r_download_ms :: "int option"
  r_total_ms :: "int option"
  r_size_bytes :: "int option"
  r_error_message :: "string option"

text \<open>
  Rows of the continuous aggregates (views of \<open>migrations/\<close>). The Go structs give some
  of these columns a type the column does not have (\<open>error_rate\<close> and
  \<open>uptime_percentage\<close> are FLOAT columns scanned into \<open>int32\<close>); the model keeps the
  column's type and lets the scan fail. Floating point values are rationals.
\<close>

record ts_agg_1m =
  a_monitor_id :: string
  a_region :: string
  a_bucket :: time
  a_count :: int
  a_error_count :: int
  a_error_rate :: rat
  a_p50_ms :: "rat option"
  a_p95_ms :: "rat option"
  a_p99_ms :: "rat option"
  a_min_ms :: "int option"
  a_max_ms :: "int option"
  a_avg_ms :: "rat option"

record ts_agg_uptime =
  u_monitor_id :: string
  u_region :: string
  u_bucket :: time
  u_total_checks :: int
  u_successful_checks :: int
  u_failed_checks :: int
  u_uptime_percentage :: "rat option"

section \<open>The database\<close>

record db =
  d_jobs :: "app_job list"
  d_monitors :: "app_monitor list"
  d_workers :: "app_worker list"
  d_capabilities :: "app_worker_capability list"
  d_results :: "ts_result_raw list"
  d_agg_1m :: "ts_agg_1m list"
  d_agg_1h :: "ts_agg_uptime list"
  d_agg_1d :: "ts_agg_uptime list"

definition empty_db :: db where
  "empty_db = \<lparr>d_jobs = [], d_monitors = [], d_workers = [], d_capabilities = [],
     d_results = [], d_agg_1m = [], d_agg_1h = [], d_agg_1d = []\<rparr>"

type_synonym 'a query_result = "(db_error + 'a) \<times> db"

section \<open>The environment of a call\<close>

text \<open>
  \<open>go_now\<close> is the control plane's \<open>time.Now()\<close>, \<open>sql_now\<close> the server's \<open>NOW()\<close>:
  two machines, two clocks. \<open>net\<close> says what becomes of each statement, by the statement
  and its key argument. \<open>locked\<close> are the keys of the rows that concurrent transactions hold
  and that SKIP LOCKED passes over.
\<close>

datatype query =
  Q_CompleteJob | Q_CreateJobIdempotent | Q_DeleteDoneJobsBefore | Q_GetJobByRunID
| Q_LeaseJobs | Q_ReclaimExpiredLeases | Q_RenewLease
| Q_CreateMonitor | Q_DeleteMonitorByUser | Q_GetMonitorByUser | Q_ListDueMonitors
| Q_ListMonitorsByUser | Q_UpdateMonitorByUser | Q_UpdateMonitorSchedulingTime
| Q_CountWorkers | Q_EnrollWorker | Q_GetWorkerByID | Q_GetWorkerByTokenHash
| Q_ListRegionHealth | Q_ListWorkers | Q_MarkWorkerInactive | Q_RevokeWorker
| Q_SetWorkerToken | Q_UpdateWorkerHeartbeat
| Q_UpsertResult | Q_GetRecentResults | Q_GetLatestResultPerMonitor | Q_GetAggregatedMetrics
| Q_GetUptimeData24h | Q_GetUptimeData24hRaw | Q_GetUptimeData7d | Q_GetUptimeData30d
| Q_GetUptimeTimeline24h | Q_GetUptimeTimeline7d | Q_GetUptimeTimeline30d
| Q_Session | Q_TryLock | Q_Unlock | Q_BeginTx | Q_Commit

record env =
  go_now :: time
  sql_now :: time
  net :: "query \<Rightarrow> string \<Rightarrow> outcome"
  locked :: "string list"

definition calm :: "time \<Rightarrow> env" where
  "calm t = \<lparr>go_now = t, sql_now = t, net = (\<lambda>_ _. Served), locked = []\<rparr>"

lemma calm_sel [simp]:
  "go_now (calm t) = t" "sql_now (calm t) = t" "net (calm t) q k = Served" "locked (calm t) = []"
  by (simp_all add: calm_def)

end
