(* ===== verification/Jobs_Store.thy ===== *)
theory Jobs_Store
  imports Store_Types
begin

text \<open>
  The statements of \<open>store/sqlc/jobs.sql.go\<close> over \<open>app.jobs\<close>, each a function of its
  parameters and the database, with the constraints of \<open>migrations/\<close> (primary key
  \<open>run_id\<close>, foreign key \<open>monitor_id\<close>, partial unique index \<open>idx_jobs_dedup_active\<close>).
  Then the facts each statement promises: the row invariant \<open>wf_job\<close>, what it changes and
  what it leaves alone.
\<close>

section \<open>Statements\<close>

definition job_active :: "app_job \<Rightarrow> bool" where
  "job_active j \<longleftrightarrow> j_deleted_at j = None \<and> (j_status j = Ready \<or> j_status j = Leased)"

definition job_in_window :: "string \<Rightarrow> string \<Rightarrow> time \<Rightarrow> time \<Rightarrow> app_job \<Rightarrow> bool" where
  "job_in_window m r lo hi j \<longleftrightarrow> j_monitor_id j = m \<and> j_region j = r \<and> job_active j
     \<and> pg_ts lo \<le> j_scheduled_at j \<and> j_scheduled_at j \<le> pg_ts hi"

text \<open>\<open>INSERT INTO app.jobs\<close> with the table's constraints.\<close>

definition new_job :: "time \<Rightarrow> string \<Rightarrow> string \<Rightarrow> string \<Rightarrow> time \<Rightarrow> app_job" where
  "new_job now run m r sched =
     \<lparr>j_run_id = run, j_monitor_id = m, j_region = r, j_status = Ready,
      j_scheduled_at = pg_ts sched, j_lease_expires_at = None, j_worker_id = None,
      j_created_at = now, j_deleted_at = None\<rparr>"

definition insert_job :: "app_job \<Rightarrow> db \<Rightarrow> app_job query_result" where
  "insert_job j d =
     (if \<exists>j' \<in> set (d_jobs d). j_run_id j' = j_run_id j then (Inl ErrUnique, d)
      else if job_active j \<and> (\<exists>j' \<in> set (d_jobs d). job_active j'
                \<and> j_monitor_id j' = j_monitor_id j \<and> j_region j' = j_region j
                \<and> j_scheduled_at j' = j_scheduled_at j) then (Inl ErrUnique, d)
      else if \<not> (\<exists>m \<in> set (d_monitors d). m_id m = j_monitor_id j) then (Inl ErrForeign, d)
      else (Inr j, d\<lparr>d_jobs := d_jobs d @ [j]\<rparr>))"

definition CreateJob :: "time \<Rightarrow> string \<Rightarrow> string \<Rightarrow> string \<Rightarrow> time \<Rightarrow> db \<Rightarrow> app_job query_result" where
  "CreateJob now run m r sched d = insert_job (new_job now run m r sched) d"

definition CreateJobIdempotent ::
  "time \<Rightarrow> string \<Rightarrow> string \<Rightarrow> string \<Rightarrow> time \<Rightarrow> time \<Rightarrow> time \<Rightarrow> db \<Rightarrow> app_job query_result" where
  "CreateJobIdempotent now run m r sched lo hi d =
     (if \<exists>j \<in> set (d_jobs d). job_in_window m r lo hi j then (Inl ErrNoRows, d)
      else insert_job (new_job now run m r sched) d)"

definition CheckJobExists :: "string \<Rightarrow> time \<Rightarrow> time \<Rightarrow> db \<Rightarrow> bool query_result" where
  "CheckJobExists m lo hi d =
     (Inr (\<exists>j \<in> set (d_jobs d). j_monitor_id j = m \<and> job_active j
             \<and> pg_ts lo \<le> j_scheduled_at j \<and> j_scheduled_at j \<le> pg_ts hi), d)"

text \<open>
  UPDATE \<dots> RETURNING read with QueryRow: the rows that match are rewritten and the first
  one is returned, \<open>ErrNoRows\<close> if there is none.
\<close>

definition update_jobs :: "(app_job \<Rightarrow> bool) \<Rightarrow> (app_job \<Rightarrow> app_job) \<Rightarrow> db \<Rightarrow> db" where
  "update_jobs P f d = d\<lparr>d_jobs := update_where P f (d_jobs d)\<rparr>"

definition update_jobs_returning ::
  "(app_job \<Rightarrow> bool) \<Rightarrow> (app_job \<Rightarrow> app_job) \<Rightarrow> db \<Rightarrow> app_job query_result" where
  "update_jobs_returning P f d = (first_row (map f (filter P (d_jobs d))), update_jobs P f d)"

definition held_by :: "string \<Rightarrow> string \<Rightarrow> app_job \<Rightarrow> bool" where
  "held_by run w j \<longleftrightarrow> j_run_id j = run \<and> j_status j = Leased \<and> j_worker_id j = Some w"

definition CompleteJob :: "string \<Rightarrow> string \<Rightarrow> db \<Rightarrow> app_job query_result" where
  "CompleteJob run w d =
     update_jobs_returning (held_by run w)
       (\<lambda>j. j\<lparr>j_status := Done, j_lease_expires_at := None\<rparr>) d"

definition RenewLease_query :: "string \<Rightarrow> string \<Rightarrow> time \<Rightarrow> db \<Rightarrow> app_job query_result" where
  "RenewLease_query run w expires d =
     update_jobs_returning (held_by run w)
       (\<lambda>j. j\<lparr>j_lease_expires_at := Some (pg_ts expires)\<rparr>) d"

definition lease_expired :: "time \<Rightarrow> app_job \<Rightarrow> bool" where
  "lease_expired now j \<longleftrightarrow> j_status j = Leased \<and> j_deleted_at j = None
     \<and> (case j_lease_expires_at j of None \<Rightarrow> False | Some t \<Rightarrow> t < now)"

definition ReclaimExpiredLeases :: "time \<Rightarrow> db \<Rightarrow> unit query_result" where
  "ReclaimExpiredLeases now d =
     (Inr (), update_jobs (lease_expired now)
        (\<lambda>j. j\<lparr>j_status := Ready, j_lease_expires_at := None, j_worker_id := None\<rparr>) d)"

definition ForceExpireJobLease :: "string \<Rightarrow> time option \<Rightarrow> db \<Rightarrow> unit query_result" where
  "ForceExpireJobLease run expires d =
     (Inr (), update_jobs (\<lambda>j. j_run_id j = run)
        (\<lambda>j. j\<lparr>j_lease_expires_at := map_option pg_ts expires\<rparr>) d)"

text \<open>
  The three leasing statements share the inner SELECT: ready, due rows of the regions the
  worker may serve that no concurrent transaction holds, ordered, cut to LIMIT.
\<close>

definition leasable :: "env \<Rightarrow> string list \<Rightarrow> app_job \<Rightarrow> bool" where
  "leasable e regions j \<longleftrightarrow> j_status j = Ready \<and> j_deleted_at j = None
     \<and> j_scheduled_at j \<le> sql_now e \<and> j_region j \<in> set regions \<and> j_run_id j \<notin> set (locked e)"

definition region_rank :: "string \<Rightarrow> app_job \<Rightarrow> nat" where
  "region_rank region j = (if j_region j = region then 0 else 1)"

definition lease_order :: "string \<Rightarrow> app_job list \<Rightarrow> app_job list" where
  "lease_order region js = sort_key (region_rank region) (sort_key j_scheduled_at js)"

definition lease_mark :: "string \<Rightarrow> time \<Rightarrow> app_job \<Rightarrow> app_job" where
  "lease_mark w expires j =
     j\<lparr>j_status := Leased, j_lease_expires_at := Some (pg_ts expires), j_worker_id := Some w\<rparr>"

definition lease_rows ::
  "(app_job list \<Rightarrow> app_job list) \<Rightarrow> env \<Rightarrow> string list \<Rightarrow> string \<Rightarrow> int \<Rightarrow> time \<Rightarrow> db
     \<Rightarrow> app_job list query_result" where
  "lease_rows ord e regions w limit expires d =
     (case sql_limit limit (ord (filter (leasable e regions) (d_jobs d))) of
        Inl err \<Rightarrow> (Inl err, d)
      | Inr picked \<Rightarrow>
          (let P = (\<lambda>j. j_run_id j \<in> j_run_id ` set picked)
           in (Inr (map (lease_mark w expires) (filter P (d_jobs d))),
               update_jobs P (lease_mark w expires) d)))"

definition LeaseJobs :: "env \<Rightarrow> string \<Rightarrow> int \<Rightarrow> string \<Rightarrow> time \<Rightarrow> db \<Rightarrow> app_job list query_result" where
  "LeaseJobs e w limit region expires d =
     lease_rows (sort_key j_scheduled_at) e [region] w limit expires d"

definition LeaseJobsWithFallback ::
  "env \<Rightarrow> string \<Rightarrow> int \<Rightarrow> string \<Rightarrow> time \<Rightarrow> db \<Rightarrow> app_job list query_result" where
  "LeaseJobsWithFallback e w limit region expires d =
     lease_rows (lease_order region) e [region, ''global''] w limit expires d"

definition LeaseJobsWithMonitorData ::
  "env \<Rightarrow> string \<Rightarrow> int \<Rightarrow> string \<Rightarrow> time \<Rightarrow> db \<Rightarrow> (app_job \<times> app_monitor) list query_result" where
  "LeaseJobsWithMonitorData e w limit region expires d =
     (case lease_rows (lease_order region) e [region, ''global''] w limit expires d of
        (Inl err, d') \<Rightarrow> (Inl err, d')
      | (Inr leased, d') \<Rightarrow>
          (Inr [(j, m). j \<leftarrow> leased, m \<leftarrow> d_monitors d,
                 j_monitor_id j = m_id m \<and> m_deleted_at m = None], d'))"

definition DeleteMonitorJobs :: "time \<Rightarrow> string \<Rightarrow> db \<Rightarrow> unit query_result" where
  "DeleteMonitorJobs now m d =
     (Inr (), update_jobs (\<lambda>j. j_monitor_id j = m \<and> job_active j)
        (\<lambda>j. j\<lparr>j_deleted_at := Some now\<rparr>) d)"

definition expired_done :: "time \<Rightarrow> app_job \<Rightarrow> bool" where
  "expired_done cutoff j \<longleftrightarrow> j_status j = Done \<and> j_deleted_at j = None
     \<and> j_scheduled_at j < pg_ts cutoff"

definition DeleteDoneJobsBefore :: "time \<Rightarrow> int \<Rightarrow> db \<Rightarrow> int query_result" where
  "DeleteDoneJobsBefore cutoff limit d =
     (case sql_limit limit (sort_key j_scheduled_at (filter (expired_done cutoff) (d_jobs d))) of
        Inl err \<Rightarrow> (Inl err, d)
      | Inr picked \<Rightarrow>
          (let P = (\<lambda>j. j_run_id j \<in> j_run_id ` set picked)
           in (Inr (int (length (filter P (d_jobs d)))),
               d\<lparr>d_jobs := filter (\<lambda>j. \<not> P j) (d_jobs d)\<rparr>)))"

text \<open>Read-only statements.\<close>

definition GetJobByRunID :: "string \<Rightarrow> db \<Rightarrow> app_job query_result" where
  "GetJobByRunID run d = (first_row (filter (\<lambda>j. j_run_id j = run) (d_jobs d)), d)"

definition GetJobsForMonitor :: "string \<Rightarrow> db \<Rightarrow> app_job list query_result" where
  "GetJobsForMonitor m d =
     (Inr (sort_key (\<lambda>j. - j_scheduled_at j)
        (filter (\<lambda>j. j_monitor_id j = m \<and> j_deleted_at j = None) (d_jobs d))), d)"

definition GetCompletedJobsByMonitor :: "string \<Rightarrow> db \<Rightarrow> app_job list query_result" where
  "GetCompletedJobsByMonitor m d =
     (Inr (sort_key (\<lambda>j. - j_scheduled_at j)
        (filter (\<lambda>j. j_monitor_id j = m \<and> j_status j = Done \<and> j_deleted_at j = None)
           (d_jobs d))), d)"

definition CountJobsForMonitor :: "string \<Rightarrow> db \<Rightarrow> int query_result" where
  "CountJobsForMonitor m d =
     (Inr (int (length (filter (\<lambda>j. j_monitor_id j = m \<and> j_deleted_at j = None) (d_jobs d)))), d)"

definition CountDeletedJobsForMonitor :: "string \<Rightarrow> db \<Rightarrow> int query_result" where
  "CountDeletedJobsForMonitor m d =
     (Inr (int (length (filter (\<lambda>j. j_monitor_id j = m \<and> j_deleted_at j \<noteq> None) (d_jobs d)))), d)"

definition GetReadyJobsCount :: "time \<Rightarrow> db \<Rightarrow> int query_result" where
  "GetReadyJobsCount now d =
     (Inr (int (length (filter (\<lambda>j. j_status j = Ready \<and> j_deleted_at j = None
                                     \<and> j_scheduled_at j \<le> now) (d_jobs d)))), d)"

section \<open>The invariant of the jobs table\<close>

text \<open>
  A ready row has no worker and no lease, a leased row has both, a done row keeps its worker
  and has no lease. Run ids are unique (primary key), and so is the slot (monitor, region,
  scheduled time) among the active rows (the partial unique index).
\<close>

definition wf_job :: "app_job \<Rightarrow> bool" where
  "wf_job j \<longleftrightarrow>
     (case j_status j of
        Ready \<Rightarrow> j_worker_id j = None \<and> j_lease_expires_at j = None
      | Leased \<Rightarrow> j_worker_id j \<noteq> None \<and> j_lease_expires_at j \<noteq> None
      | Done \<Rightarrow> j_worker_id j \<noteq> None \<and> j_lease_expires_at j = None)"

definition job_slot :: "app_job \<Rightarrow> string \<times> string \<times> time" where
  "job_slot j = (j_monitor_id j, j_region j, j_scheduled_at j)"

definition jobs_inv :: "db \<Rightarrow> bool" where
  "jobs_inv d \<longleftrightarrow> distinct (map j_run_id (d_jobs d))
     \<and> (\<forall>j \<in> set (d_jobs d). wf_job j)
     \<and> distinct (map job_slot (filter job_active (d_jobs d)))"

lemma jobs_invD:
  assumes "jobs_inv d"
  shows "distinct (map j_run_id (d_jobs d))" "j \<in> set (d_jobs d) \<Longrightarrow> wf_job j"
    "distinct (map job_slot (filter job_active (d_jobs d)))"
  using assms by (auto simp: jobs_inv_def)

lemma jobs_inv_empty: "jobs_inv empty_db"
  by (simp add: jobs_inv_def empty_db_def)

lemma job_run_unique:
  "jobs_inv d \<Longrightarrow> j \<in> set (d_jobs d) \<Longrightarrow> j' \<in> set (d_jobs d) \<Longrightarrow> j_run_id j = j_run_id j' \<Longrightarrow> j = j'"
  by (rule distinct_key_unique [OF jobs_invD(1)])

lemma jobs_inv_update:
  assumes inv: "jobs_inv d"
    and f: "\<And>j. j \<in> set (d_jobs d) \<Longrightarrow> P j \<Longrightarrow> wf_job j \<Longrightarrow>
              wf_job (f j) \<and> (job_active (f j) \<longrightarrow> job_active j)"
    and key: "\<And>j. j_run_id (f j) = j_run_id j \<and> job_slot (f j) = job_slot j"
  shows "jobs_inv (update_jobs P f d)"
proof -
  have "distinct (map j_run_id (update_where P f (d_jobs d)))"
    using jobs_invD(1) [OF inv] key by (simp add: update_where_cong_key)
  moreover have "\<forall>j \<in> set (update_where P f (d_jobs d)). wf_job j"
    using jobs_invD(2) [OF inv] f by (auto simp: in_update_where)
  moreover have "distinct (map job_slot (filter job_active (update_where P f (d_jobs d))))"
    using jobs_invD(3) [OF inv] f jobs_invD(2) [OF inv] key by (intro update_where_partial_key) auto
  ultimately show ?thesis by (simp add: jobs_inv_def update_jobs_def)
qed

lemma update_jobs_sel [simp]:
  "d_monitors (update_jobs P f d) = d_monitors d" "d_workers (update_jobs P f d) = d_workers d"
  "d_results (update_jobs P f d) = d_results d"
  "d_jobs (update_jobs P f d) = update_where P f (d_jobs d)"
  by (simp_all add: update_jobs_def)

lemma insert_job_inv:
  assumes inv: "jobs_inv d" and j: "wf_job j"
  shows "jobs_inv (snd (insert_job j d))"
proof -
  have "jobs_inv (d\<lparr>d_jobs := d_jobs d @ [j]\<rparr>)"
    if "\<forall>j' \<in> set (d_jobs d). j_run_id j' \<noteq> j_run_id j"
      and "\<not> (job_active j \<and> (\<exists>j' \<in> set (d_jobs d). job_active j' \<and> j_monitor_id j' = j_monitor_id j
             \<and> j_region j' = j_region j \<and> j_scheduled_at j' = j_scheduled_at j))"
    using inv j that by (auto simp: jobs_inv_def job_slot_def)
  with inv show ?thesis by (simp add: insert_job_def)
qed

lemma wf_new_job: "wf_job (new_job now run m r sched)"
  by (simp add: wf_job_def new_job_def)

lemma active_new_job: "job_active (new_job now run m r sched)"
  by (simp add: job_active_def new_job_def)

lemma CreateJob_inv: "jobs_inv d \<Longrightarrow> jobs_inv (snd (CreateJob now run m r sched d))"
  by (simp add: CreateJob_def insert_job_inv wf_new_job)

lemma CreateJobIdempotent_inv:
  "jobs_inv d \<Longrightarrow> jobs_inv (snd (CreateJobIdempotent now run m r sched lo hi d))"
  by (simp add: CreateJobIdempotent_def insert_job_inv wf_new_job)

lemma CompleteJob_inv: "jobs_inv d \<Longrightarrow> jobs_inv (snd (CompleteJob run w d))"
  unfolding CompleteJob_def update_jobs_returning_def snd_conv
  by (rule jobs_inv_update) (auto simp: held_by_def wf_job_def job_active_def job_slot_def)

lemma RenewLease_query_inv: "jobs_inv d \<Longrightarrow> jobs_inv (snd (RenewLease_query run w t d))"
  unfolding RenewLease_query_def update_jobs_returning_def snd_conv
  by (rule jobs_inv_update) (auto simp: held_by_def wf_job_def job_active_def job_slot_def)

lemma ReclaimExpiredLeases_inv: "jobs_inv d \<Longrightarrow> jobs_inv (snd (ReclaimExpiredLeases now d))"
  unfolding ReclaimExpiredLeases_def snd_conv
  by (rule jobs_inv_update) (auto simp: lease_expired_def wf_job_def job_active_def job_slot_def)

lemma DeleteMonitorJobs_inv: "jobs_inv d \<Longrightarrow> jobs_inv (snd (DeleteMonitorJobs now m d))"
  unfolding DeleteMonitorJobs_def snd_conv
  by (rule jobs_inv_update)
     (auto simp: wf_job_def job_active_def job_slot_def split: job_status.splits)

lemma jobs_inv_filter:
  assumes inv: "jobs_inv d"
  shows "jobs_inv (d\<lparr>d_jobs := filter Q (d_jobs d)\<rparr>)"
proof -
  have "distinct (map j_run_id (filter Q (d_jobs d)))"
    by (rule distinct_map_filter_key [OF jobs_invD(1) [OF inv]])
  moreover have "distinct (map job_slot (filter job_active (filter Q (d_jobs d))))"
    using distinct_map_filter_key [OF jobs_invD(3) [OF inv], of Q] by (simp add: conj_commute)
  ultimately show ?thesis using jobs_invD(2) [OF inv] by (simp add: jobs_inv_def)
qed

lemma DeleteDoneJobsBefore_inv:
  "jobs_inv d \<Longrightarrow> jobs_inv (snd (DeleteDoneJobsBefore cutoff limit d))"
  by (simp add: DeleteDoneJobsBefore_def sql_limit_def Let_def jobs_inv_filter)

section \<open>Leasing\<close>

text \<open>
  With unique run ids, \<open>run_id IN (SELECT \<dots>)\<close> selects exactly the rows of the inner
  SELECT.
\<close>

lemma run_in_picked:
  assumes "jobs_inv d" and "set picked \<subseteq> set (d_jobs d)" and "j \<in> set (d_jobs d)"
  shows "j_run_id j \<in> j_run_id ` set picked \<longleftrightarrow> j \<in> set picked"
proof
  assume "j_run_id j \<in> j_run_id ` set picked"
  then obtain j' where j': "j' \<in> set picked" "j_run_id j = j_run_id j'" by auto
  with assms have "j = j'" by (intro job_run_unique [OF assms(1)]) auto
  with j'(1) show "j \<in> set picked" by simp
qed simp

definition picked_rows ::
  "(app_job list \<Rightarrow> app_job list) \<Rightarrow> env \<Rightarrow> string list \<Rightarrow> int \<Rightarrow> db \<Rightarrow> app_job list" where
  "picked_rows ord e regions limit d = take (nat limit) (ord (filter (leasable e regions) (d_jobs d)))"

lemma lease_rows_Inr:
  assumes "lease_rows ord e regions w limit expires d = (Inr js, d')"
  shows "0 \<le> limit"
    and "js = map (lease_mark w expires)
           (filter (\<lambda>j. j_run_id j \<in> j_run_id ` set (picked_rows ord e regions limit d)) (d_jobs d))"
    and "d' = update_jobs (\<lambda>j. j_run_id j \<in> j_run_id ` set (picked_rows ord e regions limit d))
           (lease_mark w expires) d"
  using assms
  by (auto simp: lease_rows_def sql_limit_def picked_rows_def Let_def split: if_splits)

lemma set_lease_order [simp]: "set (lease_order r xs) = set xs"
  by (simp add: lease_order_def)

lemma distinct_lease_order [simp]: "distinct (lease_order r xs) = distinct xs"
  by (simp add: lease_order_def)

lemma length_lease_order [simp]: "length (lease_order r xs) = length xs"
  by (simp add: lease_order_def)

text \<open>An order on rows that permutes its argument, as every ORDER BY does.\<close>

definition permutes_rows :: "(app_job list \<Rightarrow> app_job list) \<Rightarrow> bool" where
  "permutes_rows ord \<longleftrightarrow> (\<forall>xs. set (ord xs) = set xs \<and> distinct (ord xs) = distinct xs
     \<and> length (ord xs) = length xs)"

lemma permutes_lease_order: "permutes_rows (lease_order r)"
  by (simp add: permutes_rows_def)

lemma permutes_sort_key: "permutes_rows (sort_key k)"
  by (simp add: permutes_rows_def)

lemma picked_rows_leasable:
  assumes "permutes_rows ord" and "j \<in> set (picked_rows ord e regions limit d)"
  shows "j \<in> set (d_jobs d)" and "leasable e regions j"
  using assms by (auto simp: permutes_rows_def picked_rows_def dest!: in_set_takeD)

lemma lease_rows_result:
  assumes inv: "jobs_inv d" and ord: "permutes_rows ord"
    and lease: "lease_rows ord e regions w limit expires d = (Inr js, d')"
  shows "j' \<in> set js \<longleftrightarrow> (\<exists>j \<in> set (picked_rows ord e regions limit d). j' = lease_mark w expires j)"
    and "length js = min (nat limit) (length (filter (leasable e regions) (d_jobs d)))"
    and "distinct (map j_run_id js)"
proof -
  let ?pk = "picked_rows ord e regions limit d"
  have sub: "set ?pk \<subseteq> set (d_jobs d)"
    using ord by (auto simp: permutes_rows_def picked_rows_def dest!: in_set_takeD)
  have "filter (\<lambda>j. j_run_id j \<in> j_run_id ` set ?pk) (d_jobs d) = filter (\<lambda>j. j \<in> set ?pk) (d_jobs d)"
    using run_in_picked [OF inv sub] by (rule filter_cong [OF refl])
  then have js: "js = map (lease_mark w expires) (filter (\<lambda>j. j \<in> set ?pk) (d_jobs d))"
    using lease_rows_Inr(2) [OF lease] by simp
  then show "j' \<in> set js \<longleftrightarrow> (\<exists>j \<in> set ?pk. j' = lease_mark w expires j)"
    using sub by auto
  have dj: "distinct (d_jobs d)" using jobs_invD(1) [OF inv] by (simp add: distinct_map)
  then have "distinct ?pk" using ord by (simp add: permutes_rows_def picked_rows_def)
  moreover have "set (filter (\<lambda>j. j \<in> set ?pk) (d_jobs d)) = set ?pk" using sub by auto
  moreover have "distinct (filter (\<lambda>j. j \<in> set ?pk) (d_jobs d))" using dj by simp
  ultimately have "length js = length ?pk" using js by (metis distinct_card length_map)
  then show "length js = min (nat limit) (length (filter (leasable e regions) (d_jobs d)))"
    using ord by (simp add: permutes_rows_def picked_rows_def)
  have "map j_run_id js = map j_run_id (filter (\<lambda>j. j \<in> set ?pk) (d_jobs d))"
    by (simp add: js lease_mark_def)
  then show "distinct (map j_run_id js)"
    using distinct_map_filter_key [OF jobs_invD(1) [OF inv]] by simp
qed

lemma lease_rows_inv:
  assumes inv: "jobs_inv d" and ord: "permutes_rows ord"
  shows "jobs_inv (snd (lease_rows ord e regions w limit expires d))"
proof (cases "0 \<le> limit")
  case False
  with inv show ?thesis by (simp add: lease_rows_def sql_limit_def)
next
  case True
  let ?pk = "picked_rows ord e regions limit d"
  have sub: "set ?pk \<subseteq> set (d_jobs d)"
    using ord by (auto simp: permutes_rows_def picked_rows_def dest!: in_set_takeD)
  have ready: "j_status j = Ready" "j_deleted_at j = None"
    if "j \<in> set (d_jobs d)" "j_run_id j \<in> j_run_id ` set ?pk" for j
    using that run_in_picked [OF inv sub] ord
    by (auto simp: permutes_rows_def picked_rows_def leasable_def dest!: in_set_takeD)
  have "jobs_inv (update_jobs (\<lambda>j. j_run_id j \<in> j_run_id ` set ?pk) (lease_mark w expires) d)"
    using inv by (rule jobs_inv_update)
      (auto simp: wf_job_def lease_mark_def job_slot_def job_active_def ready)
  with True show ?thesis
    by (simp add: lease_rows_def sql_limit_def picked_rows_def Let_def)
qed

lemma LeaseJobsWithMonitorData_state:
  "snd (LeaseJobsWithMonitorData e w limit region expires d)
     = snd (lease_rows (lease_order region) e [region, ''global''] w limit expires d)"
  by (auto simp: LeaseJobsWithMonitorData_def split: prod.splits sum.splits)

lemma LeaseJobsWithMonitorData_tables [simp]:
  "d_monitors (snd (LeaseJobsWithMonitorData e w n r t d)) = d_monitors d"
  "d_workers (snd (LeaseJobsWithMonitorData e w n r t d)) = d_workers d"
  "d_results (snd (LeaseJobsWithMonitorData e w n r t d)) = d_results d"
  by (simp_all add: LeaseJobsWithMonitorData_state lease_rows_def Let_def split: sum.splits)

lemma LeaseJobsWithMonitorData_inv:
  "jobs_inv d \<Longrightarrow> jobs_inv (snd (LeaseJobsWithMonitorData e w limit region expires d))"
  by (simp add: LeaseJobsWithMonitorData_state lease_rows_inv permutes_lease_order)

text \<open>
  The order of the fallback leases: rows of the worker's own region before global ones, and
  the earliest scheduled first.
\<close>

definition lease_before :: "string \<Rightarrow> app_job \<Rightarrow> app_job \<Rightarrow> bool" where
  "lease_before region j j' \<longleftrightarrow> region_rank region j < region_rank region j'
     \<or> region_rank region j = region_rank region j' \<and> j_scheduled_at j \<le> j_scheduled_at j'"

lemma lease_order_sorted: "sorted_wrt (lease_before region) (lease_order region js)"
  unfolding lease_order_def
  using sort_key_lex [OF sorted_wrt_sort_key [of j_scheduled_at js], of "region_rank region"]
  by (simp add: lease_before_def [abs_def])

lemma picked_rows_first:
  assumes "j \<in> set (picked_rows (lease_order region) e regions limit d)"
    and "j' \<in> set (d_jobs d)" and "leasable e regions j'"
    and "j' \<notin> set (picked_rows (lease_order region) e regions limit d)"
  shows "lease_before region j j'"
  using sorted_wrt_take_rest [OF lease_order_sorted assms(1) [unfolded picked_rows_def]] assms
  by (simp add: picked_rows_def)

section \<open>Completing and renewing\<close>

lemma update_jobs_returning_Inr:
  assumes "update_jobs_returning P f d = (Inr j', d')"
  shows "d' = update_jobs P f d \<and> (\<exists>j \<in> set (d_jobs d). P j \<and> j' = f j)"
  using assms by (auto simp: update_jobs_returning_def dest!: first_row_Inr)

lemma update_jobs_returning_Inl:
  assumes "fst (update_jobs_returning P f d) = Inl err"
  shows "err = ErrNoRows \<and> (\<forall>j \<in> set (d_jobs d). \<not> P j) \<and> snd (update_jobs_returning P f d) = d"
proof -
  have none: "filter P (d_jobs d) = []" "err = ErrNoRows"
    using assms by (auto simp: update_jobs_returning_def first_row_Inl)
  then have "\<forall>j \<in> set (d_jobs d). \<not> P j" by (simp add: filter_empty_conv)
  then show ?thesis
    using none by (simp add: update_jobs_returning_def update_jobs_def update_where_none)
qed

lemma CompleteJob_Inr:
  "CompleteJob run w d = (Inr j', d') \<Longrightarrow>
     d' = update_jobs (held_by run w) (\<lambda>j. j\<lparr>j_status := Done, j_lease_expires_at := None\<rparr>) d
     \<and> (\<exists>j \<in> set (d_jobs d). held_by run w j \<and> j' = j\<lparr>j_status := Done, j_lease_expires_at := None\<rparr>)"
  unfolding CompleteJob_def by (rule update_jobs_returning_Inr)

lemma CompleteJob_none:
  "\<forall>j \<in> set (d_jobs d). \<not> held_by run w j \<Longrightarrow> CompleteJob run w d = (Inl ErrNoRows, d)"
  by (simp add: CompleteJob_def update_jobs_returning_def update_jobs_def update_where_none
      filter_empty_conv [THEN iffD2])

lemma RenewLease_none:
  "\<forall>j \<in> set (d_jobs d). \<not> held_by run w j \<Longrightarrow> RenewLease_query run w t d = (Inl ErrNoRows, d)"
  by (simp add: RenewLease_query_def update_jobs_returning_def update_jobs_def update_where_none
      filter_empty_conv [THEN iffD2])

lemma CompleteJob_tables [simp]:
  "d_monitors (snd (CompleteJob run w d)) = d_monitors d" "d_workers (snd (CompleteJob run w d)) = d_workers d"
  "d_results (snd (CompleteJob run w d)) = d_results d"
  by (simp_all add: CompleteJob_def update_jobs_returning_def)

lemma RenewLease_tables [simp]:
  "d_monitors (snd (RenewLease_query run w t d)) = d_monitors d" "d_workers (snd (RenewLease_query run w t d)) = d_workers d"
  "d_results (snd (RenewLease_query run w t d)) = d_results d"
  by (simp_all add: RenewLease_query_def update_jobs_returning_def)

lemma GetJobByRunID_Inr:
  "GetJobByRunID run d = (Inr j, d') \<Longrightarrow> j \<in> set (d_jobs d) \<and> j_run_id j = run \<and> d' = d"
  by (auto simp: GetJobByRunID_def dest: first_row_Inr)

lemma GetJobByRunID_iff:
  assumes "jobs_inv d" and "j \<in> set (d_jobs d)"
  shows "GetJobByRunID (j_run_id j) d = (Inr j, d)"
  using distinct_key_filter [OF jobs_invD(1) [OF assms(1)] assms(2)] by (simp add: GetJobByRunID_def)

lemma GetJobByRunID_state [simp]: "snd (GetJobByRunID run d) = d"
  by (simp add: GetJobByRunID_def)

end
