(* ===== verification/Monitors_Store.thy ===== *)
theory Monitors_Store
  imports Store_Types "HOL-Library.Char_ord" "HOL-Library.List_Lexorder"
begin

text \<open>
  The statements of \<open>store/sqlc/monitors.sql.go\<close> over \<open>app.monitors\<close> (primary key
  \<open>id\<close>; deletion sets \<open>deleted_at\<close>), and what each leaves alone: another monitor's
  row, another user's row, the key.
\<close>

section \<open>Statements\<close>

record monitor_params =
  p_id :: string
  p_name :: string
  p_url :: string
  p_interval_ms :: int
  p_timeout_ms :: int
  p_regions :: "string list"
  p_jitter_seed :: int
  p_rate_limit_key :: "string option"
  p_method :: string
  p_headers :: "string option"
  p_assertions :: "string option"
  p_enabled :: "bool option"
  p_user_id :: "string option"

definition CreateMonitor_query :: "time \<Rightarrow> monitor_params \<Rightarrow> db \<Rightarrow> app_monitor query_result" where
  "CreateMonitor_query now p d =
     (if \<exists>m \<in> set (d_monitors d). m_id m = p_id p then (Inl ErrUnique, d)
      else
        (let m = \<lparr>m_id = p_id p, m_url = p_url p, m_interval_ms = p_interval_ms p,
                  m_timeout_ms = p_timeout_ms p, m_regions = p_regions p,
                  m_jitter_seed = p_jitter_seed p, m_rate_limit_key = p_rate_limit_key p,
                  m_method = p_method p, m_headers = p_headers p, m_assertions = p_assertions p,
                  m_enabled = p_enabled p, m_last_scheduled_at = None, m_next_due_at = None,
                  m_user_id = p_user_id p, m_created_at = now, m_updated_at = now,
                  m_name = p_name p, m_deleted_at = None\<rparr>
         in (Inr m, d\<lparr>d_monitors := d_monitors d @ [m]\<rparr>)))"

definition update_monitors ::
  "(app_monitor \<Rightarrow> bool) \<Rightarrow> (app_monitor \<Rightarrow> app_monitor) \<Rightarrow> db \<Rightarrow> db" where
  "update_monitors P f d = d\<lparr>d_monitors := update_where P f (d_monitors d)\<rparr>"

definition update_monitors_returning ::
  "(app_monitor \<Rightarrow> bool) \<Rightarrow> (app_monitor \<Rightarrow> app_monitor) \<Rightarrow> db \<Rightarrow> app_monitor query_result" where
  "update_monitors_returning P f d =
     (first_row (map f (filter P (d_monitors d))), update_monitors P f d)"

definition owned_live :: "string \<Rightarrow> string \<Rightarrow> app_monitor \<Rightarrow> bool" where
  "owned_live i u m \<longleftrightarrow> m_id m = i \<and> m_user_id m = Some u \<and> m_deleted_at m = None"

definition DeleteMonitor_query :: "time \<Rightarrow> string \<Rightarrow> db \<Rightarrow> unit query_result" where
  "DeleteMonitor_query now i d =
     (Inr (), update_monitors (\<lambda>m. m_id m = i \<and> m_deleted_at m = None)
        (\<lambda>m. m\<lparr>m_deleted_at := Some now\<rparr>) d)"

definition DeleteMonitorByUser :: "time \<Rightarrow> string \<Rightarrow> string \<Rightarrow> db \<Rightarrow> unit query_result" where
  "DeleteMonitorByUser now i u d =
     (Inr (), update_monitors (owned_live i u) (\<lambda>m. m\<lparr>m_deleted_at := Some now\<rparr>) d)"

definition set_params :: "time \<Rightarrow> monitor_params \<Rightarrow> app_monitor \<Rightarrow> app_monitor" where
  "set_params now p m =
     m\<lparr>m_name := p_name p, m_url := p_url p, m_interval_ms := p_interval_ms p,
       m_timeout_ms := p_timeout_ms p, m_regions := p_regions p,
       m_jitter_seed := p_jitter_seed p, m_rate_limit_key := p_rate_limit_key p,
       m_method := p_method p, m_headers := p_headers p, m_assertions := p_assertions p,
       m_enabled := p_enabled p, m_updated_at := now\<rparr>"

definition UpdateMonitor_query :: "time \<Rightarrow> monitor_params \<Rightarrow> db \<Rightarrow> app_monitor query_result" where
  "UpdateMonitor_query now p d =
     update_monitors_returning (\<lambda>m. m_id m = p_id p) (set_params now p) d"

definition UpdateMonitorByUser :: "time \<Rightarrow> monitor_params \<Rightarrow> db \<Rightarrow> app_monitor query_result" where
  "UpdateMonitorByUser now p d =
     update_monitors_returning
       (\<lambda>m. m_id m = p_id p \<and> p_user_id p \<noteq> None \<and> m_user_id m = p_user_id p)
       (set_params now p) d"

definition UpdateMonitorSchedulingTime ::
  "time \<Rightarrow> string \<Rightarrow> time option \<Rightarrow> time option \<Rightarrow> db \<Rightarrow> app_monitor query_result" where
  "UpdateMonitorSchedulingTime now i lst due d =
     update_monitors_returning (\<lambda>m. m_id m = i)
       (\<lambda>m. m\<lparr>m_last_scheduled_at := map_option pg_ts lst,
              m_next_due_at := map_option pg_ts due, m_updated_at := now\<rparr>) d"

definition CountActiveMonitorsByID :: "string \<Rightarrow> db \<Rightarrow> int query_result" where
  "CountActiveMonitorsByID i d =
     (Inr (int (length (filter (\<lambda>m. m_id m = i \<and> m_deleted_at m = None) (d_monitors d)))), d)"

definition GetMonitor_query :: "string \<Rightarrow> db \<Rightarrow> app_monitor query_result" where
  "GetMonitor_query i d =
     (first_row (filter (\<lambda>m. m_id m = i \<and> m_deleted_at m = None) (d_monitors d)), d)"

definition GetMonitorByUser :: "string \<Rightarrow> string \<Rightarrow> db \<Rightarrow> app_monitor query_result" where
  "GetMonitorByUser i u d = (first_row (filter (owned_live i u) (d_monitors d)), d)"

definition GetMonitorIncludingDeleted :: "string \<Rightarrow> db \<Rightarrow> app_monitor query_result" where
  "GetMonitorIncludingDeleted i d = (first_row (filter (\<lambda>m. m_id m = i) (d_monitors d)), d)"

definition ListAllMonitors :: "db \<Rightarrow> app_monitor list query_result" where
  "ListAllMonitors d = (Inr (sort_key m_id (filter (\<lambda>m. m_deleted_at m = None) (d_monitors d))), d)"

definition ListEnabledMonitors :: "db \<Rightarrow> app_monitor list query_result" where
  "ListEnabledMonitors d =
     (Inr (sort_key m_id (filter (\<lambda>m. m_enabled m = Some True \<and> m_deleted_at m = None)
        (d_monitors d))), d)"

definition ListMonitorsByUser :: "string \<Rightarrow> db \<Rightarrow> app_monitor list query_result" where
  "ListMonitorsByUser u d =
     (Inr (sort_key (\<lambda>m. - m_created_at m)
        (filter (\<lambda>m. m_user_id m = Some u \<and> m_deleted_at m = None) (d_monitors d))), d)"

definition ListEnabledMonitorsByUser :: "string \<Rightarrow> db \<Rightarrow> app_monitor list query_result" where
  "ListEnabledMonitorsByUser u d =
     (Inr (sort_key (\<lambda>m. - m_created_at m)
        (filter (\<lambda>m. m_enabled m = Some True \<and> m_user_id m = Some u \<and> m_deleted_at m = None)
           (d_monitors d))), d)"

text \<open>\<open>ORDER BY next_due_at NULLS FIRST FOR UPDATE SKIP LOCKED\<close>.\<close>

definition monitor_due :: "env \<Rightarrow> time \<Rightarrow> app_monitor \<Rightarrow> bool" where
  "monitor_due e due m \<longleftrightarrow> m_enabled m = Some True \<and> m_deleted_at m = None
     \<and> (case m_next_due_at m of None \<Rightarrow> True | Some t \<Rightarrow> t \<le> pg_ts due)
     \<and> m_id m \<notin> set (locked e)"

definition null_rank :: "'a option \<Rightarrow> nat" where
  "null_rank x = (case x of None \<Rightarrow> 0 | Some _ \<Rightarrow> 1)"

definition ListDueMonitors :: "env \<Rightarrow> time \<Rightarrow> db \<Rightarrow> app_monitor list query_result" where
  "ListDueMonitors e due d =
     (Inr (sort_key (\<lambda>m. null_rank (m_next_due_at m))
        (sort_key (\<lambda>m. case m_next_due_at m of None \<Rightarrow> 0 | Some t \<Rightarrow> t)
           (filter (monitor_due e due) (d_monitors d)))), d)"

section \<open>Facts\<close>

definition monitors_inv :: "db \<Rightarrow> bool" where
  "monitors_inv d \<longleftrightarrow> distinct (map m_id (d_monitors d))"

lemma monitors_inv_empty: "monitors_inv empty_db"
  by (simp add: monitors_inv_def empty_db_def)

lemma monitor_unique:
  "monitors_inv d \<Longrightarrow> m \<in> set (d_monitors d) \<Longrightarrow> m' \<in> set (d_monitors d) \<Longrightarrow> m_id m = m_id m' \<Longrightarrow> m = m'"
  by (auto simp: monitors_inv_def intro: distinct_key_unique)

lemma update_monitors_sel [simp]:
  "d_jobs (update_monitors P f d) = d_jobs d" "d_workers (update_monitors P f d) = d_workers d"
  "d_results (update_monitors P f d) = d_results d"
  "d_monitors (update_monitors P f d) = update_where P f (d_monitors d)"
  by (simp_all add: update_monitors_def)

lemma monitors_inv_update:
  "monitors_inv d \<Longrightarrow> (\<And>m. m_id (f m) = m_id m) \<Longrightarrow> monitors_inv (update_monitors P f d)"
  by (simp add: monitors_inv_def update_where_cong_key)

lemma CreateMonitor_query_inv: "monitors_inv d \<Longrightarrow> monitors_inv (snd (CreateMonitor_query now p d))"
  by (auto simp: CreateMonitor_query_def Let_def monitors_inv_def)

lemma CreateMonitor_query_Inr:
  "CreateMonitor_query now p d = (Inr m, d') \<Longrightarrow>
     d_monitors d' = d_monitors d @ [m] \<and> m_id m = p_id p \<and> m_user_id m = p_user_id p \<and> m_deleted_at m = None
     \<and> m_headers m = p_headers p \<and> m_assertions m = p_assertions p \<and> m_next_due_at m = None
     \<and> m_url m = p_url p \<and> m_name m = p_name p \<and> m_interval_ms m = p_interval_ms p
     \<and> m_timeout_ms m = p_timeout_ms p \<and> m_regions m = p_regions p \<and> m_enabled m = p_enabled p"
  by (auto simp: CreateMonitor_query_def Let_def split: if_splits)

lemma set_params_id [simp]: "m_id (set_params now p m) = m_id m"
  by (simp add: set_params_def)

lemma set_params_keep [simp]:
  "m_user_id (set_params now p m) = m_user_id m" "m_deleted_at (set_params now p m) = m_deleted_at m"
  "m_next_due_at (set_params now p m) = m_next_due_at m"
  "m_last_scheduled_at (set_params now p m) = m_last_scheduled_at m"
  "m_created_at (set_params now p m) = m_created_at m"
  by (simp_all add: set_params_def)

lemma DeleteMonitorByUser_inv: "monitors_inv d \<Longrightarrow> monitors_inv (snd (DeleteMonitorByUser now i u d))"
  by (simp add: DeleteMonitorByUser_def monitors_inv_update)

lemma UpdateMonitorByUser_inv: "monitors_inv d \<Longrightarrow> monitors_inv (snd (UpdateMonitorByUser now p d))"
  by (simp add: UpdateMonitorByUser_def update_monitors_returning_def monitors_inv_update)

lemma UpdateMonitorSchedulingTime_inv:
  "monitors_inv d \<Longrightarrow> monitors_inv (snd (UpdateMonitorSchedulingTime now i l n d))"
  by (simp add: UpdateMonitorSchedulingTime_def update_monitors_returning_def monitors_inv_update)

lemma GetMonitorByUser_Inr:
  "GetMonitorByUser i u d = (Inr m, d') \<Longrightarrow> m \<in> set (d_monitors d) \<and> owned_live i u m \<and> d' = d"
  by (auto simp: GetMonitorByUser_def dest: first_row_Inr)

lemma GetMonitorByUser_iff:
  assumes "monitors_inv d"
  shows "GetMonitorByUser i u d = (Inr m, d) \<longleftrightarrow> m \<in> set (d_monitors d) \<and> owned_live i u m"
proof
  assume "m \<in> set (d_monitors d) \<and> owned_live i u m"
  then have "first_row (filter (\<lambda>m'. m_id m' = i \<and> (m_user_id m' = Some u \<and> m_deleted_at m' = None))
      (d_monitors d)) = Inr m"
    using assms by (intro first_row_key) (auto simp: monitors_inv_def owned_live_def)
  then show "GetMonitorByUser i u d = (Inr m, d)"
    by (simp add: GetMonitorByUser_def owned_live_def [abs_def])
qed (auto dest: GetMonitorByUser_Inr)

end
