(* ===== verification/Workers_Store.thy ===== *)
theory Workers_Store
  imports Store_Types "HOL-Library.Char_ord" "HOL-Library.List_Lexorder"
begin

text \<open>
  The statements of \<open>store/sqlc/workers.sql.go\<close> over \<open>app.workers\<close> (primary key
  \<open>id\<close>) and \<open>app.worker_capabilities\<close>, with the facts the services use: the key stays
  unique, a lookup by token returns a worker that is not revoked, an update touches one row.
\<close>

section \<open>Statements\<close>

definition update_workers ::
  "(app_worker \<Rightarrow> bool) \<Rightarrow> (app_worker \<Rightarrow> app_worker) \<Rightarrow> db \<Rightarrow> db" where
  "update_workers P f d = d\<lparr>d_workers := update_where P f (d_workers d)\<rparr>"

definition AddWorkerCapability :: "string \<Rightarrow> string \<Rightarrow> string \<Rightarrow> db \<Rightarrow> unit query_result" where
  "AddWorkerCapability w k v d =
     (if \<not> (\<exists>x \<in> set (d_workers d). w_id x = w) then (Inl ErrForeign, d)
      else if \<exists>c \<in> set (d_capabilities d). c_worker_id c = w \<and> c_capability_key c = k
      then (Inr (), d\<lparr>d_capabilities :=
              update_where (\<lambda>c. c_worker_id c = w \<and> c_capability_key c = k)
                (\<lambda>c. c\<lparr>c_capability_value := v\<rparr>) (d_capabilities d)\<rparr>)
      else (Inr (), d\<lparr>d_capabilities := d_capabilities d @
              [\<lparr>c_worker_id = w, c_capability_key = k, c_capability_value = v\<rparr>]\<rparr>))"

definition DeleteWorkerCapabilities :: "string \<Rightarrow> db \<Rightarrow> unit query_result" where
  "DeleteWorkerCapabilities w d =
     (Inr (), d\<lparr>d_capabilities := filter (\<lambda>c. c_worker_id c \<noteq> w) (d_capabilities d)\<rparr>)"

definition GetWorkerCapabilities :: "string \<Rightarrow> db \<Rightarrow> (string \<times> string) list query_result" where
  "GetWorkerCapabilities w d =
     (Inr (map (\<lambda>c. (c_capability_key c, c_capability_value c))
        (filter (\<lambda>c. c_worker_id c = w) (d_capabilities d))), d)"

text \<open>
  The filters of the listing are \<open>$1::TEXT IS NULL OR region = $1\<close>. The generated
  parameters are plain strings, so \<open>$1\<close> is never NULL and the model passes \<open>Some\<close>.
\<close>

definition null_or_eq :: "string option \<Rightarrow> string \<Rightarrow> bool" where
  "null_or_eq p v = (case p of None \<Rightarrow> True | Some s \<Rightarrow> v = s)"

definition worker_listed :: "string \<Rightarrow> string \<Rightarrow> app_worker \<Rightarrow> bool" where
  "worker_listed region status w \<longleftrightarrow> null_or_eq (Some region) (w_region w)
     \<and> null_or_eq (Some status) (worker_status_text (w_status w))"

definition CountWorkers :: "string \<Rightarrow> string \<Rightarrow> db \<Rightarrow> int query_result" where
  "CountWorkers region status d =
     (Inr (int (length (filter (worker_listed region status) (d_workers d)))), d)"

definition ListWorkers_query :: "string \<Rightarrow> string \<Rightarrow> int \<Rightarrow> int \<Rightarrow> db \<Rightarrow> app_worker list query_result" where
  "ListWorkers_query region status limit offset d =
     (if offset < 0 then (Inl ErrLimit, d)
      else (sql_limit limit (drop (nat offset)
              (sort_key (\<lambda>w. - w_enrolled_at w)
                 (filter (worker_listed region status) (d_workers d)))), d))"

definition EnrollWorker_query ::
  "time \<Rightarrow> string \<Rightarrow> string option \<Rightarrow> string \<Rightarrow> string \<Rightarrow> db \<Rightarrow> app_worker query_result" where
  "EnrollWorker_query now i hostname region version d =
     (if \<exists>w \<in> set (d_workers d). w_id w = i then (Inl ErrUnique, d)
      else
        (let w = \<lparr>w_id = i, w_region = region, w_version = version, w_last_seen_at = now,
                  w_registered_at = now, w_status = Enrolled, w_hostname = hostname,
                  w_enrolled_at = now, w_revoked_at = None, w_revoked_reason = None,
                  w_token_hash = None\<rparr>
         in (Inr w, d\<lparr>d_workers := d_workers d @ [w]\<rparr>)))"

definition RegisterWorker :: "time \<Rightarrow> string \<Rightarrow> string \<Rightarrow> string \<Rightarrow> db \<Rightarrow> app_worker query_result" where
  "RegisterWorker now i region version d =
     (if \<exists>w \<in> set (d_workers d). w_id w = i
      then (let f = (\<lambda>w. w\<lparr>w_last_seen_at := now, w_status := Active\<rparr>)
            in (first_row (map f (filter (\<lambda>w. w_id w = i) (d_workers d))),
                update_workers (\<lambda>w. w_id w = i) f d))
      else
        (let w = \<lparr>w_id = i, w_region = region, w_version = version, w_last_seen_at = now,
                  w_registered_at = now, w_status = Active, w_hostname = None,
                  w_enrolled_at = now, w_revoked_at = None, w_revoked_reason = None,
                  w_token_hash = None\<rparr>
         in (Inr w, d\<lparr>d_workers := d_workers d @ [w]\<rparr>)))"

definition worker_healthy :: "time \<Rightarrow> app_worker \<Rightarrow> bool" where
  "worker_healthy now w \<longleftrightarrow> w_status w = Active \<and> now - minute \<le> w_last_seen_at w"

definition GetActiveWorkers :: "time \<Rightarrow> db \<Rightarrow> app_worker list query_result" where
  "GetActiveWorkers now d =
     (Inr (sort_key w_region (sort_key w_id (filter (worker_healthy now) (d_workers d)))), d)"

definition GetWorkerByID :: "string \<Rightarrow> db \<Rightarrow> app_worker query_result" where
  "GetWorkerByID i d = (first_row (filter (\<lambda>w. w_id w = i) (d_workers d)), d)"

definition token_usable :: "string \<Rightarrow> app_worker \<Rightarrow> bool" where
  "token_usable h w \<longleftrightarrow> w_token_hash w = Some h
     \<and> (w_status w = Enrolled \<or> w_status w = Active \<or> w_status w = Inactive)"

definition GetWorkerByTokenHash :: "string \<Rightarrow> db \<Rightarrow> app_worker query_result" where
  "GetWorkerByTokenHash h d = (first_row (filter (token_usable h) (d_workers d)), d)"

definition ListRegionHealth :: "time \<Rightarrow> db \<Rightarrow> (string \<times> int) list query_result" where
  "ListRegionHealth now d =
     (Inr (map (\<lambda>r. (r, int (length (filter (\<lambda>w. w_region w = r \<and> worker_healthy now w) (d_workers d)))))
        (sort (remdups (map w_region (d_workers d))))), d)"

definition stale_worker :: "time \<Rightarrow> app_worker \<Rightarrow> bool" where
  "stale_worker now w \<longleftrightarrow> (w_status w = Active \<or> w_status w = Enrolled)
     \<and> w_last_seen_at w < now - 2 * minute"

definition MarkWorkerInactive :: "time \<Rightarrow> db \<Rightarrow> unit query_result" where
  "MarkWorkerInactive now d =
     (Inr (), update_workers (stale_worker now) (\<lambda>w. w\<lparr>w_status := Inactive\<rparr>) d)"

definition RevokeWorker :: "time \<Rightarrow> string option \<Rightarrow> string \<Rightarrow> db \<Rightarrow> unit query_result" where
  "RevokeWorker now reason i d =
     (Inr (), update_workers (\<lambda>w. w_id w = i)
        (\<lambda>w. w\<lparr>w_status := Revoked, w_revoked_at := Some now, w_revoked_reason := reason\<rparr>) d)"

definition SetWorkerToken :: "string option \<Rightarrow> string \<Rightarrow> db \<Rightarrow> unit query_result" where
  "SetWorkerToken h i d =
     (Inr (), update_workers (\<lambda>w. w_id w = i) (\<lambda>w. w\<lparr>w_token_hash := h\<rparr>) d)"

definition UpdateWorkerHeartbeat :: "time \<Rightarrow> string \<Rightarrow> db \<Rightarrow> unit query_result" where
  "UpdateWorkerHeartbeat now i d =
     (Inr (), update_workers (\<lambda>w. w_id w = i)
        (\<lambda>w. w\<lparr>w_last_seen_at := now, w_status := Active\<rparr>) d)"

section \<open>Facts\<close>

definition workers_inv :: "db \<Rightarrow> bool" where
  "workers_inv d \<longleftrightarrow> distinct (map w_id (d_workers d))"

lemma workers_inv_empty: "workers_inv empty_db"
  by (simp add: workers_inv_def empty_db_def)

lemma update_workers_sel [simp]:
  "d_jobs (update_workers P f d) = d_jobs d" "d_monitors (update_workers P f d) = d_monitors d"
  "d_results (update_workers P f d) = d_results d"
  "d_workers (update_workers P f d) = update_where P f (d_workers d)"
  by (simp_all add: update_workers_def)

lemma workers_inv_update:
  "workers_inv d \<Longrightarrow> (\<And>w. w_id (f w) = w_id w) \<Longrightarrow> workers_inv (update_workers P f d)"
  by (simp add: workers_inv_def update_where_cong_key)

lemma worker_unique:
  "workers_inv d \<Longrightarrow> w \<in> set (d_workers d) \<Longrightarrow> w' \<in> set (d_workers d) \<Longrightarrow> w_id w = w_id w' \<Longrightarrow> w = w'"
  by (auto simp: workers_inv_def intro: distinct_key_unique)

lemma EnrollWorker_query_inv: "workers_inv d \<Longrightarrow> workers_inv (snd (EnrollWorker_query now i h r v d))"
  by (auto simp: EnrollWorker_query_def Let_def workers_inv_def)

lemma worker_updates_inv:
  assumes "workers_inv d"
  shows "workers_inv (snd (SetWorkerToken h i d))" "workers_inv (snd (RevokeWorker now r i d))"
    "workers_inv (snd (UpdateWorkerHeartbeat now i d))" "workers_inv (snd (MarkWorkerInactive now d))"
  using assms
  by (simp_all add: SetWorkerToken_def RevokeWorker_def UpdateWorkerHeartbeat_def
        MarkWorkerInactive_def workers_inv_update)

lemma GetWorkerByID_iff:
  assumes "workers_inv d"
  shows "GetWorkerByID i d = (Inr w, d) \<longleftrightarrow> w \<in> set (d_workers d) \<and> w_id w = i"
proof
  assume a: "w \<in> set (d_workers d) \<and> w_id w = i"
  then have "filter (\<lambda>w'. w_id w' = w_id w) (d_workers d) = [w]"
    using assms by (intro distinct_key_filter) (auto simp: workers_inv_def)
  with a show "GetWorkerByID i d = (Inr w, d)" by (simp add: GetWorkerByID_def)
qed (auto simp: GetWorkerByID_def dest: first_row_Inr)

lemma GetWorkerByID_Inr:
  "GetWorkerByID i d = (Inr w, d') \<Longrightarrow> w \<in> set (d_workers d) \<and> w_id w = i \<and> d' = d"
  by (auto simp: GetWorkerByID_def dest: first_row_Inr)

lemma GetWorkerByTokenHash_Inr:
  "GetWorkerByTokenHash h d = (Inr w, d') \<Longrightarrow> w \<in> set (d_workers d) \<and> token_usable h w \<and> d' = d"
  by (auto simp: GetWorkerByTokenHash_def dest: first_row_Inr)

lemma token_usable_not_revoked: "token_usable h w \<Longrightarrow> w_status w \<noteq> Revoked"
  by (auto simp: token_usable_def)

end
