(* ===== verification/Results_Store.thy ===== *)
theory Results_Store
  imports Store_Types "HOL-Library.Char_ord" "HOL-Library.List_Lexorder"
begin

text \<open>
  The statements of \<open>store/sqlc/results.sql.go\<close> over \<open>ts.results_raw\<close> (primary key
  \<open>(run_id, event_at)\<close>, CHECK on the status) and over the continuous aggregates. A
  \<open>Scan\<close> of a FLOAT column into an \<open>int32\<close> goes through the decimal text of the value
  and fails unless that is an integer.
\<close>

section \<open>Writing a result\<close>

definition result_status_ok :: "string \<Rightarrow> bool" where
  "result_status_ok s \<longleftrightarrow> s = ''OK'' \<or> s = ''FAIL'' \<or> s = ''ERROR''"

definition same_result :: "string \<Rightarrow> time \<Rightarrow> ts_result_raw \<Rightarrow> bool" where
  "same_result run t r \<longleftrightarrow> r_run_id r = run \<and> r_event_at r = t"

text \<open>The conflict action keeps the monitor and the region of the row that is there.\<close>

definition overwrite_result :: "ts_result_raw \<Rightarrow> ts_result_raw \<Rightarrow> ts_result_raw" where
  "overwrite_result new old = new\<lparr>r_monitor_id := r_monitor_id old, r_region := r_region old\<rparr>"

definition UpsertResult :: "ts_result_raw \<Rightarrow> db \<Rightarrow> ts_result_raw query_result" where
  "UpsertResult arg d =
     (let new = arg\<lparr>r_event_at := pg_ts (r_event_at arg)\<rparr>;
          P = same_result (r_run_id new) (r_event_at new)
      in if \<not> result_status_ok (r_status new) then (Inl ErrCheck, d)
         else if \<exists>r \<in> set (d_results d). P r
         then (first_row (map (overwrite_result new) (filter P (d_results d))),
               d\<lparr>d_results := update_where P (overwrite_result new) (d_results d)\<rparr>)
         else (Inr new, d\<lparr>d_results := d_results d @ [new]\<rparr>))"

section \<open>Reading results\<close>

definition CountResultsByRunID :: "string \<Rightarrow> db \<Rightarrow> int query_result" where
  "CountResultsByRunID run d =
     (Inr (int (length (filter (\<lambda>r. r_run_id r = run) (d_results d)))), d)"

definition GetRecentResults_query :: "time \<Rightarrow> string \<Rightarrow> int \<Rightarrow> db \<Rightarrow> ts_result_raw list query_result" where
  "GetRecentResults_query now m limit d =
     (sql_limit limit (sort_key (\<lambda>r. - r_event_at r)
        (filter (\<lambda>r. r_monitor_id r = m \<and> now - hour \<le> r_event_at r) (d_results d))), d)"

definition GetResultByRunIDAndTime ::
  "string \<Rightarrow> time \<Rightarrow> db \<Rightarrow> (string \<times> int option \<times> int option) query_result" where
  "GetResultByRunIDAndTime run t d =
     (first_row (map (\<lambda>r. (r_status r, r_http_code r, r_total_ms r))
        (filter (same_result run (pg_ts t)) (d_results d))), d)"

text \<open>\<open>SELECT DISTINCT ON (monitor_id) \<dots> ORDER BY monitor_id, event_at DESC\<close>.\<close>

fun distinct_on :: "('r \<Rightarrow> 'k) \<Rightarrow> 'k list \<Rightarrow> 'r list \<Rightarrow> 'r list" where
  "distinct_on k seen [] = []"
| "distinct_on k seen (r # rs) =
     (if k r \<in> set seen then distinct_on k seen rs else r # distinct_on k (k r # seen) rs)"

definition GetLatestResultPerMonitor :: "time \<Rightarrow> db \<Rightarrow> ts_result_raw list query_result" where
  "GetLatestResultPerMonitor now d =
     (Inr (distinct_on r_monitor_id []
        (sort_key r_monitor_id (sort_key (\<lambda>r. - r_event_at r)
           (filter (\<lambda>r. now - 5 * minute \<le> r_event_at r) (d_results d))))), d)"

section \<open>Scanning\<close>

definition scan_int32 :: "rat \<Rightarrow> db_error + int" where
  "scan_int32 q = (if rat_of_int (floor q) = q \<and> \<bar>q\<bar> < 1000000 then Inr (floor q) else Inl ErrScan)"

definition scan_not_null :: "'a option \<Rightarrow> db_error + 'a" where
  "scan_not_null x = (case x of None \<Rightarrow> Inl ErrScan | Some v \<Rightarrow> Inr v)"

fun scan_rows :: "('r \<Rightarrow> db_error + 'a) \<Rightarrow> 'r list \<Rightarrow> db_error + 'a list" where
  "scan_rows f [] = Inr []"
| "scan_rows f (r # rs) =
     (case f r of Inl e \<Rightarrow> Inl e
      | Inr x \<Rightarrow> (case scan_rows f rs of Inl e \<Rightarrow> Inl e | Inr xs \<Rightarrow> Inr (x # xs)))"

record agg_metrics =
  g_monitor_id :: string
  g_region :: string
  g_bucket :: time
  g_count :: int
  g_error_count :: int
  g_error_rate :: int
  g_p50_ms :: rat
  g_p95_ms :: rat
  g_p99_ms :: rat
  g_min_ms :: "int option"
  g_max_ms :: "int option"
  g_avg_ms :: rat

definition scan_agg_1m :: "ts_agg_1m \<Rightarrow> db_error + agg_metrics" where
  "scan_agg_1m a =
     (case scan_int32 (a_error_rate a) of Inl e \<Rightarrow> Inl e | Inr er \<Rightarrow>
      (case scan_not_null (a_p50_ms a) of Inl e \<Rightarrow> Inl e | Inr p50 \<Rightarrow>
      (case scan_not_null (a_p95_ms a) of Inl e \<Rightarrow> Inl e | Inr p95 \<Rightarrow>
      (case scan_not_null (a_p99_ms a) of Inl e \<Rightarrow> Inl e | Inr p99 \<Rightarrow>
      (case scan_not_null (a_avg_ms a) of Inl e \<Rightarrow> Inl e | Inr avg \<Rightarrow>
        Inr \<lparr>g_monitor_id = a_monitor_id a, g_region = a_region a, g_bucket = a_bucket a,
             g_count = a_count a, g_error_count = a_error_count a, g_error_rate = er,
             g_p50_ms = p50, g_p95_ms = p95, g_p99_ms = p99, g_min_ms = a_min_ms a,
             g_max_ms = a_max_ms a, g_avg_ms = avg\<rparr>)))))"

definition GetAggregatedMetrics :: "string \<Rightarrow> time \<Rightarrow> time \<Rightarrow> db \<Rightarrow> agg_metrics list query_result" where
  "GetAggregatedMetrics m lo hi d =
     (scan_rows scan_agg_1m (sort_key (\<lambda>a. - a_bucket a)
        (filter (\<lambda>a. a_monitor_id a = m \<and> pg_ts lo \<le> a_bucket a \<and> a_bucket a \<le> pg_ts hi)
           (d_agg_1m d))), d)"

section \<open>Uptime\<close>

text \<open>
  \<open>COALESCE(ok::float / NULLIF(tot, 0) * 100, 0)::int\<close>: the cast rounds half to even.
\<close>

definition round_half_even :: "rat \<Rightarrow> int" where
  "round_half_even q =
     (let f = floor q; r = q - rat_of_int f
      in if r < 1 / 2 then f else if 1 / 2 < r then f + 1 else if even f then f else f + 1)"

definition uptime_percent :: "int \<Rightarrow> int \<Rightarrow> int" where
  "uptime_percent ok tot =
     (if tot = 0 then 0 else round_half_even (rat_of_int ok / rat_of_int tot * 100))"

record uptime_row =
  t_total :: int
  t_ok :: int
  t_failed :: int
  t_percent :: int

definition uptime_of_agg :: "ts_agg_uptime list \<Rightarrow> uptime_row" where
  "uptime_of_agg rows =
     (let tot = sum_list (map u_total_checks rows); ok = sum_list (map u_successful_checks rows)
      in \<lparr>t_total = tot, t_ok = ok, t_failed = sum_list (map u_failed_checks rows),
          t_percent = uptime_percent ok tot\<rparr>)"

definition uptime_of_raw :: "ts_result_raw list \<Rightarrow> uptime_row" where
  "uptime_of_raw rows =
     (let tot = int (length rows); ok = int (length (filter (\<lambda>r. r_status r = ''OK'') rows))
      in \<lparr>t_total = tot, t_ok = ok,
          t_failed = int (length (filter (\<lambda>r. r_status r \<noteq> ''OK'') rows)),
          t_percent = uptime_percent ok tot\<rparr>)"

definition agg_since :: "string \<Rightarrow> time \<Rightarrow> ts_agg_uptime list \<Rightarrow> ts_agg_uptime list" where
  "agg_since m t rows = filter (\<lambda>u. u_monitor_id u = m \<and> t \<le> u_bucket u) rows"

definition raw_since :: "string \<Rightarrow> time \<Rightarrow> db \<Rightarrow> ts_result_raw list" where
  "raw_since m t d = filter (\<lambda>r. r_monitor_id r = m \<and> t \<le> r_event_at r) (d_results d)"

definition GetUptimeData24h :: "time \<Rightarrow> string \<Rightarrow> db \<Rightarrow> uptime_row query_result" where
  "GetUptimeData24h now m d = (Inr (uptime_of_agg (agg_since m (now - 24 * hour) (d_agg_1h d))), d)"

definition GetUptimeData24hRaw :: "time \<Rightarrow> string \<Rightarrow> db \<Rightarrow> uptime_row query_result" where
  "GetUptimeData24hRaw now m d = (Inr (uptime_of_raw (raw_since m (now - 24 * hour) d)), d)"

definition GetUptimeData7d :: "time \<Rightarrow> string \<Rightarrow> db \<Rightarrow> uptime_row query_result" where
  "GetUptimeData7d now m d = (Inr (uptime_of_agg (agg_since m (now - 7 * 24 * hour) (d_agg_1h d))), d)"

definition GetUptimeData30d :: "time \<Rightarrow> string \<Rightarrow> db \<Rightarrow> uptime_row query_result" where
  "GetUptimeData30d now m d = (Inr (uptime_of_agg (agg_since m (now - 30 * 24 * hour) (d_agg_1d d))), d)"

record timeline_row =
  l_bucket :: time
  l_total :: int
  l_ok :: int
  l_percent :: int

definition time_bucket :: "duration \<Rightarrow> time \<Rightarrow> time" where
  "time_bucket w t = (t div w) * w"

definition GetUptimeTimeline24h :: "time \<Rightarrow> string \<Rightarrow> db \<Rightarrow> timeline_row list query_result" where
  "GetUptimeTimeline24h now m d =
     (let rows = raw_since m (now - 24 * hour) d; b = (\<lambda>r. time_bucket (15 * minute) (r_event_at r))
      in (Inr (map (\<lambda>k. let u = uptime_of_raw (filter (\<lambda>r. b r = k) rows)
                        in \<lparr>l_bucket = k, l_total = t_total u, l_ok = t_ok u, l_percent = t_percent u\<rparr>)
                 (sort (remdups (map b rows)))), d))"

definition GetUptimeTimeline7d :: "time \<Rightarrow> string \<Rightarrow> db \<Rightarrow> timeline_row list query_result" where
  "GetUptimeTimeline7d now m d =
     (let rows = agg_since m (now - 7 * 24 * hour) (d_agg_1h d);
          b = (\<lambda>u. time_bucket (2 * hour) (u_bucket u))
      in (Inr (map (\<lambda>k. let u = uptime_of_agg (filter (\<lambda>r. b r = k) rows)
                        in \<lparr>l_bucket = k, l_total = t_total u, l_ok = t_ok u, l_percent = t_percent u\<rparr>)
                 (sort (remdups (map b rows)))), d))"

definition scan_timeline_30d :: "ts_agg_uptime \<Rightarrow> db_error + timeline_row" where
  "scan_timeline_30d u =
     (case scan_not_null (u_uptime_percentage u) of Inl e \<Rightarrow> Inl e | Inr q \<Rightarrow>
      (case scan_int32 q of Inl e \<Rightarrow> Inl e | Inr p \<Rightarrow>
        Inr \<lparr>l_bucket = u_bucket u, l_total = u_total_checks u, l_ok = u_successful_checks u,
             l_percent = p\<rparr>))"

definition GetUptimeTimeline30d :: "time \<Rightarrow> string \<Rightarrow> db \<Rightarrow> timeline_row list query_result" where
  "GetUptimeTimeline30d now m d =
     (scan_rows scan_timeline_30d (sort_key u_bucket (agg_since m (now - 30 * 24 * hour) (d_agg_1d d))), d)"

section \<open>Facts\<close>

definition results_inv :: "db \<Rightarrow> bool" where
  "results_inv d \<longleftrightarrow> distinct (map (\<lambda>r. (r_run_id r, r_event_at r)) (d_results d))
     \<and> (\<forall>r \<in> set (d_results d). result_status_ok (r_status r))"

lemma results_inv_empty: "results_inv empty_db"
  by (simp add: results_inv_def empty_db_def)

lemma UpsertResult_inv: "results_inv d \<Longrightarrow> results_inv (snd (UpsertResult arg d))"
proof -
  assume inv: "results_inv d"
  let ?new = "arg\<lparr>r_event_at := pg_ts (r_event_at arg)\<rparr>"
  let ?P = "same_result (r_run_id ?new) (r_event_at ?new)"
  let ?k = "\<lambda>r. (r_run_id r, r_event_at r)"
  have key: "?k (overwrite_result ?new r) = ?k r" if "?P r" for r
    using that by (simp add: overwrite_result_def same_result_def)
  have "map ?k (update_where ?P (overwrite_result ?new) (d_results d)) = map ?k (d_results d)"
    using key by (rule update_where_cong_key)
  with inv show ?thesis
    unfolding results_inv_def
    by (auto simp: UpsertResult_def Let_def in_update_where overwrite_result_def same_result_def)
qed

lemma UpsertResult_Inr:
  assumes "UpsertResult arg d = (Inr r, d')"
  shows "result_status_ok (r_status arg)"
    and "\<exists>r \<in> set (d_results d'). r_run_id r = r_run_id arg \<and> r_event_at r = pg_ts (r_event_at arg)
           \<and> r_status r = r_status arg \<and> r_total_ms r = r_total_ms arg \<and> r_http_code r = r_http_code arg"
proof -
  let ?new = "arg\<lparr>r_event_at := pg_ts (r_event_at arg)\<rparr>"
  let ?P = "same_result (r_run_id ?new) (r_event_at ?new)"
  show ok: "result_status_ok (r_status arg)"
    using assms by (auto simp: UpsertResult_def Let_def split: if_splits)
  show "\<exists>r \<in> set (d_results d'). r_run_id r = r_run_id arg \<and> r_event_at r = pg_ts (r_event_at arg)
           \<and> r_status r = r_status arg \<and> r_total_ms r = r_total_ms arg \<and> r_http_code r = r_http_code arg"
  proof (cases "\<exists>r \<in> set (d_results d). ?P r")
    case True
    then obtain r0 where r0: "r0 \<in> set (d_results d)" "?P r0" by blast
    then have "overwrite_result ?new r0 \<in> set (update_where ?P (overwrite_result ?new) (d_results d))"
      by (rule update_where_hit)
    moreover have "d_results d' = update_where ?P (overwrite_result ?new) (d_results d)"
      using assms ok True by (auto simp: UpsertResult_def Let_def)
    ultimately have "overwrite_result ?new r0 \<in> set (d_results d')" by simp
    then show ?thesis
      by (rule bexI [rotated]) (simp add: overwrite_result_def)
  next
    case False
    then show ?thesis using assms ok by (auto simp: UpsertResult_def Let_def)
  qed
qed

lemma UpsertResult_tables:
  "d_jobs (snd (UpsertResult arg d)) = d_jobs d" "d_workers (snd (UpsertResult arg d)) = d_workers d"
  "d_monitors (snd (UpsertResult arg d)) = d_monitors d"
  by (simp_all add: UpsertResult_def Let_def)

lemma UpsertResult_results_cong:
  "d_results d = d_results d' \<Longrightarrow>
     d_results (snd (UpsertResult arg d)) = d_results (snd (UpsertResult arg d'))"
  by (simp add: UpsertResult_def Let_def)

lemma UpsertResult_ok_Inr:
  assumes "result_status_ok (r_status arg)"
  shows "\<exists>r. fst (UpsertResult arg d) = Inr r"
proof (cases "first_row (map (overwrite_result (arg\<lparr>r_event_at := pg_ts (r_event_at arg)\<rparr>))
    (filter (same_result (r_run_id arg) (pg_ts (r_event_at arg))) (d_results d)))")
  case (Inl err)
  then have "\<not> (\<exists>r \<in> set (d_results d). same_result (r_run_id arg) (pg_ts (r_event_at arg)) r)"
    by (simp add: first_row_Inl filter_empty_conv)
  with assms show ?thesis by (simp add: UpsertResult_def Let_def)
next
  case (Inr r)
  with assms show ?thesis by (simp add: UpsertResult_def Let_def)
qed

text \<open>Writing the same result a second time changes nothing (at-least-once delivery).\<close>

lemma UpsertResult_twice:
  assumes "results_inv d" and "result_status_ok (r_status arg)"
  shows "snd (UpsertResult arg (snd (UpsertResult arg d))) = snd (UpsertResult arg d)"
proof -
  let ?new = "arg\<lparr>r_event_at := pg_ts (r_event_at arg)\<rparr>"
  let ?P = "same_result (r_run_id ?new) (r_event_at ?new)"
  let ?o = "overwrite_result ?new"
  have o: "?P (?o r)" "?o (?o r) = ?o r" "?o ?new = ?new" "?P ?new" for r
    by (simp_all add: overwrite_result_def same_result_def)
  have idem: "update_where ?P ?o (update_where ?P ?o xs) = update_where ?P ?o xs" for xs
    by (induction xs) (auto simp: o)
  show ?thesis
  proof (cases "\<exists>r \<in> set (d_results d). ?P r")
    case True
    then obtain r where r: "r \<in> set (d_results d)" "?P r" by blast
    then have "?o r \<in> set (update_where ?P ?o (d_results d))" by (rule update_where_hit)
    then have "\<exists>r \<in> set (update_where ?P ?o (d_results d)). ?P r"
      using o(1) by blast
    with True assms(2) idem show ?thesis by (simp add: UpsertResult_def Let_def)
  next
    case False
    then have "update_where ?P ?o (d_results d @ [?new]) = d_results d @ [?new]"
      using o(3,4) by (auto simp: update_where_def intro: map_idI)
    with False assms(2) o(4) show ?thesis by (simp add: UpsertResult_def Let_def)
  qed
qed

end
