(* ===== verification/Auth_Cache.thy ===== *)
theory Auth_Cache
  imports Prelude "HOL-Library.AList"
begin

text \<open>
  \<open>middleware/worker_auth_cache.go\<close>: the cache from token hashes to worker ids with its
  reverse index. A Go map that the code iterates over is an association list with distinct
  keys; its order is the order of the iteration, about which nothing is assumed. The theory
  states the contract of the cache as the locale \<open>token_cache\<close>, which the services use,
  and interprets it.
\<close>

section \<open>The cache\<close>

record cache_entry =
  e_workerID :: string
  e_expiresAt :: time

record worker_auth_cache =
  ttl :: duration
  maxEntries :: int
  entries :: "(string \<times> cache_entry) list"
  tokensByWorker :: "(string \<times> string list) list"

definition NewWorkerAuthCache :: "duration \<Rightarrow> int \<Rightarrow> worker_auth_cache" where
  "NewWorkerAuthCache t n =
     \<lparr>ttl = t, maxEntries = (if n \<le> 0 then 1 else n), entries = [], tokensByWorker = []\<rparr>"

definition cache_enabled :: "worker_auth_cache \<Rightarrow> bool" where
  "cache_enabled c \<longleftrightarrow> 0 < ttl c \<and> 0 < maxEntries c"

text \<open>\<open>delete(hashes, h)\<close> and the removal of an index entry that became empty.\<close>

definition unindex :: "string \<Rightarrow> string \<Rightarrow> worker_auth_cache \<Rightarrow> worker_auth_cache" where
  "unindex w h c =
     (case map_of (tokensByWorker c) w of
        None \<Rightarrow> c
      | Some hashes \<Rightarrow>
          (let hashes' = removeAll h hashes
           in if hashes' = [] then c\<lparr>tokensByWorker := AList.delete w (tokensByWorker c)\<rparr>
              else c\<lparr>tokensByWorker := AList.update w hashes' (tokensByWorker c)\<rparr>))"

definition removeTokenLocked :: "string \<Rightarrow> worker_auth_cache \<Rightarrow> worker_auth_cache" where
  "removeTokenLocked h c =
     (case map_of (entries c) h of
        None \<Rightarrow> c
      | Some entry \<Rightarrow> unindex (e_workerID entry) h (c\<lparr>entries := AList.delete h (entries c)\<rparr>))"

definition cache_Get :: "time \<Rightarrow> string \<Rightarrow> worker_auth_cache \<Rightarrow> string option \<times> worker_auth_cache" where
  "cache_Get now h c =
     (if \<not> cache_enabled c \<or> h = [] then (None, c)
      else
        (case map_of (entries c) h of
           None \<Rightarrow> (None, c)
         | Some entry \<Rightarrow>
             if e_expiresAt entry < now then (None, removeTokenLocked h c)
             else (Some (e_workerID entry), c)))"

text \<open>The two loops of \<open>evictLocked\<close>: prune what expired, then drop the oldest.\<close>

definition prune :: "time \<Rightarrow> worker_auth_cache \<Rightarrow> worker_auth_cache" where
  "prune now c =
     fold (\<lambda>(h, entry) c'. if e_expiresAt entry < now then removeTokenLocked h c' else c')
       (entries c) c"

fun oldest :: "(string \<times> cache_entry) list \<Rightarrow> (string \<times> time) option \<Rightarrow> (string \<times> time) option" where
  "oldest [] best = best"
| "oldest ((h, entry) # es) best =
     oldest es (case best of
        None \<Rightarrow> Some (h, e_expiresAt entry)
      | Some (_, t) \<Rightarrow> if e_expiresAt entry < t then Some (h, e_expiresAt entry) else best)"

lemma entries_unindex [simp]: "entries (unindex w h c) = entries c"
  by (simp add: unindex_def Let_def split: option.splits)

lemma entries_removeTokenLocked [simp]:
  "entries (removeTokenLocked h c) = AList.delete h (entries c)"
proof (cases "map_of (entries c) h")
  case None
  then have "h \<notin> fst ` set (entries c)" by (simp add: map_of_eq_None_iff)
  with None show ?thesis by (simp add: removeTokenLocked_def)
qed (simp add: removeTokenLocked_def)

lemma config_unindex [simp]: "ttl (unindex w h c) = ttl c" "maxEntries (unindex w h c) = maxEntries c"
  by (simp_all add: unindex_def Let_def split: option.splits)

lemma config_removeTokenLocked [simp]:
  "ttl (removeTokenLocked h c) = ttl c" "maxEntries (removeTokenLocked h c) = maxEntries c"
  by (simp_all add: removeTokenLocked_def split: option.splits)

lemma oldest_dom: "oldest es best = Some (h, t) \<Longrightarrow> h \<in> fst ` set es \<or> best = Some (h, t)"
  by (induction es best rule: oldest.induct) (auto split: option.splits if_splits)

lemma oldest_None: "oldest es None = None \<longleftrightarrow> es = []"
proof -
  have "oldest es (Some b) \<noteq> None" for es b
    by (induction es "Some b" arbitrary: b rule: oldest.induct) auto
  then show ?thesis by (cases es) (auto split: prod.splits)
qed

lemma length_delete_less: "h \<in> fst ` set al \<Longrightarrow> length (AList.delete h al) < length al"
  by (induction al) (auto simp: AList.delete_eq le_imp_less_Suc [OF length_filter_le])

function evict_loop :: "worker_auth_cache \<Rightarrow> worker_auth_cache" where
  "evict_loop c =
     (if maxEntries c < int (length (entries c))
      then (case oldest (entries c) None of
              None \<Rightarrow> c
            | Some (h, _) \<Rightarrow> evict_loop (removeTokenLocked h c))
      else c)"
  by pat_completeness auto
termination
  by (relation "measure (\<lambda>c. length (entries c))")
     (auto dest!: oldest_dom intro!: length_delete_less)

declare evict_loop.simps [simp del]

definition evictLocked :: "time \<Rightarrow> worker_auth_cache \<Rightarrow> worker_auth_cache" where
  "evictLocked now c = evict_loop (prune now c)"

text \<open>
  \<open>Set\<close>: a token hash that moves to another worker leaves the old worker's index, the entry
  is written, indexed, and the cache brought back to its bound.
\<close>

definition reassign :: "string \<Rightarrow> string \<Rightarrow> worker_auth_cache \<Rightarrow> worker_auth_cache" where
  "reassign h w c =
     (case map_of (entries c) h of
        None \<Rightarrow> c
      | Some existing \<Rightarrow> if e_workerID existing \<noteq> w then unindex (e_workerID existing) h c else c)"

definition store_entry :: "time \<Rightarrow> string \<Rightarrow> string \<Rightarrow> worker_auth_cache \<Rightarrow> worker_auth_cache" where
  "store_entry now h w c =
     (let hashes = (case map_of (tokensByWorker c) w of None \<Rightarrow> [] | Some hs \<Rightarrow> hs)
      in c\<lparr>entries := AList.update h \<lparr>e_workerID = w, e_expiresAt = now + ttl c\<rparr> (entries c),
           tokensByWorker := AList.update w (List.insert h hashes) (tokensByWorker c)\<rparr>)"

definition cache_Set :: "time \<Rightarrow> string \<Rightarrow> string \<Rightarrow> worker_auth_cache \<Rightarrow> worker_auth_cache" where
  "cache_Set now h w c =
     (if \<not> cache_enabled c \<or> h = [] \<or> w = [] then c
      else evictLocked now (store_entry now h w (reassign h w c)))"

definition InvalidateWorker :: "string \<Rightarrow> worker_auth_cache \<Rightarrow> worker_auth_cache" where
  "InvalidateWorker w c =
     (if \<not> cache_enabled c \<or> w = [] then c
      else
        (case map_of (tokensByWorker c) w of
           None \<Rightarrow> c
         | Some hashes \<Rightarrow> fold removeTokenLocked hashes c))"

section \<open>The invariant: the reverse index mirrors the entries\<close>

definition lookup :: "worker_auth_cache \<Rightarrow> string \<Rightarrow> string option" where
  "lookup c h = map_option e_workerID (map_of (entries c) h)"

definition indexed :: "worker_auth_cache \<Rightarrow> string \<Rightarrow> string \<Rightarrow> bool" where
  "indexed c w h \<longleftrightarrow> (case map_of (tokensByWorker c) w of None \<Rightarrow> False | Some hs \<Rightarrow> h \<in> set hs)"

definition cache_core :: "worker_auth_cache \<Rightarrow> bool" where
  "cache_core c \<longleftrightarrow> distinct (map fst (entries c)) \<and> distinct (map fst (tokensByWorker c))
     \<and> (\<forall>w h. indexed c w h \<longleftrightarrow> lookup c h = Some w)
     \<and> [] \<notin> snd ` set (tokensByWorker c)
     \<and> (\<forall>h w. lookup c h = Some w \<longrightarrow> h \<noteq> [] \<and> w \<noteq> [])
     \<and> 0 < maxEntries c \<and> (\<not> cache_enabled c \<longrightarrow> entries c = [])"

definition cache_inv :: "worker_auth_cache \<Rightarrow> bool" where
  "cache_inv c \<longleftrightarrow> cache_core c \<and> int (length (entries c)) \<le> maxEntries c"

lemma map_of_update_alist [simp]: "map_of (AList.update k v al) = (map_of al)(k \<mapsto> v)"
  by (rule ext) (simp add: update_conv')

lemma map_of_delete_alist [simp]: "map_of (AList.delete k al) = (map_of al)(k := None)"
  by (rule ext) (simp add: delete_conv')

lemma cache_enabled_cong:
  "ttl c' = ttl c \<Longrightarrow> maxEntries c' = maxEntries c \<Longrightarrow> cache_enabled c' = cache_enabled c"
  by (simp add: cache_enabled_def)

lemma removeAll_Nil_iff: "removeAll h xs = [] \<longleftrightarrow> set xs \<subseteq> {h}"
  by (induction xs) auto

lemma map_leI: "(\<And>h w. m h = Some w \<Longrightarrow> m' h = Some w) \<Longrightarrow> m \<subseteq>\<^sub>m m'"
  by (auto simp: map_le_def dom_def)

lemma map_leD: "m \<subseteq>\<^sub>m m' \<Longrightarrow> m h = Some w \<Longrightarrow> m' h = Some w"
  by (auto simp: map_le_def dom_def)

lemma indexed_unindex: "indexed (unindex w h c) w' h' \<longleftrightarrow> indexed c w' h' \<and> \<not> (w' = w \<and> h' = h)"
  by (auto simp: indexed_def unindex_def Let_def removeAll_Nil_iff split: option.splits)

lemma indexed_entries [simp]: "indexed (c\<lparr>entries := es\<rparr>) w h = indexed c w h"
  by (simp add: indexed_def)

lemma snd_set_update: "snd ` set (AList.update k v al) \<subseteq> insert v (snd ` set al)"
  by (induction al) (auto split: if_splits)

lemma snd_set_delete: "snd ` set (AList.delete k al) \<subseteq> snd ` set al"
  by (auto simp: AList.delete_eq)

lemma no_nil_update: "[] \<notin> snd ` set al \<Longrightarrow> v \<noteq> [] \<Longrightarrow> [] \<notin> snd ` set (AList.update k v al)"
  using snd_set_update [of k v al] by blast

lemma no_nil_delete: "[] \<notin> snd ` set al \<Longrightarrow> [] \<notin> snd ` set (AList.delete k al)"
  using snd_set_delete [of k al] by blast

lemma unindex_no_empty:
  "[] \<notin> snd ` set (tokensByWorker c) \<Longrightarrow> [] \<notin> snd ` set (tokensByWorker (unindex w h c))"
  by (simp add: unindex_def Let_def no_nil_update no_nil_delete split: option.split)

lemma unindex_distinct:
  "distinct (map fst (tokensByWorker c)) \<Longrightarrow> distinct (map fst (tokensByWorker (unindex w h c)))"
  by (auto simp: unindex_def Let_def distinct_delete distinct_update split: option.splits)

lemma lookup_removeTokenLocked: "lookup (removeTokenLocked h c) = (lookup c)(h := None)"
  by (auto simp: lookup_def fun_eq_iff)

lemma removeTokenLocked_core:
  assumes "cache_core c"
  shows "cache_core (removeTokenLocked h c)"
proof (cases "map_of (entries c) h")
  case None
  with assms show ?thesis by (simp add: removeTokenLocked_def)
next
  case (Some entry)
  let ?c = "unindex (e_workerID entry) h (c\<lparr>entries := AList.delete h (entries c)\<rparr>)"
  have r: "removeTokenLocked h c = ?c" using Some by (simp add: removeTokenLocked_def)
  have look: "lookup ?c = (lookup c)(h := None)" using lookup_removeTokenLocked [of h c] r by simp
  have h: "lookup c h = Some (e_workerID entry)" using Some by (simp add: lookup_def)
  have idx: "indexed ?c w h' \<longleftrightarrow> lookup ?c h' = Some w" for w h'
    using assms h by (auto simp: indexed_unindex look cache_core_def)
  have "[] \<notin> snd ` set (tokensByWorker ?c)"
    by (rule unindex_no_empty) (use assms in \<open>simp add: cache_core_def\<close>)
  then show ?thesis
    using assms idx unfolding r cache_core_def
    by (auto simp: look distinct_delete unindex_distinct cache_enabled_def split: if_splits)
qed

lemma fold_remove_core:
  "cache_core c \<Longrightarrow> cache_core (fold removeTokenLocked hs c)"
  by (induction hs arbitrary: c) (simp_all add: removeTokenLocked_core)

lemma lookup_fold_remove:
  "lookup (fold removeTokenLocked hs c) h = (if h \<in> set hs then None else lookup c h)"
  by (induction hs arbitrary: c) (auto simp: lookup_removeTokenLocked)

lemma prune_is_fold:
  "fold (\<lambda>(h, entry) c'. if e_expiresAt entry < now then removeTokenLocked h c' else c') es c
     = fold removeTokenLocked (map fst (filter (\<lambda>x. e_expiresAt (snd x) < now) es)) c"
  by (induction es arbitrary: c) (auto split: prod.splits)

lemma prune_core: "cache_core c \<Longrightarrow> cache_core (prune now c)"
  by (simp add: prune_def prune_is_fold fold_remove_core)

lemma lookup_prune_le: "lookup (prune now c) \<subseteq>\<^sub>m lookup c"
  by (rule map_leI) (auto simp: prune_def prune_is_fold lookup_fold_remove split: if_splits)

lemma config_fold_remove [simp]:
  "ttl (fold removeTokenLocked hs c) = ttl c" "maxEntries (fold removeTokenLocked hs c) = maxEntries c"
  by (induction hs arbitrary: c) simp_all

lemma config_prune [simp]: "ttl (prune now c) = ttl c" "maxEntries (prune now c) = maxEntries c"
  by (simp_all add: prune_def prune_is_fold)

lemma evict_loop_core: "cache_core c \<Longrightarrow> cache_core (evict_loop c)"
proof (induction c rule: evict_loop.induct)
  case (1 c)
  then show ?case
    by (auto simp: evict_loop.simps [of c] removeTokenLocked_core split: option.splits)
qed

lemma evict_loop_bound: "0 \<le> maxEntries c \<Longrightarrow> int (length (entries (evict_loop c))) \<le> maxEntries c"
proof (induction c rule: evict_loop.induct)
  case (1 c)
  then show ?case
    by (auto simp: evict_loop.simps [of c] oldest_None split: option.splits)
qed

lemma config_evict_loop [simp]: "ttl (evict_loop c) = ttl c" "maxEntries (evict_loop c) = maxEntries c"
proof (induction c rule: evict_loop.induct)
  case (1 c)
  { case 1 then show ?case using "1.IH" by (auto simp: evict_loop.simps [of c] split: option.splits)
  next case 2 then show ?case using "1.IH" by (auto simp: evict_loop.simps [of c] split: option.splits) }
qed

lemma lookup_remove_le: "lookup (removeTokenLocked h c) \<subseteq>\<^sub>m lookup c"
  by (rule map_leI) (simp add: lookup_removeTokenLocked split: if_splits)

lemma lookup_evict_loop_le: "lookup (evict_loop c) \<subseteq>\<^sub>m lookup c"
proof (induction c rule: evict_loop.induct)
  case (1 c)
  show ?case
  proof (cases "maxEntries c < int (length (entries c))")
    case True
    show ?thesis
    proof (cases "oldest (entries c) None")
      case (Some p)
      obtain h t where p: "p = (h, t)" by (cases p)
      then have "lookup (evict_loop (removeTokenLocked h c)) \<subseteq>\<^sub>m lookup (removeTokenLocked h c)"
        using "1.IH" True Some by blast
      then have "lookup (evict_loop (removeTokenLocked h c)) \<subseteq>\<^sub>m lookup c"
        by (rule map_le_trans [OF _ lookup_remove_le])
      with True Some p show ?thesis by (simp add: evict_loop.simps [of c])
    qed (simp add: evict_loop.simps [of c])
  qed (simp add: evict_loop.simps [of c])
qed

lemma evictLocked_inv: "cache_core c \<Longrightarrow> cache_inv (evictLocked now c)"
proof -
  assume core: "cache_core c"
  then have "0 \<le> maxEntries (prune now c)" by (simp add: cache_core_def)
  then show ?thesis
    using evict_loop_bound [of "prune now c"] evict_loop_core [OF prune_core [OF core]]
    by (simp add: cache_inv_def evictLocked_def)
qed

lemma lookup_evictLocked_le: "lookup (evictLocked now c) \<subseteq>\<^sub>m lookup c"
  unfolding evictLocked_def by (rule map_le_trans [OF lookup_evict_loop_le lookup_prune_le])

section \<open>The operations keep the invariant\<close>

lemma reassign_sel [simp]:
  "entries (reassign h w c) = entries c" "ttl (reassign h w c) = ttl c"
  "maxEntries (reassign h w c) = maxEntries c"
  by (simp_all add: reassign_def split: option.splits)

lemma store_entry_sel [simp]:
  "ttl (store_entry now h w c) = ttl c" "maxEntries (store_entry now h w c) = maxEntries c"
  by (simp_all add: store_entry_def Let_def)

lemma indexed_reassign:
  "indexed (reassign h w c) w' h' \<longleftrightarrow>
     indexed c w' h' \<and> \<not> (w' \<noteq> w \<and> h' = h \<and> lookup c h = Some w')"
  by (auto simp: reassign_def indexed_unindex lookup_def split: option.splits if_splits)

lemma indexed_store_entry:
  "indexed (store_entry now h w c) w' h' \<longleftrightarrow> (w' = w \<and> h' = h) \<or> indexed c w' h'"
  by (auto simp: store_entry_def Let_def indexed_def split: option.splits)

lemma lookup_store_entry: "lookup (store_entry now h w c) = (lookup c)(h \<mapsto> w)"
  by (auto simp: store_entry_def Let_def lookup_def fun_eq_iff)

lemma lookup_reassign [simp]: "lookup (reassign h w c) = lookup c"
  by (simp add: lookup_def fun_eq_iff)

lemma store_core:
  assumes core: "cache_core c" and ok: "cache_enabled c" "h \<noteq> []" "w \<noteq> []"
  shows "cache_core (store_entry now h w (reassign h w c))" (is "cache_core ?c")
proof -
  have idx: "indexed ?c w' h' \<longleftrightarrow> lookup ?c h' = Some w'" for w' h'
    using core by (auto simp: indexed_store_entry indexed_reassign lookup_store_entry cache_core_def)
  have "distinct (map fst (tokensByWorker (reassign h w c)))" "[] \<notin> snd ` set (tokensByWorker (reassign h w c))"
    using core
    by (simp_all add: reassign_def cache_core_def unindex_distinct unindex_no_empty split: option.split)
  moreover have "List.insert h hs \<noteq> []" for hs
    by (cases "h \<in> set hs") (auto simp: List.insert_def)
  ultimately have "distinct (map fst (tokensByWorker ?c))" "[] \<notin> snd ` set (tokensByWorker ?c)"
    by (simp_all add: store_entry_def Let_def distinct_update no_nil_update)
  moreover have "distinct (map fst (entries ?c))"
    using core by (simp add: store_entry_def Let_def distinct_update cache_core_def)
  moreover have "h' \<noteq> [] \<and> w' \<noteq> []" if "lookup ?c h' = Some w'" for h' w'
    using that core ok by (auto simp: lookup_store_entry cache_core_def split: if_splits)
  moreover have "cache_enabled ?c" "0 < maxEntries ?c" using ok by (simp_all add: cache_enabled_def)
  ultimately show ?thesis using idx unfolding cache_core_def by blast
qed

lemma cache_Set_inv: "cache_inv c \<Longrightarrow> cache_inv (cache_Set now h w c)"
  using evictLocked_inv [OF store_core [of c h w]] by (auto simp: cache_Set_def cache_inv_def)

lemma cache_Set_content:
  assumes set: "lookup (cache_Set now h w c) h' = Some w'"
  shows "lookup c h' = Some w' \<or> (h' = h \<and> w' = w)"
proof (cases "\<not> cache_enabled c \<or> h = [] \<or> w = []")
  case True
  with set show ?thesis by (auto simp: cache_Set_def)
next
  case False
  with set have "lookup (evictLocked now (store_entry now h w (reassign h w c))) h' = Some w'"
    by (simp add: cache_Set_def)
  then have "((lookup c)(h \<mapsto> w)) h' = Some w'"
    using map_leD [OF lookup_evictLocked_le] by (metis lookup_store_entry lookup_reassign)
  then show ?thesis by (auto split: if_splits)
qed

lemma length_delete_le: "length (AList.delete h al) \<le> length al"
  by (simp add: AList.delete_eq)

lemma removeTokenLocked_inv: "cache_inv c \<Longrightarrow> cache_inv (removeTokenLocked h c)"
  using length_delete_le [of h "entries c"] by (simp add: cache_inv_def removeTokenLocked_core)

lemma cache_Get_inv: "cache_inv c \<Longrightarrow> cache_inv (snd (cache_Get now h c))"
  by (simp add: cache_Get_def removeTokenLocked_inv split: option.splits)

lemma cache_Get_content: "lookup (snd (cache_Get now h c)) \<subseteq>\<^sub>m lookup c"
  by (simp add: cache_Get_def lookup_remove_le split: option.splits)

lemma cache_Get_hit:
  "fst (cache_Get now h c) = Some w \<Longrightarrow>
     \<exists>entry. map_of (entries c) h = Some entry \<and> e_workerID entry = w \<and> now \<le> e_expiresAt entry"
  by (auto simp: cache_Get_def split: option.splits if_splits)

lemma fold_remove_inv: "cache_inv c \<Longrightarrow> cache_inv (fold removeTokenLocked hs c)"
  by (induction hs arbitrary: c) (simp_all add: removeTokenLocked_inv)

lemma InvalidateWorker_inv: "cache_inv c \<Longrightarrow> cache_inv (InvalidateWorker w c)"
  by (simp add: InvalidateWorker_def fold_remove_inv split: option.splits)

lemma InvalidateWorker_content:
  assumes "cache_inv c"
  shows "lookup (InvalidateWorker w c) h = (if lookup c h = Some w then None else lookup c h)"
proof -
  have core: "cache_core c" using assms by (simp add: cache_inv_def)
  have idx: "lookup c h = Some w \<longleftrightarrow> indexed c w h" for h using core by (simp add: cache_core_def)
  show ?thesis
  proof (cases "\<not> cache_enabled c \<or> w = []")
    case True
    then have "lookup c h \<noteq> Some w"
    proof
      assume "\<not> cache_enabled c"
      then show ?thesis using core by (simp add: cache_core_def lookup_def)
    next
      assume "w = []"
      then show ?thesis using core unfolding cache_core_def by blast
    qed
    with True show ?thesis by (auto simp: InvalidateWorker_def)
  next
    case False
    then show ?thesis
      using idx by (auto simp: InvalidateWorker_def indexed_def lookup_fold_remove split: option.splits)
  qed
qed

lemma NewWorkerAuthCache_inv: "cache_inv (NewWorkerAuthCache t n)"
  by (auto simp: cache_inv_def cache_core_def NewWorkerAuthCache_def lookup_def indexed_def)

section \<open>The contract of a token cache\<close>

locale token_cache =
  fixes get :: "time \<Rightarrow> string \<Rightarrow> 'c \<Rightarrow> string option \<times> 'c"
    and put :: "time \<Rightarrow> string \<Rightarrow> string \<Rightarrow> 'c \<Rightarrow> 'c"
    and invalidate :: "string \<Rightarrow> 'c \<Rightarrow> 'c"
    and content :: "'c \<Rightarrow> string \<Rightarrow> string option"
    and inv :: "'c \<Rightarrow> bool"
  assumes inv_get: "inv c \<Longrightarrow> inv (snd (get now h c))"
    and inv_put: "inv c \<Longrightarrow> inv (put now h w c)"
    and inv_invalidate: "inv c \<Longrightarrow> inv (invalidate w c)"
    and get_hit: "inv c \<Longrightarrow> fst (get now h c) = Some w \<Longrightarrow> content c h = Some w"
    and get_keeps: "inv c \<Longrightarrow> content (snd (get now h c)) h' = Some w \<Longrightarrow> content c h' = Some w"
    and put_adds: "inv c \<Longrightarrow> content (put now h w c) h' = Some w' \<Longrightarrow>
                     content c h' = Some w' \<or> (h' = h \<and> w' = w)"
    and invalidate_content: "inv c \<Longrightarrow>
          content (invalidate w c) h = (if content c h = Some w then None else content c h)"
begin

text \<open>
  What a client may know of every entry stays known of every entry, through each operation,
  if it is known of what the client puts in.
\<close>

definition all_entries :: "(string \<Rightarrow> string \<Rightarrow> bool) \<Rightarrow> 'c \<Rightarrow> bool" where
  "all_entries P c \<longleftrightarrow> inv c \<and> (\<forall>h w. content c h = Some w \<longrightarrow> P h w)"

lemma all_entries_get: "all_entries P c \<Longrightarrow> all_entries P (snd (get now h c))"
  unfolding all_entries_def using inv_get get_keeps by blast

lemma all_entries_hit: "all_entries P c \<Longrightarrow> fst (get now h c) = Some w \<Longrightarrow> P h w"
  unfolding all_entries_def using get_hit by blast

lemma all_entries_put: "all_entries P c \<Longrightarrow> P h w \<Longrightarrow> all_entries P (put now h w c)"
  unfolding all_entries_def using inv_put put_adds by blast

lemma all_entries_mono: "all_entries P c \<Longrightarrow> (\<And>h w. P h w \<Longrightarrow> Q h w) \<Longrightarrow> all_entries Q c"
  unfolding all_entries_def by blast

text \<open>
  Dropping a worker, then: the property need only survive for the other workers, and it holds
  for the dropped one vacuously.
\<close>

lemma all_entries_invalidate:
  assumes "all_entries P c" and "\<And>h w'. w' \<noteq> w \<Longrightarrow> P h w' \<Longrightarrow> Q h w'"
  shows "all_entries Q (invalidate w c)"
  using assms inv_invalidate [of c w] invalidate_content [of c w]
  by (auto simp: all_entries_def split: if_splits)

lemma invalidate_put_only:
  "inv c \<Longrightarrow> content (put now h w (invalidate w c)) h' = Some w \<Longrightarrow> h' = h"
  using put_adds [OF inv_invalidate [of c w], of now h w h' w] invalidate_content [of c w h']
  by (auto split: if_splits)

end

interpretation wac: token_cache cache_Get cache_Set InvalidateWorker lookup cache_inv
proof unfold_locales
  fix c now h w h' w'
  assume inv: "cache_inv c"
  show "cache_inv (snd (cache_Get now h c))" using inv by (rule cache_Get_inv)
  show "cache_inv (cache_Set now h w c)" using inv by (rule cache_Set_inv)
  show "cache_inv (InvalidateWorker w c)" using inv by (rule InvalidateWorker_inv)
  show "lookup c h = Some w" if "fst (cache_Get now h c) = Some w"
    using cache_Get_hit [OF that] by (auto simp: lookup_def)
  show "lookup c h' = Some w" if "lookup (snd (cache_Get now h c)) h' = Some w"
    using map_leD [OF cache_Get_content that] .
  show "lookup c h' = Some w' \<or> h' = h \<and> w' = w" if "lookup (cache_Set now h w c) h' = Some w'"
    using cache_Set_content [OF that] .
  show "lookup (InvalidateWorker w c) h = (if lookup c h = Some w then None else lookup c h)"
    using inv by (rule InvalidateWorker_content)
qed

section \<open>The contract with time\<close>

text \<open>
  What a client may know of the time: an entry answers only until it expires, and only what is
  put in gets a new expiry.
\<close>

locale aging_token_cache = token_cache get put invalidate content inv
  for get :: "time \<Rightarrow> string \<Rightarrow> 'c \<Rightarrow> string option \<times> 'c"
    and put :: "time \<Rightarrow> string \<Rightarrow> string \<Rightarrow> 'c \<Rightarrow> 'c"
    and invalidate :: "string \<Rightarrow> 'c \<Rightarrow> 'c"
    and content :: "'c \<Rightarrow> string \<Rightarrow> string option"
    and inv :: "'c \<Rightarrow> bool" +
  fixes expiry :: "'c \<Rightarrow> string \<Rightarrow> time option"
    and life :: "'c \<Rightarrow> duration"
  assumes hit_live: "fst (get now h c) = Some w \<Longrightarrow> \<exists>t. expiry c h = Some t \<and> now \<le> t"
    and get_expiry: "expiry (snd (get now h c)) h' = Some t \<Longrightarrow> expiry c h' = Some t"
    and invalidate_expiry: "expiry (invalidate v c) h' = Some t \<Longrightarrow> expiry c h' = Some t"
    and put_expiry: "content (put now h v c) h' = Some w \<Longrightarrow> expiry (put now h v c) h' = Some t \<Longrightarrow>
          content c h' = Some w \<and> expiry c h' = Some t \<or> w = v \<and> t = now + life c"
    and life_get: "life (snd (get now h c)) = life c"
    and life_put: "life (put now h v c) = life c"
    and life_invalidate: "life (invalidate v c) = life c"
begin

text \<open>Nothing the cache knows of a worker outlives a deadline.\<close>

definition gone_by :: "string \<Rightarrow> time \<Rightarrow> 'c \<Rightarrow> bool" where
  "gone_by w D c \<longleftrightarrow> inv c \<and> (\<forall>h t. content c h = Some w \<longrightarrow> expiry c h = Some t \<longrightarrow> t \<le> D)"

lemma gone_by_get: "gone_by w D c \<Longrightarrow> gone_by w D (snd (get now h c))"
  using inv_get [of c] get_keeps [of c now h _ w] get_expiry [of now h c] unfolding gone_by_def by blast

lemma gone_by_put: "gone_by w D c \<Longrightarrow> v \<noteq> w \<or> now + life c \<le> D \<Longrightarrow> gone_by w D (put now h v c)"
  by (auto simp: gone_by_def inv_put dest: put_expiry)

lemma gone_by_invalidate: "gone_by w D c \<Longrightarrow> gone_by w D (invalidate v c)"
  using inv_invalidate [of c] invalidate_content [of c] invalidate_expiry [of v c]
  by (auto simp: gone_by_def split: if_splits)

lemma gone_by_hit: "gone_by w D c \<Longrightarrow> fst (get now h c) = Some w \<Longrightarrow> now \<le> D"
  using get_hit [of c now h w] hit_live [of now h c w] by (auto simp: gone_by_def)

end

definition expiry_of :: "worker_auth_cache \<Rightarrow> string \<Rightarrow> time option" where
  "expiry_of c h = map_option e_expiresAt (map_of (entries c) h)"

lemma expiry_removeTokenLocked [simp]: "expiry_of (removeTokenLocked g c) = (expiry_of c)(g := None)"
  by (rule ext) (simp add: expiry_of_def)

lemma expiry_fold_remove: "expiry_of (fold removeTokenLocked hs c) h = Some t \<Longrightarrow> expiry_of c h = Some t"
  by (induction hs arbitrary: c) (fastforce split: if_splits)+

lemma expiry_evict_loop: "expiry_of (evict_loop c) h = Some t \<Longrightarrow> expiry_of c h = Some t"
proof (induction c rule: evict_loop.induct)
  case (1 c)
  show ?case
  proof (cases "maxEntries c < int (length (entries c)) \<and> oldest (entries c) None \<noteq> None")
    case True
    then obtain g u where o: "maxEntries c < int (length (entries c))" "oldest (entries c) None = Some (g, u)" by auto
    then have "expiry_of (removeTokenLocked g c) h = Some t"
      using "1.IH" [OF o refl] "1.prems" by (simp add: evict_loop.simps [of c])
    then show ?thesis by (simp split: if_splits)
  qed (use "1.prems" in \<open>auto simp: evict_loop.simps [of c] split: option.splits if_splits\<close>)
qed

lemma expiry_cache_Set:
  assumes "lookup (cache_Set now h v c) h' = Some w" and "expiry_of (cache_Set now h v c) h' = Some t"
  shows "lookup c h' = Some w \<and> expiry_of c h' = Some t \<or> w = v \<and> t = now + ttl c"
proof (cases "\<not> cache_enabled c \<or> h = [] \<or> v = []")
  case True
  with assms show ?thesis by (auto simp: cache_Set_def)
next
  case False
  let ?c = "store_entry now h v (reassign h v c)"
  have "expiry_of (evict_loop (prune now ?c)) h' = Some t"
    using assms(2) False by (simp add: cache_Set_def evictLocked_def)
  then have "expiry_of (prune now ?c) h' = Some t" by (rule expiry_evict_loop)
  then have "expiry_of ?c h' = Some t" unfolding prune_def prune_is_fold by (rule expiry_fold_remove)
  moreover have "lookup ?c h' = Some w"
    using assms(1) False map_leD [OF lookup_evictLocked_le [of now ?c], of h' w] by (simp add: cache_Set_def)
  ultimately show ?thesis
    by (auto simp: expiry_of_def lookup_def store_entry_def Let_def split: if_splits)
qed

interpretation wage: aging_token_cache cache_Get cache_Set InvalidateWorker lookup cache_inv expiry_of ttl
proof unfold_locales
  fix c now h h' t v w
  show "\<exists>t. expiry_of c h = Some t \<and> now \<le> t" if "fst (cache_Get now h c) = Some w"
    using cache_Get_hit [OF that] by (auto simp: expiry_of_def)
  show "expiry_of c h' = Some t" if "expiry_of (snd (cache_Get now h c)) h' = Some t"
    using that by (simp add: cache_Get_def split: option.splits if_splits)
  show "expiry_of c h' = Some t" if "expiry_of (InvalidateWorker v c) h' = Some t"
    using that expiry_fold_remove [of _ c h' t] by (simp add: InvalidateWorker_def split: if_splits option.splits)
  show "lookup c h' = Some w \<and> expiry_of c h' = Some t \<or> w = v \<and> t = now + ttl c"
    if "lookup (cache_Set now h v c) h' = Some w" "expiry_of (cache_Set now h v c) h' = Some t"
    using expiry_cache_Set [OF that] .
qed (simp_all add: cache_Get_def cache_Set_def InvalidateWorker_def evictLocked_def split: option.split)

section \<open>Eviction order and runs of operations\<close>

lemma oldest_min:
  assumes "oldest es best = Some (h, t)"
  shows "(\<forall>x \<in> set es. t \<le> e_expiresAt (snd x)) \<and> (\<forall>h0 t0. best = Some (h0, t0) \<longrightarrow> t \<le> t0)
    \<and> ((\<exists>e. (h, e) \<in> set es \<and> e_expiresAt e = t) \<or> best = Some (h, t))"
  using assms
proof (induction es best rule: oldest.induct)
  case (2 h1 e1 es best)
  let ?b = "case best of None \<Rightarrow> Some (h1, e_expiresAt e1)
      | Some (_, t) \<Rightarrow> if e_expiresAt e1 < t then Some (h1, e_expiresAt e1) else best"
  from "2.prems" have "oldest es ?b = Some (h, t)" by simp
  note IH = "2.IH" [OF this]
  then have "t \<le> e_expiresAt e1" by (cases best) (auto split: prod.splits if_splits)
  with IH show ?case by (auto split: option.splits if_splits)
qed simp

lemmas oldest_le = oldest_min [THEN conjunct1]
lemmas oldest_mem = oldest_min [THEN conjunct2, THEN conjunct2]

lemma set_delete_alist: "set (AList.delete k al) = {x \<in> set al. fst x \<noteq> k}"
  by (auto simp: AList.delete_eq)

lemma evict_loop_sub: "set (entries (evict_loop c)) \<subseteq> set (entries c)"
proof (induction c rule: evict_loop.induct)
  case (1 c)
  show ?case
  proof (cases "maxEntries c < int (length (entries c)) \<and> oldest (entries c) None \<noteq> None")
    case True
    then obtain h t where o: "maxEntries c < int (length (entries c))" "oldest (entries c) None = Some (h, t)"
      by auto
    then have "set (entries (evict_loop (removeTokenLocked h c))) \<subseteq> set (entries (removeTokenLocked h c))"
      using "1.IH" by blast
    also have "\<dots> \<subseteq> set (entries c)" by (auto simp: set_delete_alist)
    finally show ?thesis using o by (simp add: evict_loop.simps [of c])
  next
    case False
    then have "oldest (entries c) None = None" if "maxEntries c < int (length (entries c))"
      using that by blast
    then show ?thesis by (auto simp: evict_loop.simps [of c])
  qed
qed

text \<open>
  The eviction loop drops the oldest first: an entry that it dropped expires no later
  than any entry that it kept, whatever the order of the map's iteration.
\<close>

theorem evict_drops_oldest:
  assumes "distinct (map fst (entries c))" and "(h, e) \<in> set (entries c)"
    and "(h, e) \<notin> set (entries (evict_loop c))" and "(h', e') \<in> set (entries (evict_loop c))"
  shows "e_expiresAt e \<le> e_expiresAt e'"
  using assms
proof (induction c rule: evict_loop.induct)
  case (1 c)
  from "1.prems"(2,3) have big: "maxEntries c < int (length (entries c))"
    by (auto simp: evict_loop.simps [of c] split: if_splits)
  with "1.prems"(2,3) obtain h0 t0 where o: "oldest (entries c) None = Some (h0, t0)"
    by (cases "oldest (entries c) None") (auto simp: oldest_None)
  let ?c = "removeTokenLocked h0 c"
  have ev: "evict_loop c = evict_loop ?c" using big o by (simp add: evict_loop.simps [of c])
  have e': "(h', e') \<in> set (entries c)" using "1.prems"(4) evict_loop_sub by blast
  show ?case
  proof (cases "h = h0")
    case True
    from oldest_mem [OF o] obtain e0 where "(h0, e0) \<in> set (entries c)" "e_expiresAt e0 = t0" by auto
    with True "1.prems"(1,2) have "e_expiresAt e = t0" by (metis eq_key_imp_eq_value)
    with bspec [OF oldest_le [OF o] e'] show ?thesis by simp
  next
    case False
    have "(h, e) \<in> set (entries ?c)" "distinct (map fst (entries ?c))"
      using False "1.prems"(1,2) by (auto simp: set_delete_alist distinct_delete)
    then show ?thesis using "1.IH" [OF big o] "1.prems"(3,4) ev by simp
  qed
qed

theorem evict_drops_oldest_witness:
  "e_expiresAt \<lparr>e_workerID = ''a'', e_expiresAt = 1\<rparr> \<le> e_expiresAt \<lparr>e_workerID = ''b'', e_expiresAt = 2\<rparr>"
proof -
  let ?c = "\<lparr>ttl = 5, maxEntries = 1,
     entries = [(''h'', \<lparr>e_workerID = ''b'', e_expiresAt = 2\<rparr>), (''g'', \<lparr>e_workerID = ''a'', e_expiresAt = 1\<rparr>)],
     tokensByWorker = [(''a'', [''g'']), (''b'', [''h''])]\<rparr>"
  have "entries (evict_loop ?c) = [(''h'', \<lparr>e_workerID = ''b'', e_expiresAt = 2\<rparr>)]"
    by (simp add: evict_loop.simps)
  then show ?thesis
    by (intro evict_drops_oldest [of ?c "''g''" _ "''h''"]) simp_all
qed

datatype cache_op = OpGet time string | OpSet time string string | OpInvalidate string

fun cache_step :: "worker_auth_cache \<Rightarrow> cache_op \<Rightarrow> worker_auth_cache" where
  "cache_step c (OpGet now h) = snd (cache_Get now h c)"
| "cache_step c (OpSet now h w) = cache_Set now h w c"
| "cache_step c (OpInvalidate w) = InvalidateWorker w c"

lemma cache_step_inv: "cache_inv c \<Longrightarrow> cache_inv (cache_step c x)"
  by (cases x) (simp_all add: wac.inv_get wac.inv_put wac.inv_invalidate)

lemma cache_steps_inv: "cache_inv c \<Longrightarrow> cache_inv (foldl cache_step c xs)"
  by (induction xs arbitrary: c) (simp_all add: cache_step_inv)

lemma cache_steps_config: "maxEntries (foldl cache_step c xs) = maxEntries c"
proof (induction xs arbitrary: c)
  case (Cons x xs)
  have "maxEntries (cache_step c x) = maxEntries c"
    by (cases x) (simp_all add: cache_Get_def cache_Set_def InvalidateWorker_def evictLocked_def
        split: option.splits)
  with Cons show ?case by simp
qed simp



end
