(* ===== verification/Heartbeat.thy ===== *)
theory Heartbeat
  imports Prelude
begin

text \<open>
  \<open>api/worker/heartbeat_tracker.go\<close>: at most one heartbeat write per worker and interval.
  A nil tracker is \<open>None\<close>. The clock reading is an argument.
\<close>

record heartbeat_tracker =
  hb_interval :: duration
  hb_lastSeen :: "string \<rightharpoonup> time"

definition newHeartbeatTracker :: "duration \<Rightarrow> heartbeat_tracker" where
  "newHeartbeatTracker interval = \<lparr>hb_interval = interval, hb_lastSeen = Map.empty\<rparr>"

definition ShouldUpdate ::
  "time \<Rightarrow> string \<Rightarrow> heartbeat_tracker option \<Rightarrow> bool \<times> heartbeat_tracker option" where
  "ShouldUpdate now w h =
     (if w = [] then (False, h)
      else
        (case h of
           None \<Rightarrow> (True, None)
         | Some t \<Rightarrow>
             if hb_interval t \<le> 0 then (True, h)
             else
               (case hb_lastSeen t w of
                  Some lst \<Rightarrow>
                    if time_sub now lst < hb_interval t then (False, h)
                    else (True, Some (t\<lparr>hb_lastSeen := (hb_lastSeen t)(w \<mapsto> now)\<rparr>))
                | None \<Rightarrow> (True, Some (t\<lparr>hb_lastSeen := (hb_lastSeen t)(w \<mapsto> now)\<rparr>)))))"

definition Invalidate :: "string \<Rightarrow> heartbeat_tracker option \<Rightarrow> heartbeat_tracker option" where
  "Invalidate w h =
     (case h of
        None \<Rightarrow> None
      | Some t \<Rightarrow> if w = [] then h else Some (t\<lparr>hb_lastSeen := (hb_lastSeen t)(w := None)\<rparr>))"

text \<open>A run of requests of one worker, each at its clock reading; the admitted readings.\<close>

fun admitted :: "string \<Rightarrow> time list \<Rightarrow> heartbeat_tracker option \<Rightarrow> time list" where
  "admitted w [] h = []"
| "admitted w (now # nows) h =
     (case ShouldUpdate now w h of
        (True, h') \<Rightarrow> now # admitted w nows h'
      | (False, h') \<Rightarrow> admitted w nows h')"

lemma time_sub_small: "a - b < d \<Longrightarrow> d \<le> 2 ^ 63 - 1 \<Longrightarrow> - (2 ^ 63) < d \<Longrightarrow> time_sub a b < d"
  by (auto simp: time_sub_def)

lemma time_sub_ge: "d \<le> time_sub a b \<Longrightarrow> - (2 ^ 63) < d \<Longrightarrow> d \<le> a - b"
  by (auto simp: time_sub_def)

lemma admitted_spaced_from:
  assumes "0 < d" and "w \<noteq> []"
    and "hb_interval t = d" and "hb_lastSeen t w = Some lst"
  shows "sorted_wrt (\<lambda>a b. a + d \<le> b) (lst # admitted w nows (Some t))"
  using assms(3,4)
proof (induction nows arbitrary: t lst)
  case Nil
  then show ?case by simp
next
  case (Cons now nows)
  show ?case
  proof (cases "time_sub now lst < d")
    case True
    with Cons assms show ?thesis by (simp add: ShouldUpdate_def)
  next
    case False
    let ?t = "t\<lparr>hb_lastSeen := (hb_lastSeen t)(w \<mapsto> now)\<rparr>"
    have step: "admitted w (now # nows) (Some t) = now # admitted w nows (Some ?t)"
      using False Cons.prems assms(1,2) by (simp add: ShouldUpdate_def)
    have IH: "sorted_wrt (\<lambda>a b. a + d \<le> b) (now # admitted w nows (Some ?t))"
      using Cons.prems by (intro Cons.IH) simp_all
    have "lst + d \<le> now" using time_sub_ge [of d now lst] False assms(1) by simp
    then show ?thesis using IH assms(1) unfolding step by force
  qed
qed

text \<open>
  Rate limit: of any sequence of requests of a worker, at any clock readings, the
  tracker admits writes that are at least the interval apart; and the first request of a
  worker is always admitted.
\<close>

theorem heartbeat_rate_limit:
  assumes "0 < d" and "w \<noteq> []"
  shows "sorted_wrt (\<lambda>a b. a + d \<le> b) (admitted w nows (Some (newHeartbeatTracker d)))
     \<and> (nows \<noteq> [] \<longrightarrow> hd (admitted w nows (Some (newHeartbeatTracker d))) = hd nows)"
proof (cases nows)
  case (Cons now rest)
  let ?t = "(newHeartbeatTracker d)\<lparr>hb_lastSeen := [w \<mapsto> now]\<rparr>"
  have "admitted w nows (Some (newHeartbeatTracker d)) = now # admitted w rest (Some ?t)"
    using Cons assms by (simp add: ShouldUpdate_def newHeartbeatTracker_def)
  moreover have "sorted_wrt (\<lambda>a b. a + d \<le> b) (now # admitted w rest (Some ?t))"
    using assms by (intro admitted_spaced_from) (simp_all add: newHeartbeatTracker_def)
  ultimately show ?thesis using Cons by simp
qed simp

theorem heartbeat_rate_limit_witness:
  "sorted_wrt (\<lambda>a b. a + 40 \<le> b) (admitted ''w'' [0, 10, 50] (Some (newHeartbeatTracker 40)))"
  using heartbeat_rate_limit [of 40 "''w''" "[0, 10, 50]"] by simp

text \<open>\<open>Invalidate\<close> re-arms the tracker: the next request is admitted.\<close>

lemma Invalidate_rearms: "w \<noteq> [] \<Longrightarrow> fst (ShouldUpdate now w (Invalidate w h))"
  by (auto simp: Invalidate_def ShouldUpdate_def split: option.splits)

end
