(* ===== verification/Server.thy ===== *)
theory Server
  imports Jobs_Store Monitors_Store Workers_Store Results_Store Auth_Cache Heartbeat
begin

text \<open>
  The state a control-plane process acts on: the shared database and the process's own
  token cache and heartbeat tracker (nil pointers are \<open>None\<close>).
\<close>

record server =
  s_db :: db
  s_cache :: "worker_auth_cache option"
  s_hb :: "heartbeat_tracker option"

text \<open>A statement issued by a handler: the network decides, the database changes.\<close>

definition sql :: "outcome \<Rightarrow> (db \<Rightarrow> 'a query_result) \<Rightarrow> server \<Rightarrow> (db_error + 'a) \<times> server" where
  "sql n f s = (case call n f (s_db s) of (r, d) \<Rightarrow> (r, s\<lparr>s_db := d\<rparr>))"

lemma sql_sel [simp]:
  "s_cache (snd (sql n f s)) = s_cache s" "s_hb (snd (sql n f s)) = s_hb s"
  "s_db (snd (sql n f s)) = snd (call n f (s_db s))" "fst (sql n f s) = fst (call n f (s_db s))"
  by (simp_all add: sql_def split: prod.splits)

lemma sql_Served [simp]: "sql Served f s = (fst (f (s_db s)), s\<lparr>s_db := snd (f (s_db s))\<rparr>)"
  by (simp add: sql_def split: prod.splits)

lemma sql_eq: "sql n f s = (r, s') \<Longrightarrow>
    r = fst (call n f (s_db s)) \<and> s_db s' = snd (call n f (s_db s)) \<and> s_cache s' = s_cache s \<and> s_hb s' = s_hb s"
  by (auto simp: sql_def split: prod.splits)

lemma sql_Inr:
  "sql n f s = (Inr x, s') \<Longrightarrow> f (s_db s) = (Inr x, s_db s') \<and> s_cache s' = s_cache s \<and> s_hb s' = s_hb s"
  by (auto simp: sql_def dest!: call_Inr split: prod.splits)

text \<open>A read leaves the database alone, whatever the network does.\<close>

lemma sql_read: "(\<And>d. snd (f d) = d) \<Longrightarrow> s_db (snd (sql n f s)) = s_db s"
  by (cases n) (simp_all add: call_def)

definition store_inv :: "db \<Rightarrow> bool" where
  "store_inv d \<longleftrightarrow> jobs_inv d \<and> monitors_inv d \<and> workers_inv d \<and> results_inv d"

lemma store_inv_empty: "store_inv empty_db"
  by (simp add: store_inv_def jobs_inv_empty monitors_inv_empty workers_inv_empty results_inv_empty)

text \<open>The invariant of a table depends on that table alone.\<close>

lemma table_inv_cong:
  "d_jobs d = d_jobs d' \<Longrightarrow> jobs_inv d = jobs_inv d'"
  "d_results d = d_results d' \<Longrightarrow> results_inv d = results_inv d'"
  "d_monitors d = d_monitors d' \<Longrightarrow> monitors_inv d = monitors_inv d'"
  "d_workers d = d_workers d' \<Longrightarrow> workers_inv d = workers_inv d'"
  by (simp_all add: jobs_inv_def results_inv_def monitors_inv_def workers_inv_def)

lemma store_inv_jobs:
  assumes "store_inv d" and "jobs_inv d'" and "d_results d' = d_results d"
    and "d_monitors d' = d_monitors d" and "d_workers d' = d_workers d"
  shows "store_inv d'"
  using assms by (simp add: store_inv_def results_inv_def monitors_inv_def workers_inv_def)

lemma store_inv_results:
  assumes "store_inv d" and "results_inv d'" and "d_jobs d' = d_jobs d"
    and "d_monitors d' = d_monitors d" and "d_workers d' = d_workers d"
  shows "store_inv d'"
  using assms by (simp add: store_inv_def jobs_inv_def monitors_inv_def workers_inv_def)

lemma store_inv_workers:
  assumes "store_inv d" and "workers_inv d'" and "d_jobs d' = d_jobs d"
    and "d_monitors d' = d_monitors d" and "d_results d' = d_results d"
  shows "store_inv d'"
  using assms by (simp add: store_inv_def jobs_inv_def monitors_inv_def results_inv_def)

lemma store_inv_monitors:
  assumes "store_inv d" and "monitors_inv d'" and "d_jobs d' = d_jobs d"
    and "d_workers d' = d_workers d" and "d_results d' = d_results d"
  shows "store_inv d'"
  using assms by (simp add: store_inv_def jobs_inv_def workers_inv_def results_inv_def)

lemma store_invD:
  assumes "store_inv d"
  shows "jobs_inv d" "monitors_inv d" "workers_inv d" "results_inv d"
  using assms by (simp_all add: store_inv_def)

text \<open>A statement that keeps the invariant keeps it whatever the network does.\<close>

lemma sql_store_inv:
  "store_inv (s_db s) \<Longrightarrow> store_inv (snd (f (s_db s))) \<Longrightarrow> store_inv (s_db (snd (sql n f s)))"
  by (simp add: call_preserves)

end
