(* ===== verification/Samples.thy ===== *)
theory Samples
  imports Server
begin

text \<open>
  A small database on which the witnesses run: two workers, a monitor of each of two users,
  and jobs that are ready, leased and done.
\<close>

definition sample_worker :: "string \<Rightarrow> string \<Rightarrow> worker_status \<Rightarrow> string option \<Rightarrow> app_worker" where
  "sample_worker i region st h =
     \<lparr>w_id = i, w_region = region, w_version = ''1'', w_last_seen_at = 0, w_registered_at = 0,
      w_status = st, w_hostname = None, w_enrolled_at = 0, w_revoked_at = None,
      w_revoked_reason = None, w_token_hash = h\<rparr>"

definition sample_monitor :: "string \<Rightarrow> string \<Rightarrow> app_monitor" where
  "sample_monitor i u =
     \<lparr>m_id = i, m_url = ''http://x'', m_interval_ms = 60000, m_timeout_ms = 5000,
      m_regions = [''us''], m_jitter_seed = 0, m_rate_limit_key = None, m_method = ''GET'',
      m_headers = None, m_assertions = None, m_enabled = Some True, m_last_scheduled_at = None,
      m_next_due_at = None, m_user_id = Some u, m_created_at = 0, m_updated_at = 0,
      m_name = i, m_deleted_at = None\<rparr>"

definition sample_job :: "string \<Rightarrow> string \<Rightarrow> job_status \<Rightarrow> time \<Rightarrow> string option \<Rightarrow> time option \<Rightarrow> app_job" where
  "sample_job run m st t w lease =
     \<lparr>j_run_id = run, j_monitor_id = m, j_region = ''us'', j_status = st, j_scheduled_at = t,
      j_lease_expires_at = lease, j_worker_id = w, j_created_at = 0, j_deleted_at = None\<rparr>"

definition sample_db :: db where
  "sample_db = empty_db\<lparr>
     d_jobs := [sample_job ''r1'' ''m1'' Ready 1000 None None,
                sample_job ''r2'' ''m1'' Leased 2000 (Some ''w2'') (Some 4000),
                sample_job ''r3'' ''m2'' Done 1000 (Some ''w2'') None],
     d_monitors := [sample_monitor ''m1'' ''alice'', sample_monitor ''m2'' ''bob''],
     d_workers := [sample_worker ''w1'' ''us'' Active (Some ''h1''),
                   sample_worker ''w2'' ''us'' Active (Some ''h2'')]\<rparr>"

definition sample_server :: server where
  "sample_server = \<lparr>s_db = sample_db, s_cache = None, s_hb = None\<rparr>"

lemmas sample_defs = sample_worker_def sample_monitor_def sample_job_def sample_db_def sample_server_def

lemma sample_inv: "store_inv (s_db sample_server)"
  by (simp add: sample_defs empty_db_def store_inv_def jobs_inv_def monitors_inv_def workers_inv_def
      results_inv_def wf_job_def job_active_def job_slot_def)

text \<open>From the answer of a run to the run itself.\<close>

lemma run_answer: "fst p = r \<Longrightarrow> p = (r, snd p)"
  by (cases p) simp

end
