(* ===== verification/Advisory_Lock.thy ===== *)
theory Advisory_Lock
  imports Samples
begin

text \<open>
  PostgreSQL's session-level advisory locks, as the background services use them: through
  \<open>database/sql\<close>, whose pool serves each statement on whichever connection is free. A session
  is a number; a lock is held by one session with a count, since a session may take it again.
  The session that serves a statement is an argument of each service.
\<close>

type_synonym session_id = nat
type_synonym locks = "int \<rightharpoonup> session_id \<times> nat"

definition pg_try_advisory_lock :: "session_id \<Rightarrow> int \<Rightarrow> locks \<Rightarrow> bool \<times> locks" where
  "pg_try_advisory_lock p i l =
     (case l i of
        None \<Rightarrow> (True, l(i \<mapsto> (p, 1)))
      | Some (q, n) \<Rightarrow> if q = p then (True, l(i \<mapsto> (p, n + 1))) else (False, l))"

text \<open>A session that does not hold the lock gets \<open>false\<close> and a warning, not an error.\<close>

definition pg_advisory_unlock :: "session_id \<Rightarrow> int \<Rightarrow> locks \<Rightarrow> bool \<times> locks" where
  "pg_advisory_unlock p i l =
     (case l i of
        None \<Rightarrow> (False, l)
      | Some (q, n) \<Rightarrow>
          if q \<noteq> p then (False, l)
          else if n \<le> 1 then (True, l(i := None)) else (True, l(i \<mapsto> (p, n - 1))))"

text \<open>What a process and the database server have in common with it.\<close>

record cluster =
  cl_locks :: locks
  cl_server :: server

definition lock_call :: "outcome \<Rightarrow> (locks \<Rightarrow> bool \<times> locks) \<Rightarrow> cluster \<Rightarrow> (db_error + bool) \<times> cluster" where
  "lock_call n f c =
     (case call n (\<lambda>l. case f l of (b, l') \<Rightarrow> (Inr b, l')) (cl_locks c) of
        (r, l') \<Rightarrow> (r, c\<lparr>cl_locks := l'\<rparr>))"

text \<open>
  The frame of every service: try the lock on session \<open>p\<close>; if it was had, do the work and
  unlock on session \<open>q\<close>, ignoring the outcome.
\<close>

definition with_advisory_lock ::
  "env \<Rightarrow> session_id \<Rightarrow> session_id \<Rightarrow> int \<Rightarrow> (server \<Rightarrow> server) \<Rightarrow> cluster \<Rightarrow> cluster" where
  "with_advisory_lock e p q i work c =
     (case lock_call (net e Q_TryLock []) (pg_try_advisory_lock p i) c of
        (Inl _, c1) \<Rightarrow> c1
      | (Inr gotLock, c1) \<Rightarrow>
          if \<not> gotLock then c1
          else snd (lock_call (net e Q_Unlock []) (pg_advisory_unlock q i)
                      (c1\<lparr>cl_server := work (cl_server c1)\<rparr>)))"

section \<open>Facts\<close>

lemma try_then_unlock:
  "pg_try_advisory_lock p i l = (True, l') \<Longrightarrow> \<forall>q n. l i = Some (q, n) \<longrightarrow> 1 \<le> n \<Longrightarrow>
     pg_advisory_unlock p i l' = (True, l)"
  by (auto simp: pg_try_advisory_lock_def pg_advisory_unlock_def split: option.splits if_splits intro!: ext)

lemma lock_call_sel [simp]: "cl_server (snd (lock_call n f c)) = cl_server c"
  by (simp add: lock_call_def split: prod.splits)

lemma lock_call_Served [simp]:
  "lock_call Served f c = (Inr (fst (f (cl_locks c))), c\<lparr>cl_locks := snd (f (cl_locks c))\<rparr>)"
  by (simp add: lock_call_def split: prod.splits)

lemma with_lock_server:
  "cl_server (with_advisory_lock e p q i work c) = cl_server c
     \<or> cl_server (with_advisory_lock e p q i work c) = work (cl_server c)"
proof -
  obtain r c1 where l: "lock_call (net e Q_TryLock []) (pg_try_advisory_lock p i) c = (r, c1)"
    by (cases "lock_call (net e Q_TryLock []) (pg_try_advisory_lock p i) c")
  then have "cl_server c1 = cl_server c" using lock_call_sel [of "net e Q_TryLock []" _ c] by (metis snd_conv)
  with l show ?thesis by (auto simp: with_advisory_lock_def split: sum.splits)
qed

lemma with_lock_busy:
  "cl_locks c i = Some (r, n) \<Longrightarrow> r \<noteq> p \<Longrightarrow> net e Q_TryLock [] = Served \<Longrightarrow>
     with_advisory_lock e p q i work c = c"
  by (simp add: with_advisory_lock_def pg_try_advisory_lock_def)


definition sample_cluster :: cluster where
  "sample_cluster = \<lparr>cl_locks = Map.empty, cl_server = sample_server\<rparr>"


end
