(* ===== verification/Ingest.thy ===== *)
theory Ingest
  imports Server
begin

text \<open>
  \<open>metrics/ingest.go\<close>: from a worker's \<open>MonitorResult\<close> message to a row of
  \<open>ts.results_raw\<close> and back. A protobuf optional field is an option; the timestamp is an
  option because a message may come without one.
\<close>

record monitor_result =
  x_run_id :: string
  x_monitor_id :: string
  x_region :: string
  x_event_at :: "time option"
  x_status :: string
  x_http_code :: "int option"
  x_dns_ms :: "int option"
  x_connect_ms :: "int option"
  x_tls_ms :: "int option"
  x_ttfb_ms :: "int option"
  x_download_ms :: "int option"
  x_total_ms :: "int option"
  x_size_bytes :: "int option"
  x_error_message :: "string option"

section \<open>Storing\<close>

definition convertStatus :: "string \<Rightarrow> string" where
  "convertStatus status =
     (if status = ''OK'' then ''OK'' else if status = ''FAIL'' then ''FAIL''
      else if status = ''ERROR'' then ''ERROR'' else ''UNKNOWN'')"

text \<open>\<open>if x != nil && *x > 0\<close>; \<open>AsTime\<close> of a nil timestamp is the epoch.\<close>

definition positive :: "int option \<Rightarrow> int option" where
  "positive x = (case x of None \<Rightarrow> None | Some n \<Rightarrow> if 0 < n then Some n else None)"

definition non_empty :: "string option \<Rightarrow> string option" where
  "non_empty x = (case x of None \<Rightarrow> None | Some t \<Rightarrow> if t \<noteq> [] then Some t else None)"

definition as_time :: "time option \<Rightarrow> time" where
  "as_time t = (case t of None \<Rightarrow> 0 | Some u \<Rightarrow> u)"

definition result_params :: "monitor_result \<Rightarrow> ts_result_raw" where
  "result_params x =
     \<lparr>r_run_id = x_run_id x, r_monitor_id = x_monitor_id x, r_region = x_region x,
      r_event_at = as_time (x_event_at x), r_status = convertStatus (x_status x),
      r_http_code = positive (x_http_code x), r_dns_ms = positive (x_dns_ms x),
      r_connect_ms = positive (x_connect_ms x), r_tls_ms = positive (x_tls_ms x),
      r_ttfb_ms = positive (x_ttfb_ms x), r_download_ms = positive (x_download_ms x),
      r_total_ms = positive (x_total_ms x), r_size_bytes = positive (x_size_bytes x),
      r_error_message = non_empty (x_error_message x)\<rparr>"

definition ProcessResult :: "env \<Rightarrow> monitor_result \<Rightarrow> server \<Rightarrow> (db_error + unit) \<times> server" where
  "ProcessResult e x s =
     (case sql (net e Q_UpsertResult (x_run_id x)) (UpsertResult (result_params x)) s of
        (Inl err, s') \<Rightarrow> (Inl err, s')
      | (Inr _, s') \<Rightarrow> (Inr (), s'))"

section \<open>Reading\<close>

definition convertStatusFromDB :: "string \<Rightarrow> string" where
  "convertStatusFromDB status =
     (if status = ''OK'' then ''OK'' else if status = ''FAIL'' then ''FAIL''
      else if status = ''ERROR'' then ''ERROR'' else ''ERROR'')"

definition recent_message :: "ts_result_raw \<Rightarrow> monitor_result" where
  "recent_message r =
     \<lparr>x_run_id = r_run_id r, x_monitor_id = r_monitor_id r, x_region = r_region r,
      x_event_at = Some (r_event_at r), x_status = convertStatusFromDB (r_status r),
      x_http_code = r_http_code r, x_dns_ms = r_dns_ms r, x_connect_ms = r_connect_ms r,
      x_tls_ms = r_tls_ms r, x_ttfb_ms = r_ttfb_ms r, x_download_ms = r_download_ms r,
      x_total_ms = r_total_ms r, x_size_bytes = r_size_bytes r,
      x_error_message = r_error_message r\<rparr>"

definition GetRecentResults ::
  "env \<Rightarrow> string \<Rightarrow> int \<Rightarrow> server \<Rightarrow> (db_error + monitor_result list) \<times> server" where
  "GetRecentResults e m limit s =
     (case sql (net e Q_GetRecentResults m) (GetRecentResults_query (sql_now e) m limit) s of
        (Inl err, s') \<Rightarrow> (Inl err, s')
      | (Inr rows, s') \<Rightarrow> (Inr (map recent_message rows), s'))"

definition latest_message :: "ts_result_raw \<Rightarrow> monitor_result" where
  "latest_message r =
     \<lparr>x_run_id = [], x_monitor_id = r_monitor_id r, x_region = r_region r,
      x_event_at = Some (r_event_at r), x_status = convertStatusFromDB (r_status r),
      x_http_code = r_http_code r, x_dns_ms = None, x_connect_ms = None, x_tls_ms = None,
      x_ttfb_ms = None, x_download_ms = None, x_total_ms = r_total_ms r, x_size_bytes = None,
      x_error_message = None\<rparr>"

definition GetLatestResults :: "env \<Rightarrow> server \<Rightarrow> (db_error + monitor_result list) \<times> server" where
  "GetLatestResults e s =
     (case sql (net e Q_GetLatestResultPerMonitor []) (GetLatestResultPerMonitor (sql_now e)) s of
        (Inl err, s') \<Rightarrow> (Inl err, s')
      | (Inr rows, s') \<Rightarrow> (Inr (map latest_message rows), s'))"

section \<open>Facts\<close>

lemma result_params_sel [simp]:
  "r_run_id (result_params x) = x_run_id x" "r_monitor_id (result_params x) = x_monitor_id x"
  "r_event_at (result_params x) = as_time (x_event_at x)"
  "r_status (result_params x) = convertStatus (x_status x)"
  "r_total_ms (result_params x) = positive (x_total_ms x)"
  "r_http_code (result_params x) = positive (x_http_code x)"
  by (simp_all add: result_params_def)

lemma convertStatus_ok: "result_status_ok (convertStatus st) \<longleftrightarrow> result_status_ok st"
  by (simp add: convertStatus_def result_status_ok_def)

lemma convertStatus_id: "result_status_ok st \<Longrightarrow> convertStatus st = st"
  by (auto simp: convertStatus_def result_status_ok_def)

lemma ProcessResult_db:
  "s_db (snd (ProcessResult e x s)) = s_db s
    \<or> s_db (snd (ProcessResult e x s)) = snd (UpsertResult (result_params x) (s_db s))"
  using call_state_cases [of "net e Q_UpsertResult (x_run_id x)" "UpsertResult (result_params x)" "s_db s"]
  by (auto simp: ProcessResult_def sql_def split: prod.splits sum.splits)

lemma ProcessResult_frame [simp]:
  "s_cache (snd (ProcessResult e x s)) = s_cache s" "s_hb (snd (ProcessResult e x s)) = s_hb s"
  "d_jobs (s_db (snd (ProcessResult e x s))) = d_jobs (s_db s)"
  "d_workers (s_db (snd (ProcessResult e x s))) = d_workers (s_db s)"
  "d_monitors (s_db (snd (ProcessResult e x s))) = d_monitors (s_db s)"
  using ProcessResult_db [of e x s]
  by (auto simp: ProcessResult_def sql_def UpsertResult_tables split: prod.splits sum.splits)

lemma ProcessResult_Inr:
  "ProcessResult e x s = (Inr u, s') \<Longrightarrow>
     \<exists>r. UpsertResult (result_params x) (s_db s) = (Inr r, s_db s') \<and> s_cache s' = s_cache s \<and> s_hb s' = s_hb s"
  by (auto simp: ProcessResult_def dest!: sql_Inr split: prod.splits sum.splits)

text \<open>
  A result whose status is none of OK, FAIL and ERROR is never stored: the fallback
  status the ingest writes violates the CHECK constraint of the table, so the call fails
  whatever the network does and the database is as before.
\<close>

theorem unknown_status_not_stored:
  assumes "\<not> result_status_ok (x_status x)"
  shows "\<exists>err. ProcessResult e x s = (Inl err, s)"
proof -
  have "UpsertResult (result_params x) d = (Inl ErrCheck, d)" for d
    using assms by (simp add: UpsertResult_def Let_def convertStatus_ok)
  then show ?thesis
    by (cases "net e Q_UpsertResult (x_run_id x)") (simp_all add: ProcessResult_def sql_def call_def)
qed

definition sample_result :: "string \<Rightarrow> string \<Rightarrow> string \<Rightarrow> time \<Rightarrow> string \<Rightarrow> monitor_result" where
  "sample_result run m region t st =
     \<lparr>x_run_id = run, x_monitor_id = m, x_region = region, x_event_at = Some t, x_status = st,
      x_http_code = Some 200, x_dns_ms = Some 0, x_connect_ms = None, x_tls_ms = None,
      x_ttfb_ms = None, x_download_ms = None, x_total_ms = Some 12, x_size_bytes = None,
      x_error_message = Some []\<rparr>"

definition bare_server :: "db \<Rightarrow> server" where
  "bare_server d = \<lparr>s_db = d, s_cache = None, s_hb = None\<rparr>"

theorem unknown_status_not_stored_witness:
  "\<exists>err. ProcessResult (calm 5) (sample_result ''r'' ''m'' ''us'' 3 ''TIMEOUT'') (bare_server empty_db)
     = (Inl err, bare_server empty_db)"
  by (rule unknown_status_not_stored) (simp add: sample_result_def result_status_ok_def)

lemma UpsertResult_fresh:
  assumes "\<not> (\<exists>r \<in> set (d_results d). same_result (r_run_id arg) (pg_ts (r_event_at arg)) r)"
    and "result_status_ok (r_status arg)"
  shows "UpsertResult arg d =
     (Inr (arg\<lparr>r_event_at := pg_ts (r_event_at arg)\<rparr>),
      d\<lparr>d_results := d_results d @ [arg\<lparr>r_event_at := pg_ts (r_event_at arg)\<rparr>]\<rparr>)"
  using assms by (simp add: UpsertResult_def Let_def)

lemma recent_query_complete:
  assumes "r \<in> set (d_results d)" and "r_monitor_id r = m" and "now - hour \<le> r_event_at r"
    and "int (length (d_results d)) \<le> limit"
  shows "\<exists>rows. GetRecentResults_query now m limit d = (Inr rows, d) \<and> r \<in> set rows"
proof -
  let ?rows = "sort_key (\<lambda>r. - r_event_at r)
     (filter (\<lambda>r. r_monitor_id r = m \<and> now - hour \<le> r_event_at r) (d_results d))"
  have "length ?rows \<le> length (d_results d)" by simp
  also have "\<dots> \<le> nat limit" using assms(4) by simp
  finally have "take (nat limit) ?rows = ?rows" by simp
  moreover have "0 \<le> limit" using assms(4) by simp
  ultimately have "GetRecentResults_query now m limit d = (Inr ?rows, d)"
    by (simp add: GetRecentResults_query_def sql_limit_def)
  moreover have "r \<in> set ?rows" using assms(1-3) by simp
  ultimately show ?thesis by blast
qed

text \<open>
  C37. Round trip of a result: when a new result is stored within the last hour, a listing
  of the monitor's recent results with room for all of them returns it, with its status,
  its timestamp cut to microseconds, and every measurement as sent, except that a
  measurement that is zero or negative and an empty error message come back absent.
\<close>

theorem result_round_trip:
  assumes stored: "ProcessResult e x s = (Inr (), s')"
    and new: "\<not> (\<exists>r \<in> set (d_results (s_db s)). r_run_id r = x_run_id x
                    \<and> r_event_at r = pg_ts (as_time (x_event_at x)))"
    and recent: "sql_now e' - hour \<le> pg_ts (as_time (x_event_at x))"
    and served: "net e' Q_GetRecentResults (x_monitor_id x) = Served"
    and room: "int (length (d_results (s_db s'))) \<le> limit"
  shows "\<exists>ys. GetRecentResults e' (x_monitor_id x) limit s' = (Inr ys, s') \<and>
     x\<lparr>x_event_at := Some (pg_ts (as_time (x_event_at x))),
       x_http_code := positive (x_http_code x), x_dns_ms := positive (x_dns_ms x),
       x_connect_ms := positive (x_connect_ms x), x_tls_ms := positive (x_tls_ms x),
       x_ttfb_ms := positive (x_ttfb_ms x), x_download_ms := positive (x_download_ms x),
       x_total_ms := positive (x_total_ms x), x_size_bytes := positive (x_size_bytes x),
       x_error_message := non_empty (x_error_message x)\<rparr> \<in> set ys"
proof -
  let ?row = "(result_params x)\<lparr>r_event_at := pg_ts (as_time (x_event_at x))\<rparr>"
  obtain r where up: "UpsertResult (result_params x) (s_db s) = (Inr r, s_db s')"
    using ProcessResult_Inr [OF stored] by blast
  have ok: "result_status_ok (x_status x)"
    using UpsertResult_Inr(1) [OF up] by (simp add: convertStatus_ok)
  have "d_results (s_db s') = d_results (s_db s) @ [?row]"
    using UpsertResult_fresh [of "s_db s" "result_params x"] new ok up
    by (auto simp: same_result_def convertStatus_ok)
  then have "?row \<in> set (d_results (s_db s'))" by simp
  then obtain rows where rows: "GetRecentResults_query (sql_now e') (x_monitor_id x) limit (s_db s') = (Inr rows, s_db s')"
    and row: "?row \<in> set rows"
    using recent_query_complete [OF _ _ _ room, of ?row] recent by auto
  have msg: "recent_message ?row \<in> set (map recent_message rows)" using row by simp
  have "convertStatusFromDB (convertStatus (x_status x)) = x_status x"
    using ok by (auto simp: convertStatusFromDB_def convertStatus_def result_status_ok_def)
  then have eq: "recent_message ?row =
     x\<lparr>x_event_at := Some (pg_ts (as_time (x_event_at x))),
       x_http_code := positive (x_http_code x), x_dns_ms := positive (x_dns_ms x),
       x_connect_ms := positive (x_connect_ms x), x_tls_ms := positive (x_tls_ms x),
       x_ttfb_ms := positive (x_ttfb_ms x), x_download_ms := positive (x_download_ms x),
       x_total_ms := positive (x_total_ms x), x_size_bytes := positive (x_size_bytes x),
       x_error_message := non_empty (x_error_message x)\<rparr>"
    by (simp add: recent_message_def result_params_def)
  have "GetRecentResults e' (x_monitor_id x) limit s' = (Inr (map recent_message rows), s')"
    using served rows by (simp add: GetRecentResults_def)
  with msg eq show ?thesis by auto
qed

theorem result_round_trip_witness:
  "\<exists>ys. GetRecentResults (calm 5000) ''m'' 10
      (snd (ProcessResult (calm 4000) (sample_result ''r'' ''m'' ''us'' 3500 ''OK'') (bare_server empty_db)))
      = (Inr ys, snd (ProcessResult (calm 4000) (sample_result ''r'' ''m'' ''us'' 3500 ''OK'') (bare_server empty_db)))"
proof -
  let ?x = "sample_result ''r'' ''m'' ''us'' 3500 ''OK''"
  have "ProcessResult (calm 4000) ?x (bare_server empty_db)
     = (Inr (), snd (ProcessResult (calm 4000) ?x (bare_server empty_db)))"
    by (simp add: ProcessResult_def UpsertResult_def bare_server_def empty_db_def Let_def
        convertStatus_def sample_result_def result_status_ok_def)
  from result_round_trip [OF this, of "calm 5000" 10] show ?thesis
    by (auto simp: sample_result_def bare_server_def empty_db_def time_units as_time_def pg_ts_def
        ProcessResult_def UpsertResult_def Let_def convertStatus_def result_status_ok_def)
qed

end
