(* ===== verification/Regions.thy ===== *)
theory Regions
  imports Go_Strings
begin

text \<open>
  \<open>internal/pkg/regions/normalize.go\<close>: the normal form of a region name and the
  duplicate-free normal form of a list of them.
\<close>

definition Normalize :: "string \<Rightarrow> string" where
  "Normalize region =
     (let normalized = to_lower (trim_space region)
      in if normalized = [] then ''global'' else normalized)"

text \<open>The loop of \<open>NormalizeList\<close> with its \<open>seen\<close> set (as a list).\<close>

fun normalize_loop :: "string list \<Rightarrow> string list \<Rightarrow> string list" where
  "normalize_loop seen [] = []"
| "normalize_loop seen (r # rs) =
     (let n = Normalize r
      in if n \<in> set seen then normalize_loop seen rs else n # normalize_loop (n # seen) rs)"

definition NormalizeList :: "string list \<Rightarrow> string list" where
  "NormalizeList regions = (if regions = [] then regions else normalize_loop [] regions)"

lemma Normalize_nonempty [simp]: "Normalize r \<noteq> []" "[] \<noteq> Normalize r"
  by (simp_all add: Normalize_def Let_def)

lemma trim_space_global: "to_lower (trim_space ''global'') = ''global''"
  by (simp add: trim_space_def to_lower_def is_space_def lower_char_def)

lemma Normalize_idem [simp]: "Normalize (Normalize r) = Normalize r"
proof (cases "to_lower (trim_space r) = []")
  case True
  then show ?thesis by (simp add: Normalize_def trim_space_global)
next
  case False
  then show ?thesis by (simp add: Normalize_def trim_space_to_lower)
qed

lemma set_normalize_loop: "set (normalize_loop seen rs) = Normalize ` set rs - set seen"
  by (induction seen rs rule: normalize_loop.induct) (auto simp: Let_def)

lemma distinct_normalize_loop: "distinct (normalize_loop seen rs)"
  by (induction seen rs rule: normalize_loop.induct) (auto simp: Let_def set_normalize_loop)

lemma normalize_loop_fixed:
  "distinct ns \<Longrightarrow> set ns \<inter> set seen = {} \<Longrightarrow> \<forall>n \<in> set ns. Normalize n = n \<Longrightarrow> normalize_loop seen ns = ns"
  by (induction ns arbitrary: seen) (auto simp: Let_def)

text \<open>
  \<open>NormalizeList\<close> yields a canonical list: no region twice, exactly the normal forms of
  the given regions, none of them empty, and a second application changes nothing.
\<close>

theorem normalize_list_canonical:
  "distinct (NormalizeList rs) \<and> set (NormalizeList rs) = Normalize ` set rs
     \<and> [] \<notin> set (NormalizeList rs) \<and> NormalizeList (NormalizeList rs) = NormalizeList rs"
proof -
  have "normalize_loop [] (normalize_loop [] rs) = normalize_loop [] rs"
    by (rule normalize_loop_fixed) (auto simp: distinct_normalize_loop set_normalize_loop)
  then show ?thesis
    by (auto simp: NormalizeList_def distinct_normalize_loop set_normalize_loop)
qed

end
