(* ===== verification/Monitors_Service.thy ===== *)
theory Monitors_Service
  imports Ingest Regions Samples
begin

text \<open>
  \<open>api/monitors/service.go\<close>: a user's monitors, their results, metrics and uptime. A handler
  takes the id of the session's user (an option). A \<open>structpb.Struct\<close> and its JSON text are
  third-party code: \<open>'st\<close> and the two functions of \<open>struct_codec\<close> are parameters, where
  \<open>sc_encode\<close> is the text as the JSONB column gives it back.
\<close>

record 'st struct_codec =
  sc_encode :: "'st \<Rightarrow> string option"
  sc_decode :: "string \<Rightarrow> 'st option"

record 'st create_request =
  cr_id :: string
  cr_name :: string
  cr_url :: string
  cr_interval_ms :: int
  cr_timeout_ms :: int
  cr_regions :: "string list"
  cr_method :: string
  cr_headers :: "'st option"
  cr_assertions :: "'st option"
  cr_enabled :: "bool option"

record 'st update_request =
  ur_id :: string
  ur_name :: "string option"
  ur_url :: "string option"
  ur_interval_ms :: "int option"
  ur_timeout_ms :: "int option"
  ur_regions :: "string list"
  ur_method :: "string option"
  ur_headers :: "'st option"
  ur_assertions :: "'st option"
  ur_enabled :: "bool option"

record 'st monitor_message =
  mm_id :: string
  mm_name :: string
  mm_url :: string
  mm_interval_ms :: int
  mm_timeout_ms :: int
  mm_regions :: "string list"
  mm_method :: string
  mm_headers :: "'st option"
  mm_assertions :: "'st option"
  mm_enabled :: bool
  mm_created_at :: time
  mm_updated_at :: time
  mm_last_scheduled_at :: "time option"
  mm_next_due_at :: "time option"

type_synonym 'r user_handler = "string option \<Rightarrow> server \<Rightarrow> (rpc_code + 'r) \<times> server"

section \<open>Conversions\<close>

text \<open>A column that is present and not empty must parse.\<close>

definition decode_column :: "'st struct_codec \<Rightarrow> string option \<Rightarrow> 'st option option" where
  "decode_column k raw =
     (case raw of
        None \<Rightarrow> Some None
      | Some t \<Rightarrow> if t = [] then Some None
                  else (case sc_decode k t of None \<Rightarrow> None | Some v \<Rightarrow> Some (Some v)))"

definition dbMonitorToProto :: "'st struct_codec \<Rightarrow> app_monitor \<Rightarrow> 'st monitor_message option" where
  "dbMonitorToProto k m =
     (case decode_column k (m_headers m) of
        None \<Rightarrow> None
      | Some headers \<Rightarrow>
          (case decode_column k (m_assertions m) of
             None \<Rightarrow> None
           | Some assertions \<Rightarrow>
               Some \<lparr>mm_id = m_id m, mm_name = m_name m, mm_url = m_url m,
                     mm_interval_ms = m_interval_ms m, mm_timeout_ms = m_timeout_ms m,
                     mm_regions = m_regions m, mm_method = m_method m, mm_headers = headers,
                     mm_assertions = assertions, mm_enabled = (m_enabled m = Some True),
                     mm_created_at = m_created_at m, mm_updated_at = m_updated_at m,
                     mm_last_scheduled_at = m_last_scheduled_at m, mm_next_due_at = m_next_due_at m\<rparr>))"

text \<open>\<open>protojson.Marshal\<close> of an optional struct; the outer \<open>None\<close> is its error.\<close>

definition encode_field :: "'st struct_codec \<Rightarrow> 'st option \<Rightarrow> string option \<Rightarrow> string option option" where
  "encode_field k v dflt =
     (case v of
        None \<Rightarrow> Some dflt
      | Some st \<Rightarrow> (case sc_encode k st of None \<Rightarrow> None | Some t \<Rightarrow> Some (Some t)))"

fun zero_loop :: "(string \<rightharpoonup> int) \<Rightarrow> string list \<Rightarrow> string list \<Rightarrow> string list" where
  "zero_loop healthy seen [] = []"
| "zero_loop healthy seen (region # rs) =
     (if region = ''global'' then zero_loop healthy seen rs
      else if region \<in> set seen then zero_loop healthy seen rs
      else if (case healthy region of None \<Rightarrow> 0 | Some n \<Rightarrow> n) \<le> 0
      then region # zero_loop healthy (region # seen) rs
      else zero_loop healthy (region # seen) rs)"

definition zeroHealthyRegions :: "env \<Rightarrow> string list \<Rightarrow> server \<Rightarrow> (db_error + string list) \<times> server" where
  "zeroHealthyRegions e monitorRegions s =
     (if monitorRegions = [] then (Inr [], s)
      else
        (case sql (net e Q_ListRegionHealth []) (ListRegionHealth (sql_now e)) s of
           (Inl err, s') \<Rightarrow> (Inl err, s')
         | (Inr rows, s') \<Rightarrow> (Inr (zero_loop (map_of rows) [] monitorRegions), s')))"

text \<open>The regions of the warning header; an error of the check is only logged.\<close>

definition region_warnings :: "env \<Rightarrow> string list \<Rightarrow> server \<Rightarrow> string list \<times> server" where
  "region_warnings e rs s =
     (case zeroHealthyRegions e rs s of (Inl _, s') \<Rightarrow> ([], s') | (Inr ws, s') \<Rightarrow> (ws, s'))"

section \<open>Creating, reading, updating, deleting\<close>

definition create_params :: "'st create_request \<Rightarrow> string \<Rightarrow> string option \<Rightarrow> string option \<Rightarrow> monitor_params" where
  "create_params msg u headers assertions =
     \<lparr>p_id = cr_id msg, p_name = cr_name msg, p_url = cr_url msg,
      p_interval_ms = (if cr_interval_ms msg = 0 then 60000 else cr_interval_ms msg),
      p_timeout_ms = (if cr_timeout_ms msg = 0 then 5000 else cr_timeout_ms msg),
      p_regions = NormalizeList (if cr_regions msg = [] then [''global''] else cr_regions msg),
      p_jitter_seed = 42, p_rate_limit_key = None,
      p_method = (if cr_method msg = [] then ''GET'' else cr_method msg),
      p_headers = headers, p_assertions = assertions,
      p_enabled = Some (case cr_enabled msg of None \<Rightarrow> True | Some b \<Rightarrow> b), p_user_id = Some u\<rparr>"

definition CreateMonitor ::
  "'st struct_codec \<Rightarrow> env \<Rightarrow> 'st create_request \<Rightarrow> ('st monitor_message \<times> string list) user_handler" where
  "CreateMonitor k e msg ctx s =
     (case ctx of
        None \<Rightarrow> (Inl Unauthenticated, s)
      | Some u \<Rightarrow>
          if cr_id msg = [] \<or> cr_url msg = [] then (Inl InvalidArgument, s)
          else
            (case encode_field k (cr_headers msg) None of
               None \<Rightarrow> (Inl InvalidArgument, s)
             | Some headers \<Rightarrow>
                 (case encode_field k (cr_assertions msg) None of
                    None \<Rightarrow> (Inl InvalidArgument, s)
                  | Some assertions \<Rightarrow>
                      (let params = create_params msg u headers assertions
                       in case sql (net e Q_CreateMonitor (cr_id msg)) (CreateMonitor_query (sql_now e) params) s of
                            (Inl _, s1) \<Rightarrow> (Inl Internal, s1)
                          | (Inr check, s1) \<Rightarrow>
                              (case dbMonitorToProto k check of
                                 None \<Rightarrow> (Inl Internal, s1)
                               | Some protoCheck \<Rightarrow>
                                   (case region_warnings e (p_regions params) s1 of
                                      (ws, s2) \<Rightarrow> (Inr (protoCheck, ws), s2)))))))"

text \<open>The ownership check that every other handler starts with.\<close>

definition owned_monitor :: "env \<Rightarrow> string \<Rightarrow> string \<Rightarrow> server \<Rightarrow> (rpc_code + app_monitor) \<times> server" where
  "owned_monitor e i u s =
     (case sql (net e Q_GetMonitorByUser i) (GetMonitorByUser i u) s of
        (Inl err, s1) \<Rightarrow> (Inl (if err = ErrNoRows then NotFound else Internal), s1)
      | (Inr m, s1) \<Rightarrow> (Inr m, s1))"

definition GetMonitor :: "'st struct_codec \<Rightarrow> env \<Rightarrow> string \<Rightarrow> 'st monitor_message user_handler" where
  "GetMonitor k e i ctx s =
     (case ctx of
        None \<Rightarrow> (Inl Unauthenticated, s)
      | Some u \<Rightarrow>
          if i = [] then (Inl InvalidArgument, s)
          else
            (case owned_monitor e i u s of
               (Inl err, s1) \<Rightarrow> (Inl err, s1)
             | (Inr check, s1) \<Rightarrow>
                 (case dbMonitorToProto k check of
                    None \<Rightarrow> (Inl Internal, s1)
                  | Some protoCheck \<Rightarrow> (Inr protoCheck, s1))))"

definition or_else :: "'a option \<Rightarrow> 'a \<Rightarrow> 'a" where
  "or_else x y = (case x of None \<Rightarrow> y | Some v \<Rightarrow> v)"

definition update_params ::
  "'st update_request \<Rightarrow> app_monitor \<Rightarrow> string \<Rightarrow> string option \<Rightarrow> string option \<Rightarrow> monitor_params" where
  "update_params msg existing u headers assertions =
     \<lparr>p_id = ur_id msg, p_name = or_else (ur_name msg) (m_name existing),
      p_url = or_else (ur_url msg) (m_url existing),
      p_interval_ms = or_else (ur_interval_ms msg) (m_interval_ms existing),
      p_timeout_ms = or_else (ur_timeout_ms msg) (m_timeout_ms existing),
      p_regions = (if ur_regions msg = [] then m_regions existing else NormalizeList (ur_regions msg)),
      p_jitter_seed = m_jitter_seed existing, p_rate_limit_key = None,
      p_method = or_else (ur_method msg) (m_method existing),
      p_headers = headers, p_assertions = assertions,
      p_enabled = (case ur_enabled msg of None \<Rightarrow> m_enabled existing | Some b \<Rightarrow> Some b),
      p_user_id = Some u\<rparr>"

definition UpdateMonitor ::
  "'st struct_codec \<Rightarrow> env \<Rightarrow> 'st update_request \<Rightarrow> ('st monitor_message \<times> string list) user_handler" where
  "UpdateMonitor k e msg ctx s =
     (case ctx of
        None \<Rightarrow> (Inl Unauthenticated, s)
      | Some u \<Rightarrow>
          if ur_id msg = [] then (Inl InvalidArgument, s)
          else
            (case owned_monitor e (ur_id msg) u s of
               (Inl err, s1) \<Rightarrow> (Inl err, s1)
             | (Inr existing, s1) \<Rightarrow>
                 (case encode_field k (ur_headers msg) (m_headers existing) of
                    None \<Rightarrow> (Inl InvalidArgument, s1)
                  | Some headers \<Rightarrow>
                      (case encode_field k (ur_assertions msg) (m_assertions existing) of
                         None \<Rightarrow> (Inl InvalidArgument, s1)
                       | Some assertions \<Rightarrow>
                           (let params = update_params msg existing u headers assertions
                            in case sql (net e Q_UpdateMonitorByUser (ur_id msg)) (UpdateMonitorByUser (sql_now e) params) s1 of
                                 (Inl _, s2) \<Rightarrow> (Inl Internal, s2)
                               | (Inr updated, s2) \<Rightarrow>
                                   (case dbMonitorToProto k updated of
                                      None \<Rightarrow> (Inl Internal, s2)
                                    | Some protoCheck \<Rightarrow>
                                        (case region_warnings e (p_regions params) s2 of
                                           (ws, s3) \<Rightarrow> (Inr (protoCheck, ws), s3))))))))"

fun protos :: "'st struct_codec \<Rightarrow> app_monitor list \<Rightarrow> 'st monitor_message list option" where
  "protos k [] = Some []"
| "protos k (m # ms) =
     (case dbMonitorToProto k m of
        None \<Rightarrow> None
      | Some p \<Rightarrow> (case protos k ms of None \<Rightarrow> None | Some ps \<Rightarrow> Some (p # ps)))"

definition ListMonitors :: "'st struct_codec \<Rightarrow> env \<Rightarrow> 'st monitor_message list user_handler" where
  "ListMonitors k e ctx s =
     (case ctx of
        None \<Rightarrow> (Inl Unauthenticated, s)
      | Some u \<Rightarrow>
          (case sql (net e Q_ListMonitorsByUser u) (ListMonitorsByUser u) s of
             (Inl _, s1) \<Rightarrow> (Inl Internal, s1)
           | (Inr checks, s1) \<Rightarrow>
               (case protos k checks of None \<Rightarrow> (Inl Internal, s1) | Some ps \<Rightarrow> (Inr ps, s1))))"

definition DeleteMonitor :: "env \<Rightarrow> string \<Rightarrow> unit user_handler" where
  "DeleteMonitor e i ctx s =
     (case ctx of
        None \<Rightarrow> (Inl Unauthenticated, s)
      | Some u \<Rightarrow>
          if i = [] then (Inl InvalidArgument, s)
          else
            (case sql (net e Q_DeleteMonitorByUser i) (DeleteMonitorByUser (sql_now e) i u) s of
               (Inl _, s1) \<Rightarrow> (Inl Internal, s1)
             | (Inr _, s1) \<Rightarrow> (Inr (), s1)))"

section \<open>Results and metrics\<close>

definition result_message :: "ts_result_raw \<Rightarrow> monitor_result" where
  "result_message r = (recent_message r)\<lparr>x_status := r_status r\<rparr>"

definition GetMonitorResults :: "env \<Rightarrow> string \<Rightarrow> int \<Rightarrow> monitor_result list user_handler" where
  "GetMonitorResults e i limit ctx s =
     (case ctx of
        None \<Rightarrow> (Inl Unauthenticated, s)
      | Some u \<Rightarrow>
          if i = [] then (Inl InvalidArgument, s)
          else
            (case owned_monitor e i u s of
               (Inl err, s1) \<Rightarrow> (Inl err, s1)
             | (Inr _, s1) \<Rightarrow>
                 (case sql (net e Q_GetRecentResults i)
                         (GetRecentResults_query (sql_now e) i (if limit = 0 then 100 else limit)) s1 of
                    (Inl _, s2) \<Rightarrow> (Inl Internal, s2)
                  | (Inr results, s2) \<Rightarrow> (Inr (map result_message results), s2))))"

record metrics_message =
  me_monitor_id :: string
  me_region :: string
  me_bucket :: time
  me_count :: int
  me_error_count :: int
  me_error_rate :: rat
  me_p50_ms :: rat
  me_p95_ms :: rat
  me_p99_ms :: rat
  me_min_ms :: rat
  me_max_ms :: rat
  me_avg_ms :: rat

text \<open>
  A value behind \<open>interface{}\<close>. MIN and MAX of an INT column reach \<open>Scan\<close> as an
  \<open>int64\<close> (or nil), so that \<open>x.(float64)\<close> does not hold of them and the field of the
  message keeps its zero.
\<close>

datatype any = AnyNil | AnyInt64 int | AnyFloat64 rat

definition driver_int :: "int option \<Rightarrow> any" where
  "driver_int x = (case x of None \<Rightarrow> AnyNil | Some n \<Rightarrow> AnyInt64 n)"

definition assert_float64 :: "any \<Rightarrow> rat" where
  "assert_float64 v = (case v of AnyFloat64 x \<Rightarrow> x | _ \<Rightarrow> 0)"

definition metrics_of :: "agg_metrics \<Rightarrow> metrics_message" where
  "metrics_of g =
     \<lparr>me_monitor_id = g_monitor_id g, me_region = g_region g, me_bucket = g_bucket g,
      me_count = g_count g, me_error_count = g_error_count g,
      me_error_rate = (if 0 < g_count g then rat_of_int (g_error_count g) / rat_of_int (g_count g) else 0),
      me_p50_ms = g_p50_ms g, me_p95_ms = g_p95_ms g, me_p99_ms = g_p99_ms g,
      me_min_ms = assert_float64 (driver_int (g_min_ms g)),
      me_max_ms = assert_float64 (driver_int (g_max_ms g)),
      me_avg_ms = g_avg_ms g\<rparr>"

definition GetMonitorMetrics ::
  "env \<Rightarrow> string \<Rightarrow> time option \<Rightarrow> time option \<Rightarrow> metrics_message list user_handler" where
  "GetMonitorMetrics e i startTime endTime ctx s =
     (case ctx of
        None \<Rightarrow> (Inl Unauthenticated, s)
      | Some u \<Rightarrow>
          if i = [] then (Inl InvalidArgument, s)
          else
            (case owned_monitor e i u s of
               (Inl err, s1) \<Rightarrow> (Inl err, s1)
             | (Inr _, s1) \<Rightarrow>
                 (case sql (net e Q_GetAggregatedMetrics i)
                         (GetAggregatedMetrics i (or_else startTime (go_now e - 24 * hour)) (or_else endTime (go_now e))) s1 of
                    (Inl _, s2) \<Rightarrow> (Inl Internal, s2)
                  | (Inr metrics, s2) \<Rightarrow> (Inr (map metrics_of metrics), s2))))"

section \<open>Uptime\<close>

definition fetchUptime24h :: "env \<Rightarrow> string \<Rightarrow> server \<Rightarrow> (db_error + uptime_row) \<times> server" where
  "fetchUptime24h e i s =
     (case sql (net e Q_GetUptimeData24h i) (GetUptimeData24h (sql_now e) i) s of
        (Inl err, s1) \<Rightarrow> (Inl err, s1)
      | (Inr d, s1) \<Rightarrow>
          if t_total d = 0 then sql (net e Q_GetUptimeData24hRaw i) (GetUptimeData24hRaw (sql_now e) i) s1
          else (Inr d, s1))"

definition fetchUptime7d :: "env \<Rightarrow> string \<Rightarrow> server \<Rightarrow> (db_error + uptime_row) \<times> server" where
  "fetchUptime7d e i s =
     (case sql (net e Q_GetUptimeData7d i) (GetUptimeData7d (sql_now e) i) s of
        (Inl err, s1) \<Rightarrow> (Inl err, s1)
      | (Inr d, s1) \<Rightarrow> if t_total d = 0 then fetchUptime24h e i s1 else (Inr d, s1))"

definition fetchUptime30d :: "env \<Rightarrow> string \<Rightarrow> server \<Rightarrow> (db_error + uptime_row) \<times> server" where
  "fetchUptime30d e i s =
     (case sql (net e Q_GetUptimeData30d i) (GetUptimeData30d (sql_now e) i) s of
        (Inl err, s1) \<Rightarrow> (Inl err, s1)
      | (Inr d, s1) \<Rightarrow> if t_total d = 0 then fetchUptime7d e i s1 else (Inr d, s1))"

definition fetch_uptime :: "env \<Rightarrow> string \<Rightarrow> string \<Rightarrow> (server \<Rightarrow> (db_error + uptime_row) \<times> server) option" where
  "fetch_uptime e rng i =
     (if rng = ''24h'' then Some (fetchUptime24h e i)
      else if rng = ''7d'' then Some (fetchUptime7d e i)
      else if rng = ''30d'' then Some (fetchUptime30d e i) else None)"

definition GetMonitorUptime :: "env \<Rightarrow> string \<Rightarrow> string \<Rightarrow> uptime_row user_handler" where
  "GetMonitorUptime e i rng ctx s =
     (case ctx of
        None \<Rightarrow> (Inl Unauthenticated, s)
      | Some u \<Rightarrow>
          (case owned_monitor e i u s of
             (Inl err, s1) \<Rightarrow> (Inl err, s1)
           | (Inr _, s1) \<Rightarrow>
               (case fetch_uptime e rng i of
                  None \<Rightarrow> (Inl InvalidArgument, s1)
                | Some fetch \<Rightarrow>
                    (case fetch s1 of (Inl _, s2) \<Rightarrow> (Inl Internal, s2) | (Inr r, s2) \<Rightarrow> (Inr r, s2)))))"

definition timeline24h :: "env \<Rightarrow> string \<Rightarrow> server \<Rightarrow> (db_error + timeline_row list) \<times> server" where
  "timeline24h e i = sql (net e Q_GetUptimeTimeline24h i) (GetUptimeTimeline24h (sql_now e) i)"

definition timeline7d :: "env \<Rightarrow> string \<Rightarrow> server \<Rightarrow> (db_error + timeline_row list) \<times> server" where
  "timeline7d e i = sql (net e Q_GetUptimeTimeline7d i) (GetUptimeTimeline7d (sql_now e) i)"

definition fetch_timeline ::
  "env \<Rightarrow> string \<Rightarrow> string \<Rightarrow> server \<Rightarrow> (rpc_code + (db_error + timeline_row list)) \<times> server" where
  "fetch_timeline e rng i s =
     (if rng = ''24h'' then (case timeline24h e i s of (r, s1) \<Rightarrow> (Inr r, s1))
      else if rng = ''7d'' then
        (case timeline7d e i s of
           (Inr [], s1) \<Rightarrow> (case timeline24h e i s1 of (r, s2) \<Rightarrow> (Inr r, s2))
         | (r, s1) \<Rightarrow> (Inr r, s1))
      else if rng = ''30d'' then
        (case sql (net e Q_GetUptimeTimeline30d i) (GetUptimeTimeline30d (sql_now e) i) s of
           (Inr [], s1) \<Rightarrow>
             (case timeline7d e i s1 of
                (Inr (x # xs), s2) \<Rightarrow> (Inr (Inr (x # xs)), s2)
              | (_, s2) \<Rightarrow> (case timeline24h e i s2 of (r, s3) \<Rightarrow> (Inr r, s3)))
         | (r, s1) \<Rightarrow> (Inr r, s1))
      else (Inl InvalidArgument, s))"

definition GetMonitorUptimeTimeline :: "env \<Rightarrow> string \<Rightarrow> string \<Rightarrow> timeline_row list user_handler" where
  "GetMonitorUptimeTimeline e i rng ctx s =
     (case ctx of
        None \<Rightarrow> (Inl Unauthenticated, s)
      | Some u \<Rightarrow>
          (case owned_monitor e i u s of
             (Inl err, s1) \<Rightarrow> (Inl err, s1)
           | (Inr _, s1) \<Rightarrow>
               (case fetch_timeline e rng i s1 of
                  (Inl code, s2) \<Rightarrow> (Inl code, s2)
                | (Inr (Inl _), s2) \<Rightarrow> (Inl Internal, s2)
                | (Inr (Inr rows), s2) \<Rightarrow> (Inr rows, s2))))"

section \<open>Ownership\<close>

lemma GetMonitorByUser_state [simp]: "snd (GetMonitorByUser i u d) = d"
  by (simp add: GetMonitorByUser_def)

lemma owned_monitor_state [simp]: "s_db (snd (owned_monitor e i u s)) = s_db s"
proof -
  obtain r s1 where q: "sql (net e Q_GetMonitorByUser i) (GetMonitorByUser i u) s = (r, s1)"
    by (cases "sql (net e Q_GetMonitorByUser i) (GetMonitorByUser i u) s")
  have "s_db s1 = s_db s" using sql_read [of "GetMonitorByUser i u" "net e Q_GetMonitorByUser i" s, unfolded q] by simp
  with q show ?thesis by (simp add: owned_monitor_def split: sum.splits)
qed

lemma owned_monitor_Inr:
  assumes "owned_monitor e i u s = (Inr m, s1)"
  shows "m \<in> set (d_monitors (s_db s))" "owned_live i u m" "s_db s1 = s_db s" "s_cache s1 = s_cache s" "s_hb s1 = s_hb s"
proof -
  obtain r s2 where q: "sql (net e Q_GetMonitorByUser i) (GetMonitorByUser i u) s = (r, s2)"
    by (cases "sql (net e Q_GetMonitorByUser i) (GetMonitorByUser i u) s")
  with assms have r: "r = Inr m" "s1 = s2" by (auto simp: owned_monitor_def split: sum.splits)
  note g = sql_Inr [OF q [unfolded r(1)]]
  then show "m \<in> set (d_monitors (s_db s))" "owned_live i u m" "s_db s1 = s_db s" "s_cache s1 = s_cache s" "s_hb s1 = s_hb s"
    using GetMonitorByUser_Inr [of i u "s_db s" m] r(2) by auto
qed

lemma owned_liveD: "owned_live i u m \<Longrightarrow> m_id m = i \<and> m_user_id m = Some u \<and> m_deleted_at m = None"
  by (simp add: owned_live_def)

lemma owned_monitor_served:
  assumes "monitors_inv (s_db s)" and "m \<in> set (d_monitors (s_db s))" and "owned_live i u m"
    and "net e Q_GetMonitorByUser i = Served"
  shows "owned_monitor e i u s = (Inr m, s)"
  using GetMonitorByUser_iff [OF assms(1), of i u m] assms(2-4) by (simp add: owned_monitor_def)

lemma region_warnings_state [simp]: "s_db (snd (region_warnings e rs s)) = s_db s"
proof -
  obtain r s1 where q: "sql (net e Q_ListRegionHealth []) (ListRegionHealth (sql_now e)) s = (r, s1)"
    by (cases "sql (net e Q_ListRegionHealth []) (ListRegionHealth (sql_now e)) s")
  have "s_db s1 = s_db s"
    using sql_read [of "ListRegionHealth (sql_now e)" "net e Q_ListRegionHealth []" s, unfolded q]
    by (simp add: ListRegionHealth_def)
  with q show ?thesis by (simp add: region_warnings_def zeroHealthyRegions_def split: sum.splits)
qed

text \<open>What the three writing handlers do to the database: nothing, or their one statement.\<close>

lemma sql_db_cases: "s_db (snd (sql n f s)) = s_db s \<or> s_db (snd (sql n f s)) = snd (f (s_db s))"
  using call_state_cases [of n f "s_db s"] by simp

lemma CreateMonitor_db:
  "s_db (snd (CreateMonitor k e msg ctx s)) = s_db s
   \<or> (\<exists>u headers assertions. ctx = Some u \<and>
        s_db (snd (CreateMonitor k e msg ctx s))
          = snd (CreateMonitor_query (sql_now e) (create_params msg u headers assertions) (s_db s)))"
proof (cases "ctx = None \<or> cr_id msg = [] \<or> cr_url msg = [] \<or> encode_field k (cr_headers msg) None = None
    \<or> encode_field k (cr_assertions msg) None = None")
  case True
  then show ?thesis by (auto simp: CreateMonitor_def split: option.splits)
next
  case False
  then obtain u headers assertions where c: "ctx = Some u" "cr_id msg \<noteq> []" "cr_url msg \<noteq> []"
    "encode_field k (cr_headers msg) None = Some headers" "encode_field k (cr_assertions msg) None = Some assertions"
    by auto
  let ?p = "create_params msg u headers assertions"
  let ?f = "CreateMonitor_query (sql_now e) ?p"
  obtain r s1 where q: "sql (net e Q_CreateMonitor (cr_id msg)) ?f s = (r, s1)"
    by (cases "sql (net e Q_CreateMonitor (cr_id msg)) ?f s")
  have "s_db (snd (CreateMonitor k e msg ctx s)) = s_db s1"
    using c q by (auto simp: CreateMonitor_def Let_def split: sum.splits option.splits prod.splits)
      (metis region_warnings_state snd_conv)
  moreover have "s_db s1 = s_db s \<or> s_db s1 = snd (?f (s_db s))"
    using sql_db_cases [of "net e Q_CreateMonitor (cr_id msg)" ?f s] q by simp
  ultimately show ?thesis using c(1) by metis
qed

lemma UpdateMonitor_db:
  "s_db (snd (UpdateMonitor k e msg ctx s)) = s_db s
   \<or> (\<exists>u p. ctx = Some u \<and> p_user_id p = Some u \<and> p_id p = ur_id msg \<and>
        s_db (snd (UpdateMonitor k e msg ctx s)) = snd (UpdateMonitorByUser (sql_now e) p (s_db s)))"
proof (cases "ctx = None \<or> ur_id msg = []")
  case True
  then have "s_db (snd (UpdateMonitor k e msg ctx s)) = s_db s" by (cases ctx) (simp_all add: UpdateMonitor_def)
  then show ?thesis ..
next
  case False
  then obtain u where u: "ctx = Some u" "ur_id msg \<noteq> []" by auto
  obtain r s1 where o: "owned_monitor e (ur_id msg) u s = (r, s1)" by (cases "owned_monitor e (ur_id msg) u s")
  then have s1: "s_db s1 = s_db s" using owned_monitor_state [of e "ur_id msg" u s] by simp
  show ?thesis
  proof (cases "(\<exists>err. r = Inl err) \<or> encode_field k (ur_headers msg) (m_headers (projr r)) = None
      \<or> encode_field k (ur_assertions msg) (m_assertions (projr r)) = None")
    case True
    with u o s1 have "s_db (snd (UpdateMonitor k e msg ctx s)) = s_db s"
      by (cases r) (auto simp: UpdateMonitor_def split: option.splits)
    then show ?thesis ..
  next
    case False
    then obtain m headers assertions where m: "r = Inr m"
      "encode_field k (ur_headers msg) (m_headers m) = Some headers"
      "encode_field k (ur_assertions msg) (m_assertions m) = Some assertions"
      by (cases r) auto
    let ?p = "update_params msg m u headers assertions"
    let ?f = "UpdateMonitorByUser (sql_now e) ?p"
    obtain r2 s2 where q: "sql (net e Q_UpdateMonitorByUser (ur_id msg)) ?f s1 = (r2, s2)"
      by (cases "sql (net e Q_UpdateMonitorByUser (ur_id msg)) ?f s1")
    have "s_db (snd (UpdateMonitor k e msg ctx s)) = s_db s2"
      using u o m q by (auto simp: UpdateMonitor_def Let_def split: sum.splits option.splits prod.splits)
        (metis region_warnings_state snd_conv)
    moreover have "s_db s2 = s_db s \<or> s_db s2 = snd (?f (s_db s))"
      using sql_db_cases [of "net e Q_UpdateMonitorByUser (ur_id msg)" ?f s1] q s1 by simp
    moreover have "p_user_id ?p = Some u" "p_id ?p = ur_id msg" by (simp_all add: update_params_def)
    ultimately show ?thesis using u(1) by metis
  qed
qed

lemma DeleteMonitor_db:
  "s_db (snd (DeleteMonitor e i ctx s)) = s_db s
   \<or> (\<exists>u. ctx = Some u \<and> s_db (snd (DeleteMonitor e i ctx s)) = snd (DeleteMonitorByUser (sql_now e) i u (s_db s)))"
proof (cases ctx)
  case None
  then show ?thesis by (simp add: DeleteMonitor_def)
next
  case (Some u)
  obtain r s1 where q: "sql (net e Q_DeleteMonitorByUser i) (DeleteMonitorByUser (sql_now e) i u) s = (r, s1)"
    by (cases "sql (net e Q_DeleteMonitorByUser i) (DeleteMonitorByUser (sql_now e) i u) s")
  have "s_db (snd (DeleteMonitor e i ctx s)) = s_db s \<or> s_db (snd (DeleteMonitor e i ctx s)) = s_db s1"
    using Some q by (auto simp: DeleteMonitor_def split: sum.splits)
  moreover have "s_db s1 = s_db s \<or> s_db s1 = snd (DeleteMonitorByUser (sql_now e) i u (s_db s))"
    using sql_db_cases [of "net e Q_DeleteMonitorByUser i" "DeleteMonitorByUser (sql_now e) i u" s] q by simp
  ultimately show ?thesis using Some by metis
qed



section \<open>Round trips\<close>

text \<open>What the codec must promise: the text it writes is not empty and reads back.\<close>

definition codec_ok :: "'st struct_codec \<Rightarrow> bool" where
  "codec_ok k \<longleftrightarrow> (\<forall>st t. sc_encode k st = Some t \<longrightarrow> t \<noteq> [] \<and> sc_decode k t = Some st)"

lemma decode_encode:
  "codec_ok k \<Longrightarrow> encode_field k v None = Some c \<Longrightarrow> decode_column k c = Some v"
  by (cases v; cases "sc_encode k (the v)")
    (auto simp: codec_ok_def encode_field_def decode_column_def)

lemma CreateMonitor_Inr:
  assumes "CreateMonitor k e msg (Some u) s = (Inr (p, ws), s')"
  obtains headers assertions m where "cr_id msg \<noteq> []"
    and "encode_field k (cr_headers msg) None = Some headers" and "encode_field k (cr_assertions msg) None = Some assertions"
    and "CreateMonitor_query (sql_now e) (create_params msg u headers assertions) (s_db s) = (Inr m, s_db s')"
    and "dbMonitorToProto k m = Some p"
proof -
  have c: "cr_id msg \<noteq> []" "cr_url msg \<noteq> []" using assms by (auto simp: CreateMonitor_def split: if_splits)
  obtain headers assertions where h: "encode_field k (cr_headers msg) None = Some headers"
    "encode_field k (cr_assertions msg) None = Some assertions"
    using assms c by (auto simp: CreateMonitor_def split: option.splits)
  let ?f = "CreateMonitor_query (sql_now e) (create_params msg u headers assertions)"
  obtain r s1 where q: "sql (net e Q_CreateMonitor (cr_id msg)) ?f s = (r, s1)"
    by (cases "sql (net e Q_CreateMonitor (cr_id msg)) ?f s")
  obtain m where r: "r = Inr m" using assms c h q by (cases r) (auto simp: CreateMonitor_def Let_def)
  obtain p' where p': "dbMonitorToProto k m = Some p'"
    using assms c h q r by (cases "dbMonitorToProto k m") (auto simp: CreateMonitor_def Let_def)
  obtain ws' s2 where w: "region_warnings e (p_regions (create_params msg u headers assertions)) s1 = (ws', s2)"
    by (cases "region_warnings e (p_regions (create_params msg u headers assertions)) s1")
  then have "s_db s2 = s_db s1" using region_warnings_state [of e _ s1] by (metis snd_conv)
  moreover have "p' = p" "s2 = s'" using assms c h q r p' w by (simp_all add: CreateMonitor_def Let_def)
  moreover have "?f (s_db s) = (Inr m, s_db s1)" using sql_Inr [OF q [unfolded r]] by simp
  ultimately show thesis using that c(1) h p' by simp
qed


definition sample_codec :: "string struct_codec" where
  "sample_codec = \<lparr>sc_encode = (\<lambda>st. Some (CHR 0x7B # st)), sc_decode = (\<lambda>t. Some (tl t))\<rparr>"

definition sample_create :: "string create_request" where
  "sample_create = \<lparr>cr_id = ''m9'', cr_name = ''n'', cr_url = ''http://y'', cr_interval_ms = 0, cr_timeout_ms = 0,
     cr_regions = [], cr_method = [], cr_headers = Some ''a'', cr_assertions = None, cr_enabled = None\<rparr>"




section \<open>Updating\<close>

lemma UpdateMonitor_Inr:
  assumes "UpdateMonitor k e msg (Some u) s = (Inr (p, ws), s')"
  obtains m headers assertions m' where "m \<in> set (d_monitors (s_db s))" and "owned_live (ur_id msg) u m"
    and "encode_field k (ur_headers msg) (m_headers m) = Some headers"
    and "encode_field k (ur_assertions msg) (m_assertions m) = Some assertions"
    and "UpdateMonitorByUser (sql_now e) (update_params msg m u headers assertions) (s_db s) = (Inr m', s_db s')"
    and "dbMonitorToProto k m' = Some p"
proof -
  have i: "ur_id msg \<noteq> []" using assms by (auto simp: UpdateMonitor_def)
  obtain r s1 where o: "owned_monitor e (ur_id msg) u s = (r, s1)" by (cases "owned_monitor e (ur_id msg) u s")
  obtain m where r: "r = Inr m" using assms i o by (cases r) (auto simp: UpdateMonitor_def)
  note own = owned_monitor_Inr [OF o [unfolded r]]
  obtain headers assertions where h: "encode_field k (ur_headers msg) (m_headers m) = Some headers"
    "encode_field k (ur_assertions msg) (m_assertions m) = Some assertions"
    using assms i o r by (auto simp: UpdateMonitor_def split: option.splits)
  let ?p = "update_params msg m u headers assertions"
  obtain r2 s2 where q: "sql (net e Q_UpdateMonitorByUser (ur_id msg)) (UpdateMonitorByUser (sql_now e) ?p) s1 = (r2, s2)"
    by (cases "sql (net e Q_UpdateMonitorByUser (ur_id msg)) (UpdateMonitorByUser (sql_now e) ?p) s1")
  obtain m' where r2: "r2 = Inr m'" using assms i o r h q by (cases r2) (auto simp: UpdateMonitor_def Let_def)
  obtain p' where p': "dbMonitorToProto k m' = Some p'"
    using assms i o r h q r2 by (cases "dbMonitorToProto k m'") (auto simp: UpdateMonitor_def Let_def)
  obtain ws' s3 where w: "region_warnings e (p_regions ?p) s2 = (ws', s3)" by (cases "region_warnings e (p_regions ?p) s2")
  then have "s_db s3 = s_db s2" using region_warnings_state [of e _ s2] by (metis snd_conv)
  moreover have "p' = p" "s3 = s'" using assms i o r h q r2 p' w by (simp_all add: UpdateMonitor_def Let_def)
  moreover have "UpdateMonitorByUser (sql_now e) ?p (s_db s) = (Inr m', s_db s2)"
    using sql_Inr [OF q [unfolded r2]] own(3) by simp
  ultimately show thesis using that own(1,2) h p' by simp
qed

text \<open>
  A partial update: the fields the request leaves out keep their values, the others take the
  request's, the regions in canonical form; the owner, the schedule and the creation time never
  change. One field is lost: the rate limit key becomes empty, because the handler does not
  carry it over.
\<close>

theorem update_monitor_fields:
  assumes inv: "monitors_inv (s_db s)" and up: "UpdateMonitor k e msg (Some u) s = (Inr (p, ws), s')"
  shows "\<exists>m \<in> set (d_monitors (s_db s)). owned_live (ur_id msg) u m \<and>
     (\<exists>m' \<in> set (d_monitors (s_db s')). dbMonitorToProto k m' = Some p
        \<and> m_id m' = m_id m \<and> m_user_id m' = Some u \<and> m_created_at m' = m_created_at m
        \<and> m_next_due_at m' = m_next_due_at m \<and> m_last_scheduled_at m' = m_last_scheduled_at m
        \<and> m_jitter_seed m' = m_jitter_seed m
        \<and> m_name m' = or_else (ur_name msg) (m_name m) \<and> m_url m' = or_else (ur_url msg) (m_url m)
        \<and> m_interval_ms m' = or_else (ur_interval_ms msg) (m_interval_ms m)
        \<and> m_timeout_ms m' = or_else (ur_timeout_ms msg) (m_timeout_ms m)
        \<and> m_method m' = or_else (ur_method msg) (m_method m)
        \<and> m_regions m' = (if ur_regions msg = [] then m_regions m else NormalizeList (ur_regions msg))
        \<and> m_enabled m' = (case ur_enabled msg of None \<Rightarrow> m_enabled m | Some b \<Rightarrow> Some b)
        \<and> m_rate_limit_key m' = None)"
proof -
  obtain m headers assertions m' where m: "m \<in> set (d_monitors (s_db s))" "owned_live (ur_id msg) u m"
    and q: "UpdateMonitorByUser (sql_now e) (update_params msg m u headers assertions) (s_db s) = (Inr m', s_db s')"
    and p: "dbMonitorToProto k m' = Some p"
    using UpdateMonitor_Inr [OF up] by metis
  let ?p = "update_params msg m u headers assertions"
  let ?P = "\<lambda>x. m_id x = p_id ?p \<and> p_user_id ?p \<noteq> None \<and> m_user_id x = p_user_id ?p"
  have Pm: "?P m" using m(2) by (simp add: update_params_def owned_live_def)
  have "first_row (map (set_params (sql_now e) ?p) (filter ?P (d_monitors (s_db s)))) = Inr m'"
    and d': "s_db s' = update_monitors ?P (set_params (sql_now e) ?p) (s_db s)"
    using q by (simp_all add: UpdateMonitorByUser_def update_monitors_returning_def)
  then obtain m0 where m0: "m0 \<in> set (d_monitors (s_db s))" "?P m0" "m' = set_params (sql_now e) ?p m0"
    by (auto dest!: first_row_Inr)
  have "m0 = m" using monitor_unique [OF inv m0(1) m(1)] m0(2) Pm by simp
  then have m': "m' = set_params (sql_now e) ?p m" using m0(3) by simp
  have "m' \<in> set (d_monitors (s_db s'))"
    unfolding d' update_monitors_sel m' by (rule update_where_hit [OF m(1)]) (rule Pm)
  moreover have "m_id m' = m_id m \<and> m_user_id m' = Some u \<and> m_created_at m' = m_created_at m
        \<and> m_next_due_at m' = m_next_due_at m \<and> m_last_scheduled_at m' = m_last_scheduled_at m"
    using m(2) by (simp add: m' owned_live_def)
  ultimately show ?thesis
    using m p by (intro bexI [of _ m] bexI [of _ m'] conjI) (auto simp: m' set_params_def update_params_def)
qed

definition sample_update :: "string update_request" where
  "sample_update = \<lparr>ur_id = ''m1'', ur_name = Some ''new'', ur_url = None, ur_interval_ms = None, ur_timeout_ms = None,
     ur_regions = [], ur_method = None, ur_headers = None, ur_assertions = None, ur_enabled = None\<rparr>"

theorem update_monitor_fields_witness:
  "\<exists>m \<in> set (d_monitors (s_db sample_server)). owned_live ''m1'' ''alice'' m"
proof -
  have inv: "monitors_inv (s_db sample_server)" using sample_inv by (simp add: store_inv_def)
  have "\<exists>p ws s'. UpdateMonitor sample_codec (calm 7) sample_update (Some ''alice'') sample_server = (Inr (p, ws), s')"
    by (simp add: UpdateMonitor_def sample_update_def sample_codec_def encode_field_def Let_def UpdateMonitorByUser_def
        update_monitors_returning_def owned_monitor_def GetMonitorByUser_def owned_live_def
        update_params_def sample_defs empty_db_def dbMonitorToProto_def decode_column_def case_prod_beta set_params_def)
  then obtain p ws s' where "UpdateMonitor sample_codec (calm 7) sample_update (Some ''alice'') sample_server = (Inr (p, ws), s')"
    by blast
  from update_monitor_fields [OF inv this] show ?thesis by (auto simp: sample_update_def)
qed

section \<open>Region warnings\<close>

lemma zero_loop_spec:
  "set (zero_loop healthy seen rs) = {r \<in> set rs. r \<noteq> ''global'' \<and> r \<notin> set seen \<and> (case healthy r of None \<Rightarrow> 0 | Some n \<Rightarrow> n) \<le> 0}
   \<and> distinct (zero_loop healthy seen rs)"
  by (induction healthy seen rs rule: zero_loop.induct) auto

lemma map_of_counts: "map_of (map (\<lambda>r. (r, f r)) rs) x = (if x \<in> set rs then Some (f x) else None)"
  by (induction rs) auto

text \<open>
  The warning header lists, once each, exactly the regions of the monitor other than the
  global one in which no worker is both active and seen within the last minute.
\<close>

theorem region_warnings_exact:
  assumes "net e Q_ListRegionHealth [] = Served"
  shows "\<exists>ws. zeroHealthyRegions e rs s = (Inr ws, s) \<and> distinct ws \<and>
     set ws = {r \<in> set rs. r \<noteq> ''global'' \<and>
       \<not> (\<exists>w \<in> set (d_workers (s_db s)). w_region w = r \<and> worker_healthy (sql_now e) w)}"
proof (cases "rs = []")
  case True
  then show ?thesis by (simp add: zeroHealthyRegions_def)
next
  case False
  let ?n = "\<lambda>r. int (length (filter (\<lambda>w. w_region w = r \<and> worker_healthy (sql_now e) w) (d_workers (s_db s))))"
  let ?rows = "map (\<lambda>r. (r, ?n r)) (sort (remdups (map w_region (d_workers (s_db s)))))"
  have z: "zeroHealthyRegions e rs s = (Inr (zero_loop (map_of ?rows) [] rs), s)"
    using False assms by (simp add: zeroHealthyRegions_def ListRegionHealth_def)
  have h: "(case map_of ?rows r of None \<Rightarrow> 0 | Some n \<Rightarrow> n) \<le> 0 \<longleftrightarrow>
      \<not> (\<exists>w \<in> set (d_workers (s_db s)). w_region w = r \<and> worker_healthy (sql_now e) w)" for r
    by (auto simp: map_of_counts filter_empty_conv)
  show ?thesis
    using z zero_loop_spec [of "map_of ?rows" "[]" rs] by (simp only: h) simp
qed

theorem region_warnings_exact_witness:
  "\<exists>ws. zeroHealthyRegions (calm 5) [''us'', ''global'', ''eu''] sample_server = (Inr ws, sample_server)"
  using region_warnings_exact [of "calm 5" "[''us'', ''global'', ''eu'']" sample_server] by auto

section \<open>Metrics and uptime\<close>

lemma scan_int32_fraction: "0 < q \<Longrightarrow> q < 1 \<Longrightarrow> scan_int32 q = Inl ErrScan"
proof -
  assume q: "0 < q" "q < 1"
  then have "floor q = 0" by (simp add: floor_eq_iff)
  with q show ?thesis by (simp add: scan_int32_def)
qed

lemma scan_rows_fail:
  "x \<in> set xs \<Longrightarrow> f x = Inl er \<Longrightarrow> \<exists>er'. scan_rows f xs = Inl er'"
  by (induction xs) (auto split: sum.splits)

text \<open>
  Metrics need a whole error rate: as soon as one minute of the interval has some but not
  only failed checks, its FLOAT error rate cannot be scanned into the int32 field and the whole
  request fails with an internal error.
\<close>

theorem metrics_fail_on_fraction:
  assumes own: "monitors_inv (s_db s)" "m \<in> set (d_monitors (s_db s))" "owned_live i u m" "i \<noteq> []"
    and served: "net e Q_GetMonitorByUser i = Served"
    and a: "a \<in> set (d_agg_1m (s_db s))" "a_monitor_id a = i" "0 < a_error_rate a" "a_error_rate a < 1"
    and within: "pg_ts (or_else t0 (go_now e - 24 * hour)) \<le> a_bucket a" "a_bucket a \<le> pg_ts (or_else t1 (go_now e))"
  shows "fst (GetMonitorMetrics e i t0 t1 (Some u) s) = Inl Internal"
proof -
  let ?lo = "or_else t0 (go_now e - 24 * hour)" and ?hi = "or_else t1 (go_now e)"
  have "scan_agg_1m a = Inl ErrScan" using scan_int32_fraction [OF a(3,4)] by (simp add: scan_agg_1m_def)
  then have "\<exists>er. fst (GetAggregatedMetrics i ?lo ?hi (s_db s)) = Inl er"
    unfolding GetAggregatedMetrics_def fst_conv using a(1,2) within by (intro scan_rows_fail [of a]) auto
  then obtain er where "fst (GetAggregatedMetrics i ?lo ?hi (s_db s)) = Inl er" by blast
  then have "\<exists>er'. fst (sql (net e Q_GetAggregatedMetrics i) (GetAggregatedMetrics i ?lo ?hi) s) = Inl er'"
    by (cases "net e Q_GetAggregatedMetrics i") (simp_all add: call_def)
  then obtain er' s2 where "sql (net e Q_GetAggregatedMetrics i) (GetAggregatedMetrics i ?lo ?hi) s = (Inl er', s2)"
    by (metis prod.collapse)
  then show ?thesis
    using own(4) owned_monitor_served [OF own(1-3) served] by (simp add: GetMonitorMetrics_def)
qed

definition sample_minute :: ts_agg_1m where
  "sample_minute = \<lparr>a_monitor_id = ''m1'', a_region = ''us'', a_bucket = 0, a_count = 2, a_error_count = 1,
     a_error_rate = 1 / 2, a_p50_ms = Some 3, a_p95_ms = Some 3, a_p99_ms = Some 3, a_min_ms = Some 3,
     a_max_ms = Some 3, a_avg_ms = Some 3\<rparr>"

theorem metrics_fail_on_fraction_witness:
  "fst (GetMonitorMetrics (calm 5) ''m1'' None None (Some ''alice'')
     (sample_server\<lparr>s_db := sample_db\<lparr>d_agg_1m := [sample_minute]\<rparr>\<rparr>)) = Inl Internal"
  by (rule metrics_fail_on_fraction [where m = "sample_monitor ''m1'' ''alice''" and a = sample_minute])
     (simp_all add: sample_defs monitors_inv_def owned_live_def sample_minute_def or_else_def pg_ts_def time_units)

definition agg_consistent :: "db \<Rightarrow> bool" where
  "agg_consistent d \<longleftrightarrow> (\<forall>a \<in> set (d_agg_1h d) \<union> set (d_agg_1d d).
     0 \<le> u_successful_checks a \<and> 0 \<le> u_failed_checks a
     \<and> u_total_checks a = u_successful_checks a + u_failed_checks a)"

definition uptime_sane :: "uptime_row \<Rightarrow> bool" where
  "uptime_sane r \<longleftrightarrow> t_total r = t_ok r + t_failed r \<and> 0 \<le> t_ok r \<and> 0 \<le> t_failed r
     \<and> 0 \<le> t_percent r \<and> t_percent r \<le> 100 \<and> (t_total r = 0 \<longrightarrow> t_percent r = 0)
     \<and> (t_failed r = 0 \<longrightarrow> 0 < t_total r \<longrightarrow> t_percent r = 100)"

lemma round_half_even_range:
  assumes "rat_of_int a \<le> q" and "q \<le> rat_of_int b"
  shows "a \<le> round_half_even q" "round_half_even q \<le> b"
proof -
  have lo: "a \<le> floor q" using assms(1) by (simp add: le_floor_iff)
  have hi: "floor q \<le> b" using assms(2) by (metis floor_mono floor_of_int)
  show "a \<le> round_half_even q" using lo by (auto simp: round_half_even_def Let_def)
  show "round_half_even q \<le> b"
  proof (cases "floor q = b")
    case True
    then have "q = rat_of_int b" using assms(2) of_int_floor_le [of q] by simp
    then show ?thesis by (simp add: round_half_even_def Let_def)
  next
    case False
    with hi show ?thesis by (auto simp: round_half_even_def Let_def)
  qed
qed

lemma uptime_percent_range:
  assumes "0 \<le> ok" and "ok \<le> tot"
  shows "0 \<le> uptime_percent ok tot" "uptime_percent ok tot \<le> 100" "ok = tot \<Longrightarrow> 0 < tot \<Longrightarrow> uptime_percent ok tot = 100"
proof -
  show "ok = tot \<Longrightarrow> 0 < tot \<Longrightarrow> uptime_percent ok tot = 100"
    by (simp add: uptime_percent_def round_half_even_def Let_def)
  have "0 \<le> uptime_percent ok tot \<and> uptime_percent ok tot \<le> 100"
  proof (cases "tot = 0")
    case True
    then show ?thesis by (simp add: uptime_percent_def)
  next
    case False
    let ?q = "rat_of_int ok / rat_of_int tot * 100"
    have "0 \<le> ?q" "?q \<le> 100" using assms False by (simp_all add: field_simps)
    then show ?thesis
      using False round_half_even_range [of 0 ?q 100] by (simp add: uptime_percent_def)
  qed
  then show "0 \<le> uptime_percent ok tot" "uptime_percent ok tot \<le> 100" by simp_all
qed

lemma uptime_sane_percent:
  "0 \<le> ok \<Longrightarrow> 0 \<le> failed \<Longrightarrow> uptime_sane \<lparr>t_total = ok + failed, t_ok = ok, t_failed = failed, t_percent = uptime_percent ok (ok + failed)\<rparr>"
  using uptime_percent_range [of ok "ok + failed"] by (auto simp: uptime_sane_def uptime_percent_def)

lemma uptime_of_raw_sane: "uptime_sane (uptime_of_raw rows)"
proof -
  have "int (length rows) = int (length (filter (\<lambda>r. r_status r = ''OK'') rows)) + int (length (filter (\<lambda>r. r_status r \<noteq> ''OK'') rows))"
    using sum_length_filter_compl [of "\<lambda>r. r_status r = ''OK''" rows] by simp
  then show ?thesis
    using uptime_sane_percent [of "int (length (filter (\<lambda>r. r_status r = ''OK'') rows))"
        "int (length (filter (\<lambda>r. r_status r \<noteq> ''OK'') rows))"]
    by (simp add: uptime_of_raw_def Let_def)
qed

lemma uptime_of_agg_sane:
  assumes "\<forall>a \<in> set rows. 0 \<le> u_successful_checks a \<and> 0 \<le> u_failed_checks a
     \<and> u_total_checks a = u_successful_checks a + u_failed_checks a"
  shows "uptime_sane (uptime_of_agg rows)"
proof -
  let ?ok = "sum_list (map u_successful_checks rows)" and ?failed = "sum_list (map u_failed_checks rows)"
  have "0 \<le> ?ok" "0 \<le> ?failed" using assms by (auto intro!: sum_list_nonneg)
  moreover have "sum_list (map u_total_checks rows) = ?ok + ?failed"
    using assms by (induction rows) auto
  ultimately show ?thesis using uptime_sane_percent [of ?ok ?failed] by (simp add: uptime_of_agg_def Let_def)
qed

lemma fetch24_sane:
  assumes "fetchUptime24h e i s = (Inr r, s')" and "agg_consistent (s_db s)"
  shows "uptime_sane r"
proof -
  obtain r1 s1 where q: "sql (net e Q_GetUptimeData24h i) (GetUptimeData24h (sql_now e) i) s = (r1, s1)"
    by (cases "sql (net e Q_GetUptimeData24h i) (GetUptimeData24h (sql_now e) i) s")
  with assms(1) obtain d where r1: "r1 = Inr d" by (cases r1) (auto simp: fetchUptime24h_def)
  have d: "d = uptime_of_agg (agg_since i (sql_now e - 24 * hour) (d_agg_1h (s_db s)))"
    using sql_Inr [OF q [unfolded r1]] by (auto simp: GetUptimeData24h_def)
  show ?thesis
  proof (cases "t_total d = 0")
    case True
    with assms(1) q r1 have "sql (net e Q_GetUptimeData24hRaw i) (GetUptimeData24hRaw (sql_now e) i) s1 = (Inr r, s')"
      by (simp add: fetchUptime24h_def)
    from sql_Inr [OF this] show ?thesis by (auto simp: GetUptimeData24hRaw_def uptime_of_raw_sane)
  next
    case False
    with assms(1) q r1 have "r = d" by (simp add: fetchUptime24h_def)
    with d assms(2) show ?thesis
      by (auto simp: agg_consistent_def agg_since_def intro!: uptime_of_agg_sane)
  qed
qed

lemma fetch7_sane:
  assumes "fetchUptime7d e i s = (Inr r, s')" and "agg_consistent (s_db s)"
  shows "uptime_sane r"
proof -
  obtain r1 s1 where q: "sql (net e Q_GetUptimeData7d i) (GetUptimeData7d (sql_now e) i) s = (r1, s1)"
    by (cases "sql (net e Q_GetUptimeData7d i) (GetUptimeData7d (sql_now e) i) s")
  with assms(1) obtain d where r1: "r1 = Inr d" by (cases r1) (auto simp: fetchUptime7d_def)
  have d: "d = uptime_of_agg (agg_since i (sql_now e - 7 * 24 * hour) (d_agg_1h (s_db s)))" "s_db s1 = s_db s"
    using sql_Inr [OF q [unfolded r1]] by (auto simp: GetUptimeData7d_def)
  show ?thesis
  proof (cases "t_total d = 0")
    case True
    with assms(1) q r1 have "fetchUptime24h e i s1 = (Inr r, s')" by (simp add: fetchUptime7d_def)
    then show ?thesis using fetch24_sane d(2) assms(2) by metis
  next
    case False
    with assms(1) q r1 have "r = d" by (simp add: fetchUptime7d_def)
    with d(1) assms(2) show ?thesis
      by (auto simp: agg_consistent_def agg_since_def intro!: uptime_of_agg_sane)
  qed
qed

lemma fetch30_sane:
  assumes "fetchUptime30d e i s = (Inr r, s')" and "agg_consistent (s_db s)"
  shows "uptime_sane r"
proof -
  obtain r1 s1 where q: "sql (net e Q_GetUptimeData30d i) (GetUptimeData30d (sql_now e) i) s = (r1, s1)"
    by (cases "sql (net e Q_GetUptimeData30d i) (GetUptimeData30d (sql_now e) i) s")
  with assms(1) obtain d where r1: "r1 = Inr d" by (cases r1) (auto simp: fetchUptime30d_def)
  have d: "d = uptime_of_agg (agg_since i (sql_now e - 30 * 24 * hour) (d_agg_1d (s_db s)))" "s_db s1 = s_db s"
    using sql_Inr [OF q [unfolded r1]] by (auto simp: GetUptimeData30d_def)
  show ?thesis
  proof (cases "t_total d = 0")
    case True
    with assms(1) q r1 have "fetchUptime7d e i s1 = (Inr r, s')" by (simp add: fetchUptime30d_def)
    then show ?thesis using fetch7_sane d(2) assms(2) by metis
  next
    case False
    with assms(1) q r1 have "r = d" by (simp add: fetchUptime30d_def)
    with d(1) assms(2) show ?thesis
      by (auto simp: agg_consistent_def agg_since_def intro!: uptime_of_agg_sane)
  qed
qed

text \<open>
  Uptime figures are consistent over every range and through every fallback (30 days to 7
  days to 24 hours to the raw results): successes and failures add up to the total, the
  percentage lies between 0 and 100, is 0 without checks and 100 without failures, given that
  the aggregates count what their views define.
\<close>

theorem uptime_consistent:
  assumes "agg_consistent (s_db s)" and "GetMonitorUptime e i rng (Some u) s = (Inr r, s')"
  shows "uptime_sane r \<and> rng \<in> {''24h'', ''7d'', ''30d''} \<and> (\<exists>m \<in> set (d_monitors (s_db s)). owned_live i u m)"
proof -
  obtain ro s1 where o: "owned_monitor e i u s = (ro, s1)" by (cases "owned_monitor e i u s")
  with assms(2) obtain m where ro: "ro = Inr m" by (cases ro) (auto simp: GetMonitorUptime_def)
  note own = owned_monitor_Inr [OF o [unfolded ro]]
  obtain fetch where f: "fetch_uptime e rng i = Some fetch"
    using assms(2) o ro by (cases "fetch_uptime e rng i") (auto simp: GetMonitorUptime_def)
  have fr: "fetch s1 = (Inr r, s')"
    using assms(2) o ro f by (auto simp: GetMonitorUptime_def split: sum.splits prod.splits)
  have cons: "agg_consistent (s_db s1)" using own(3) assms(1) by simp
  have "uptime_sane r \<and> rng \<in> {''24h'', ''7d'', ''30d''}"
    using f fr fetch24_sane [OF _ cons] fetch7_sane [OF _ cons] fetch30_sane [OF _ cons]
    by (auto simp: fetch_uptime_def split: if_splits)
  with own(1,2) show ?thesis by blast
qed

theorem uptime_consistent_witness:
  "\<exists>r s'. GetMonitorUptime (calm 5) ''m1'' ''30d'' (Some ''alice'') sample_server = (Inr r, s') \<and> uptime_sane r"
proof -
  have "\<exists>r s'. GetMonitorUptime (calm 5) ''m1'' ''30d'' (Some ''alice'') sample_server = (Inr r, s')"
    by (simp add: GetMonitorUptime_def owned_monitor_def GetMonitorByUser_def owned_live_def sample_defs empty_db_def
        fetch_uptime_def fetchUptime30d_def fetchUptime7d_def fetchUptime24h_def GetUptimeData30d_def GetUptimeData7d_def
        GetUptimeData24h_def GetUptimeData24hRaw_def uptime_of_agg_def uptime_of_raw_def agg_since_def raw_since_def)
  then obtain r s' where g: "GetMonitorUptime (calm 5) ''m1'' ''30d'' (Some ''alice'') sample_server = (Inr r, s')" by blast
  have "agg_consistent (s_db sample_server)" by (simp add: agg_consistent_def sample_defs empty_db_def)
  from uptime_consistent [OF this g] g show ?thesis by blast
qed

end
