(* ===== verification/Dashboard.thy ===== *)
theory Dashboard
  imports Monitors_Service
begin

text \<open>
  \<open>api/dashboard/service.go\<close>: the overview of a user's monitors with their latest results, and
  the health of the regions.
\<close>

record monitor_status =
  ms_monitor_id :: string
  ms_url :: string
  ms_status :: string
  ms_last_failure :: "time option"

record dashboard_overview =
  do_total :: int
  do_enabled :: int
  do_disabled :: int
  do_healthy :: int
  do_unhealthy :: int
  do_recent_failures :: "monitor_status list"

text \<open>The loop over the monitors with its two counters; the latest result of each by \<open>resultMap\<close>.\<close>

fun overview_loop ::
  "(string \<rightharpoonup> ts_result_raw) \<Rightarrow> string \<Rightarrow> app_monitor list \<Rightarrow> int \<Rightarrow> int \<Rightarrow> int \<times> int \<times> monitor_status list" where
  "overview_loop resultMap u [] active failing = (active, failing, [])"
| "overview_loop resultMap u (check # rest) active failing =
     (if m_user_id check \<noteq> Some u then overview_loop resultMap u rest active failing
      else
        (let enabled = (m_enabled check = Some True);
             active' = (if enabled then active + 1 else active);
             (st, lf, failing') =
               (case resultMap (m_id check) of
                  None \<Rightarrow> (''UNKNOWN'', None, failing)
                | Some r \<Rightarrow> (r_status r, Some (r_event_at r),
                             if r_status r \<noteq> ''OK'' \<and> enabled then failing + 1 else failing));
             status = \<lparr>ms_monitor_id = m_id check, ms_url = m_url check, ms_status = st, ms_last_failure = lf\<rparr>
         in case overview_loop resultMap u rest active' failing' of
              (a, f, sts) \<Rightarrow> (a, f, status # sts)))"

definition GetDashboardOverview :: "env \<Rightarrow> dashboard_overview user_handler" where
  "GetDashboardOverview e ctx s =
     (case ctx of
        None \<Rightarrow> (Inl Unauthenticated, s)
      | Some u \<Rightarrow>
          (case sql (net e Q_ListMonitorsByUser u) (ListMonitorsByUser u) s of
             (Inl _, s1) \<Rightarrow> (Inl Internal, s1)
           | (Inr checks, s1) \<Rightarrow>
               (case sql (net e Q_GetLatestResultPerMonitor []) (GetLatestResultPerMonitor (sql_now e)) s1 of
                  (Inl _, s2) \<Rightarrow> (Inl Internal, s2)
                | (Inr latestResults, s2) \<Rightarrow>
                    (let resultMap = foldl (\<lambda>mp r. mp(r_monitor_id r \<mapsto> r)) Map.empty latestResults;
                         total_checks = int (length checks)
                     in case overview_loop resultMap u checks 0 0 of
                          (active, failing, sts) \<Rightarrow>
                            (Inr \<lparr>do_total = total_checks, do_enabled = active, do_disabled = total_checks - active,
                                  do_healthy = active - failing, do_unhealthy = failing, do_recent_failures = sts\<rparr>, s2)))))"

definition GetRegionHealth :: "env \<Rightarrow> (string \<times> int) list user_handler" where
  "GetRegionHealth e ctx s =
     (case ctx of
        None \<Rightarrow> (Inl Unauthenticated, s)
      | Some _ \<Rightarrow>
          (case sql (net e Q_ListRegionHealth []) (ListRegionHealth (sql_now e)) s of
             (Inl _, s1) \<Rightarrow> (Inl Internal, s1)
           | (Inr rows, s1) \<Rightarrow> (Inr rows, s1)))"

section \<open>Facts\<close>

definition monitor_enabled :: "app_monitor \<Rightarrow> bool" where
  "monitor_enabled m \<longleftrightarrow> m_enabled m = Some True"

definition monitor_failing :: "(string \<rightharpoonup> ts_result_raw) \<Rightarrow> app_monitor \<Rightarrow> bool" where
  "monitor_failing mp m \<longleftrightarrow> monitor_enabled m \<and> (\<exists>r. mp (m_id m) = Some r \<and> r_status r \<noteq> ''OK'')"

lemma overview_loop_counts:
  assumes "\<forall>m \<in> set ms. m_user_id m = Some u"
  shows "overview_loop mp u ms a f =
     (a + int (length (filter monitor_enabled ms)), f + int (length (filter (monitor_failing mp) ms)),
      map (\<lambda>m. \<lparr>ms_monitor_id = m_id m, ms_url = m_url m,
               ms_status = (case mp (m_id m) of None \<Rightarrow> ''UNKNOWN'' | Some r \<Rightarrow> r_status r),
               ms_last_failure = map_option r_event_at (mp (m_id m))\<rparr>) ms)"
  using assms
proof (induction ms arbitrary: a f)
  case (Cons m ms)
  then show ?case
    by (cases "mp (m_id m)") (auto simp: monitor_enabled_def monitor_failing_def Let_def)
qed simp

lemma foldl_map_of_monitor:
  "(foldl (\<lambda>mp r. mp(r_monitor_id r \<mapsto> r)) mp0 rs) i = Some r \<Longrightarrow>
     mp0 i = Some r \<or> (r \<in> set rs \<and> r_monitor_id r = i)"
  by (induction rs arbitrary: mp0) (force split: if_splits)+

text \<open>
  The overview's counters agree with each other and with the table: the total is the number
  of the user's live monitors, enabled and disabled add up to it, healthy and unhealthy add up
  to the enabled ones and none is negative, and there is one status line per monitor, in order.
\<close>

theorem dashboard_counts:
  assumes "GetDashboardOverview e (Some u) s = (Inr v, s')"
  shows "do_total v = int (length (filter (\<lambda>m. m_user_id m = Some u \<and> m_deleted_at m = None) (d_monitors (s_db s))))
     \<and> do_enabled v + do_disabled v = do_total v \<and> do_healthy v + do_unhealthy v = do_enabled v
     \<and> 0 \<le> do_unhealthy v \<and> 0 \<le> do_healthy v \<and> 0 \<le> do_disabled v
     \<and> int (length (do_recent_failures v)) = do_total v"
proof -
  obtain r1 s1 where q1: "sql (net e Q_ListMonitorsByUser u) (ListMonitorsByUser u) s = (r1, s1)"
    by (cases "sql (net e Q_ListMonitorsByUser u) (ListMonitorsByUser u) s")
  with assms obtain ms where r1: "r1 = Inr ms" by (cases r1) (auto simp: GetDashboardOverview_def)
  obtain r2 s2 where q2: "sql (net e Q_GetLatestResultPerMonitor []) (GetLatestResultPerMonitor (sql_now e)) s1 = (r2, s2)"
    by (cases "sql (net e Q_GetLatestResultPerMonitor []) (GetLatestResultPerMonitor (sql_now e)) s1")
  with assms q1 r1 obtain rs where r2: "r2 = Inr rs" by (cases r2) (auto simp: GetDashboardOverview_def)
  let ?mine = "filter (\<lambda>m. m_user_id m = Some u \<and> m_deleted_at m = None) (d_monitors (s_db s))"
  have ms: "ms = sort_key (\<lambda>m. - m_created_at m) ?mine"
    using sql_Inr [OF q1 [unfolded r1]] by (auto simp: ListMonitorsByUser_def)
  then have own: "\<forall>m \<in> set ms. m_user_id m = Some u" by simp
  let ?mp = "foldl (\<lambda>mp r. mp(r_monitor_id r \<mapsto> r)) Map.empty rs"
  have v: "do_total v = int (length ms)" "do_enabled v = int (length (filter monitor_enabled ms))"
    "do_disabled v = int (length ms) - int (length (filter monitor_enabled ms))"
    "do_unhealthy v = int (length (filter (monitor_failing ?mp) ms))"
    "do_healthy v = int (length (filter monitor_enabled ms)) - int (length (filter (monitor_failing ?mp) ms))"
    "length (do_recent_failures v) = length ms"
    using assms q1 r1 q2 r2 by (auto simp: GetDashboardOverview_def Let_def overview_loop_counts [OF own])
  have "filter (monitor_failing ?mp) ms = filter (monitor_failing ?mp) (filter monitor_enabled ms)"
    by (auto simp: monitor_failing_def intro!: filter_cong)
  from arg_cong [OF this, of length] length_filter_le [of "monitor_failing ?mp" "filter monitor_enabled ms"]
  have "length (filter (monitor_failing ?mp) ms) \<le> length (filter monitor_enabled ms)"
    by (rule ord_eq_le_trans)
  moreover have "length (filter monitor_enabled ms) \<le> length ms" by (rule length_filter_le)
  moreover have "length ms = length ?mine" by (simp add: ms)
  ultimately show ?thesis unfolding v by simp
qed

theorem dashboard_counts_witness:
  "\<exists>v s'. GetDashboardOverview (calm 5) (Some ''alice'') sample_server = (Inr v, s') \<and> do_total v = 1"
proof -
  have g: "\<exists>v s'. GetDashboardOverview (calm 5) (Some ''alice'') sample_server = (Inr v, s')"
    by (simp add: GetDashboardOverview_def GetLatestResultPerMonitor_def ListMonitorsByUser_def sample_defs empty_db_def Let_def)
  then obtain v s' where v: "GetDashboardOverview (calm 5) (Some ''alice'') sample_server = (Inr v, s')" by blast
  have "length (filter (\<lambda>m. m_user_id m = Some ''alice'' \<and> m_deleted_at m = None) (d_monitors (s_db sample_server))) = 1"
    by (simp add: sample_defs)
  with dashboard_counts [OF v] v show ?thesis by auto
qed

end
