(* ===== verification/Go_Hash.thy ===== *)
theory Go_Hash
  imports Go_Strings
begin

text \<open>
  The hash functions of Go's standard library that the program uses, on 32-bit words:
  FNV-1a (\<open>hash/fnv.New32a\<close>), SHA-256 and SHA-1 (\<open>crypto/sha256\<close>, \<open>crypto/sha1\<close>),
  HMAC-SHA256 (\<open>crypto/hmac\<close>) and standard base64. Nothing is assumed of their collision
  resistance; what is proved of them is the length of the digest.
\<close>

unbundle bit_operations_syntax

type_synonym u32 = "32 word"

definition byte_u32 :: "char \<Rightarrow> u32" where
  "byte_u32 c = of_nat (of_char c)"

section \<open>FNV-1a\<close>

definition fnv32a_step :: "u32 \<Rightarrow> char \<Rightarrow> u32" where
  "fnv32a_step h c = (h XOR byte_u32 c) * 16777619"

definition fnv32a :: "string \<Rightarrow> u32" where
  "fnv32a s = foldl fnv32a_step 2166136261 s"

lemma fnv32a_append: "foldl fnv32a_step (foldl fnv32a_step h s) t = foldl fnv32a_step h (s @ t)"
  by simp

section \<open>Blocks of big-endian words\<close>

fun be_words :: "string \<Rightarrow> u32 list" where
  "be_words (a # b # c # d # s) =
     (push_bit 24 (byte_u32 a) OR push_bit 16 (byte_u32 b) OR push_bit 8 (byte_u32 c) OR byte_u32 d)
       # be_words s"
| "be_words _ = []"

definition word_bytes :: "u32 \<Rightarrow> string" where
  "word_bytes w = map (\<lambda>k. char_of (unat (drop_bit k w AND 255))) [24, 16, 8, 0]"

lemma length_word_bytes [simp]: "length (word_bytes w) = 4"
  by (simp add: word_bytes_def)

definition be_length :: "nat \<Rightarrow> string" where
  "be_length n = map (\<lambda>k. char_of (n div 256 ^ k mod 256)) [7, 6, 5, 4, 3, 2, 1, 0]"

definition md_pad :: "string \<Rightarrow> string" where
  "md_pad s = s @ [char_of (128 :: nat)]
     @ replicate ((119 - length s mod 64) mod 64) (char_of (0 :: nat)) @ be_length (8 * length s)"

fun chunks :: "nat \<Rightarrow> 'a list \<Rightarrow> 'a list list" where
  "chunks n xs = (if n = 0 \<or> length xs < n then [] else take n xs # chunks n (drop n xs))"

declare chunks.simps [simp del]

section \<open>SHA-256\<close>

text \<open>The round constants, written two words to a number.\<close>

definition two_words :: "int \<Rightarrow> u32 list" where
  "two_words n = [word_of_int (n div 2 ^ 32), word_of_int (n mod 2 ^ 32)]"

definition sha256_k :: "u32 list" where
  "sha256_k = concat (map two_words
    [0x428a2f9871374491, 0xb5c0fbcfe9b5dba5, 0x3956c25b59f111f1, 0x923f82a4ab1c5ed5,
     0xd807aa9812835b01, 0x243185be550c7dc3, 0x72be5d7480deb1fe, 0x9bdc06a7c19bf174,
     0xe49b69c1efbe4786, 0x0fc19dc6240ca1cc, 0x2de92c6f4a7484aa, 0x5cb0a9dc76f988da,
     0x983e5152a831c66d, 0xb00327c8bf597fc7, 0xc6e00bf3d5a79147, 0x06ca635114292967,
     0x27b70a852e1b2138, 0x4d2c6dfc53380d13, 0x650a7354766a0abb, 0x81c2c92e92722c85,
     0xa2bfe8a1a81a664b, 0xc24b8b70c76c51a3, 0xd192e819d6990624, 0xf40e3585106aa070,
     0x19a4c1161e376c08, 0x2748774c34b0bcb5, 0x391c0cb34ed8aa4a, 0x5b9cca4f682e6ff3,
     0x748f82ee78a5636f, 0x84c878148cc70208, 0x90befffaa4506ceb, 0xbef9a3f7c67178f2])"

definition sha256_init :: "u32 list" where
  "sha256_init = [0x6a09e667, 0xbb67ae85, 0x3c6ef372, 0xa54ff53a,
                  0x510e527f, 0x9b05688c, 0x1f83d9ab, 0x5be0cd19]"

text \<open>The message schedule, newest word first.\<close>

fun sha256_expand :: "nat \<Rightarrow> u32 list \<Rightarrow> u32 list" where
  "sha256_expand 0 ws = ws"
| "sha256_expand (Suc n) ws =
     (let a = ws ! 14; b = ws ! 1;
          s0 = word_rotr 7 a XOR word_rotr 18 a XOR drop_bit 3 a;
          s1 = word_rotr 17 b XOR word_rotr 19 b XOR drop_bit 10 b
      in sha256_expand n ((ws ! 15 + s0 + ws ! 6 + s1) # ws))"

fun sha256_round :: "u32 list \<Rightarrow> u32 \<times> u32 \<Rightarrow> u32 list" where
  "sha256_round [a, b, c, d, e, f, g, h] (k, w) =
     (let s1 = word_rotr 6 e XOR word_rotr 11 e XOR word_rotr 25 e;
          ch = (e AND f) XOR (NOT e AND g);
          t1 = h + s1 + ch + k + w;
          s0 = word_rotr 2 a XOR word_rotr 13 a XOR word_rotr 22 a;
          mj = (a AND b) XOR (a AND c) XOR (b AND c)
      in [t1 + (s0 + mj), a, b, c, d + t1, e, f, g])"
| "sha256_round st _ = st"

definition sha256_block :: "u32 list \<Rightarrow> string \<Rightarrow> u32 list" where
  "sha256_block st blk =
     (let ws = rev (sha256_expand 48 (rev (be_words blk)))
      in map2 (+) st (foldl sha256_round st (zip sha256_k ws)))"

definition sha256 :: "string \<Rightarrow> string" where
  "sha256 s = concat (map word_bytes (foldl sha256_block sha256_init (chunks 64 (md_pad s))))"

lemma length_sha256_round [simp]: "length (sha256_round st x) = length st"
  by (induction st x rule: sha256_round.induct) (simp_all add: Let_def)

lemma length_foldl_step: "(\<And>st x. length (f st x) = length st) \<Longrightarrow> length (foldl f st xs) = length st"
  by (induction xs arbitrary: st) simp_all

lemma length_sha256_block [simp]: "length (sha256_block st blk) = length st"
  by (simp add: sha256_block_def Let_def length_foldl_step)

lemma length_sha256 [simp]: "length (sha256 s) = 32"
  by (simp add: sha256_def length_concat comp_def sum_list_triv length_foldl_step sha256_init_def)

section \<open>SHA-1\<close>

definition sha1_init :: "u32 list" where
  "sha1_init = [0x67452301, 0xefcdab89, 0x98badcfe, 0x10325476, 0xc3d2e1f0]"

fun sha1_expand :: "nat \<Rightarrow> u32 list \<Rightarrow> u32 list" where
  "sha1_expand 0 ws = ws"
| "sha1_expand (Suc n) ws =
     sha1_expand n (word_rotl 1 (ws ! 2 XOR ws ! 7 XOR ws ! 13 XOR ws ! 15) # ws)"

definition sha1_mix :: "nat \<Rightarrow> u32 \<Rightarrow> u32 \<Rightarrow> u32 \<Rightarrow> u32" where
  "sha1_mix t b c d =
     (if t < 20 then ((b AND c) OR (NOT b AND d)) + 0x5a827999
      else if t < 40 then (b XOR c XOR d) + 0x6ed9eba1
      else if t < 60 then ((b AND c) OR (b AND d) OR (c AND d)) + 0x8f1bbcdc
      else (b XOR c XOR d) + 0xca62c1d6)"

fun sha1_round :: "u32 list \<Rightarrow> nat \<times> u32 \<Rightarrow> u32 list" where
  "sha1_round [a, b, c, d, e] (t, w) =
     [word_rotl 5 a + sha1_mix t b c d + e + w, a, word_rotl 30 b, c, d]"
| "sha1_round st _ = st"

definition sha1_block :: "u32 list \<Rightarrow> string \<Rightarrow> u32 list" where
  "sha1_block st blk =
     (let ws = rev (sha1_expand 64 (rev (be_words blk)))
      in map2 (+) st (foldl sha1_round st (zip [0..<80] ws)))"

definition sha1 :: "string \<Rightarrow> string" where
  "sha1 s = concat (map word_bytes (foldl sha1_block sha1_init (chunks 64 (md_pad s))))"

lemma length_sha1_round [simp]: "length (sha1_round st x) = length st"
  by (induction st x rule: sha1_round.induct) simp_all

lemma length_sha1_block [simp]: "length (sha1_block st blk) = length st"
  by (simp add: sha1_block_def Let_def length_foldl_step)

lemma length_sha1 [simp]: "length (sha1 s) = 20"
  by (simp add: sha1_def length_concat comp_def sum_list_triv length_foldl_step sha1_init_def)

section \<open>HMAC and base64\<close>

definition hmac_sha256 :: "string \<Rightarrow> string \<Rightarrow> string" where
  "hmac_sha256 key msg =
     (let k0 = (if 64 < length key then sha256 key else key);
          k = k0 @ replicate (64 - length k0) (char_of (0 :: nat));
          mask = (\<lambda>m. map (\<lambda>c. char_of (unat (byte_u32 c XOR m))) k)
      in sha256 (mask 0x5c @ sha256 (mask 0x36 @ msg)))"

definition base64_char :: "nat \<Rightarrow> char" where
  "base64_char n =
     (if n < 26 then char_of (65 + n) else if n < 52 then char_of (71 + n)
      else if n < 62 then char_of (n - 4) else if n = 62 then CHR 0x2B else CHR 0x2F)"

fun base64_encode :: "string \<Rightarrow> string" where
  "base64_encode [] = []"
| "base64_encode [a] =
     (let n = of_char a * 16
      in [base64_char (n div 64), base64_char (n mod 64), CHR 0x3D, CHR 0x3D])"
| "base64_encode [a, b] =
     (let n = (of_char a * 256 + of_char b) * 4
      in [base64_char (n div 4096), base64_char (n div 64 mod 64), base64_char (n mod 64), CHR 0x3D])"
| "base64_encode (a # b # c # s) =
     (let n = (of_char a * 256 + of_char b) * 256 + of_char c
      in [base64_char (n div 262144), base64_char (n div 4096 mod 64),
          base64_char (n div 64 mod 64), base64_char (n mod 64)] @ base64_encode s)"

end
