(* ===== verification/Go_Time.thy ===== *)
theory Go_Time
  imports Go_Strings
begin

text \<open>
  The part of Go's \<open>time\<close> formatting that run ids use: the civil date and time of a clock
  reading in the process's time zone. The zone is a parameter, the offset in seconds east of
  UTC at an instant.
\<close>

definition civil_date :: "int \<Rightarrow> int \<times> int \<times> int" where
  "civil_date days =
     (let z = days + 719468; era = z div 146097; doe = z mod 146097;
          yoe = (doe - doe div 1460 + doe div 36524 - doe div 146096) div 365;
          doy = doe - (365 * yoe + yoe div 4 - yoe div 100);
          mp = (5 * doy + 2) div 153;
          d = doy - (153 * mp + 2) div 5 + 1;
          m = (if mp < 10 then mp + 3 else mp - 9)
      in (yoe + era * 400 + (if m \<le> 2 then 1 else 0), m, d))"

definition pad_zero :: "nat \<Rightarrow> int \<Rightarrow> string" where
  "pad_zero n i = (let t = int_text i in replicate (n - length t) (CHR ''0'') @ t)"

text \<open>\<open>t.Format("20060102150405")\<close>.\<close>

definition format_compact :: "(time \<Rightarrow> int) \<Rightarrow> time \<Rightarrow> string" where
  "format_compact zone t =
     (let secs = t div second + zone t; sod = secs mod 86400;
          (y, m, d) = civil_date (secs div 86400)
      in pad_zero 4 y @ pad_zero 2 m @ pad_zero 2 d @ pad_zero 2 (sod div 3600)
         @ pad_zero 2 (sod mod 3600 div 60) @ pad_zero 2 (sod mod 60))"

end
