(* ===== verification/Scheduler.thy ===== *)
theory Scheduler
  imports Advisory_Lock Go_Hash Go_Time
begin

text \<open>
  \<open>scheduler.go\<close>: due monitors become jobs, in one REPEATABLE READ transaction under an
  advisory lock. The process's time zone is a parameter (run ids are formatted in it), and so
  is \<open>budget\<close>, the number of monitors handled before the work context expires.
\<close>

section \<open>Intervals and identifiers\<close>

definition base_interval :: "int \<Rightarrow> duration" where
  "base_interval ms = wrap64 (ms * millisecond)"

definition applyJitter :: "duration \<Rightarrow> string \<Rightarrow> int \<Rightarrow> duration" where
  "applyJitter interval monitorID seed =
     (if interval \<le> 10 * second then interval
      else
        (let maxJitterPercent = (if interval \<le> 30 * second then 1 else 10);
             hash = fnv32a (monitorID @ int_text seed);
             maxJitterNanos = go_div (wrap64 (interval * maxJitterPercent)) 100
         in if maxJitterNanos = 0 then interval
            else
              (let jitter = uint hash mod \<bar>maxJitterNanos\<bar>
               in if uint hash mod 2 = 0 then wrap64 (interval + jitter)
                  else wrap64 (interval - jitter))))"

definition calculateDedupWindow :: "duration \<Rightarrow> duration" where
  "calculateDedupWindow interval =
     (let halfInterval = go_div interval 2
      in if halfInterval < 500 * millisecond then 500 * millisecond
         else if minute < halfInterval then minute
         else halfInterval)"

definition generateRunID :: "(time \<Rightarrow> int) \<Rightarrow> string \<Rightarrow> string \<Rightarrow> time \<Rightarrow> string" where
  "generateRunID zone monitorID region scheduledAt =
     (let timestamp = format_compact zone scheduledAt;
          hash = hex_encode (sha1 (monitorID @ ''-'' @ region @ ''-'' @ timestamp))
      in monitorID @ ''-'' @ region @ ''-'' @ timestamp @ ''-'' @ take 8 hash)"

section \<open>Transactions\<close>

text \<open>
  A transaction works on its own copy of the database. A statement that the server refuses
  aborts it: every later statement fails and COMMIT rolls back. An answer without a row
  (\<open>ErrNoRows\<close>) or one the client cannot scan is no error of the server; a lost
  connection ends the transaction.
\<close>

record tx =
  tx_db :: db
  tx_aborted :: bool

definition aborts :: "db_error \<Rightarrow> bool" where
  "aborts err \<longleftrightarrow> err \<noteq> ErrNoRows \<and> err \<noteq> ErrScan"

definition tx_sql :: "outcome \<Rightarrow> (db \<Rightarrow> 'a query_result) \<Rightarrow> tx \<Rightarrow> (db_error + 'a) \<times> tx" where
  "tx_sql n f t =
     (if tx_aborted t then (Inl ErrAborted, t)
      else
        (case n of
           Served \<Rightarrow>
             (case f (tx_db t) of
                (Inl err, d) \<Rightarrow> (Inl err, \<lparr>tx_db = d, tx_aborted = aborts err\<rparr>)
              | (Inr x, d) \<Rightarrow> (Inr x, \<lparr>tx_db = d, tx_aborted = False\<rparr>))
         | _ \<Rightarrow> (Inl ErrConn, t\<lparr>tx_aborted := True\<rparr>)))"

section \<open>One monitor\<close>

definition scheduled_at :: "time \<Rightarrow> app_monitor \<Rightarrow> time" where
  "scheduled_at now m =
     (case m_next_due_at m of
        None \<Rightarrow> now
      | Some due \<Rightarrow> if now < due then due else now)"

text \<open>The loop over the monitor's regions.\<close>

fun schedule_regions ::
  "env \<Rightarrow> (time \<Rightarrow> int) \<Rightarrow> app_monitor \<Rightarrow> time \<Rightarrow> string list \<Rightarrow> tx \<Rightarrow> (db_error + unit) \<times> tx" where
  "schedule_regions e zone m scheduledAt [] t = (Inr (), t)"
| "schedule_regions e zone m scheduledAt (region # rs) t =
     (let runID = generateRunID zone (m_id m) region scheduledAt;
          dedupWindow = calculateDedupWindow (base_interval (m_interval_ms m))
      in case tx_sql (net e Q_CreateJobIdempotent runID)
                (CreateJobIdempotent (sql_now e) runID (m_id m) region scheduledAt
                   (scheduledAt - dedupWindow) (scheduledAt + dedupWindow)) t of
           (Inl err, t') \<Rightarrow>
             if err = ErrNoRows then schedule_regions e zone m scheduledAt rs t' else (Inl err, t')
         | (Inr _, t') \<Rightarrow> schedule_regions e zone m scheduledAt rs t')"

definition scheduleMonitorTx ::
  "env \<Rightarrow> (time \<Rightarrow> int) \<Rightarrow> app_monitor \<Rightarrow> time \<Rightarrow> tx \<Rightarrow> (db_error + unit) \<times> tx" where
  "scheduleMonitorTx e zone m now t =
     (let scheduledAt = scheduled_at now m;
          baseInterval = base_interval (m_interval_ms m);
          jitteredInterval = applyJitter baseInterval (m_id m) (m_jitter_seed m);
          nextDueAt = scheduledAt + jitteredInterval
      in case schedule_regions e zone m scheduledAt (m_regions m) t of
           (Inl err, t') \<Rightarrow> (Inl err, t')
         | (Inr _, t') \<Rightarrow>
             (case tx_sql (net e Q_UpdateMonitorSchedulingTime (m_id m))
                     (UpdateMonitorSchedulingTime (sql_now e) (m_id m) (Some scheduledAt) (Some nextDueAt)) t' of
                (Inl err, t'') \<Rightarrow> (Inl err, t'')
              | (Inr _, t'') \<Rightarrow> (Inr (), t'')))"

section \<open>One iteration\<close>

text \<open>
  The loop over the due monitors: a failing monitor is skipped (\<open>continue\<close>); \<open>None\<close> when the
  work context expires, and the transaction is rolled back.
\<close>

fun schedule_loop ::
  "env \<Rightarrow> (time \<Rightarrow> int) \<Rightarrow> time \<Rightarrow> nat \<Rightarrow> app_monitor list \<Rightarrow> nat \<Rightarrow> tx \<Rightarrow> (nat \<times> tx) option" where
  "schedule_loop e zone now budget [] scheduledCount t = Some (scheduledCount, t)"
| "schedule_loop e zone now 0 (m # ms) scheduledCount t = None"
| "schedule_loop e zone now (Suc budget) (m # ms) scheduledCount t =
     (case scheduleMonitorTx e zone m now t of
        (Inl _, t') \<Rightarrow> schedule_loop e zone now budget ms scheduledCount t'
      | (Inr _, t') \<Rightarrow> schedule_loop e zone now budget ms (scheduledCount + 1) t')"

definition schedule_work :: "env \<Rightarrow> (time \<Rightarrow> int) \<Rightarrow> nat \<Rightarrow> server \<Rightarrow> server" where
  "schedule_work e zone budget s =
     (let now = go_now e; lookAhead = now + 5 * second
      in if net e Q_BeginTx [] \<noteq> Served then s
         else
           (case tx_sql (net e Q_ListDueMonitors []) (ListDueMonitors e lookAhead)
                   \<lparr>tx_db = s_db s, tx_aborted = False\<rparr> of
              (Inl _, _) \<Rightarrow> s
            | (Inr monitors, t) \<Rightarrow>
                if monitors = [] then s
                else
                  (case schedule_loop e zone now budget monitors 0 t of
                     None \<Rightarrow> s
                   | Some (_, t') \<Rightarrow>
                       if tx_aborted t' \<or> net e Q_Commit [] = LostBefore then s
                       else s\<lparr>s_db := tx_db t'\<rparr>)))"

definition scheduleIteration ::
  "env \<Rightarrow> (time \<Rightarrow> int) \<Rightarrow> nat \<Rightarrow> session_id \<Rightarrow> session_id \<Rightarrow> cluster \<Rightarrow> cluster" where
  "scheduleIteration e zone budget p q c =
     with_advisory_lock e p q 12345 (schedule_work e zone budget) c"

text \<open>\<open>Start\<close>: an iteration at once, and one per tick.\<close>

definition Scheduler_Start ::
  "(time \<Rightarrow> int) \<Rightarrow> (env \<times> nat \<times> session_id \<times> session_id) list \<Rightarrow> cluster \<Rightarrow> cluster" where
  "Scheduler_Start zone ticks c =
     fold (\<lambda>(e, budget, p, q). scheduleIteration e zone budget p q) ticks c"

section \<open>Jitter and windows\<close>

lemma base_interval_i32:
  assumes "in_i32 ms"
  shows "base_interval ms = ms * millisecond"
  unfolding base_interval_def using assms
  by (intro wrap64_id) (simp add: in_i32_def in_i64_def millisecond_def)

lemma small_i64: "- 9000000000000000000 < x \<Longrightarrow> x < 9000000000000000000 \<Longrightarrow> wrap64 x = x"
  by (rule wrap64_id) (simp add: in_i64_def)

text \<open>
  Jitter is bounded: for any interval of an int32 number of milliseconds the interval is
  exact up to ten seconds, off by less than one percent up to thirty seconds and by less than
  ten percent above, never overflows, and stays positive.
\<close>

theorem jitter_bounds:
  assumes "in_i32 ms"
  shows "let i = ms * millisecond; r = applyJitter (base_interval ms) monitorID seed
     in (i \<le> 10 * second \<longrightarrow> r = i)
      \<and> (10 * second < i \<longrightarrow> i \<le> 30 * second \<longrightarrow> \<bar>r - i\<bar> * 100 < i)
      \<and> (30 * second < i \<longrightarrow> \<bar>r - i\<bar> * 10 < i)
      \<and> (0 < ms \<longrightarrow> 0 < r)"
proof -
  define i where "i = ms * millisecond"
  define pct :: int where "pct = (if i \<le> 30 * second then 1 else 10)"
  have b: "base_interval ms = i" using base_interval_i32 [OF assms] by (simp add: i_def)
  have range: "i < 2147483648000000" "- 2147483648000001 < i"
    using assms by (simp_all add: i_def in_i32_def millisecond_def)
  define r where "r = applyJitter i monitorID seed"
  show ?thesis
  proof (cases "i \<le> 10 * second")
    case True
    then have "r = i" by (simp add: r_def applyJitter_def)
    with True show ?thesis
      unfolding b i_def [symmetric] r_def [symmetric] Let_def
      by (auto simp: i_def time_units)
  next
    case False
    let ?h = "fnv32a (monitorID @ int_text seed)"
    define mx where "mx = i * pct div 100"
    have pct: "1 \<le> pct" "pct \<le> 10" by (simp_all add: pct_def)
    have i10: "10000000000 < i" using False by (simp add: second_def)
    have "wrap64 (i * pct) = i * pct"
      using range i10 by (intro small_i64) (auto simp: pct_def)
    then have mx: "go_div (wrap64 (i * pct)) 100 = mx"
      using i10 pct by (simp add: mx_def go_div_nonneg)
    have mxpos: "0 < mx" using i10 by (auto simp: mx_def pct_def)
    have mxle: "mx * 100 \<le> i * pct" unfolding mx_def by simp
    define j where "j = uint ?h mod mx"
    have j: "0 \<le> j" "j < mx" using mxpos by (simp_all add: j_def)
    have mxi: "mx < i" using mxle i10 by (auto simp: pct_def split: if_splits)
    have w: "wrap64 (i + j) = i + j" "wrap64 (i - j) = i - j"
      using j mxi range i10 by (auto intro!: small_i64)
    have "r = (if uint ?h mod 2 = 0 then i + j else i - j)"
      using False mxpos mx w
      by (simp add: r_def applyJitter_def Let_def pct_def [symmetric] j_def)
    then have "\<bar>r - i\<bar> = j" using j by auto
    then have d: "\<bar>r - i\<bar> * 100 < i * pct" using j mxle by simp
    then have "\<bar>r - i\<bar> < i" using pct i10 by (auto simp: pct_def split: if_splits)
    then have pos: "0 < r" by linarith
    have "10 * second < i \<longrightarrow> i \<le> 30 * second \<longrightarrow> \<bar>r - i\<bar> * 100 < i"
      using d by (auto simp: pct_def)
    moreover have "30 * second < i \<longrightarrow> \<bar>r - i\<bar> * 10 < i"
      using d by (auto simp: pct_def)
    ultimately show ?thesis
      unfolding b i_def [symmetric] r_def [symmetric] Let_def using False pos by simp
  qed
qed

theorem jitter_bounds_witness:
  "0 < applyJitter (base_interval 60000) ''web'' 7"
  using jitter_bounds [of 60000 "''web''" 7] by (simp add: in_i32_def Let_def)

text \<open>The window is between half a second and a minute, and half the interval in between.\<close>

lemma dedup_window_range:
  "500 * millisecond \<le> calculateDedupWindow i" "calculateDedupWindow i \<le> minute"
  by (auto simp: calculateDedupWindow_def Let_def time_units)

section \<open>The transaction\<close>

lemma tx_sql_cases:
  obtains (dead) "tx_aborted t" and "tx_sql n f t = (Inl ErrAborted, t)"
  | (ok) x d where "\<not> tx_aborted t" and "n = Served" and "f (tx_db t) = (Inr x, d)" and "tx_sql n f t = (Inr x, \<lparr>tx_db = d, tx_aborted = False\<rparr>)"
  | (err) er d where "\<not> tx_aborted t" and "n = Served" and "f (tx_db t) = (Inl er, d)" and "tx_sql n f t = (Inl er, \<lparr>tx_db = d, tx_aborted = aborts er\<rparr>)"
  | (lost) "\<not> tx_aborted t" and "n \<noteq> Served" and "tx_sql n f t = (Inl ErrConn, t\<lparr>tx_aborted := True\<rparr>)"
proof (cases "tx_aborted t")
  case True
  with dead show ?thesis by (simp add: tx_sql_def)
next
  case False
  note live = this
  show ?thesis
  proof (cases n)
    case Served
    show ?thesis
    proof (cases "f (tx_db t)")
      case (Pair r d)
      with live Served ok err show ?thesis by (cases r) (simp_all add: tx_sql_def)
    qed
  qed (use live lost in \<open>simp_all add: tx_sql_def\<close>)
qed

lemma tx_sql_Inr:
  "tx_sql n f t = (Inr x, t') \<Longrightarrow> \<not> tx_aborted t \<and> n = Served \<and> f (tx_db t) = (Inr x, tx_db t') \<and> \<not> tx_aborted t'"
  by (rule tx_sql_cases [of t n f]) simp_all

text \<open>An error other than \<open>ErrNoRows\<close> and \<open>ErrScan\<close> leaves the transaction aborted.\<close>

lemma tx_sql_Inl:
  "tx_sql n f t = (Inl er, t') \<Longrightarrow> er \<noteq> ErrNoRows \<Longrightarrow> er \<noteq> ErrScan \<Longrightarrow> tx_aborted t'"
  by (rule tx_sql_cases [of t n f]) (auto simp: aborts_def)

lemma tx_sql_dead: "tx_aborted t \<Longrightarrow> tx_sql n f t = (Inl ErrAborted, t)"
  by (simp add: tx_sql_def)

lemma schedule_regions_dead:
  "tx_aborted t \<Longrightarrow> tx_aborted (snd (schedule_regions e zone m s rs t))"
  by (induction rs) (simp_all add: tx_sql_dead Let_def)

lemma scheduleMonitorTx_dead: "tx_aborted t \<Longrightarrow> tx_aborted (snd (scheduleMonitorTx e zone m now t))"
proof -
  assume d: "tx_aborted t"
  obtain r t' where q: "schedule_regions e zone m (scheduled_at now m) (m_regions m) t = (r, t')"
    by (cases "schedule_regions e zone m (scheduled_at now m) (m_regions m) t")
  with schedule_regions_dead [OF d, of e zone m "scheduled_at now m" "m_regions m"] have "tx_aborted t'" by simp
  with q show ?thesis by (cases r) (simp_all add: scheduleMonitorTx_def Let_def tx_sql_dead)
qed

lemma schedule_loop_dead:
  "tx_aborted t \<Longrightarrow> schedule_loop e zone now b ms n t = Some (k, t') \<Longrightarrow> tx_aborted t'"
proof (induction e zone now b ms n t rule: schedule_loop.induct)
  case (3 e zone now b m ms n t)
  obtain r t1 where q: "scheduleMonitorTx e zone m now t = (r, t1)" by (cases "scheduleMonitorTx e zone m now t")
  then have "tx_aborted t1" using scheduleMonitorTx_dead [OF "3.prems"(1), of e zone m now] by simp
  then show ?case using 3 q by (cases r) simp_all
qed simp_all

text \<open>The errors with which \<open>scheduleMonitorTx\<close> returns: the transaction is aborted, or the monitor is gone.\<close>

lemma insert_job_Inl: "insert_job j d = (Inl er, d') \<Longrightarrow> er = ErrUnique \<or> er = ErrForeign"
  by (auto simp: insert_job_def split: if_splits)

lemma CreateJobIdempotent_Inl:
  "CreateJobIdempotent now run m r sched lo hi d = (Inl er, d') \<Longrightarrow> er = ErrNoRows \<or> er = ErrUnique \<or> er = ErrForeign"
  by (auto simp: CreateJobIdempotent_def split: if_splits dest: insert_job_Inl)

lemma schedule_regions_Inl:
  "schedule_regions e zone m s rs t = (Inl er, t') \<Longrightarrow> tx_aborted t'"
proof (induction rs arbitrary: t)
  case (Cons region rs)
  let ?run = "generateRunID zone (m_id m) region s"
  let ?w = "calculateDedupWindow (base_interval (m_interval_ms m))"
  let ?f = "CreateJobIdempotent (sql_now e) ?run (m_id m) region s (s - ?w) (s + ?w)"
  obtain r t1 where q: "tx_sql (net e Q_CreateJobIdempotent ?run) ?f t = (r, t1)"
    by (cases "tx_sql (net e Q_CreateJobIdempotent ?run) ?f t")
  show ?case
  proof (cases r)
    case (Inr j)
    with Cons q show ?thesis by (simp add: Let_def)
  next
    case (Inl er1)
    show ?thesis
    proof (cases "er1 = ErrNoRows")
      case True
      with Cons q Inl show ?thesis by (simp add: Let_def)
    next
      case False
      with Cons.prems q Inl have t': "t' = t1" by (simp add: Let_def)
      show ?thesis
        by (rule tx_sql_cases [of t "net e Q_CreateJobIdempotent ?run" ?f])
           (use q Inl False t' CreateJobIdempotent_Inl in \<open>auto simp: aborts_def dest!: CreateJobIdempotent_Inl\<close>)
    qed
  qed
qed simp

text \<open>
  C33. All or nothing: if scheduling one of the due monitors fails on a job (an error that is not
  a skipped duplicate), the loop's \<open>continue\<close> does not help the others, before or after it:
  the transaction is aborted and the whole iteration leaves the database as it was.
\<close>

theorem iteration_all_or_nothing:
  assumes due: "tx_sql (net e Q_ListDueMonitors []) (ListDueMonitors e (go_now e + 5 * second))
                  \<lparr>tx_db = s_db s, tx_aborted = False\<rparr> = (Inr (ms1 @ m # ms2), t)"
    and before: "schedule_loop e zone (go_now e) b1 ms1 0 t = Some (k, t1)" and budget: "length ms1 \<le> b1"
    and fails: "schedule_regions e zone m (scheduled_at (go_now e) m) (m_regions m) t1 = (Inl er, t2)"
  shows "schedule_work e zone budget s = s"
proof -
  have split: "schedule_loop e zone (go_now e) b (ms1 @ m # ms2) n u
      = (if b < length ms1 then None else
           (case schedule_loop e zone (go_now e) b ms1 n u of None \<Rightarrow> None
            | Some (k, u1) \<Rightarrow> schedule_loop e zone (go_now e) (b - length ms1) (m # ms2) k u1))" for b n u
  proof (induction ms1 arbitrary: b n u)
    case (Cons a ms1)
    show ?case
    proof (cases b)
      case (Suc c)
      show ?thesis unfolding Suc by (simp add: Cons.IH split: sum.splits prod.splits option.splits)
    qed simp
  qed simp
  have same: "schedule_loop e zone (go_now e) b ms n u = schedule_loop e zone (go_now e) b' ms n u"
    if "length ms \<le> b" "length ms \<le> b'" for b b' ms n u
    using that
  proof (induction ms arbitrary: b b' n u)
    case (Cons a ms)
    obtain c c' where c: "b = Suc c" "b' = Suc c'" using Cons.prems by (cases b; cases b') auto
    with Cons.IH [of c c'] Cons.prems show ?case by (simp split: sum.splits prod.splits)
  qed simp
  have dead: "tx_aborted t2" by (rule schedule_regions_Inl [OF fails])
  have "tx_aborted t'" if loop: "schedule_loop e zone (go_now e) budget (ms1 @ m # ms2) 0 t = Some (k', t')" for k' t'
  proof -
    have len: "length ms1 \<le> budget" using loop by (auto simp: split split: if_splits)
    then have "schedule_loop e zone (go_now e) budget ms1 0 t = Some (k, t1)"
      using same [OF len budget] before by simp
    with loop len have l: "schedule_loop e zone (go_now e) (budget - length ms1) (m # ms2) k t1 = Some (k', t')"
      by (simp add: split)
    have m: "scheduleMonitorTx e zone m (go_now e) t1 = (Inl er, t2)"
      using fails by (simp add: scheduleMonitorTx_def Let_def)
    show ?thesis
    proof (cases "budget - length ms1")
      case 0
      with l show ?thesis by simp
    next
      case (Suc c)
      with l m have "schedule_loop e zone (go_now e) c ms2 k t2 = Some (k', t')" by simp
      with dead show ?thesis by (rule schedule_loop_dead)
    qed
  qed
  then show ?thesis
    using due by (auto simp: schedule_work_def Let_def split: option.splits)
qed

definition colliding_server :: server where
  "colliding_server = \<lparr>s_db = empty_db\<lparr>d_monitors :=
     [(sample_monitor ''web'' ''u'')\<lparr>m_regions := [''us-east'']\<rparr>,
      (sample_monitor ''web-us'' ''u'')\<lparr>m_regions := [''east'']\<rparr>]\<rparr>,
     s_cache = None, s_hb = None\<rparr>"

theorem iteration_all_or_nothing_witness:
  "schedule_work (calm 5000000000) (\<lambda>_. 0) 100 colliding_server = colliding_server"
proof -
  let ?e = "calm 5000000000"
  let ?m1 = "(sample_monitor ''web'' ''u'')\<lparr>m_regions := [''us-east'']\<rparr>"
  let ?m2 = "(sample_monitor ''web-us'' ''u'')\<lparr>m_regions := [''east'']\<rparr>"
  let ?t = "\<lparr>tx_db = s_db colliding_server, tx_aborted = False\<rparr>"
  let ?t1 = "snd (scheduleMonitorTx ?e (\<lambda>_. 0) ?m1 5000000000 ?t)"
  note eval = scheduleMonitorTx_def Let_def scheduled_at_def sample_defs empty_db_def tx_sql_def
        CreateJobIdempotent_def job_in_window_def insert_job_def new_job_def job_active_def
        UpdateMonitorSchedulingTime_def update_monitors_returning_def generateRunID_def colliding_server_def aborts_def
  have due: "tx_sql (net ?e Q_ListDueMonitors []) (ListDueMonitors ?e (go_now ?e + 5 * second)) ?t = (Inr ([] @ [?m1, ?m2]), ?t)"
    by (simp add: tx_sql_def ListDueMonitors_def colliding_server_def sample_defs monitor_due_def null_rank_def)
  have m1: "scheduleMonitorTx ?e (\<lambda>_. 0) ?m1 (go_now ?e) ?t = (Inr (), ?t1)" by (simp add: eval)
  have due': "tx_sql (net ?e Q_ListDueMonitors []) (ListDueMonitors ?e (go_now ?e + 5 * second)) ?t = (Inr ([?m1] @ ?m2 # []), ?t)"
    using due by simp
  have before: "schedule_loop ?e (\<lambda>_. 0) (go_now ?e) 1 [?m1] 0 ?t = Some (1, ?t1)"
    by (simp only: One_nat_def schedule_loop.simps(3), subst m1) simp
  have fails: "schedule_regions ?e (\<lambda>_. 0) ?m2 (scheduled_at (go_now ?e) ?m2) (m_regions ?m2) ?t1
      = (Inl ErrUnique, snd (schedule_regions ?e (\<lambda>_. 0) ?m2 (scheduled_at (go_now ?e) ?m2) (m_regions ?m2) ?t1))"
    by (simp add: eval)
  show ?thesis
    by (rule iteration_all_or_nothing [OF due' before _ fails]) simp
qed

text \<open>
  Run ids collide: the parts of a run id are joined by a dash that may occur in them, so a
  monitor \<open>a\<close> in region \<open>b-c\<close> and a monitor \<open>a-b\<close> in region \<open>c\<close> get the same run id for the
  same second, and the second insertion is refused by the primary key.
\<close>

theorem run_id_collision:
  assumes "j \<in> set (d_jobs d)" and "j_run_id j = generateRunID zone a (b @ ''-'' @ c) t"
    and "\<not> (\<exists>j \<in> set (d_jobs d). job_in_window (a @ ''-'' @ b) c lo hi j)"
  shows "CreateJobIdempotent now (generateRunID zone (a @ ''-'' @ b) c t) (a @ ''-'' @ b) c t lo hi d = (Inl ErrUnique, d)"
proof -
  have "generateRunID zone (a @ ''-'' @ b) c t = generateRunID zone a (b @ ''-'' @ c) t"
    by (simp add: generateRunID_def)
  with assms(1,2) have "\<exists>j' \<in> set (d_jobs d). j_run_id j' = generateRunID zone (a @ ''-'' @ b) c t" by auto
  with assms(3) show ?thesis by (simp add: CreateJobIdempotent_def insert_job_def new_job_def)
qed

theorem run_id_collision_witness:
  "CreateJobIdempotent 9 (generateRunID (\<lambda>_. 0) ''web-us'' ''east-1'' 7) ''web-us'' ''east-1'' 7 0 8
     (empty_db\<lparr>d_jobs := [sample_job (generateRunID (\<lambda>_. 0) ''web'' ''us-east-1'' 7) ''web'' Ready 7 None None]\<rparr>)
   = (Inl ErrUnique,
      empty_db\<lparr>d_jobs := [sample_job (generateRunID (\<lambda>_. 0) ''web'' ''us-east-1'' 7) ''web'' Ready 7 None None]\<rparr>)"
  using run_id_collision [of _ "empty_db\<lparr>d_jobs := [sample_job (generateRunID (\<lambda>_. 0) ''web'' ''us-east-1'' 7) ''web'' Ready 7 None None]\<rparr>"
      "\<lambda>_. 0" "''web''" "''us''" "''east-1''" 7 0 8 9]
  by (simp add: sample_job_def job_in_window_def)

section \<open>What a scheduled monitor gets\<close>

definition dedup_window :: "app_monitor \<Rightarrow> duration" where
  "dedup_window m = calculateDedupWindow (base_interval (m_interval_ms m))"

definition covered :: "app_monitor \<Rightarrow> time \<Rightarrow> string \<Rightarrow> app_job list \<Rightarrow> bool" where
  "covered m s region js \<longleftrightarrow>
     (\<exists>j \<in> set js. job_in_window (m_id m) region (s - dedup_window m) (s + dedup_window m) j)"

lemma insert_job_Inr:
  "insert_job j d = (Inr j', d') \<Longrightarrow> j' = j \<and> d' = d\<lparr>d_jobs := d_jobs d @ [j]\<rparr>"
  by (auto simp: insert_job_def split: if_splits)

lemma CreateJobIdempotent_Inr:
  assumes "CreateJobIdempotent now run m r sched lo hi d = (Inr j, d')"
  shows "d' = d\<lparr>d_jobs := d_jobs d @ [new_job now run m r sched]\<rparr>"
    "\<not> (\<exists>j \<in> set (d_jobs d). job_in_window m r lo hi j)"
  using assms by (auto simp: CreateJobIdempotent_def split: if_splits dest!: insert_job_Inr)

lemma CreateJobIdempotent_NoRows:
  assumes "CreateJobIdempotent now run m r sched lo hi d = (Inl ErrNoRows, d')"
  shows "d' = d" "\<exists>j \<in> set (d_jobs d). job_in_window m r lo hi j"
  using assms by (auto simp: CreateJobIdempotent_def split: if_splits dest: insert_job_Inl)

lemma new_job_in_window: "job_in_window m r (s - dedup_window x) (s + dedup_window x) (new_job now run m r s)"
proof -
  have "0 \<le> dedup_window x"
    using dedup_window_range(1) [of "base_interval (m_interval_ms x)"] by (simp add: dedup_window_def time_units)
  then have "pg_ts (s - dedup_window x) \<le> pg_ts s" "pg_ts s \<le> pg_ts (s + dedup_window x)"
    by (intro pg_ts_mono; simp)+
  then show ?thesis using active_new_job by (simp add: job_in_window_def new_job_def)
qed

lemma covered_append: "covered m s region js \<Longrightarrow> covered m s region (js @ new)"
  by (auto simp: covered_def)

lemma schedule_regions_Inr:
  assumes "schedule_regions e zone m s rs t = (Inr (), t')" and "\<not> tx_aborted t"
  shows "\<not> tx_aborted t' \<and> (\<exists>new. tx_db t' = (tx_db t)\<lparr>d_jobs := d_jobs (tx_db t) @ new\<rparr>
     \<and> (\<forall>j \<in> set new. j_region j \<in> set rs \<and> \<not> covered m s (j_region j) (d_jobs (tx_db t))
          \<and> j = new_job (sql_now e) (generateRunID zone (m_id m) (j_region j) s) (m_id m) (j_region j) s)
     \<and> (\<forall>r \<in> set rs. covered m s r (d_jobs (tx_db t) @ new))
     \<and> (jobs_inv (tx_db t) \<longrightarrow> jobs_inv (tx_db t')))"
  using assms
proof (induction rs arbitrary: t)
  case Nil
  then show ?case by (intro conjI exI [of _ "[]"]) simp_all
next
  case (Cons region rs)
  let ?run = "generateRunID zone (m_id m) region s"
  let ?w = "dedup_window m"
  let ?f = "CreateJobIdempotent (sql_now e) ?run (m_id m) region s (s - ?w) (s + ?w)"
  let ?new = "new_job (sql_now e) ?run (m_id m) region s"
  obtain r t1 where q: "tx_sql (net e Q_CreateJobIdempotent ?run) ?f t = (r, t1)"
    by (cases "tx_sql (net e Q_CreateJobIdempotent ?run) ?f t")
  have rec: "schedule_regions e zone m s rs t1 = (Inr (), t')"
    using Cons.prems(1) q by (cases r) (auto simp: Let_def dedup_window_def split: if_splits)
  have "\<not> tx_aborted t1 \<and> (\<exists>js. tx_db t1 = (tx_db t)\<lparr>d_jobs := d_jobs (tx_db t) @ js\<rparr>
      \<and> (js = [] \<or> js = [?new] \<and> \<not> covered m s region (d_jobs (tx_db t)))
      \<and> covered m s region (d_jobs (tx_db t) @ js))"
  proof (cases r)
    case (Inr j)
    with tx_sql_Inr [of "net e Q_CreateJobIdempotent ?run" ?f t j t1] q
    have f: "?f (tx_db t) = (Inr j, tx_db t1)" and live: "\<not> tx_aborted t1" by simp_all
    note c = CreateJobIdempotent_Inr [OF f]
    with live new_job_in_window [of "m_id m" region s m] show ?thesis
      by (intro conjI exI [of _ "[?new]"]) (auto simp: covered_def)
  next
    case (Inl er)
    with Cons.prems(1) q have "er = ErrNoRows" by (auto simp: Let_def dedup_window_def split: if_splits)
    with q Inl Cons.prems(2) obtain d where f: "?f (tx_db t) = (Inl ErrNoRows, d)" and t1: "tx_db t1 = d" "\<not> tx_aborted t1"
      by (rule_tac tx_sql_cases [of t "net e Q_CreateJobIdempotent ?run" ?f]) (auto simp: aborts_def)
    note c = CreateJobIdempotent_NoRows [OF f]
    with t1 show ?thesis by (intro conjI exI [of _ "[]"]) (auto simp: covered_def)
  qed
  then obtain js where live: "\<not> tx_aborted t1" and js: "tx_db t1 = (tx_db t)\<lparr>d_jobs := d_jobs (tx_db t) @ js\<rparr>"
    "js = [] \<or> js = [?new] \<and> \<not> covered m s region (d_jobs (tx_db t))" "covered m s region (d_jobs (tx_db t) @ js)"
    by blast
  have jobs1: "d_jobs (tx_db t1) = d_jobs (tx_db t) @ js" by (simp add: js(1))
  from Cons.IH [OF rec live] obtain new where "\<not> tx_aborted t'"
    and new: "tx_db t' = (tx_db t1)\<lparr>d_jobs := d_jobs (tx_db t1) @ new\<rparr>"
    "\<forall>j \<in> set new. j_region j \<in> set rs \<and> \<not> covered m s (j_region j) (d_jobs (tx_db t1))
       \<and> j = new_job (sql_now e) (generateRunID zone (m_id m) (j_region j) s) (m_id m) (j_region j) s"
    "\<forall>r \<in> set rs. covered m s r (d_jobs (tx_db t1) @ new)"
    "jobs_inv (tx_db t1) \<longrightarrow> jobs_inv (tx_db t')" by blast
  have "jobs_inv (tx_db t) \<longrightarrow> jobs_inv (tx_db t1)"
    using q CreateJobIdempotent_inv [of "tx_db t" "sql_now e" ?run "m_id m" region s "s - ?w" "s + ?w"]
    by (rule_tac tx_sql_cases [of t "net e Q_CreateJobIdempotent ?run" ?f]) auto
  moreover have "tx_db t' = (tx_db t)\<lparr>d_jobs := d_jobs (tx_db t) @ js @ new\<rparr>"
    using new(1) jobs1 by (simp add: js(1))
  moreover have "\<forall>j \<in> set (js @ new). j_region j \<in> set (region # rs) \<and> \<not> covered m s (j_region j) (d_jobs (tx_db t))
       \<and> j = new_job (sql_now e) (generateRunID zone (m_id m) (j_region j) s) (m_id m) (j_region j) s"
    using js(2) new(2) covered_append jobs1 by (auto simp: new_job_def)
  moreover have "\<forall>r \<in> set (region # rs). covered m s r (d_jobs (tx_db t) @ js @ new)"
    using new(3) covered_append [OF js(3), of new] jobs1 by simp
  ultimately show ?case using \<open>\<not> tx_aborted t'\<close> new(4) by blast
qed

lemma UpdateMonitorSchedulingTime_Inr:
  "UpdateMonitorSchedulingTime now i l n d = (Inr x, d') \<Longrightarrow>
     d' = update_monitors (\<lambda>m. m_id m = i)
       (\<lambda>m. m\<lparr>m_last_scheduled_at := map_option pg_ts l, m_next_due_at := map_option pg_ts n, m_updated_at := now\<rparr>) d"
  by (simp add: UpdateMonitorSchedulingTime_def update_monitors_returning_def)

text \<open>
  C22. What scheduling a monitor does: on success every region of the monitor has an active job
  within the deduplication window; the jobs added are ready, of this monitor and one of its
  regions, at the scheduled time, and only for regions that had none in the window; the old
  jobs are untouched, the invariant holds, and the monitor's next due time is the scheduled
  time plus the jittered interval.
\<close>

theorem schedule_monitor_effect:
  assumes ok: "scheduleMonitorTx e zone m now t = (Inr (), t')" and inv: "jobs_inv (tx_db t)"
  shows "\<exists>new. d_jobs (tx_db t') = d_jobs (tx_db t) @ new
     \<and> (\<forall>r \<in> set (m_regions m). covered m (scheduled_at now m) r (d_jobs (tx_db t')))
     \<and> (\<forall>j \<in> set new. j_status j = Ready \<and> j_monitor_id j = m_id m \<and> j_region j \<in> set (m_regions m)
           \<and> j_scheduled_at j = pg_ts (scheduled_at now m)
           \<and> \<not> covered m (scheduled_at now m) (j_region j) (d_jobs (tx_db t)))
     \<and> jobs_inv (tx_db t') \<and> \<not> tx_aborted t'
     \<and> (\<forall>x \<in> set (d_monitors (tx_db t')). m_id x = m_id m \<longrightarrow>
           m_next_due_at x = Some (pg_ts (scheduled_at now m
              + applyJitter (base_interval (m_interval_ms m)) (m_id m) (m_jitter_seed m))))"
proof -
  let ?s = "scheduled_at now m"
  obtain r1 t1 where q: "schedule_regions e zone m ?s (m_regions m) t = (r1, t1)"
    by (cases "schedule_regions e zone m ?s (m_regions m) t")
  with ok have r1: "r1 = Inr ()" by (cases r1) (auto simp: scheduleMonitorTx_def Let_def)
  let ?due = "?s + applyJitter (base_interval (m_interval_ms m)) (m_id m) (m_jitter_seed m)"
  let ?f = "UpdateMonitorSchedulingTime (sql_now e) (m_id m) (Some ?s) (Some ?due)"
  obtain r2 t2 where u: "tx_sql (net e Q_UpdateMonitorSchedulingTime (m_id m)) ?f t1 = (r2, t2)"
    by (cases "tx_sql (net e Q_UpdateMonitorSchedulingTime (m_id m)) ?f t1")
  with ok q r1 obtain x where r2: "r2 = Inr x" "t' = t2"
    by (cases r2) (auto simp: scheduleMonitorTx_def Let_def)
  have up: "?f (tx_db t1) = (Inr x, tx_db t')" "\<not> tx_aborted t1" "\<not> tx_aborted t'"
    using tx_sql_Inr [OF u [unfolded r2(1)]] r2(2) by simp_all
  note d' = UpdateMonitorSchedulingTime_Inr [OF up(1)]
  have "\<not> tx_aborted t" using up(2) schedule_regions_dead [of t e zone m ?s "m_regions m"] q by auto
  from schedule_regions_Inr [OF q [unfolded r1] this] obtain new where
    new: "tx_db t1 = (tx_db t)\<lparr>d_jobs := d_jobs (tx_db t) @ new\<rparr>"
    "\<forall>j \<in> set new. j_region j \<in> set (m_regions m) \<and> \<not> covered m ?s (j_region j) (d_jobs (tx_db t))
       \<and> j = new_job (sql_now e) (generateRunID zone (m_id m) (j_region j) ?s) (m_id m) (j_region j) ?s"
    "\<forall>r \<in> set (m_regions m). covered m ?s r (d_jobs (tx_db t) @ new)"
    "jobs_inv (tx_db t1)" using inv by blast
  have jobs: "d_jobs (tx_db t') = d_jobs (tx_db t) @ new" using d' new(1) by simp
  have "\<forall>j \<in> set new. j_status j = Ready \<and> j_monitor_id j = m_id m \<and> j_region j \<in> set (m_regions m)
      \<and> j_scheduled_at j = pg_ts ?s \<and> \<not> covered m ?s (j_region j) (d_jobs (tx_db t))"
  proof
    fix j assume "j \<in> set new"
    with new(2) have j: "j_region j \<in> set (m_regions m)" "\<not> covered m ?s (j_region j) (d_jobs (tx_db t))"
      "j = new_job (sql_now e) (generateRunID zone (m_id m) (j_region j) ?s) (m_id m) (j_region j) ?s" by blast+
    have "j_status j = Ready \<and> j_monitor_id j = m_id m \<and> j_scheduled_at j = pg_ts ?s"
      by (subst (1 2 3) j(3)) (simp add: new_job_def)
    with j(1,2) show "j_status j = Ready \<and> j_monitor_id j = m_id m \<and> j_region j \<in> set (m_regions m)
      \<and> j_scheduled_at j = pg_ts ?s \<and> \<not> covered m ?s (j_region j) (d_jobs (tx_db t))" by blast
  qed
  moreover have "jobs_inv (tx_db t')"
    using new(4) jobs table_inv_cong(1) [of "tx_db t'" "tx_db t1"] by (simp add: new(1))
  moreover have "\<forall>x \<in> set (d_monitors (tx_db t')). m_id x = m_id m \<longrightarrow> m_next_due_at x = Some (pg_ts ?due)"
    using d' by (auto simp: in_update_where)
  ultimately show ?thesis using jobs new(3) up(3) by auto
qed

theorem schedule_monitor_effect_witness:
  "\<exists>t'. scheduleMonitorTx (calm 5000000000) (\<lambda>_. 0) (sample_monitor ''m2'' ''bob'') 5000000000
         \<lparr>tx_db = sample_db, tx_aborted = False\<rparr> = (Inr (), t')
     \<and> covered (sample_monitor ''m2'' ''bob'') 5000000000 ''us'' (d_jobs (tx_db t'))"
proof -
  let ?m = "sample_monitor ''m2'' ''bob''"
  let ?t = "\<lparr>tx_db = sample_db, tx_aborted = False\<rparr>"
  have ok: "scheduleMonitorTx (calm 5000000000) (\<lambda>_. 0) ?m 5000000000 ?t
      = (Inr (), snd (scheduleMonitorTx (calm 5000000000) (\<lambda>_. 0) ?m 5000000000 ?t))"
    by (simp add: scheduleMonitorTx_def Let_def scheduled_at_def sample_defs empty_db_def tx_sql_def
        CreateJobIdempotent_def job_in_window_def insert_job_def new_job_def job_active_def
        UpdateMonitorSchedulingTime_def update_monitors_returning_def generateRunID_def)
  have "jobs_inv (tx_db ?t)" using sample_inv by (simp add: store_inv_def sample_server_def)
  from schedule_monitor_effect [OF ok this] ok show ?thesis
    by (auto simp: sample_monitor_def scheduled_at_def)
qed

end
