(* ===== verification/Maintenance.thy ===== *)
theory Maintenance
  imports Advisory_Lock
begin

text \<open>
  The background services besides the scheduler: \<open>lease_reaper.go\<close>, \<open>job_cleaner.go\<close> and
  \<open>inactivity_monitor.go\<close>. A service is what one tick of its ticker does; \<open>Start\<close> is a list
  of ticks, each with its environment and the sessions the pool picks.
\<close>

section \<open>Lease reaper\<close>

definition NewLeaseReaper :: "duration \<Rightarrow> duration" where
  "NewLeaseReaper interval = (if interval \<le> 0 then 5 * second else interval)"

definition reclaim_work :: "env \<Rightarrow> server \<Rightarrow> server" where
  "reclaim_work e s = snd (sql (net e Q_ReclaimExpiredLeases []) (ReclaimExpiredLeases (sql_now e)) s)"

definition reaper_tick :: "env \<Rightarrow> session_id \<Rightarrow> session_id \<Rightarrow> cluster \<Rightarrow> cluster" where
  "reaper_tick e p q c = with_advisory_lock e p q 54321 (reclaim_work e) c"

definition LeaseReaper_Start :: "(env \<times> session_id \<times> session_id) list \<Rightarrow> cluster \<Rightarrow> cluster" where
  "LeaseReaper_Start ticks c = fold (\<lambda>(e, p, q). reaper_tick e p q) ticks c"

section \<open>Job cleaner\<close>

record job_cleaner =
  jc_interval :: duration
  jc_retentionPeriod :: duration
  jc_batchSize :: int

definition NewJobCleaner :: "duration \<Rightarrow> duration \<Rightarrow> int \<Rightarrow> job_cleaner" where
  "NewJobCleaner interval retentionPeriod batchSize =
     \<lparr>jc_interval = (if interval \<le> 0 then minute else interval),
      jc_retentionPeriod = (if retentionPeriod \<le> 0 then 7 * 24 * hour else retentionPeriod),
      jc_batchSize = (if batchSize \<le> 0 then 1000 else batchSize)\<rparr>"

text \<open>The batches until one is not full, or a statement fails; \<open>None\<close> is a loop without end.\<close>

partial_function (option) clean_batches :: "env \<Rightarrow> time \<Rightarrow> int \<Rightarrow> server \<Rightarrow> server option" where
  "clean_batches e cutoff batchSize s =
     (case sql (net e Q_DeleteDoneJobsBefore []) (DeleteDoneJobsBefore cutoff batchSize) s of
        (Inl _, s') \<Rightarrow> Some s'
      | (Inr deleted, s') \<Rightarrow>
          if deleted < batchSize then Some s' else clean_batches e cutoff batchSize s')"

definition runCleanup :: "env \<Rightarrow> session_id \<Rightarrow> session_id \<Rightarrow> job_cleaner \<Rightarrow> cluster \<Rightarrow> cluster option" where
  "runCleanup e p q jc c =
     (case lock_call (net e Q_TryLock []) (pg_try_advisory_lock p 98765) c of
        (Inl _, c1) \<Rightarrow> Some c1
      | (Inr gotLock, c1) \<Rightarrow>
          if \<not> gotLock then Some c1
          else
            (case clean_batches e (go_now e - jc_retentionPeriod jc) (jc_batchSize jc) (cl_server c1) of
               None \<Rightarrow> None
             | Some s' \<Rightarrow>
                 Some (snd (lock_call (net e Q_Unlock []) (pg_advisory_unlock q 98765) (c1\<lparr>cl_server := s'\<rparr>)))))"

text \<open>\<open>Start\<close> over its ticks; a cleanup without end would be the end of the service.\<close>

primrec JobCleaner_Start ::
  "job_cleaner \<Rightarrow> (env \<times> session_id \<times> session_id) list \<Rightarrow> cluster \<Rightarrow> cluster option" where
  "JobCleaner_Start jc [] c = Some c"
| "JobCleaner_Start jc (tick # ticks) c =
     (case tick of (e, p, q) \<Rightarrow>
        (case runCleanup e p q jc c of None \<Rightarrow> None | Some c' \<Rightarrow> JobCleaner_Start jc ticks c'))"

section \<open>Inactivity monitor\<close>

definition NewWorkerInactivityMonitor :: "duration \<Rightarrow> duration" where
  "NewWorkerInactivityMonitor interval = (if interval \<le> 0 then 30 * second else interval)"

definition inactivity_tick :: "env \<Rightarrow> server \<Rightarrow> server" where
  "inactivity_tick e s = snd (sql (net e Q_MarkWorkerInactive []) (MarkWorkerInactive (sql_now e)) s)"

definition WorkerInactivityMonitor_Start :: "env list \<Rightarrow> server \<Rightarrow> server" where
  "WorkerInactivityMonitor_Start ticks s = fold inactivity_tick ticks s"

section \<open>Cleaning\<close>

text \<open>What every statement of a cleanup guarantees, a cleanup guarantees.\<close>

lemma clean_batches_steps:
  assumes "clean_batches e cutoff b s = Some s'"
    and stmt: "\<And>s r s1. sql (net e Q_DeleteDoneJobsBefore []) (DeleteDoneJobsBefore cutoff b) s = (r, s1) \<Longrightarrow> R s s1"
    and trans: "\<And>x y z. R x y \<Longrightarrow> R y z \<Longrightarrow> R x z"
  shows "R s s'"
proof -
  have "e = e \<and> cutoff = cutoff \<and> b = b \<longrightarrow> R s s'"
  proof (rule clean_batches.raw_induct [where P = "\<lambda>e' cutoff' b' s s'. e' = e \<and> cutoff' = cutoff \<and> b' = b \<longrightarrow> R s s'", OF _ assms(1)])
    fix loop e' cutoff' b' s s'
    assume ih: "\<And>e' cutoff' b' s s'. loop e' cutoff' b' s = Some s' \<Longrightarrow>
          e' = e \<and> cutoff' = cutoff \<and> b' = b \<longrightarrow> R s s'"
      and body: "(case sql (net e' Q_DeleteDoneJobsBefore []) (DeleteDoneJobsBefore cutoff' b') s of
            (Inl _, s') \<Rightarrow> Some s'
          | (Inr deleted, s') \<Rightarrow> if deleted < b' then Some s' else loop e' cutoff' b' s') = Some s'"
    obtain r s1 where q: "sql (net e' Q_DeleteDoneJobsBefore []) (DeleteDoneJobsBefore cutoff' b') s = (r, s1)"
      by (cases "sql (net e' Q_DeleteDoneJobsBefore []) (DeleteDoneJobsBefore cutoff' b') s")
    show "e' = e \<and> cutoff' = cutoff \<and> b' = b \<longrightarrow> R s s'"
      using body q ih stmt [of s r s1] by (cases r) (auto split: if_splits intro: trans)
  qed
  then show ?thesis by simp
qed

lemma DeleteDone_full_batch:
  fixes cutoff :: time
  assumes inv: "jobs_inv d" and b: "0 < b"
  defines "old \<equiv> filter (expired_done cutoff) (d_jobs d)"
  shows "\<exists>n d'. DeleteDoneJobsBefore cutoff b d = (Inr n, d')
     \<and> n = min b (int (length old))
     \<and> (\<forall>j. j \<in> set (d_jobs d') \<longrightarrow> j \<in> set (d_jobs d))
     \<and> filter (\<lambda>j. \<not> expired_done cutoff j) (d_jobs d') = filter (\<lambda>j. \<not> expired_done cutoff j) (d_jobs d)
     \<and> int (length (filter (expired_done cutoff) (d_jobs d'))) = int (length old) - n
     \<and> d' = d\<lparr>d_jobs := d_jobs d'\<rparr> \<and> jobs_inv d'"
proof -
  define pk where "pk = take (nat b) (sort_key j_scheduled_at old)"
  let ?P = "\<lambda>j. j_run_id j \<in> j_run_id ` set pk"
  let ?d' = "d\<lparr>d_jobs := filter (\<lambda>j. \<not> ?P j) (d_jobs d)\<rparr>"
  have sub: "set pk \<subseteq> set (d_jobs d)" by (auto simp: pk_def old_def dest!: in_set_takeD)
  have old_pk: "j \<in> set pk \<Longrightarrow> expired_done cutoff j" for j by (auto simp: pk_def old_def dest!: in_set_takeD)
  have P: "?P j \<longleftrightarrow> j \<in> set pk" if "j \<in> set (d_jobs d)" for j by (rule run_in_picked [OF inv sub that])
  have dj: "distinct (d_jobs d)" using jobs_invD(1) [OF inv] by (simp add: distinct_map)
  then have dpk: "distinct pk" by (simp add: pk_def old_def)
  have len: "length (filter ?P (d_jobs d)) = length pk"
  proof -
    have "set (filter ?P (d_jobs d)) = set pk" using P sub by auto
    moreover have "distinct (filter ?P (d_jobs d))" using dj by simp
    ultimately show ?thesis using dpk by (metis distinct_card)
  qed
  have "DeleteDoneJobsBefore cutoff b d = (Inr (int (length pk)), ?d')"
    using b len by (simp add: DeleteDoneJobsBefore_def sql_limit_def Let_def old_def pk_def)
  moreover have n: "int (length pk) = min b (int (length old))" using b by (simp add: pk_def)
  moreover have keep: "filter (\<lambda>j. \<not> expired_done cutoff j) (d_jobs ?d') = filter (\<lambda>j. \<not> expired_done cutoff j) (d_jobs d)"
    using P old_pk by (simp, intro filter_cong) auto
  moreover have "length (filter (expired_done cutoff) (d_jobs ?d')) + length pk = length old"
  proof -
    have "filter (expired_done cutoff) (d_jobs ?d') = filter (\<lambda>j. \<not> ?P j) old"
      by (simp add: old_def conj_commute)
    moreover have "filter ?P (d_jobs d) = filter ?P old"
      unfolding old_def filter_filter using P old_pk by (intro filter_cong) blast+
    ultimately show ?thesis using sum_length_filter_compl [of ?P old] len by simp
  qed
  then have "int (length (filter (expired_done cutoff) (d_jobs ?d'))) = int (length old) - int (length pk)"
    by linarith
  moreover have "jobs_inv ?d'" by (rule jobs_inv_filter [OF inv])
  ultimately show ?thesis by (intro exI [of _ "int (length pk)"] exI [of _ ?d']) (simp add: Ball_def)
qed

text \<open>The loop ends, because each full batch deletes at least one row.\<close>

lemma clean_batches_ends:
  assumes "jobs_inv (s_db s)" and "0 < b"
  shows "\<exists>s'. clean_batches e cutoff b s = Some s'"
  using assms(1)
proof (induction "length (filter (expired_done cutoff) (d_jobs (s_db s)))" arbitrary: s rule: less_induct)
  case less
  obtain r s1 where q: "sql (net e Q_DeleteDoneJobsBefore []) (DeleteDoneJobsBefore cutoff b) s = (r, s1)"
    by (cases "sql (net e Q_DeleteDoneJobsBefore []) (DeleteDoneJobsBefore cutoff b) s")
  show ?case
  proof (cases r)
    case (Inl err)
    with q show ?thesis by (subst clean_batches.simps) simp
  next
    case (Inr n)
    obtain n' d' where d': "DeleteDoneJobsBefore cutoff b (s_db s) = (Inr n', d')"
      "n' = min b (int (length (filter (expired_done cutoff) (d_jobs (s_db s)))))"
      "int (length (filter (expired_done cutoff) (d_jobs d'))) = int (length (filter (expired_done cutoff) (d_jobs (s_db s)))) - n'"
      "jobs_inv d'"
      using DeleteDone_full_batch [OF less.prems assms(2), of cutoff] by blast
    with sql_Inr [OF q [unfolded Inr]] have n: "n = n'" "s_db s1 = d'" by simp_all
    show ?thesis
    proof (cases "n < b")
      case True
      with q Inr show ?thesis by (subst clean_batches.simps) simp
    next
      case False
      then have "length (filter (expired_done cutoff) (d_jobs (s_db s1))) < length (filter (expired_done cutoff) (d_jobs (s_db s)))"
        using d'(2,3) assms(2) unfolding n by linarith
      with less.hyps [OF this] n d'(4) obtain s' where "clean_batches e cutoff b s1 = Some s'" by auto
      with q Inr False show ?thesis by (subst clean_batches.simps) simp
    qed
  qed
qed

lemma clean_batches_result:
  assumes "jobs_inv (s_db s)" and "0 < b" and "net e Q_DeleteDoneJobsBefore [] = Served"
    and "clean_batches e cutoff b s = Some s'"
  shows "s_db s' = (s_db s)\<lparr>d_jobs := filter (\<lambda>j. \<not> expired_done cutoff j) (d_jobs (s_db s))\<rparr>"
  using assms(1,4)
proof (induction "length (filter (expired_done cutoff) (d_jobs (s_db s)))" arbitrary: s rule: less_induct)
  case less
  obtain n d' where d': "DeleteDoneJobsBefore cutoff b (s_db s) = (Inr n, d')"
    and n: "n = min b (int (length (filter (expired_done cutoff) (d_jobs (s_db s)))))"
    and keep: "filter (\<lambda>j. \<not> expired_done cutoff j) (d_jobs d') = filter (\<lambda>j. \<not> expired_done cutoff j) (d_jobs (s_db s))"
    and left: "int (length (filter (expired_done cutoff) (d_jobs d'))) = int (length (filter (expired_done cutoff) (d_jobs (s_db s)))) - n"
    and eq: "d' = (s_db s)\<lparr>d_jobs := d_jobs d'\<rparr>" and inv: "jobs_inv d'"
    using DeleteDone_full_batch [OF less.prems(1) assms(2), of cutoff] by blast
  have q: "sql (net e Q_DeleteDoneJobsBefore []) (DeleteDoneJobsBefore cutoff b) s = (Inr n, s\<lparr>s_db := d'\<rparr>)"
    using assms(3) d' by simp
  have upd: "d'\<lparr>d_jobs := x\<rparr> = (s_db s)\<lparr>d_jobs := x\<rparr>" for x by (subst eq) simp
  show ?case
  proof (cases "n < b")
    case True
    then have s': "s' = s\<lparr>s_db := d'\<rparr>" using less.prems(2) q by (subst (asm) clean_batches.simps) simp
    have "filter (expired_done cutoff) (d_jobs d') = []" using True n left by simp
    then have "d_jobs d' = filter (\<lambda>j. \<not> expired_done cutoff j) (d_jobs d')"
      by (auto simp: filter_empty_conv intro!: filter_True [symmetric])
    then have "d' = d'\<lparr>d_jobs := filter (\<lambda>j. \<not> expired_done cutoff j) (d_jobs d')\<rparr>" by simp
    then show ?thesis by (simp only: upd keep s') simp
  next
    case False
    then have rec: "clean_batches e cutoff b (s\<lparr>s_db := d'\<rparr>) = Some s'"
      using less.prems(2) q by (subst (asm) clean_batches.simps) simp
    have len: "length (filter (expired_done cutoff) (d_jobs (s_db (s\<lparr>s_db := d'\<rparr>))))
        < length (filter (expired_done cutoff) (d_jobs (s_db s)))"
      using False n left assms(2) by simp
    have "jobs_inv (s_db (s\<lparr>s_db := d'\<rparr>))" using inv by simp
    from less.hyps [OF len this rec]
    have "s_db s' = d'\<lparr>d_jobs := filter (\<lambda>j. \<not> expired_done cutoff j) (d_jobs d')\<rparr>" by simp
    then show ?thesis by (simp only: upd keep)
  qed
qed

text \<open>
  C20. The cleanup ends and deletes exactly what is due: with the positive batch size that
  \<open>NewJobCleaner\<close> guarantees, a run always returns; and when the lock is free and the
  statements are served, the jobs left are those that were not done, live and scheduled before
  the retention cutoff, in the same order, and no other table changes.
\<close>

theorem cleanup_ends_exact:
  assumes "jobs_inv (s_db (cl_server c))" and jc: "jc = NewJobCleaner i ret b"
  shows "\<exists>c'. runCleanup e p q jc c = Some c' \<and>
     (cl_locks c 98765 = None \<and> net e Q_TryLock [] = Served \<and> net e Q_DeleteDoneJobsBefore [] = Served \<longrightarrow>
        s_db (cl_server c') = (s_db (cl_server c))\<lparr>d_jobs :=
          filter (\<lambda>j. \<not> expired_done (go_now e - jc_retentionPeriod jc) j) (d_jobs (s_db (cl_server c)))\<rparr>)"
proof -
  let ?cut = "go_now e - jc_retentionPeriod jc"
  have b: "0 < jc_batchSize jc" by (simp add: jc NewJobCleaner_def)
  obtain r c1 where l: "lock_call (net e Q_TryLock []) (pg_try_advisory_lock p 98765) c = (r, c1)"
    by (cases "lock_call (net e Q_TryLock []) (pg_try_advisory_lock p 98765) c")
  have c1: "cl_server c1 = cl_server c"
    using lock_call_sel [of "net e Q_TryLock []" "pg_try_advisory_lock p 98765" c] l by simp
  obtain s' where s': "clean_batches e ?cut (jc_batchSize jc) (cl_server c) = Some s'"
    using clean_batches_ends [OF assms(1) b] by blast
  have "\<exists>c'. runCleanup e p q jc c = Some c'"
    using l c1 s' by (auto simp: runCleanup_def split: sum.splits)
  then obtain c' where c': "runCleanup e p q jc c = Some c'" by blast
  have exact: "s_db (cl_server c') = (s_db (cl_server c))\<lparr>d_jobs :=
          filter (\<lambda>j. \<not> expired_done ?cut j) (d_jobs (s_db (cl_server c)))\<rparr>"
    if "cl_locks c 98765 = None" "net e Q_TryLock [] = Served" "net e Q_DeleteDoneJobsBefore [] = Served"
  proof -
    have "runCleanup e p q jc c = Some (snd (lock_call (net e Q_Unlock []) (pg_advisory_unlock q 98765)
        (c\<lparr>cl_locks := (cl_locks c)(98765 \<mapsto> (p, 1)), cl_server := s'\<rparr>)))"
      using s' by (simp add: runCleanup_def pg_try_advisory_lock_def that)
    with c' have "c' = snd (lock_call (net e Q_Unlock []) (pg_advisory_unlock q 98765)
        (c\<lparr>cl_locks := (cl_locks c)(98765 \<mapsto> (p, 1)), cl_server := s'\<rparr>))"
      by (metis option.inject)
    then have "cl_server c' = s'" by (simp only: lock_call_sel) simp
    then show ?thesis by (simp only: clean_batches_result [OF assms(1) b that(3) s'])
  qed
  show ?thesis
    by (intro exI [of _ c'] conjI impI, rule c', elim conjE, rule exact)
qed

theorem cleanup_ends_exact_witness:
  "\<exists>c'. runCleanup (calm 5000) 1 1 (NewJobCleaner 0 0 0) sample_cluster = Some c'"
  using cleanup_ends_exact [of sample_cluster "NewJobCleaner 0 0 0" 0 0 0 "calm 5000" 1 1] sample_inv
  by (auto simp: sample_cluster_def store_inv_def)

text \<open>So does the service, tick after tick: it never hangs in one, whatever fails, and keeps the rows of \<open>app.jobs\<close> in order.\<close>

lemma clean_batches_inv: "clean_batches e cutoff b s = Some s' \<Longrightarrow> jobs_inv (s_db s) \<Longrightarrow> jobs_inv (s_db s')"
proof (erule clean_batches_steps [where R = "\<lambda>s s'. jobs_inv (s_db s) \<longrightarrow> jobs_inv (s_db s')", THEN mp])
  fix s r s1
  assume "sql (net e Q_DeleteDoneJobsBefore []) (DeleteDoneJobsBefore cutoff b) s = (r, s1)"
  then have "s_db s1 = s_db s \<or> s_db s1 = snd (DeleteDoneJobsBefore cutoff b (s_db s))"
    using sql_eq call_state_cases by metis
  then show "jobs_inv (s_db s) \<longrightarrow> jobs_inv (s_db s1)" using DeleteDoneJobsBefore_inv by auto
qed simp_all

lemma runCleanup_ends:
  assumes "jobs_inv (s_db (cl_server c))" and "0 < jc_batchSize jc"
  obtains c' where "runCleanup e p q jc c = Some c'" and "jobs_inv (s_db (cl_server c'))"
proof -
  obtain r c1 where l: "lock_call (net e Q_TryLock []) (pg_try_advisory_lock p 98765) c = (r, c1)"
    by (cases "lock_call (net e Q_TryLock []) (pg_try_advisory_lock p 98765) c")
  have c1: "cl_server c1 = cl_server c"
    using lock_call_sel [of "net e Q_TryLock []" "pg_try_advisory_lock p 98765" c] l by simp
  obtain s' where s': "clean_batches e (go_now e - jc_retentionPeriod jc) (jc_batchSize jc) (cl_server c) = Some s'"
    using clean_batches_ends [OF assms] by blast
  have "\<exists>c'. runCleanup e p q jc c = Some c' \<and> jobs_inv (s_db (cl_server c'))"
    using l c1 s' assms(1) clean_batches_inv [OF s' assms(1)] by (auto simp: runCleanup_def split: sum.splits)
  with that show thesis by blast
qed

theorem job_cleaner_never_hangs:
  assumes "jobs_inv (s_db (cl_server c))"
  shows "\<exists>c'. JobCleaner_Start (NewJobCleaner i ret b) ticks c = Some c' \<and> jobs_inv (s_db (cl_server c'))"
  using assms
proof (induction ticks arbitrary: c)
  case (Cons tick ticks)
  obtain e p q where t: "tick = (e, p, q)" by (cases tick)
  obtain c1 where "runCleanup e p q (NewJobCleaner i ret b) c = Some c1" "jobs_inv (s_db (cl_server c1))"
    by (rule runCleanup_ends [OF Cons.prems, where e = e and p = p and q = q and jc = "NewJobCleaner i ret b"])
      (simp add: NewJobCleaner_def)
  with Cons.IH t show ?case by simp
qed simp

section \<open>Reclaiming\<close>

lemma reclaim_work_rows:
  assumes "j \<in> set (d_jobs (s_db s))" and "\<not> lease_expired (sql_now e) j"
  shows "j \<in> set (d_jobs (s_db (reclaim_work e s)))"
  using assms call_state_cases [of "net e Q_ReclaimExpiredLeases []" "ReclaimExpiredLeases (sql_now e)" "s_db s"]
    update_where_miss [of j "d_jobs (s_db s)" "lease_expired (sql_now e)"]
  by (auto simp: reclaim_work_def ReclaimExpiredLeases_def)

lemma reaper_tick_rows:
  assumes "j \<in> set (d_jobs (s_db (cl_server c)))" and "\<not> lease_expired (sql_now e) j"
  shows "j \<in> set (d_jobs (s_db (cl_server (reaper_tick e p q c))))"
  using assms with_lock_server [of e p q 54321 "reclaim_work e" c] reclaim_work_rows [OF assms]
  by (auto simp: reaper_tick_def)

text \<open>
  A live lease is never taken away: through any number of ticks of the reaper, with any
  network and any sessions, a leased job whose lease has not run out by the database's clock
  at any of the ticks keeps its row.
\<close>

theorem reaper_spares_live_leases:
  assumes "j \<in> set (d_jobs (s_db (cl_server c)))" and "j_lease_expires_at j = Some t"
    and "\<forall>(e, _, _) \<in> set ticks. sql_now e \<le> t"
  shows "j \<in> set (d_jobs (s_db (cl_server (LeaseReaper_Start ticks c))))"
  using assms
proof (induction ticks arbitrary: c)
  case Nil
  then show ?case by (simp add: LeaseReaper_Start_def)
next
  case (Cons tick ticks)
  obtain e p q where tick: "tick = (e, p, q)" by (cases tick)
  have "\<not> lease_expired (sql_now e) j" using Cons.prems(2,3) tick by (auto simp: lease_expired_def)
  then have "j \<in> set (d_jobs (s_db (cl_server (reaper_tick e p q c))))"
    by (rule reaper_tick_rows [OF Cons.prems(1)])
  from Cons.IH [OF this Cons.prems(2)] Cons.prems(3) tick show ?case
    by (simp add: LeaseReaper_Start_def)
qed

theorem reaper_spares_live_leases_witness:
  "sample_job ''r2'' ''m1'' Leased 2000 (Some ''w2'') (Some 4000)
     \<in> set (d_jobs (s_db (cl_server (LeaseReaper_Start [(calm 3000, 1, 1), (calm 4000, 1, 2)] sample_cluster))))"
  by (rule reaper_spares_live_leases [where t = 4000]) (simp_all add: sample_cluster_def sample_defs)

text \<open>
  C24. An expired lease is given back: a tick that gets the lock and is served turns exactly the
  expired leased rows into ready rows without worker and lease, keeps every other row, and
  keeps the invariant of the table; the freed row can be leased again by a worker of its region.
\<close>

theorem reaper_reclaims:
  assumes "jobs_inv (s_db (cl_server c))" and "cl_locks c 54321 = None"
    and "net e Q_TryLock [] = Served" and "net e Q_ReclaimExpiredLeases [] = Served"
  shows "d_jobs (s_db (cl_server (reaper_tick e p q c))) =
       map (\<lambda>j. if lease_expired (sql_now e) j
                 then j\<lparr>j_status := Ready, j_lease_expires_at := None, j_worker_id := None\<rparr> else j)
         (d_jobs (s_db (cl_server c)))
     \<and> jobs_inv (s_db (cl_server (reaper_tick e p q c)))
     \<and> (\<forall>j \<in> set (d_jobs (s_db (cl_server c))). lease_expired (sql_now e) j \<longrightarrow> j_scheduled_at j \<le> sql_now e' \<longrightarrow>
          j_run_id j \<notin> set (locked e') \<longrightarrow>
          leasable e' [j_region j] (j\<lparr>j_status := Ready, j_lease_expires_at := None, j_worker_id := None\<rparr>))"
proof -
  let ?s = "cl_server c"
  have w: "reclaim_work e ?s = ?s\<lparr>s_db := snd (ReclaimExpiredLeases (sql_now e) (s_db ?s))\<rparr>"
    using assms(4) by (simp add: reclaim_work_def)
  have "cl_server (reaper_tick e p q c) = reclaim_work e ?s"
    using assms(2,3) by (simp add: reaper_tick_def with_advisory_lock_def pg_try_advisory_lock_def)
  then have d: "s_db (cl_server (reaper_tick e p q c)) = snd (ReclaimExpiredLeases (sql_now e) (s_db ?s))"
    by (simp add: w)
  have "jobs_inv (snd (ReclaimExpiredLeases (sql_now e) (s_db ?s)))"
    by (rule ReclaimExpiredLeases_inv [OF assms(1)])
  then show ?thesis
    unfolding d by (auto simp: ReclaimExpiredLeases_def update_where_def leasable_def lease_expired_def)
qed

theorem reaper_reclaims_witness:
  "leasable (calm 9000) [''us'']
     ((sample_job ''r2'' ''m1'' Leased 2000 (Some ''w2'') (Some 4000))
        \<lparr>j_status := Ready, j_lease_expires_at := None, j_worker_id := None\<rparr>)"
proof -
  let ?j = "sample_job ''r2'' ''m1'' Leased 2000 (Some ''w2'') (Some 4000)"
  have i: "jobs_inv (s_db (cl_server sample_cluster))" using sample_inv by (simp add: sample_cluster_def store_inv_def)
  have j: "?j \<in> set (d_jobs (s_db (cl_server sample_cluster)))" "lease_expired 8000 ?j"
    by (simp_all add: sample_cluster_def sample_defs lease_expired_def)
  have "\<forall>j \<in> set (d_jobs (s_db (cl_server sample_cluster))). lease_expired (sql_now (calm 8000)) j \<longrightarrow>
      j_scheduled_at j \<le> sql_now (calm 9000) \<longrightarrow> j_run_id j \<notin> set (locked (calm 9000)) \<longrightarrow>
      leasable (calm 9000) [j_region j] (j\<lparr>j_status := Ready, j_lease_expires_at := None, j_worker_id := None\<rparr>)"
    using reaper_reclaims [OF i, of "calm 8000" 1 1 "calm 9000"] by (simp add: sample_cluster_def)
  then have "leasable (calm 9000) [j_region ?j] (?j\<lparr>j_status := Ready, j_lease_expires_at := None, j_worker_id := None\<rparr>)"
    by (elim ballE [of _ _ ?j]) (use j in \<open>simp_all add: sample_job_def\<close>)
  then show ?thesis by (simp add: sample_job_def)
qed

end
