(* ===== verification/Session.thy ===== *)
theory Session
  imports Go_Hash Store_Types
begin

text \<open>
  \<open>auth/session/middleware.go\<close>: the session of a browser's request. The tables \<open>session\<close> and
  \<open>user\<close> belong to the web application; their join, as the query reads it, is a list of rows.
  A request is the value of its Authorization header (the empty string if it has none) and its
  cookies in order. Then \<open>api/user/service.go\<close>, which echoes the session's user.
\<close>

record session_user =
  su_id :: string
  su_name :: string
  su_email :: string
  su_email_verified :: bool
  su_image :: "string option"
  su_created_at :: time
  su_updated_at :: time

record session_row =
  ss_id :: string
  ss_expires_at :: time
  ss_token :: string
  ss_created_at :: time
  ss_updated_at :: time
  ss_ip_address :: "string option"
  ss_user_agent :: "string option"
  ss_user :: session_user

datatype session_error = Missing_Signature | No_Secret | Bad_Signature | Not_Found | Query_Failed

definition session_signature :: "string \<Rightarrow> string \<Rightarrow> string" where
  "session_signature secret tokenId = base64_encode (hmac_sha256 secret tokenId)"

definition VerifySession ::
  "outcome \<Rightarrow> time \<Rightarrow> string \<Rightarrow> session_row list \<Rightarrow> string \<Rightarrow> session_error + session_row" where
  "VerifySession n now secret rows sessionToken =
     (case split_n2 (CHR ''.'') sessionToken of
        [tokenId, providedSignature] \<Rightarrow>
          if secret = [] then Inl No_Secret
          else if session_signature secret tokenId \<noteq> providedSignature then Inl Bad_Signature
          else if n \<noteq> Served then Inl Query_Failed
          else
            (case first_row (filter (\<lambda>r. ss_token r = tokenId \<and> now < ss_expires_at r) rows) of
               Inl _ \<Rightarrow> Inl Not_Found
             | Inr r \<Rightarrow> Inr r)
      | _ \<Rightarrow> Inl Missing_Signature)"

section \<open>The token of a request\<close>

definition extractSessionFromHeaders :: "string \<Rightarrow> string" where
  "extractSessionFromHeaders authHeader =
     (if authHeader = [] then []
      else (case split_n2 (CHR '' '') authHeader of
              [scheme, token] \<Rightarrow> if scheme \<noteq> ''Bearer'' then [] else token
            | _ \<Rightarrow> []))"

text \<open>\<open>url.PathUnescape\<close>: \<open>None\<close> for a percent sign without two hexadecimal digits.\<close>

fun path_unescape :: "string \<Rightarrow> string option" where
  "path_unescape [] = Some []"
| "path_unescape (c # s) =
     (if c \<noteq> CHR 0x25 then map_option (Cons c) (path_unescape s)
      else (case s of
              a # b # t \<Rightarrow>
                (case (hex_value a, hex_value b, path_unescape t) of
                   (Some x, Some y, Some r) \<Rightarrow> Some (char_of (16 * x + y) # r)
                 | _ \<Rightarrow> None)
            | _ \<Rightarrow> None))"

definition validCookieNames :: "string list" where
  "validCookieNames =
     [''__Host-openseer.session_token'', ''__Secure-openseer.session_token'', ''openseer.session_token'']"

text \<open>What is left of a cookie's value: unescaped, unquoted, trimmed.\<close>

definition cookie_value :: "string \<Rightarrow> string" where
  "cookie_value value =
     (let v1 = (if CHR 0x25 \<in> set value
                then (case path_unescape value of None \<Rightarrow> value | Some d \<Rightarrow> d) else value);
          v2 = (if 2 \<le> length v1 \<and> hd v1 = CHR 0x22 \<and> last v1 = CHR 0x22
                then butlast (tl v1) else v1)
      in trim_space v2)"

text \<open>The first cookie of a name counts (\<open>map_of\<close>), and the first name with a value.\<close>

fun first_cookie :: "(string \<times> string) list \<Rightarrow> string list \<Rightarrow> string" where
  "first_cookie cookies [] = []"
| "first_cookie cookies (name # names) =
     (case map_of cookies name of
        None \<Rightarrow> first_cookie cookies names
      | Some value \<Rightarrow>
          if value = [] then first_cookie cookies names
          else if cookie_value value = [] then first_cookie cookies names
          else cookie_value value)"

definition extractSessionFromCookies :: "(string \<times> string) list \<Rightarrow> string" where
  "extractSessionFromCookies cookies = first_cookie cookies validCookieNames"

definition ExtractSessionToken :: "string \<Rightarrow> (string \<times> string) list \<Rightarrow> string" where
  "ExtractSessionToken authHeader cookies =
     (let token = extractSessionFromHeaders authHeader
      in if token \<noteq> [] then token else extractSessionFromCookies cookies)"

text \<open>\<open>WithSession\<close>: the user that the handlers find in the context.\<close>

definition WithSession ::
  "outcome \<Rightarrow> time \<Rightarrow> string \<Rightarrow> session_row list \<Rightarrow> string \<Rightarrow> (string \<times> string) list \<Rightarrow> session_user option" where
  "WithSession n now secret rows authHeader cookies =
     (let token = ExtractSessionToken authHeader cookies
      in if token = [] then None
         else (case VerifySession n now secret rows token of
                 Inl _ \<Rightarrow> None
               | Inr sess \<Rightarrow> Some (ss_user sess)))"

record user_message =
  um_id :: string
  um_email :: string
  um_name :: string
  um_image :: "string option"
  um_created_at :: time
  um_updated_at :: time

definition GetUserProfile :: "session_user option \<Rightarrow> rpc_code + user_message" where
  "GetUserProfile ctx =
     (case ctx of
        None \<Rightarrow> Inl Unauthenticated
      | Some user \<Rightarrow>
          Inr \<lparr>um_id = su_id user, um_email = su_email user, um_name = su_name user,
               um_image = (case su_image user of None \<Rightarrow> None | Some i \<Rightarrow> if i \<noteq> [] then Some i else None),
               um_created_at = su_created_at user, um_updated_at = su_updated_at user\<rparr>)"

section \<open>Facts\<close>

lemma split_n2_two:
  "split_n2 sep s = [a, b] \<Longrightarrow> s = a @ sep # b \<and> sep \<notin> set a"
  using split_n2_cases [of sep s] by auto

lemma VerifySession_Inr:
  assumes "VerifySession n now secret rows token = Inr r"
  shows "r \<in> set rows \<and> now < ss_expires_at r \<and> secret \<noteq> []
    \<and> token = ss_token r @ CHR ''.'' # session_signature secret (ss_token r)"
proof -
  obtain a b where ab: "split_n2 (CHR ''.'') token = [a, b]"
    using assms split_n2_cases [of "CHR ''.''" token] by (auto simp: VerifySession_def)
  have c: "secret \<noteq> []" "session_signature secret a = b"
    using assms ab by (auto simp: VerifySession_def split: if_splits)
  have "first_row (filter (\<lambda>r. ss_token r = a \<and> now < ss_expires_at r) rows) = Inr r"
    using assms ab c by (auto simp: VerifySession_def split: if_splits sum.splits)
  then have "r \<in> set rows" "ss_token r = a" "now < ss_expires_at r" by (auto dest!: first_row_Inr)
  with c split_n2_two [OF ab] show ?thesis by simp
qed

text \<open>
  C32. A session is authentic: the middleware puts a user into the context only if the token
  that the request carries is a token id of a row that has not expired followed by the
  signature of that very id under the configured, non-empty secret, and the user is that row's.
\<close>

theorem session_authentic:
  assumes "WithSession n now secret rows authHeader cookies = Some user"
  shows "\<exists>r \<in> set rows. ss_user r = user \<and> now < ss_expires_at r \<and> secret \<noteq> []
     \<and> ExtractSessionToken authHeader cookies = ss_token r @ CHR ''.'' # session_signature secret (ss_token r)"
proof -
  let ?t = "ExtractSessionToken authHeader cookies"
  obtain r where "VerifySession n now secret rows ?t = Inr r" "ss_user r = user"
    using assms by (auto simp: WithSession_def Let_def split: if_splits sum.splits)
  with VerifySession_Inr show ?thesis by blast
qed

text \<open>
  A signed session is accepted: for a live row whose token id holds no dot and is unique, the
  token id with its signature, sent as a bearer token or as the session cookie, brings the row's
  user into the context, the query being served.
\<close>

theorem signed_session_accepted:
  assumes r: "r \<in> set rows" "now < ss_expires_at r" and uniq: "distinct (map ss_token rows)"
    and dot: "CHR ''.'' \<notin> set (ss_token r)" and secret: "secret \<noteq> []"
  shows "WithSession Served now secret rows
     (''Bearer '' @ ss_token r @ CHR ''.'' # session_signature secret (ss_token r)) cookies = Some (ss_user r)"
proof -
  let ?t = "ss_token r @ CHR ''.'' # session_signature secret (ss_token r)"
  have "split_n2 (CHR '' '') (''Bearer'' @ CHR '' '' # ?t) = [''Bearer'', ?t]"
    by (rule split_n2_sep) simp
  then have "extractSessionFromHeaders (''Bearer '' @ ?t) = ?t"
    by (simp add: extractSessionFromHeaders_def)
  then have ext: "ExtractSessionToken (''Bearer '' @ ?t) cookies = ?t"
    by (simp add: ExtractSessionToken_def Let_def)
  have "first_row (filter (\<lambda>x. ss_token x = ss_token r \<and> now < ss_expires_at x) rows) = Inr r"
    using first_row_key [OF uniq r(1) refl, of "\<lambda>x. now < ss_expires_at x"] r(2) by simp
  then have "VerifySession Served now secret rows ?t = Inr r"
    using split_n2_sep [OF dot] secret by (simp add: VerifySession_def)
  with ext show ?thesis by (simp add: WithSession_def Let_def)
qed

definition sample_session :: session_row where
  "sample_session = \<lparr>ss_id = ''1'', ss_expires_at = 100, ss_token = ''t'', ss_created_at = 0, ss_updated_at = 0,
     ss_ip_address = None, ss_user_agent = None,
     ss_user = \<lparr>su_id = ''alice'', su_name = ''A'', su_email = ''a@x'', su_email_verified = True,
                su_image = None, su_created_at = 0, su_updated_at = 0\<rparr>\<rparr>"

lemma sample_session_accepted:
  "WithSession Served 50 ''k'' [sample_session] (''Bearer t.'' @ session_signature ''k'' ''t'') []
     = Some (ss_user sample_session)"
proof -
  have "split_n2 (CHR '' '') (''Bearer'' @ CHR '' '' # (''t.'' @ session_signature ''k'' ''t''))
      = [''Bearer'', ''t.'' @ session_signature ''k'' ''t'']" by (rule split_n2_sep) simp
  then show ?thesis
    by (simp add: WithSession_def ExtractSessionToken_def extractSessionFromHeaders_def Let_def VerifySession_def sample_session_def)
qed

theorem session_authentic_witness:
  "\<exists>r \<in> set [sample_session]. (50::int) < ss_expires_at r"
  using session_authentic [OF sample_session_accepted] by auto

theorem signed_session_accepted_witness:
  "WithSession Served 50 ''k'' [sample_session]
     (''Bearer '' @ ss_token sample_session @ CHR ''.'' # session_signature ''k'' (ss_token sample_session)) []
   = Some (ss_user sample_session)"
  by (rule signed_session_accepted) (simp_all add: sample_session_def)

end
