(* ===== verification/Tokens.thy ===== *)
theory Tokens
  imports Go_Hash
begin

text \<open>
  \<open>internal/pkg/auth/auth.go\<close>: worker API tokens. The random bytes of \<open>crypto/rand\<close> are
  an argument, \<open>None\<close> where \<open>rand.Read\<close> fails.
\<close>

definition tokenPrefix :: string where "tokenPrefix = ''ostk_''"

definition HashToken :: "string \<Rightarrow> string" where
  "HashToken token = hex_encode (sha256 token)"

definition GenerateAPIToken :: "string option \<Rightarrow> (string \<times> string) option" where
  "GenerateAPIToken rand =
     (case rand of
        None \<Rightarrow> None
      | Some bytes \<Rightarrow>
          (let token = tokenPrefix @ hex_encode bytes in Some (token, HashToken token)))"

definition ValidateTokenFormat :: "string \<Rightarrow> bool" where
  "ValidateTokenFormat token =
     (if \<not> has_prefix tokenPrefix token then False
      else
        (let hexPart = trim_prefix tokenPrefix token
         in if length hexPart \<noteq> 64 then False else hex_decode hexPart \<noteq> None))"

lemma HashToken_length [simp]: "length (HashToken t) = 64"
  by (simp add: HashToken_def)

lemma HashToken_nonempty [simp]: "HashToken t \<noteq> []"
  using HashToken_length [of t] by (metis list.size(3) zero_neq_numeral)

lemma generated_token:
  assumes "length bytes = 32"
  shows "GenerateAPIToken (Some bytes) = Some (tokenPrefix @ hex_encode bytes, HashToken (tokenPrefix @ hex_encode bytes))"
    and "ValidateTokenFormat (tokenPrefix @ hex_encode bytes)"
  using assms by (simp_all add: GenerateAPIToken_def ValidateTokenFormat_def hex_round Let_def)

text \<open>
  Round trip of a token: what \<open>GenerateAPIToken\<close> returns for 32 random bytes passes
  \<open>ValidateTokenFormat\<close>, comes with its own hash, and determines the random bytes.
\<close>

theorem generate_token_valid:
  assumes "length bytes = 32" and "GenerateAPIToken (Some bytes) = Some (token, hash)"
  shows "ValidateTokenFormat token \<and> hash = HashToken token \<and> length hash = 64
     \<and> hex_decode (trim_prefix tokenPrefix token) = Some bytes"
  using assms generated_token by (auto simp: hex_round)

theorem generate_token_valid_witness:
  "ValidateTokenFormat (tokenPrefix @ hex_encode (replicate 32 (CHR 0x41)))"
  using generate_token_valid [OF _ generated_token(1), of "replicate 32 (CHR 0x41)"] by simp

end
