(* ===== verification/Token_Auth.thy ===== *)
theory Token_Auth
  imports Server Tokens
begin

text \<open>
  \<open>middleware/token_auth.go\<close>: from the Authorization header of a worker's request to its
  worker id, through the cache when there is one. The value the middleware puts into the
  request's context is an option.
\<close>

definition parseBearerToken :: "string \<Rightarrow> rpc_code + string" where
  "parseBearerToken authHeader =
     (if authHeader = [] then Inl Unauthenticated
      else if \<not> has_prefix ''Bearer '' authHeader then Inl Unauthenticated
      else
        (let token = trim_prefix ''Bearer '' authHeader
         in if \<not> ValidateTokenFormat token then Inl Unauthenticated else Inr token))"

definition cache_lookup :: "time \<Rightarrow> string \<Rightarrow> server \<Rightarrow> string option \<times> server" where
  "cache_lookup now h s =
     (case s_cache s of
        None \<Rightarrow> (None, s)
      | Some c \<Rightarrow> (case cache_Get now h c of (r, c') \<Rightarrow> (r, s\<lparr>s_cache := Some c'\<rparr>)))"

definition cache_store :: "time \<Rightarrow> string \<Rightarrow> string \<Rightarrow> server \<Rightarrow> server" where
  "cache_store now h w s = s\<lparr>s_cache := map_option (cache_Set now h w) (s_cache s)\<rparr>"

definition cache_drop :: "string \<Rightarrow> server \<Rightarrow> server" where
  "cache_drop w s = s\<lparr>s_cache := map_option (InvalidateWorker w) (s_cache s)\<rparr>"

definition authenticateWorkerToken :: "env \<Rightarrow> string \<Rightarrow> server \<Rightarrow> (rpc_code + string) \<times> server" where
  "authenticateWorkerToken e authHeader s =
     (case parseBearerToken authHeader of
        Inl err \<Rightarrow> (Inl err, s)
      | Inr token \<Rightarrow>
          (let h = HashToken token
           in case cache_lookup (go_now e) h s of
                (Some w, s1) \<Rightarrow> (Inr w, s1)
              | (None, s1) \<Rightarrow>
                  (case sql (net e Q_GetWorkerByTokenHash h) (GetWorkerByTokenHash h) s1 of
                     (Inl _, s2) \<Rightarrow> (Inl Unauthenticated, s2)
                   | (Inr worker, s2) \<Rightarrow>
                       (Inr (w_id worker), cache_store (go_now e) h (w_id worker) s2))))"

text \<open>The HTTP handler around the worker service: 401, or the service with the id in the context.\<close>

type_synonym 'r handler = "string option \<Rightarrow> server \<Rightarrow> (rpc_code + 'r) \<times> server"

definition TokenAuthHandlerWithCache ::
  "env \<Rightarrow> string \<Rightarrow> 'r handler \<Rightarrow> server \<Rightarrow> (rpc_code + 'r) \<times> server" where
  "TokenAuthHandlerWithCache e authHeader next_handler s =
     (case authenticateWorkerToken e authHeader s of
        (Inl _, s') \<Rightarrow> (Inl Unauthenticated, s')
      | (Inr w, s') \<Rightarrow> next_handler (Some w) s')"

text \<open>Without a cache: the pointer handed on is nil, and the process's own cache is not touched.\<close>

definition with_nil_cache :: "(server \<Rightarrow> 'a \<times> server) \<Rightarrow> server \<Rightarrow> 'a \<times> server" where
  "with_nil_cache f s = (case f (s\<lparr>s_cache := None\<rparr>) of (r, s') \<Rightarrow> (r, s'\<lparr>s_cache := s_cache s\<rparr>))"

definition TokenAuthHandler :: "env \<Rightarrow> string \<Rightarrow> 'r handler \<Rightarrow> server \<Rightarrow> (rpc_code + 'r) \<times> server" where
  "TokenAuthHandler e authHeader next_handler s =
     (case with_nil_cache (authenticateWorkerToken e authHeader) s of
        (Inl _, s') \<Rightarrow> (Inl Unauthenticated, s')
      | (Inr w, s') \<Rightarrow> next_handler (Some w) s')"

text \<open>The same as interceptors of connect: a refusal is the error itself.\<close>

definition TokenAuthInterceptorWithCache ::
  "env \<Rightarrow> string \<Rightarrow> 'r handler \<Rightarrow> server \<Rightarrow> (rpc_code + 'r) \<times> server" where
  "TokenAuthInterceptorWithCache e authHeader next_handler s =
     (case authenticateWorkerToken e authHeader s of
        (Inl err, s') \<Rightarrow> (Inl err, s')
      | (Inr w, s') \<Rightarrow> next_handler (Some w) s')"

definition TokenAuthInterceptor :: "env \<Rightarrow> string \<Rightarrow> 'r handler \<Rightarrow> server \<Rightarrow> (rpc_code + 'r) \<times> server" where
  "TokenAuthInterceptor e authHeader next_handler s =
     (case with_nil_cache (authenticateWorkerToken e authHeader) s of
        (Inl err, s') \<Rightarrow> (Inl err, s')
      | (Inr w, s') \<Rightarrow> next_handler (Some w) s')"

section \<open>Facts\<close>

text \<open>
  A cache is in step with the database when each of its entries names a worker whose row
  holds that token and is not revoked.
\<close>

definition token_of :: "db \<Rightarrow> string \<Rightarrow> string \<Rightarrow> bool" where
  "token_of d h w \<longleftrightarrow> (\<exists>x \<in> set (d_workers d). w_id x = w \<and> token_usable h x)"

definition cache_ok :: "server \<Rightarrow> bool" where
  "cache_ok s \<longleftrightarrow> (case s_cache s of None \<Rightarrow> True | Some c \<Rightarrow> wac.all_entries (token_of (s_db s)) c)"

lemma cache_lookup_ok:
  assumes "cache_ok s"
  shows "cache_ok (snd (cache_lookup now h s))" "s_db (snd (cache_lookup now h s)) = s_db s"
    "s_hb (snd (cache_lookup now h s)) = s_hb s"
    "fst (cache_lookup now h s) = Some w \<Longrightarrow> token_of (s_db s) h w"
proof -
  show "cache_ok (snd (cache_lookup now h s))" "s_db (snd (cache_lookup now h s)) = s_db s"
    "s_hb (snd (cache_lookup now h s)) = s_hb s"
    using assms wac.all_entries_get [of "token_of (s_db s)" _ now h]
    by (auto simp: cache_ok_def cache_lookup_def split: option.splits prod.splits) (metis snd_conv)+
  show "token_of (s_db s) h w" if "fst (cache_lookup now h s) = Some w"
    using assms that wac.all_entries_hit [of "token_of (s_db s)" _ now h w]
    by (auto simp: cache_ok_def cache_lookup_def split: option.splits prod.splits)
qed

lemma cache_store_sel [simp]: "s_db (cache_store now h w s) = s_db s" "s_hb (cache_store now h w s) = s_hb s"
  by (simp_all add: cache_store_def)

lemma cache_drop_sel [simp]: "s_db (cache_drop w s) = s_db s" "s_hb (cache_drop w s) = s_hb s"
  by (simp_all add: cache_drop_def)

lemma cache_store_ok: "cache_ok s \<Longrightarrow> token_of (s_db s) h w \<Longrightarrow> cache_ok (cache_store now h w s)"
  by (auto simp: cache_ok_def cache_store_def wac.all_entries_put split: option.splits)

text \<open>Dropping a worker's entries: only the other workers' tokens need to be in step.\<close>

lemma cache_drop_ok:
  assumes "cache_ok s0" and "s_cache s = s_cache s0"
    and "\<And>h w'. w' \<noteq> w \<Longrightarrow> token_of (s_db s0) h w' \<Longrightarrow> token_of (s_db s) h w'"
  shows "cache_ok (cache_drop w s)"
  using assms wac.all_entries_invalidate [of "token_of (s_db s0)" _ w "token_of (s_db s)"]
  by (auto simp: cache_ok_def cache_drop_def split: option.splits)

lemma token_of_cong: "d_workers d = d_workers d0 \<Longrightarrow> token_of d = token_of d0"
  by (intro ext) (simp add: token_of_def)

lemma cache_ok_cong:
  assumes "cache_ok s0" and "s_cache s = s_cache s0" and "d_workers (s_db s) = d_workers (s_db s0)"
  shows "cache_ok s"
  using assms(1,2) token_of_cong [OF assms(3)] by (simp add: cache_ok_def split: option.splits)

lemma GetWorkerByTokenHash_state [simp]: "snd (GetWorkerByTokenHash h d) = d"
  by (simp add: GetWorkerByTokenHash_def)

lemma authenticate_cases:
  assumes ok: "cache_ok s" and res: "authenticateWorkerToken e hdr s = (r, s')"
  shows "cache_ok s' \<and> s_db s' = s_db s \<and> s_hb s' = s_hb s
     \<and> (\<forall>w. r = Inr w \<longrightarrow> (\<exists>token. parseBearerToken hdr = Inr token \<and> token_of (s_db s) (HashToken token) w))"
proof (cases "parseBearerToken hdr")
  case (Inl err)
  with ok res show ?thesis by (auto simp: authenticateWorkerToken_def)
next
  case (Inr token)
  note tok = this
  let ?h = "HashToken token"
  obtain r1 s1 where l: "cache_lookup (go_now e) ?h s = (r1, s1)" by (cases "cache_lookup (go_now e) ?h s")
  note lok = cache_lookup_ok [OF ok, of "go_now e" ?h, unfolded l, simplified]
  show ?thesis
  proof (cases r1)
    case (Some w)
    then have "r = Inr w" "s' = s1"
      using tok res l by (simp_all add: authenticateWorkerToken_def Let_def)
    with lok Some tok show ?thesis by simp
  next
    case None
    obtain r2 s2 where q: "sql (net e Q_GetWorkerByTokenHash ?h) (GetWorkerByTokenHash ?h) s1 = (r2, s2)"
      by (cases "sql (net e Q_GetWorkerByTokenHash ?h) (GetWorkerByTokenHash ?h) s1")
    have s2: "s_db s2 = s_db s" "s_hb s2 = s_hb s"
      using sql_read [of "GetWorkerByTokenHash ?h" "net e Q_GetWorkerByTokenHash ?h" s1] q lok(2,3)
        sql_eq [OF q] by simp_all
    have ok1: "cache_ok s2" using cache_ok_cong [OF lok(1), of s2] s2 lok(2) sql_eq [OF q] by simp
    show ?thesis
    proof (cases r2)
      case (Inl err)
      then have "r = Inl Unauthenticated" "s' = s2"
        using None tok res l q by (simp_all add: authenticateWorkerToken_def Let_def)
      with ok1 s2 show ?thesis by simp
    next
      case (Inr worker)
      have res': "r = Inr (w_id worker)" "s' = cache_store (go_now e) ?h (w_id worker) s2"
        using None Inr tok res l q by (simp_all add: authenticateWorkerToken_def Let_def)
      have "GetWorkerByTokenHash ?h (s_db s1) = (Inr worker, s_db s2)"
        using sql_Inr [OF q [unfolded Inr]] by simp
      then have t: "token_of (s_db s) ?h (w_id worker)"
        using lok(2) by (auto simp: token_of_def dest!: GetWorkerByTokenHash_Inr)
      with ok1 s2 have "cache_ok s'" by (simp add: res' cache_store_ok)
      with res' s2 t tok show ?thesis by simp
    qed
  qed
qed

text \<open>The holder of a token that no other row has is let in, from the cache or the database.\<close>

lemma authenticate_sole:
  assumes ok: "cache_ok s" "token_of (s_db s) (HashToken tok) i"
    and sole: "\<forall>y \<in> set (d_workers (s_db s)). w_token_hash y = Some (HashToken tok) \<longrightarrow> w_id y = i"
    and tok: "parseBearerToken hdr = Inr tok" and served: "net e Q_GetWorkerByTokenHash (HashToken tok) = Served"
  obtains s1 where "authenticateWorkerToken e hdr s = (Inr i, s1)" and "s_db s1 = s_db s"
proof -
  let ?h = "HashToken tok"
  have sole': "token_of (s_db s) ?h w \<Longrightarrow> w = i" for w
    using sole by (auto simp: token_of_def token_usable_def)
  obtain r s1 where a: "authenticateWorkerToken e hdr s = (r, s1)" by (cases "authenticateWorkerToken e hdr s")
  note au = authenticate_cases [OF ok(1) a]
  obtain r1 s2 where l: "cache_lookup (go_now e) ?h s = (r1, s2)" by (cases "cache_lookup (go_now e) ?h s")
  have db: "s_db s2 = s_db s" using cache_lookup_ok(2) [OF ok(1), of "go_now e" ?h] l by simp
  obtain y where "GetWorkerByTokenHash ?h (s_db s) = (Inr y, s_db s)"
  proof -
    from ok(2) obtain y where "y \<in> set (d_workers (s_db s))" "token_usable ?h y" by (auto simp: token_of_def)
    then have "filter (token_usable ?h) (d_workers (s_db s)) \<noteq> []" by (auto simp: filter_empty_conv)
    with that show thesis
      by (cases "filter (token_usable ?h) (d_workers (s_db s))") (auto simp: GetWorkerByTokenHash_def)
  qed
  with a l tok served db have "\<exists>w. r = Inr w"
    by (cases r1) (auto simp: authenticateWorkerToken_def Let_def)
  with au tok sole' have "r = Inr i" by auto
  with that a au show thesis by blast
qed

text \<open>Interceptor and handler let the same requests through: a refusal has one code only.\<close>

lemma parse_refuses: "parseBearerToken hdr = Inl err \<Longrightarrow> err = Unauthenticated"
  by (auto simp: parseBearerToken_def Let_def split: if_splits)

lemma authenticate_refuses: "authenticateWorkerToken e hdr s = (Inl err, s') \<Longrightarrow> err = Unauthenticated"
  by (auto simp: authenticateWorkerToken_def Let_def dest: parse_refuses split: sum.splits prod.splits option.splits)

theorem interceptor_as_handler:
  "TokenAuthInterceptorWithCache e hdr h s = TokenAuthHandlerWithCache e hdr h s"
  "TokenAuthInterceptor e hdr h s = TokenAuthHandler e hdr h s"
  by (auto simp: TokenAuthInterceptorWithCache_def TokenAuthHandlerWithCache_def TokenAuthInterceptor_def
      TokenAuthHandler_def with_nil_cache_def dest: authenticate_refuses split: prod.split sum.split)

text \<open>
  Without the cache a request gets through only on a token that is usable in the database at
  that moment, with no assumption on what the cache holds.
\<close>

theorem uncached_is_current:
  assumes "with_nil_cache (authenticateWorkerToken e hdr) s = (Inr w, s')"
  shows "\<exists>token. parseBearerToken hdr = Inr token \<and> token_of (s_db s) (HashToken token) w"
proof -
  obtain r s1 where a: "authenticateWorkerToken e hdr (s\<lparr>s_cache := None\<rparr>) = (r, s1)"
    by (cases "authenticateWorkerToken e hdr (s\<lparr>s_cache := None\<rparr>)")
  have "cache_ok (s\<lparr>s_cache := None\<rparr>)" by (simp add: cache_ok_def)
  from authenticate_cases [OF this a] assms a show ?thesis by (simp add: with_nil_cache_def)
qed

end
