(* ===== verification/Go_JSON.thy ===== *)
theory Go_JSON
  imports Go_Strings
begin

text \<open>
  \<open>json.Unmarshal\<close> of \<open>encoding/json\<close> into a \<open>map[string]string\<close>, as far as the
  program can tell it apart: the caller treats every error alike, so the model parses the
  documents that succeed (an object whose values are strings or \<open>null\<close>, or a top-level
  \<open>null\<close>) and answers \<open>None\<close> to every other text.
\<close>

definition json_space :: "char \<Rightarrow> bool" where
  "json_space c \<longleftrightarrow> (of_char c :: nat) \<in> {32, 9, 10, 13}"

definition json_skip :: "string \<Rightarrow> string" where
  "json_skip s = dropWhile json_space s"

definition hex4 :: "char \<Rightarrow> char \<Rightarrow> char \<Rightarrow> char \<Rightarrow> nat option" where
  "hex4 a b c d =
     (case (hex_value a, hex_value b, hex_value c, hex_value d) of
        (Some w, Some x, Some y, Some z) \<Rightarrow> Some (((w * 16 + x) * 16 + y) * 16 + z)
      | _ \<Rightarrow> None)"

definition utf8 :: "nat \<Rightarrow> string" where
  "utf8 n =
     (if n < 128 then [char_of n]
      else if n < 2048 then [char_of (192 + n div 64), char_of (128 + n mod 64)]
      else if n < 65536
      then [char_of (224 + n div 4096), char_of (128 + n div 64 mod 64), char_of (128 + n mod 64)]
      else [char_of (240 + n div 262144), char_of (128 + n div 4096 mod 64),
            char_of (128 + n div 64 mod 64), char_of (128 + n mod 64)])"

text \<open>
  The text after \<open>\u\<close> and its four digits, when it is the second half of a surrogate pair:
  the code point of the pair and the rest.
\<close>

fun low_surrogate :: "nat \<Rightarrow> string \<Rightarrow> (nat \<times> string) option" where
  "low_surrogate hi (x # u # a # b # c # d # s) =
     (if 55296 \<le> hi \<and> hi < 56320 \<and> x = CHR 0x5C \<and> u = CHR ''u'' then
        (case hex4 a b c d of
           Some lo \<Rightarrow> if 56320 \<le> lo \<and> lo < 57344
                      then Some (65536 + (hi - 55296) * 1024 + (lo - 56320), s) else None
         | None \<Rightarrow> None)
      else None)"
| "low_surrogate hi _ = None"

definition code_unit :: "nat \<Rightarrow> string" where
  "code_unit n = (if 55296 \<le> n \<and> n < 57344 then utf8 65533 else utf8 n)"

definition json_escape :: "char \<Rightarrow> char option" where
  "json_escape c =
     (if c = CHR 0x22 \<or> c = CHR 0x5C \<or> c = CHR 0x2F then Some c
      else if c = CHR ''b'' then Some (CHR 0x08) else if c = CHR ''f'' then Some (CHR 0x0C)
      else if c = CHR ''n'' then Some (CHR 0x0A) else if c = CHR ''r'' then Some (CHR 0x0D)
      else if c = CHR ''t'' then Some (CHR 0x09) else None)"

text \<open>One piece of a string literal: its bytes and the rest; \<open>None\<close> on a bad one.\<close>

fun json_piece :: "string \<Rightarrow> (string \<times> string) option" where
  "json_piece [] = None"
| "json_piece (c # s) =
     (if c = CHR 0x5C then
        (case s of
           [] \<Rightarrow> None
         | x # s1 \<Rightarrow>
             if x = CHR ''u'' then
               (case s1 of
                  a # b # c' # d # s2 \<Rightarrow>
                    (case hex4 a b c' d of
                       None \<Rightarrow> None
                     | Some n \<Rightarrow>
                         (case low_surrogate n s2 of
                            Some (p, s3) \<Rightarrow> Some (utf8 p, s3)
                          | None \<Rightarrow> Some (code_unit n, s2)))
                | _ \<Rightarrow> None)
             else (case json_escape x of None \<Rightarrow> None | Some y \<Rightarrow> Some ([y], s1)))
      else if (of_char c :: nat) < 32 then None
      else Some ([c], s))"

lemma low_surrogate_shorter: "low_surrogate hi s = Some (p, r) \<Longrightarrow> length r < length s"
  by (induction hi s rule: low_surrogate.induct) (auto split: option.splits if_splits)

lemma json_piece_shorter: "json_piece s = Some (p, r) \<Longrightarrow> length r < length s"
  by (cases s) (auto split: option.splits if_splits list.splits dest!: low_surrogate_shorter)

declare json_piece.simps [simp del]

text \<open>The body of a string literal, after its opening quote.\<close>

function json_body :: "string \<Rightarrow> (string \<times> string) option" where
  "json_body s =
     (case s of
        [] \<Rightarrow> None
      | c # t \<Rightarrow>
          if c = CHR 0x22 then Some ([], t)
          else (case json_piece s of
                  None \<Rightarrow> None
                | Some (p, r) \<Rightarrow>
                    (case json_body r of
                       None \<Rightarrow> None
                     | Some (body, rest) \<Rightarrow> Some (p @ body, rest))))"
  by pat_completeness auto
termination
  by (relation "measure length") (auto dest!: json_piece_shorter)

declare json_body.simps [simp del]

lemma json_body_shorter: "json_body s = Some (b, r) \<Longrightarrow> length r < length s"
proof (induction s arbitrary: b r rule: json_body.induct)
  case (1 s)
  show ?case
  proof (cases s)
    case Nil
    with "1.prems" show ?thesis by (simp add: json_body.simps)
  next
    case (Cons c t)
    show ?thesis
    proof (cases "c = CHR 0x22")
      case True
      with "1.prems" Cons show ?thesis by (simp add: json_body.simps)
    next
      case False
      with "1.prems" Cons obtain p q b' where
        p: "json_piece s = Some (p, q)" "json_body q = Some (b', r)"
        by (auto simp: json_body.simps [of "c # t"] split: option.splits)
      then have "length r < length q" using "1.IH" Cons False by blast
      with json_piece_shorter [OF p(1)] show ?thesis by simp
    qed
  qed
qed

text \<open>A value of the map: a string, or \<open>null\<close>, which leaves the zero value.\<close>

definition json_value :: "string \<Rightarrow> (string \<times> string) option" where
  "json_value s =
     (case s of
        [] \<Rightarrow> None
      | c # t \<Rightarrow> if c = CHR 0x22 then json_body t
                 else if has_prefix ''null'' s then Some ([], drop 4 s) else None)"

text \<open>\<open>"key" : value\<close> with the white space around it.\<close>

definition json_member :: "string \<Rightarrow> ((string \<times> string) \<times> string) option" where
  "json_member s =
     (case json_skip s of
        [] \<Rightarrow> None
      | q # t \<Rightarrow>
          if q \<noteq> CHR 0x22 then None
          else (case json_body t of
                  None \<Rightarrow> None
                | Some (k, r) \<Rightarrow>
                    (case json_skip r of
                       [] \<Rightarrow> None
                     | c # r1 \<Rightarrow>
                         if c \<noteq> CHR 0x3A then None
                         else (case json_value (json_skip r1) of
                                 None \<Rightarrow> None
                               | Some (v, r2) \<Rightarrow> Some ((k, v), json_skip r2)))))"

lemma json_skip_le: "length (json_skip s) \<le> length s"
  by (simp add: json_skip_def length_dropWhile_le)

lemma json_value_le: "json_value s = Some (v, r) \<Longrightarrow> length r < length s"
  by (auto simp: json_value_def split: list.splits if_splits dest!: json_body_shorter)

lemma json_member_shorter: "json_member s = Some (kv, r) \<Longrightarrow> length r < length s"
proof -
  assume m: "json_member s = Some (kv, r)"
  then obtain q t k r0 c r1 v r2 where
    "json_skip s = q # t" "json_body t = Some (k, r0)" "json_skip r0 = c # r1"
    "json_value (json_skip r1) = Some (v, r2)" "r = json_skip r2"
    by (auto simp: json_member_def split: list.splits option.splits if_splits)
  then show ?thesis
    using json_skip_le [of s] json_body_shorter [of t k r0] json_skip_le [of r0]
      json_skip_le [of r1] json_value_le [of "json_skip r1" v r2] json_skip_le [of r2]
    by simp
qed

function json_members :: "(string \<times> string) list \<Rightarrow> string \<Rightarrow> ((string \<times> string) list \<times> string) option" where
  "json_members acc s =
     (case json_member s of
        None \<Rightarrow> None
      | Some (kv, r) \<Rightarrow>
          (case r of
             [] \<Rightarrow> None
           | c # t \<Rightarrow>
               if c = CHR 0x2C then json_members (kv # acc) t
               else if c = CHR 0x7D then Some (kv # acc, t) else None))"
  by pat_completeness auto
termination
  by (relation "measure (\<lambda>(acc, s). length s)") (auto dest!: json_member_shorter)

declare json_members.simps [simp del]

text \<open>The map as an association list, the latest binding of a key first.\<close>

definition unmarshal_string_map :: "string \<Rightarrow> (string \<times> string) list option" where
  "unmarshal_string_map s =
     (let t = json_skip s
      in if has_prefix ''null'' t then (if json_skip (drop 4 t) = [] then Some [] else None)
         else
           (case t of
              [] \<Rightarrow> None
            | c # r \<Rightarrow>
                if c \<noteq> CHR 0x7B then None
                else (case json_skip r of
                        [] \<Rightarrow> None
                      | x # r' \<Rightarrow>
                          if x = CHR 0x7D then (if json_skip r' = [] then Some [] else None)
                          else (case json_members [] r of
                                  None \<Rightarrow> None
                                | Some (kvs, rest) \<Rightarrow>
                                    if json_skip rest = [] then Some kvs else None))))"

end
