(* ===== verification/Worker_Service.thy ===== *)
theory Worker_Service
  imports Ingest Token_Auth Go_JSON Samples
begin

text \<open>
  \<open>api/worker/service.go\<close>: the RPCs of a worker. A handler takes the worker id the
  middleware left in the context (an option), the request's fields and the server's state.
  \<open>svc\<close> is the lease duration of the service; its heartbeat tracker is \<open>s_hb\<close>.
\<close>

section \<open>The service\<close>

text \<open>\<open>NewWorkerService\<close>: the lease duration and the heartbeat tracker.\<close>

definition NewWorkerService :: "duration \<Rightarrow> duration \<Rightarrow> duration \<times> heartbeat_tracker" where
  "NewWorkerService leaseDuration heartbeatMinInterval =
     ((if leaseDuration \<le> 0 then 45 * second else leaseDuration),
      newHeartbeatTracker (if heartbeatMinInterval \<le> 0 then 15 * second else heartbeatMinInterval))"

definition touchWorkerHeartbeat :: "env \<Rightarrow> string \<Rightarrow> server \<Rightarrow> server" where
  "touchWorkerHeartbeat e w s =
     (case ShouldUpdate (go_now e) w (s_hb s) of
        (False, h) \<Rightarrow> s\<lparr>s_hb := h\<rparr>
      | (True, h) \<Rightarrow>
          (case sql (net e Q_UpdateWorkerHeartbeat w) (UpdateWorkerHeartbeat (sql_now e) w) (s\<lparr>s_hb := h\<rparr>) of
             (Inl _, s') \<Rightarrow> s'\<lparr>s_hb := Invalidate w (s_hb s')\<rparr>
           | (Inr _, s') \<Rightarrow> s'))"

text \<open>The request headers of a monitor: no column, an empty or an unreadable one are no headers.\<close>

definition convertHeaders :: "string option \<Rightarrow> (string \<times> string) list" where
  "convertHeaders headersJSON =
     (case headersJSON of
        None \<Rightarrow> []
      | Some raw \<Rightarrow>
          if raw = [] then []
          else (case unmarshal_string_map raw of None \<Rightarrow> [] | Some headers \<Rightarrow> headers))"

record monitor_job =
  mj_run_id :: string
  mj_monitor_id :: string
  mj_url :: string
  mj_timeout_ms :: int
  mj_method :: string
  mj_headers :: "(string \<times> string) list"

definition api_job :: "app_job \<times> app_monitor \<Rightarrow> monitor_job" where
  "api_job jm =
     (case jm of (j, m) \<Rightarrow>
        \<lparr>mj_run_id = j_run_id j, mj_monitor_id = j_monitor_id j, mj_url = m_url m,
         mj_timeout_ms = m_timeout_ms m, mj_method = m_method m,
         mj_headers = convertHeaders (m_headers m)\<rparr>)"

definition max_jobs :: "int \<Rightarrow> int" where
  "max_jobs n = (if n \<le> 0 then 1 else n)"

definition GetJobs :: "env \<Rightarrow> duration \<Rightarrow> int \<Rightarrow> monitor_job list handler" where
  "GetJobs e svc maxJobs ctx s =
     (case ctx of
        None \<Rightarrow> (Inl Unauthenticated, s)
      | Some w \<Rightarrow>
          (case sql (net e Q_GetWorkerByID w) (GetWorkerByID w) (touchWorkerHeartbeat e w s) of
             (Inl _, s2) \<Rightarrow> (Inl NotFound, s2)
           | (Inr worker, s2) \<Rightarrow>
               (let leaseExpiresAt = go_now e + svc
                in case sql (net e Q_LeaseJobs w)
                       (LeaseJobsWithMonitorData e w (max_jobs maxJobs) (w_region worker) leaseExpiresAt) s2 of
                     (Inl _, s3) \<Rightarrow> (Inl Internal, s3)
                   | (Inr jobs, s3) \<Rightarrow> (Inr (map api_job jobs), s3))))"

definition completeJob :: "env \<Rightarrow> string \<Rightarrow> string \<Rightarrow> server \<Rightarrow> (db_error + unit) \<times> server" where
  "completeJob e w run s =
     (case sql (net e Q_CompleteJob run) (CompleteJob run w) s of
        (Inr _, s1) \<Rightarrow> (Inr (), s1)
      | (Inl err, s1) \<Rightarrow>
          if err = ErrNoRows then
            (case sql (net e Q_GetJobByRunID run) (GetJobByRunID run) s1 of
               (Inr job, s2) \<Rightarrow> if j_status job = Done then (Inr (), s2) else (Inl err, s2)
             | (Inl _, s2) \<Rightarrow> (Inl err, s2))
          else (Inl err, s1))"

record submit_response =
  sr_committed :: bool
  sr_run_id :: string

definition SubmitResult :: "env \<Rightarrow> monitor_result option \<Rightarrow> submit_response handler" where
  "SubmitResult e msg ctx s =
     (case ctx of
        None \<Rightarrow> (Inl Unauthenticated, s)
      | Some w \<Rightarrow>
          (let s1 = touchWorkerHeartbeat e w s
           in case msg of
                None \<Rightarrow> (Inl InvalidArgument, s1)
              | Some result \<Rightarrow>
                  (let (committed, s') =
                     (case ProcessResult e result s1 of
                        (Inl _, s2) \<Rightarrow> (False, s2)
                      | (Inr _, s2) \<Rightarrow>
                          (case completeJob e w (x_run_id result) s2 of
                             (Inl _, s3) \<Rightarrow> (False, s3)
                           | (Inr _, s3) \<Rightarrow> (True, s3)))
                   in (Inr \<lparr>sr_committed = committed, sr_run_id = x_run_id result\<rparr>, s'))))"

definition RenewLease :: "env \<Rightarrow> duration \<Rightarrow> string \<Rightarrow> bool handler" where
  "RenewLease e svc run ctx s =
     (case ctx of
        None \<Rightarrow> (Inl Unauthenticated, s)
      | Some w \<Rightarrow>
          (let leaseExpiresAt = go_now e + svc
           in case sql (net e Q_RenewLease run) (RenewLease_query run w leaseExpiresAt)
                   (touchWorkerHeartbeat e w s) of
                (Inl _, s2) \<Rightarrow> (Inr False, s2)
              | (Inr _, s2) \<Rightarrow> (Inr True, s2)))"

section \<open>Heartbeats\<close>

text \<open>
  A heartbeat touches only the worker's row and the tracker: the other tables are as before.
\<close>

lemma touch_sel [simp]:
  "s_cache (touchWorkerHeartbeat e w s) = s_cache s"
  "d_jobs (s_db (touchWorkerHeartbeat e w s)) = d_jobs (s_db s)"
  "d_monitors (s_db (touchWorkerHeartbeat e w s)) = d_monitors (s_db s)"
  "d_results (s_db (touchWorkerHeartbeat e w s)) = d_results (s_db s)"
  by (auto simp: touchWorkerHeartbeat_def sql_def call_def UpdateWorkerHeartbeat_def
      split: prod.splits sum.splits bool.splits outcome.splits)

lemma touch_db:
  "s_db (touchWorkerHeartbeat e w s) = s_db s
     \<or> s_db (touchWorkerHeartbeat e w s) = snd (UpdateWorkerHeartbeat (sql_now e) w (s_db s))"
  by (auto simp: touchWorkerHeartbeat_def sql_def call_def
      split: prod.splits sum.splits bool.splits outcome.splits)

lemma UpdateWorkerHeartbeat_store_inv: "store_inv d \<Longrightarrow> store_inv (snd (UpdateWorkerHeartbeat now w d))"
  by (rule store_inv_workers, assumption) (simp_all add: store_invD worker_updates_inv(3), simp_all add: UpdateWorkerHeartbeat_def)

lemma touch_inv: "store_inv (s_db s) \<Longrightarrow> store_inv (s_db (touchWorkerHeartbeat e w s))"
  using touch_db [of e w s] UpdateWorkerHeartbeat_store_inv by auto

lemma touch_workers:
  assumes "x \<in> set (d_workers (s_db (touchWorkerHeartbeat e w s)))"
  shows "\<exists>x0 \<in> set (d_workers (s_db s)). w_id x = w_id x0 \<and> w_region x = w_region x0
           \<and> w_token_hash x = w_token_hash x0"
  using touch_db [of e w s]
proof
  assume "s_db (touchWorkerHeartbeat e w s) = s_db s"
  with assms show ?thesis by auto
next
  assume "s_db (touchWorkerHeartbeat e w s) = snd (UpdateWorkerHeartbeat (sql_now e) w (s_db s))"
  with assms obtain x0 where "x0 \<in> set (d_workers (s_db s))"
    "x = x0\<lparr>w_last_seen_at := sql_now e, w_status := Active\<rparr> \<or> x = x0"
    by (auto simp: UpdateWorkerHeartbeat_def in_update_where)
  then show ?thesis by (intro bexI [of _ x0]) auto
qed

section \<open>Leasing\<close>

lemma LeaseJobsWithMonitorData_Inr:
  assumes "LeaseJobsWithMonitorData e w n region t d = (Inr jms, d')"
  obtains js where "lease_rows (lease_order region) e [region, ''global''] w n t d = (Inr js, d')"
    and "jms = [(j, m). j \<leftarrow> js, m \<leftarrow> d_monitors d, j_monitor_id j = m_id m \<and> m_deleted_at m = None]"
  using assms by (auto simp: LeaseJobsWithMonitorData_def split: prod.splits sum.splits)

lemma GetJobs_Inr:
  assumes "GetJobs e svc n (Some w) s = (Inr out, s')"
  obtains x jms where "x \<in> set (d_workers (s_db (touchWorkerHeartbeat e w s)))" and "w_id x = w"
    and "LeaseJobsWithMonitorData e w (max_jobs n) (w_region x) (go_now e + svc)
           (s_db (touchWorkerHeartbeat e w s)) = (Inr jms, s_db s')"
    and "out = map api_job jms"
proof -
  let ?s1 = "touchWorkerHeartbeat e w s"
  obtain r2 s2 where q: "sql (net e Q_GetWorkerByID w) (GetWorkerByID w) ?s1 = (r2, s2)"
    by (cases "sql (net e Q_GetWorkerByID w) (GetWorkerByID w) ?s1")
  with assms obtain x where r2: "r2 = Inr x" by (cases r2) (auto simp: GetJobs_def)
  obtain r3 s3 where l: "sql (net e Q_LeaseJobs w)
      (LeaseJobsWithMonitorData e w (max_jobs n) (w_region x) (go_now e + svc)) s2 = (r3, s3)"
    by (cases "sql (net e Q_LeaseJobs w)
      (LeaseJobsWithMonitorData e w (max_jobs n) (w_region x) (go_now e + svc)) s2")
  with assms q r2 obtain jms where r3: "r3 = Inr jms" "out = map api_job jms" "s' = s3"
    by (cases r3) (auto simp: GetJobs_def Let_def)
  have g: "GetWorkerByID w (s_db ?s1) = (Inr x, s_db s2)" using sql_Inr [OF q [unfolded r2]] by simp
  then have x: "x \<in> set (d_workers (s_db ?s1))" "w_id x = w" "s_db s2 = s_db ?s1"
    using GetWorkerByID_Inr by blast+
  have "LeaseJobsWithMonitorData e w (max_jobs n) (w_region x) (go_now e + svc) (s_db ?s1)
      = (Inr jms, s_db s')"
    using sql_Inr [OF l [unfolded r3(1)]] x(3) r3(3) by simp
  with x r3(2) that show thesis by blast
qed

text \<open>Each leased row joins at most one monitor.\<close>

lemma distinct_key_join:
  assumes "distinct (map k ms)"
  shows "length (filter (\<lambda>m. a = k m \<and> Q m) ms) \<le> 1"
  using assms by (induction ms) (auto simp: filter_empty_conv)

lemma length_join:
  assumes "\<And>j. length (filter (C j) ms) \<le> 1"
  shows "length [(j, m). j \<leftarrow> js, m \<leftarrow> ms, C j m] \<le> length js"
proof (induction js)
  case (Cons j js)
  have "concat (map (\<lambda>m. if C j m then [(j, m)] else []) xs) = map (Pair j) (filter (C j) xs)" for xs
    by (induction xs) simp_all
  then have "length (concat (map (\<lambda>m. if C j m then [(j, m)] else []) ms)) \<le> 1"
    using assms [of j] by simp
  with Cons show ?case by simp
qed simp

definition picked_for :: "env \<Rightarrow> string \<Rightarrow> int \<Rightarrow> db \<Rightarrow> app_job list" where
  "picked_for e region n d = picked_rows (lease_order region) e [region, ''global''] (max_jobs n) d"

lemma picked_for_cong: "d_jobs d = d_jobs d' \<Longrightarrow> picked_for e region n d = picked_for e region n d'"
  by (simp add: picked_for_def picked_rows_def)

lemma set_picked_for:
  assumes "j \<in> set (picked_for e region n d)"
  shows "j \<in> set (d_jobs d)" and "leasable e [region, ''global''] j"
  using assms picked_rows_leasable [OF permutes_lease_order] by (auto simp: picked_for_def)

text \<open>What a successful \<open>GetJobs\<close> did: the rows it picked, marked, and nothing else.\<close>

definition lease_effect ::
  "time \<Rightarrow> string \<Rightarrow> app_job list \<Rightarrow> db \<Rightarrow> db \<Rightarrow> monitor_job list \<Rightarrow> bool" where
  "lease_effect expires w picked d d' out \<longleftrightarrow>
     d_jobs d' = update_where (\<lambda>j. j \<in> set picked) (lease_mark w expires) (d_jobs d)
     \<and> (\<forall>y \<in> set out. \<exists>j \<in> set picked. \<exists>m \<in> set (d_monitors d).
           m_id m = j_monitor_id j \<and> m_deleted_at m = None \<and> y = api_job (j, m))"

lemma GetJobs_effect:
  assumes inv: "store_inv (s_db s)" and res: "GetJobs e svc n (Some w) s = (Inr out, s')"
  obtains x where "x \<in> set (d_workers (s_db s))" and "w_id x = w"
    and "lease_effect (go_now e + svc) w (picked_for e (w_region x) n (s_db s)) (s_db s) (s_db s') out"
    and "length out \<le> nat (max_jobs n)"
proof -
  let ?s1 = "touchWorkerHeartbeat e w s"
  obtain x1 jms where x1: "x1 \<in> set (d_workers (s_db ?s1))" "w_id x1 = w"
    and l: "LeaseJobsWithMonitorData e w (max_jobs n) (w_region x1) (go_now e + svc) (s_db ?s1) = (Inr jms, s_db s')"
    and out: "out = map api_job jms"
    using GetJobs_Inr [OF res] .
  obtain js where lr: "lease_rows (lease_order (w_region x1)) e [w_region x1, ''global''] w (max_jobs n)
        (go_now e + svc) (s_db ?s1) = (Inr js, s_db s')"
    and jms: "jms = [(j, m). j \<leftarrow> js, m \<leftarrow> d_monitors (s_db ?s1), j_monitor_id j = m_id m \<and> m_deleted_at m = None]"
    using LeaseJobsWithMonitorData_Inr [OF l] .
  have inv1: "store_inv (s_db ?s1)" by (rule touch_inv [OF inv])
  then have j1: "jobs_inv (s_db ?s1)" by (simp add: store_inv_def)
  have pk: "picked_for e (w_region x1) n (s_db ?s1) = picked_for e (w_region x1) n (s_db s)"
    by (rule picked_for_cong) simp
  note res3 = lease_rows_result [OF j1 permutes_lease_order lr, folded picked_for_def, unfolded pk]
  note rows = lease_rows_Inr(3) [OF lr, folded picked_for_def, unfolded pk]
  obtain x where x: "x \<in> set (d_workers (s_db s))" "w_id x = w" "w_region x = w_region x1"
    using touch_workers [OF x1(1)] x1(2) by auto
  have sub: "set (picked_for e (w_region x1) n (s_db s)) \<subseteq> set (d_jobs (s_db s))"
    using set_picked_for(1) by blast
  have jinv: "jobs_inv (s_db s)" using inv by (simp add: store_inv_def)
  have "update_where (\<lambda>j. j_run_id j \<in> j_run_id ` set (picked_for e (w_region x1) n (s_db s)))
          (lease_mark w (go_now e + svc)) (d_jobs (s_db s))
      = update_where (\<lambda>j. j \<in> set (picked_for e (w_region x1) n (s_db s)))
          (lease_mark w (go_now e + svc)) (d_jobs (s_db s))"
    unfolding update_where_def using run_in_picked [OF jinv sub] by (intro map_cong) auto
  with rows have upd: "d_jobs (s_db s') = update_where (\<lambda>j. j \<in> set (picked_for e (w_region x) n (s_db s)))
      (lease_mark w (go_now e + svc)) (d_jobs (s_db s))"
    by (simp add: x(3))
  have out_in: "\<exists>j \<in> set (picked_for e (w_region x) n (s_db s)). \<exists>m \<in> set (d_monitors (s_db s)).
      m_id m = j_monitor_id j \<and> m_deleted_at m = None \<and> y = api_job (j, m)" if "y \<in> set out" for y
  proof -
    from that out jms obtain j' m where j': "j' \<in> set js" "m \<in> set (d_monitors (s_db s))"
      "j_monitor_id j' = m_id m" "m_deleted_at m = None" "y = api_job (j', m)" by auto
    from res3(1) [of j'] j'(1) obtain j where j: "j \<in> set (picked_for e (w_region x1) n (s_db s))"
      "j' = lease_mark w (go_now e + svc) j" by blast
    with j' have "m_id m = j_monitor_id j" "y = api_job (j, m)"
      by (simp_all add: lease_mark_def api_job_def)
    with j j' x(3) show ?thesis by metis
  qed
  have "length (filter (\<lambda>m. j_monitor_id j = m_id m \<and> m_deleted_at m = None) (d_monitors (s_db ?s1))) \<le> 1" for j
    using inv1 by (intro distinct_key_join) (simp add: store_inv_def monitors_inv_def)
  then have "length out \<le> length js"
    unfolding out jms length_map by (rule length_join)
  then have "length out \<le> nat (max_jobs n)" using res3(2) by simp
  moreover have "lease_effect (go_now e + svc) w (picked_for e (w_region x) n (s_db s)) (s_db s) (s_db s') out"
    using upd out_in by (simp add: lease_effect_def)
  ultimately show thesis using that [OF x(1,2)] by blast
qed

lemma GetJobs_inv:
  assumes "store_inv (s_db s)" and "GetJobs e svc n (Some w) s = (Inr out, s')"
  shows "store_inv (s_db s')"
proof -
  let ?s1 = "touchWorkerHeartbeat e w s"
  obtain x jms where "x \<in> set (d_workers (s_db ?s1))" "w_id x = w"
    "LeaseJobsWithMonitorData e w (max_jobs n) (w_region x) (go_now e + svc) (s_db ?s1) = (Inr jms, s_db s')"
    "out = map api_job jms"
    using GetJobs_Inr [OF assms(2)] .
  then have d: "s_db s' = snd (LeaseJobsWithMonitorData e w (max_jobs n) (w_region x) (go_now e + svc) (s_db ?s1))"
    by simp
  have inv1: "store_inv (s_db ?s1)" by (rule touch_inv [OF assms(1)])
  show ?thesis
    unfolding d by (rule store_inv_jobs [OF inv1]) (simp_all add: LeaseJobsWithMonitorData_inv store_invD(1) [OF inv1])
qed

text \<open>
  C14. Every job handed to a worker was ready, due, not deleted and in the worker's region or
  the global one, belongs to a live monitor whose fields it carries, and is now leased to
  that worker until the lease duration from now; at most \<open>max_jobs\<close> jobs are handed out.
\<close>

theorem get_jobs_leases:
  assumes "store_inv (s_db s)" and "GetJobs e svc n (Some w) s = (Inr out, s')"
  shows "length out \<le> nat (max_jobs n) \<and>
     (\<exists>x \<in> set (d_workers (s_db s)). w_id x = w \<and>
        (\<forall>y \<in> set out. \<exists>j \<in> set (d_jobs (s_db s)). \<exists>m \<in> set (d_monitors (s_db s)).
           leasable e [w_region x, ''global''] j \<and> m_id m = j_monitor_id j \<and> m_deleted_at m = None
           \<and> y = api_job (j, m) \<and> lease_mark w (go_now e + svc) j \<in> set (d_jobs (s_db s'))))"
proof -
  obtain x where x: "x \<in> set (d_workers (s_db s))" "w_id x = w"
    and eff: "lease_effect (go_now e + svc) w (picked_for e (w_region x) n (s_db s)) (s_db s) (s_db s') out"
    and len: "length out \<le> nat (max_jobs n)"
    using GetJobs_effect [OF assms] .
  note upd = eff [unfolded lease_effect_def, THEN conjunct1] and out = eff [unfolded lease_effect_def, THEN conjunct2]
  have "\<exists>j \<in> set (d_jobs (s_db s)). \<exists>m \<in> set (d_monitors (s_db s)).
      leasable e [w_region x, ''global''] j \<and> m_id m = j_monitor_id j \<and> m_deleted_at m = None
      \<and> y = api_job (j, m) \<and> lease_mark w (go_now e + svc) j \<in> set (d_jobs (s_db s'))"
    if "y \<in> set out" for y
  proof -
    from out that obtain j m where j: "j \<in> set (picked_for e (w_region x) n (s_db s))"
      "m \<in> set (d_monitors (s_db s))" "m_id m = j_monitor_id j" "m_deleted_at m = None" "y = api_job (j, m)"
      by blast
    note p = set_picked_for [OF j(1)]
    have "lease_mark w (go_now e + svc) j \<in> set (d_jobs (s_db s'))"
      unfolding upd by (rule update_where_hit) (use p(1) j(1) in auto)
    with p j show ?thesis by blast
  qed
  with x len show ?thesis by blast
qed

definition sample_api_job :: monitor_job where
  "sample_api_job = \<lparr>mj_run_id = ''r1'', mj_monitor_id = ''m1'', mj_url = ''http://x'',
     mj_timeout_ms = 5000, mj_method = ''GET'', mj_headers = []\<rparr>"

lemma sample_lease:
  "GetJobs (calm 5000) 10 2 (Some ''w1'') sample_server
     = (Inr [sample_api_job], snd (GetJobs (calm 5000) 10 2 (Some ''w1'') sample_server))"
  by (rule run_answer) code_simp

theorem get_jobs_leases_witness:
  "\<exists>x \<in> set (d_workers (s_db sample_server)). \<exists>j \<in> set (d_jobs (s_db sample_server)).
     w_id x = ''w1'' \<and> leasable (calm 5000) [w_region x, ''global''] j"
  using get_jobs_leases [OF sample_inv sample_lease] by auto

text \<open>C7. No two workers hold the same job: two leases in a row hand out disjoint sets of runs.\<close>

theorem get_jobs_exclusive:
  assumes inv: "store_inv (s_db s)"
    and first: "GetJobs e1 d1 n1 (Some w1) s = (Inr out1, s1)"
    and second: "GetJobs e2 d2 n2 (Some w2) s1 = (Inr out2, s2)"
  shows "mj_run_id ` set out1 \<inter> mj_run_id ` set out2 = {}"
proof -
  obtain x1 where "x1 \<in> set (d_workers (s_db s))" "w_id x1 = w1"
    and eff1: "lease_effect (go_now e1 + d1) w1 (picked_for e1 (w_region x1) n1 (s_db s)) (s_db s) (s_db s1) out1"
    and "length out1 \<le> nat (max_jobs n1)"
    using GetJobs_effect [OF inv first] .
  note upd = eff1 [unfolded lease_effect_def, THEN conjunct1] and out1 = eff1 [unfolded lease_effect_def, THEN conjunct2]
  have inv1: "store_inv (s_db s1)" by (rule GetJobs_inv [OF inv first])
  obtain x2 where "x2 \<in> set (d_workers (s_db s1))" "w_id x2 = w2"
    and eff2: "lease_effect (go_now e2 + d2) w2 (picked_for e2 (w_region x2) n2 (s_db s1)) (s_db s1) (s_db s2) out2"
    and "length out2 \<le> nat (max_jobs n2)"
    using GetJobs_effect [OF inv1 second] .
  note out2 = eff2 [unfolded lease_effect_def, THEN conjunct2]
  have False if y: "y1 \<in> set out1" "y2 \<in> set out2" "mj_run_id y1 = mj_run_id y2" for y1 y2
  proof -
    obtain j1 where j1: "j1 \<in> set (picked_for e1 (w_region x1) n1 (s_db s))" "mj_run_id y1 = j_run_id j1"
      using out1 y(1) by (auto simp: api_job_def)
    obtain j2 where j2: "j2 \<in> set (picked_for e2 (w_region x2) n2 (s_db s1))" "mj_run_id y2 = j_run_id j2"
      using out2 y(2) by (auto simp: api_job_def)
    have "lease_mark w1 (go_now e1 + d1) j1 \<in> set (d_jobs (s_db s1))"
      unfolding upd by (rule update_where_hit) (use set_picked_for(1) [OF j1(1)] j1(1) in auto)
    moreover note p2 = set_picked_for [OF j2(1)]
    moreover have "jobs_inv (s_db s1)" using inv1 by (simp add: store_inv_def)
    ultimately have "lease_mark w1 (go_now e1 + d1) j1 = j2"
      using j1(2) j2(2) y(3) by (intro job_run_unique [of "s_db s1"]) (auto simp: lease_mark_def)
    with p2(2) show False by (auto simp: leasable_def lease_mark_def)
  qed
  then show ?thesis by auto
qed

theorem get_jobs_exclusive_witness:
  "mj_run_id ` set [sample_api_job] \<inter> mj_run_id ` set [] = {}"
proof -
  let ?s1 = "snd (GetJobs (calm 5000) 10 2 (Some ''w1'') sample_server)"
  have "GetJobs (calm 5000) 10 2 (Some ''w2'') ?s1 = (Inr [], snd (GetJobs (calm 5000) 10 2 (Some ''w2'') ?s1))"
    by (rule run_answer) code_simp
  from get_jobs_exclusive [OF sample_inv sample_lease this] show ?thesis by simp
qed

text \<open>
  C21. Order and progress: with a worker row present and no statement lost, a call leases as
  many rows as \<open>max_jobs\<close> and the leasable rows allow, and every row it leases comes before
  every leasable row it leaves (own region first, then the earlier scheduled time).
\<close>

theorem get_jobs_priority:
  assumes inv: "store_inv (s_db s)" and res: "GetJobs e svc n (Some w) s = (Inr out, s')"
  shows "\<exists>x \<in> set (d_workers (s_db s)). w_id x = w \<and>
     (let ready = filter (leasable e [w_region x, ''global'']) (d_jobs (s_db s));
          taken = filter (\<lambda>j. j \<notin> set (d_jobs (s_db s'))) ready
      in length taken = min (nat (max_jobs n)) (length ready)
         \<and> (\<forall>j \<in> set taken. \<forall>j' \<in> set ready - set taken. lease_before (w_region x) j j'))"
proof -
  obtain x where x: "x \<in> set (d_workers (s_db s))" "w_id x = w"
    and eff: "lease_effect (go_now e + svc) w (picked_for e (w_region x) n (s_db s)) (s_db s) (s_db s') out"
    and "length out \<le> nat (max_jobs n)"
    using GetJobs_effect [OF inv res] .
  note upd = eff [unfolded lease_effect_def, THEN conjunct1]
  let ?pk = "picked_for e (w_region x) n (s_db s)"
  let ?ready = "filter (leasable e [w_region x, ''global'']) (d_jobs (s_db s))"
  let ?taken = "filter (\<lambda>j. j \<notin> set (d_jobs (s_db s'))) ?ready"
  have jinv: "jobs_inv (s_db s)" using inv by (simp add: store_inv_def)
  then have dist: "distinct (d_jobs (s_db s))" using jobs_invD(1) by (auto simp: distinct_map)
  have gone: "j \<notin> set (d_jobs (s_db s')) \<longleftrightarrow> j \<in> set ?pk" if "j \<in> set ?ready" for j
  proof
    assume "j \<notin> set (d_jobs (s_db s'))"
    then show "j \<in> set ?pk" using that unfolding upd by (auto simp: in_update_where)
  next
    assume "j \<in> set ?pk"
    show "j \<notin> set (d_jobs (s_db s'))"
    proof
      assume "j \<in> set (d_jobs (s_db s'))"
      then obtain j0 where "j0 \<in> set (d_jobs (s_db s))" "j = lease_mark w (go_now e + svc) j0 \<or> j0 \<notin> set ?pk \<and> j = j0"
        unfolding upd by (auto simp: in_update_where)
      with \<open>j \<in> set ?pk\<close> that show False by (auto simp: leasable_def lease_mark_def)
    qed
  qed
  have sub: "set ?pk \<subseteq> set ?ready" using set_picked_for by auto
  have taken: "set ?taken = set ?pk" using gone sub by auto
  have "distinct ?pk" using dist by (simp add: picked_for_def picked_rows_def)
  then have "length ?taken = length ?pk" using taken dist by (metis distinct_card distinct_filter)
  also have "\<dots> = min (nat (max_jobs n)) (length ?ready)" by (simp add: picked_for_def picked_rows_def)
  finally have len: "length ?taken = min (nat (max_jobs n)) (length ?ready)" by (simp add: min.commute)
  have "lease_before (w_region x) j j'" if "j \<in> set ?taken" "j' \<in> set ?ready - set ?taken" for j j'
    using that taken picked_rows_first [of j "w_region x" e "[w_region x, ''global'']" "max_jobs n" "s_db s" j']
    by (auto simp: picked_for_def)
  with x len show ?thesis by (auto simp: Let_def)
qed

theorem get_jobs_priority_witness:
  "\<exists>x \<in> set (d_workers (s_db sample_server)). w_id x = ''w1''"
  using get_jobs_priority [OF sample_inv sample_lease] by (auto simp: Let_def)

section \<open>Completing\<close>

lemma completeJob_db:
  "s_db (snd (completeJob e w run s)) = s_db s
     \<or> s_db (snd (completeJob e w run s)) = snd (CompleteJob run w (s_db s))"
proof -
  obtain r1 s1 where q: "sql (net e Q_CompleteJob run) (CompleteJob run w) s = (r1, s1)"
    by (cases "sql (net e Q_CompleteJob run) (CompleteJob run w) s")
  have s1: "s_db s1 = s_db s \<or> s_db s1 = snd (CompleteJob run w (s_db s))"
    using sql_eq [OF q] call_state_cases [of "net e Q_CompleteJob run" "CompleteJob run w" "s_db s"] by simp
  obtain r2 s2 where g: "sql (net e Q_GetJobByRunID run) (GetJobByRunID run) s1 = (r2, s2)"
    by (cases "sql (net e Q_GetJobByRunID run) (GetJobByRunID run) s1")
  have "s_db s2 = s_db s1"
    using sql_read [of "GetJobByRunID run" "net e Q_GetJobByRunID run" s1, unfolded g] by simp
  moreover have "snd (completeJob e w run s) = s1 \<or> snd (completeJob e w run s) = s2"
    by (simp add: completeJob_def q g split: sum.splits)
  ultimately show ?thesis using s1 by metis
qed

lemma completeJob_frame [simp]:
  "d_results (s_db (snd (completeJob e w run s))) = d_results (s_db s)"
  "d_workers (s_db (snd (completeJob e w run s))) = d_workers (s_db s)"
  "d_monitors (s_db (snd (completeJob e w run s))) = d_monitors (s_db s)"
  using completeJob_db [of e w run s] by auto

text \<open>Success: the row was held by the worker and is done now, or it was done before.\<close>

lemma completeJob_Inr:
  assumes "completeJob e w run s = (Inr (), s')"
  shows "\<exists>j \<in> set (d_jobs (s_db s')). j_run_id j = run \<and> j_status j = Done \<and>
     (j \<in> set (d_jobs (s_db s))
      \<or> (\<exists>j0 \<in> set (d_jobs (s_db s)). held_by run w j0 \<and> j = j0\<lparr>j_status := Done, j_lease_expires_at := None\<rparr>))"
proof -
  obtain r1 s1 where q: "sql (net e Q_CompleteJob run) (CompleteJob run w) s = (r1, s1)"
    by (cases "sql (net e Q_CompleteJob run) (CompleteJob run w) s")
  show ?thesis
  proof (cases r1)
    case (Inr j')
    with q assms have "s' = s1" by (simp add: completeJob_def)
    with CompleteJob_Inr [OF conjunct1 [OF sql_Inr [OF q [unfolded Inr]]]] obtain j0 where
      d: "s_db s' = update_jobs (held_by run w) (\<lambda>j. j\<lparr>j_status := Done, j_lease_expires_at := None\<rparr>) (s_db s)"
      and j0: "j0 \<in> set (d_jobs (s_db s))" "held_by run w j0" by auto
    have "j0\<lparr>j_status := Done, j_lease_expires_at := None\<rparr> \<in> set (d_jobs (s_db s'))"
      unfolding d update_jobs_sel using j0 by (rule update_where_hit)
    with j0 show ?thesis by (intro bexI) (auto simp: held_by_def)
  next
    case (Inl err)
    obtain r2 s2 where g: "sql (net e Q_GetJobByRunID run) (GetJobByRunID run) s1 = (r2, s2)"
      by (cases "sql (net e Q_GetJobByRunID run) (GetJobByRunID run) s1")
    with q Inl assms obtain job where r2: "r2 = Inr job" "j_status job = Done" "s' = s2" "err = ErrNoRows"
      by (cases r2) (auto simp: completeJob_def split: if_splits)
    have job: "job \<in> set (d_jobs (s_db s1))" "j_run_id job = run" "s_db s2 = s_db s1"
      using GetJobByRunID_Inr [OF conjunct1 [OF sql_Inr [OF g [unfolded r2(1)]]]] by simp_all
    have "s_db s1 = s_db s"
      using sql_eq [OF q] update_jobs_returning_Inl [of "held_by run w" _ "s_db s" ErrNoRows] Inl r2(4)
      by (cases "net e Q_CompleteJob run") (auto simp: call_def CompleteJob_def)
    with job r2 show ?thesis by auto
  qed
qed

text \<open>Nobody else's lease is completed: the rows the worker does not hold are as before.\<close>

lemma completeJob_others:
  assumes "j \<in> set (d_jobs (s_db s))" and "\<not> held_by run w j"
  shows "j \<in> set (d_jobs (s_db (snd (completeJob e w run s))))"
  using completeJob_db [of e w run s] assms update_where_miss [of j "d_jobs (s_db s)" "held_by run w"]
  by (auto simp: CompleteJob_def update_jobs_returning_def)

lemma completeJob_not_held:
  assumes "\<forall>j \<in> set (d_jobs (s_db s)). \<not> held_by run w j"
  shows "s_db (snd (completeJob e w run s)) = s_db s"
  using completeJob_db [of e w run s] CompleteJob_none [OF assms] by auto

lemma completeJob_again:
  assumes "jobs_inv (s_db s)" and "j \<in> set (d_jobs (s_db s))" and "j_run_id j = run" and "j_status j = Done"
    and "net e Q_CompleteJob run = Served" and "net e Q_GetJobByRunID run = Served"
  shows "completeJob e w run s = (Inr (), s)"
proof -
  have "\<not> held_by run w j'" if "j' \<in> set (d_jobs (s_db s))" for j'
  proof
    assume h: "held_by run w j'"
    then have "j = j'" using job_run_unique [OF assms(1,2) that] assms(3) by (simp add: held_by_def)
    with h assms(4) show False by (simp add: held_by_def)
  qed
  then have "CompleteJob run w (s_db s) = (Inl ErrNoRows, s_db s)" by (simp add: CompleteJob_none)
  moreover have "GetJobByRunID run (s_db s) = (Inr j, s_db s)"
    using GetJobByRunID_iff [OF assms(1,2)] assms(3) by simp
  ultimately show ?thesis using assms(4-6) by (simp add: completeJob_def)
qed

lemma SubmitResult_committed:
  assumes "SubmitResult e (Some x) (Some w) s = (Inr resp, s')" and "sr_committed resp"
  obtains s2 where "ProcessResult e x (touchWorkerHeartbeat e w s) = (Inr (), s2)"
    and "completeJob e w (x_run_id x) s2 = (Inr (), s')"
  using assms by (auto simp: SubmitResult_def Let_def split: prod.splits sum.splits)

lemma submit_committed_row:
  assumes "SubmitResult e (Some x) (Some w) s = (Inr resp, s')" and "sr_committed resp"
  shows "(\<exists>j \<in> set (d_jobs (s_db s')). j_run_id j = x_run_id x \<and> j_status j = Done
            \<and> (j \<in> set (d_jobs (s_db s)) \<or> (\<exists>j0 \<in> set (d_jobs (s_db s)). held_by (x_run_id x) w j0
                 \<and> j = j0\<lparr>j_status := Done, j_lease_expires_at := None\<rparr>)))"
proof -
  obtain s2 where p: "ProcessResult e x (touchWorkerHeartbeat e w s) = (Inr (), s2)"
    and c: "completeJob e w (x_run_id x) s2 = (Inr (), s')"
    using SubmitResult_committed [OF assms] .
  have "d_jobs (s_db s2) = d_jobs (s_db s)"
    using ProcessResult_frame(3) [of e x "touchWorkerHeartbeat e w s"] p by simp
  with completeJob_Inr [OF c] show ?thesis by simp
qed

lemma submit_committed_result:
  assumes "SubmitResult e (Some x) (Some w) s = (Inr resp, s')" and "sr_committed resp"
  shows "\<exists>r \<in> set (d_results (s_db s')). r_run_id r = x_run_id x \<and> r_event_at r = pg_ts (as_time (x_event_at x))
            \<and> r_status r = x_status x \<and> r_total_ms r = positive (x_total_ms x)"
proof -
  obtain s2 where p: "ProcessResult e x (touchWorkerHeartbeat e w s) = (Inr (), s2)"
    and c: "completeJob e w (x_run_id x) s2 = (Inr (), s')"
    using SubmitResult_committed [OF assms] .
  have res: "d_results (s_db s') = d_results (s_db s2)" using completeJob_frame(1) [of e w "x_run_id x" s2] c by simp
  obtain r where up: "UpsertResult (result_params x) (s_db (touchWorkerHeartbeat e w s)) = (Inr r, s_db s2)"
    using ProcessResult_Inr [OF p] by blast
  note u = UpsertResult_Inr [OF up]
  have "convertStatus (x_status x) = x_status x" using u(1) by (simp add: convertStatus_ok convertStatus_id)
  with u(2) res show ?thesis by auto
qed

text \<open>
  C8. A committed result is stored and its job is done: the response says \<open>committed\<close> only if
  the result's row is in the table with the status and the total time sent, and the job's row
  is done, by this worker who held the lease, or done already. All other jobs are untouched.
\<close>

theorem submit_committed:
  assumes "SubmitResult e (Some x) (Some w) s = (Inr resp, s')" and "sr_committed resp"
  shows "(\<exists>r \<in> set (d_results (s_db s')). r_run_id r = x_run_id x \<and> r_event_at r = pg_ts (as_time (x_event_at x))
            \<and> r_status r = x_status x \<and> r_total_ms r = positive (x_total_ms x))
     \<and> (\<exists>j \<in> set (d_jobs (s_db s')). j_run_id j = x_run_id x \<and> j_status j = Done
            \<and> (j \<in> set (d_jobs (s_db s)) \<or> (\<exists>j0 \<in> set (d_jobs (s_db s)). held_by (x_run_id x) w j0
                 \<and> j = j0\<lparr>j_status := Done, j_lease_expires_at := None\<rparr>)))
     \<and> (\<forall>j \<in> set (d_jobs (s_db s)). j_run_id j \<noteq> x_run_id x \<longrightarrow> j \<in> set (d_jobs (s_db s')))"
proof -
  obtain s2 where p: "ProcessResult e x (touchWorkerHeartbeat e w s) = (Inr (), s2)"
    and c: "completeJob e w (x_run_id x) s2 = (Inr (), s')"
    using SubmitResult_committed [OF assms] .
  have "d_jobs (s_db s2) = d_jobs (s_db s)" using ProcessResult_frame(3) [of e x "touchWorkerHeartbeat e w s"] p by simp
  then have "\<forall>j \<in> set (d_jobs (s_db s)). j_run_id j \<noteq> x_run_id x \<longrightarrow> j \<in> set (d_jobs (s_db s'))"
    using completeJob_others [of _ s2 "x_run_id x" w e] c by (auto simp: held_by_def)
  with submit_committed_result [OF assms] submit_committed_row [OF assms] show ?thesis by blast
qed

lemma sample_submit:
  "SubmitResult (calm 3000) (Some (sample_result ''r2'' ''m1'' ''us'' 2500 ''OK'')) (Some ''w2'') sample_server
   = (Inr \<lparr>sr_committed = True, sr_run_id = ''r2''\<rparr>,
      snd (SubmitResult (calm 3000) (Some (sample_result ''r2'' ''m1'' ''us'' 2500 ''OK'')) (Some ''w2'') sample_server))"
  by (rule run_answer) code_simp

theorem submit_committed_witness:
  "\<exists>j \<in> set (d_jobs (s_db (snd (SubmitResult (calm 3000)
        (Some (sample_result ''r2'' ''m1'' ''us'' 2500 ''OK'')) (Some ''w2'') sample_server)))).
     j_run_id j = ''r2'' \<and> j_status j = Done"
  using submit_committed [OF sample_submit] by (auto simp: sample_result_def)

lemma UpsertResult_store_inv: "store_inv d \<Longrightarrow> store_inv (snd (UpsertResult arg d))"
  by (rule store_inv_results, assumption) (simp_all add: store_invD UpsertResult_inv UpsertResult_tables)

lemma CompleteJob_store_inv: "store_inv d \<Longrightarrow> store_inv (snd (CompleteJob run w d))"
  by (rule store_inv_jobs, assumption) (simp_all add: store_invD CompleteJob_inv)

lemma RenewLease_store_inv: "store_inv d \<Longrightarrow> store_inv (snd (RenewLease_query run w t d))"
  by (rule store_inv_jobs, assumption) (simp_all add: store_invD RenewLease_query_inv)

lemma ProcessResult_store_inv: "store_inv (s_db s) \<Longrightarrow> store_inv (s_db (snd (ProcessResult e x s)))"
  using ProcessResult_db [of e x s] UpsertResult_store_inv by auto

lemma completeJob_store_inv: "store_inv (s_db s) \<Longrightarrow> store_inv (s_db (snd (completeJob e w run s)))"
  using completeJob_db [of e w run s] CompleteJob_store_inv by auto

lemma SubmitResult_state:
  "snd (SubmitResult e (Some x) (Some w) s) = snd (ProcessResult e x (touchWorkerHeartbeat e w s))
   \<or> snd (SubmitResult e (Some x) (Some w) s)
       = snd (completeJob e w (x_run_id x) (snd (ProcessResult e x (touchWorkerHeartbeat e w s))))"
  by (auto simp: SubmitResult_def Let_def split: prod.splits sum.splits)

lemma SubmitResult_answers:
  "\<exists>c s'. SubmitResult e (Some x) (Some w) s = (Inr \<lparr>sr_committed = c, sr_run_id = x_run_id x\<rparr>, s')"
  by (simp add: SubmitResult_def Let_def split: prod.splits)

lemma SubmitResult_store_inv:
  assumes "store_inv (s_db s)"
  shows "store_inv (s_db (snd (SubmitResult e msg ctx s)))"
proof (cases ctx)
  case None
  with assms show ?thesis by (simp add: SubmitResult_def)
next
  case (Some w)
  note t = touch_inv [OF assms, of e w]
  show ?thesis
  proof (cases msg)
    case None
    with t Some show ?thesis by (simp add: SubmitResult_def Let_def)
  next
    fix x assume "msg = Some x"
    with Some SubmitResult_state [of e x w s] ProcessResult_store_inv [OF t, of e x]
      completeJob_store_inv [OF ProcessResult_store_inv [OF t, of e x], of e w "x_run_id x"]
    show ?thesis by auto
  qed
qed

lemma RenewLease_store_inv_handler:
  assumes "store_inv (s_db s)"
  shows "store_inv (s_db (snd (RenewLease e svc run ctx s)))"
proof (cases ctx)
  case None
  with assms show ?thesis by (simp add: RenewLease_def)
next
  case (Some w)
  note t = touch_inv [OF assms, of e w]
  have "snd (RenewLease e svc run (Some w) s)
      = snd (sql (net e Q_RenewLease run) (RenewLease_query run w (go_now e + svc)) (touchWorkerHeartbeat e w s))"
    by (auto simp: RenewLease_def Let_def split: prod.splits sum.splits)
  moreover have "store_inv (s_db (snd (sql (net e Q_RenewLease run) (RenewLease_query run w (go_now e + svc))
      (touchWorkerHeartbeat e w s))))"
    by (rule sql_store_inv [OF t]) (rule RenewLease_store_inv [OF t])
  ultimately show ?thesis using Some by simp
qed

text \<open>
  C23. At-least-once delivery: once a result has been committed, the same message sent again,
  by whichever worker, is answered \<open>committed\<close> (the statements being served) and leaves the
  results and the jobs exactly as they were.
\<close>

theorem submit_idempotent:
  assumes "store_inv (s_db s)" and "SubmitResult e (Some x) (Some w) s = (Inr resp, s')"
    and "sr_committed resp"
    and calm: "net e2 Q_UpsertResult (x_run_id x) = Served" "net e2 Q_CompleteJob (x_run_id x) = Served"
      "net e2 Q_GetJobByRunID (x_run_id x) = Served"
  shows "\<exists>s2. SubmitResult e2 (Some x) (Some w2) s' = (Inr \<lparr>sr_committed = True, sr_run_id = x_run_id x\<rparr>, s2)
     \<and> d_results (s_db s2) = d_results (s_db s') \<and> d_jobs (s_db s2) = d_jobs (s_db s')"
proof -
  let ?t = "touchWorkerHeartbeat e w s"
  obtain sp where p: "ProcessResult e x ?t = (Inr (), sp)"
    and c: "completeJob e w (x_run_id x) sp = (Inr (), s')"
    using SubmitResult_committed [OF assms(2,3)] .
  obtain r where up: "UpsertResult (result_params x) (s_db ?t) = (Inr r, s_db sp)"
    using ProcessResult_Inr [OF p] by blast
  have ok: "result_status_ok (r_status (result_params x))" by (rule UpsertResult_Inr(1) [OF up])
  have inv_t: "store_inv (s_db ?t)" by (rule touch_inv [OF assms(1)])
  let ?t2 = "touchWorkerHeartbeat e2 w2 s'"
  have res': "d_results (s_db s') = d_results (s_db sp)" using completeJob_frame(1) [of e w "x_run_id x" sp] c by simp
  have up2: "\<exists>r2 d2. UpsertResult (result_params x) (s_db ?t2) = (Inr r2, d2) \<and> d_results d2 = d_results (s_db s')"
  proof -
    have "d_results (snd (UpsertResult (result_params x) (s_db ?t2)))
        = d_results (snd (UpsertResult (result_params x) (snd (UpsertResult (result_params x) (s_db ?t)))))"
      by (rule UpsertResult_results_cong) (use up res' in simp)
    also have "\<dots> = d_results (s_db s')"
      using UpsertResult_twice [OF store_invD(4) [OF inv_t] ok] up res' by simp
    finally show ?thesis using UpsertResult_ok_Inr [OF ok, of "s_db ?t2"] by (metis prod.collapse)
  qed
  then obtain r2 d2 where r2: "UpsertResult (result_params x) (s_db ?t2) = (Inr r2, d2)"
    "d_results d2 = d_results (s_db s')" by blast
  let ?sp2 = "?t2\<lparr>s_db := d2\<rparr>"
  have p2: "ProcessResult e2 x ?t2 = (Inr (), ?sp2)"
    using r2(1) calm(1) by (simp add: ProcessResult_def)
  have jobs2: "d_jobs d2 = d_jobs (s_db s')"
    using UpsertResult_tables(1) [of "result_params x" "s_db ?t2"] r2(1) by simp
  have "jobs_inv (s_db s')"
    using completeJob_store_inv [of sp e w "x_run_id x"] ProcessResult_store_inv [OF inv_t, of e x] p c
    by (simp add: store_inv_def)
  then have inv2: "jobs_inv (s_db ?sp2)" using jobs2 table_inv_cong(1) [of d2 "s_db s'"] by simp
  obtain j where j: "j \<in> set (d_jobs (s_db s'))" "j_run_id j = x_run_id x" "j_status j = Done"
    using completeJob_Inr [OF c] by blast
  have "completeJob e2 w2 (x_run_id x) ?sp2 = (Inr (), ?sp2)"
    by (rule completeJob_again [OF inv2 _ j(2,3) calm(2,3)]) (simp add: jobs2 j(1))
  with p2 have "SubmitResult e2 (Some x) (Some w2) s'
      = (Inr \<lparr>sr_committed = True, sr_run_id = x_run_id x\<rparr>, ?sp2)"
    by (simp add: SubmitResult_def Let_def)
  with jobs2 r2(2) show ?thesis by simp
qed

theorem submit_idempotent_witness:
  "\<exists>s2. SubmitResult (calm 3500) (Some (sample_result ''r2'' ''m1'' ''us'' 2500 ''OK'')) (Some ''w1'')
      (snd (SubmitResult (calm 3000) (Some (sample_result ''r2'' ''m1'' ''us'' 2500 ''OK'')) (Some ''w2'') sample_server))
    = (Inr \<lparr>sr_committed = True, sr_run_id = ''r2''\<rparr>, s2)"
  using submit_idempotent [OF sample_inv sample_submit, of "calm 3500" "''w1''"] by (auto simp: sample_result_def)

text \<open>
  C15. A worker that lost its lease commits nothing: if the run's job is leased to another
  worker, the answer is not \<open>committed\<close> and every job row is as before, whatever the network
  does (the result itself is stored all the same, the ingest comes first).
\<close>

theorem stale_worker_not_committed:
  assumes inv: "store_inv (s_db s)" and j: "j \<in> set (d_jobs (s_db s))" "j_status j = Leased"
    and other: "j_worker_id j = Some w'" "w' \<noteq> w" and run: "x_run_id x = j_run_id j"
  shows "\<exists>s'. SubmitResult e (Some x) (Some w) s = (Inr \<lparr>sr_committed = False, sr_run_id = j_run_id j\<rparr>, s')
     \<and> d_jobs (s_db s') = d_jobs (s_db s)"
proof -
  obtain resp s' where sr: "SubmitResult e (Some x) (Some w) s = (Inr resp, s')" "sr_run_id resp = j_run_id j"
    using SubmitResult_answers [of e x w s] run by auto
  have none: "\<not> held_by (j_run_id j) w j'" if "j' \<in> set (d_jobs (s_db s))" for j'
  proof
    assume h: "held_by (j_run_id j) w j'"
    then have "j = j'" using job_run_unique [OF store_invD(1) [OF inv] j(1) that] by (simp add: held_by_def)
    with h other show False by (simp add: held_by_def)
  qed
  have "\<not> sr_committed resp"
  proof
    assume "sr_committed resp"
    then obtain j1 where j1: "j1 \<in> set (d_jobs (s_db s))" "j_run_id j1 = j_run_id j" "j_status j1 = Done"
      using submit_committed_row [OF sr(1)] none run by auto
    then have "j1 = j" using job_run_unique [OF store_invD(1) [OF inv] j1(1) j(1)] by simp
    with j1 j(2) show False by simp
  qed
  moreover have "d_jobs (s_db s') = d_jobs (s_db s)"
  proof -
    let ?p = "snd (ProcessResult e x (touchWorkerHeartbeat e w s))"
    have "s_db (snd (completeJob e w (x_run_id x) ?p)) = s_db ?p"
      by (rule completeJob_not_held) (use none run in simp)
    with SubmitResult_state [of e x w s] sr(1) show ?thesis by auto
  qed
  ultimately show ?thesis using sr by (cases resp) auto
qed

theorem stale_worker_not_committed_witness:
  "\<exists>s'. SubmitResult (calm 3000) (Some (sample_result ''r2'' ''m1'' ''us'' 2500 ''OK'')) (Some ''w1'') sample_server
      = (Inr \<lparr>sr_committed = False, sr_run_id = ''r2''\<rparr>, s')"
  using stale_worker_not_committed [OF sample_inv, of "sample_job ''r2'' ''m1'' Leased 2000 (Some ''w2'') (Some 4000)"
      "''w2''" "''w1''" "sample_result ''r2'' ''m1'' ''us'' 2500 ''OK''" "calm 3000"]
  by (auto simp: sample_defs sample_result_def)

text \<open>
  \<open>RenewLease\<close> extends exactly the caller's own lease: it answers true only if the caller
  holds the run's job and then only that row's expiry moves, to the lease duration from now;
  if the caller holds no such lease it answers false and no job changes.
\<close>

theorem renew_lease_own:
  assumes "RenewLease e svc run (Some w) s = (Inr ok, s')"
  shows "(ok \<longrightarrow> (\<exists>j \<in> set (d_jobs (s_db s)). held_by run w j)
            \<and> d_jobs (s_db s') = update_where (held_by run w)
                (\<lambda>j. j\<lparr>j_lease_expires_at := Some (pg_ts (go_now e + svc))\<rparr>) (d_jobs (s_db s)))
     \<and> (\<not> (\<exists>j \<in> set (d_jobs (s_db s)). held_by run w j) \<longrightarrow> \<not> ok \<and> d_jobs (s_db s') = d_jobs (s_db s))"
proof -
  let ?t = "touchWorkerHeartbeat e w s"
  let ?f = "RenewLease_query run w (go_now e + svc)"
  obtain r1 s1 where q: "sql (net e Q_RenewLease run) ?f ?t = (r1, s1)"
    by (cases "sql (net e Q_RenewLease run) ?f ?t")
  with assms have s1: "s' = s1" "ok \<longleftrightarrow> (\<exists>j. r1 = Inr j)"
    by (auto simp: RenewLease_def Let_def split: sum.splits)
  have 1: "(\<exists>j \<in> set (d_jobs (s_db s)). held_by run w j)
      \<and> d_jobs (s_db s') = update_where (held_by run w)
          (\<lambda>j. j\<lparr>j_lease_expires_at := Some (pg_ts (go_now e + svc))\<rparr>) (d_jobs (s_db s))" if ok
  proof -
    from that s1(2) obtain j where "r1 = Inr j" by blast
    with q have "?f (s_db ?t) = (Inr j, s_db s1)" using sql_Inr by fast
    then show ?thesis using s1(1) unfolding RenewLease_query_def by (auto dest!: update_jobs_returning_Inr)
  qed
  have 2: "\<not> ok \<and> d_jobs (s_db s') = d_jobs (s_db s)" if none: "\<not> (\<exists>j \<in> set (d_jobs (s_db s)). held_by run w j)"
  proof -
    have "?f (s_db ?t) = (Inl ErrNoRows, s_db ?t)" using none by (intro RenewLease_none) simp
    then have "fst (call (net e Q_RenewLease run) ?f (s_db ?t)) \<noteq> Inr j"
      "snd (call (net e Q_RenewLease run) ?f (s_db ?t)) = s_db ?t" for j
      by (cases "net e Q_RenewLease run"; simp add: call_def)+
    with s1 sql_eq [OF q] show ?thesis by auto
  qed
  from 1 2 show ?thesis by blast
qed

theorem renew_lease_own_witness:
  "\<exists>j \<in> set (d_jobs (s_db sample_server)). held_by ''r2'' ''w2'' j"
proof -
  have "RenewLease (calm 3000) 9000 ''r2'' (Some ''w2'') sample_server
      = (Inr True, snd (RenewLease (calm 3000) 9000 ''r2'' (Some ''w2'') sample_server))"
    by (rule run_answer) code_simp
  from renew_lease_own [OF this] show ?thesis by simp
qed

end
