(* ===== verification/Enrollment.thy ===== *)
theory Enrollment
  imports Worker_Service Regions
begin

text \<open>
  \<open>api/enrollment/service.go\<close>: enrolling, renewing and revoking workers, and the two
  read-only listings. The service's cluster token and endpoint are \<open>cfg\<close>; the random bytes
  of the worker id and of the token are arguments (\<open>None\<close> where \<open>rand.Read\<close> fails).
\<close>

section \<open>The service\<close>

record enrollment_config =
  ec_clusterToken :: string
  ec_apiEndpoint :: string

record enroll_request =
  eq_enrollment_token :: string
  eq_hostname :: string
  eq_worker_version :: string
  eq_region :: string

record enroll_response =
  er_worker_id :: string
  er_accepted :: bool
  er_api_token :: string
  er_api_endpoint :: string

definition SetAPIEndpoint :: "string \<Rightarrow> enrollment_config \<Rightarrow> enrollment_config" where
  "SetAPIEndpoint ep cfg = cfg\<lparr>ec_apiEndpoint := ep\<rparr>"

definition generateWorkerID :: "string option \<Rightarrow> string option" where
  "generateWorkerID rand =
     (case rand of None \<Rightarrow> None | Some bytes \<Rightarrow> Some (''worker-'' @ hex_encode bytes))"

definition EnrollWorker ::
  "env \<Rightarrow> enrollment_config \<Rightarrow> string option \<Rightarrow> string option \<Rightarrow> enroll_request \<Rightarrow> server
     \<Rightarrow> (rpc_code + enroll_response) \<times> server" where
  "EnrollWorker e cfg randId randTok msg s =
     (if eq_enrollment_token msg = [] then (Inl Unauthenticated, s)
      else if eq_hostname msg = [] then (Inl InvalidArgument, s)
      else if eq_worker_version msg = [] then (Inl InvalidArgument, s)
      else if eq_enrollment_token msg \<noteq> ec_clusterToken cfg then (Inl Unauthenticated, s)
      else
        (case generateWorkerID randId of
           None \<Rightarrow> (Inl Internal, s)
         | Some w \<Rightarrow>
             (case GenerateAPIToken randTok of
                None \<Rightarrow> (Inl Internal, s)
              | Some (apiToken, tokenHash) \<Rightarrow>
                  (case sql (net e Q_EnrollWorker w)
                          (EnrollWorker_query (sql_now e) w (Some (eq_hostname msg))
                             (Normalize (eq_region msg)) (eq_worker_version msg)) s of
                     (Inl _, s1) \<Rightarrow> (Inl Internal, s1)
                   | (Inr _, s1) \<Rightarrow>
                       (case sql (net e Q_SetWorkerToken w) (SetWorkerToken (Some tokenHash) w) s1 of
                          (Inl _, s2) \<Rightarrow> (Inl Internal, s2)
                        | (Inr _, s2) \<Rightarrow>
                            (Inr \<lparr>er_worker_id = w, er_accepted = True, er_api_token = apiToken,
                                  er_api_endpoint = ec_apiEndpoint cfg\<rparr>,
                             cache_store (go_now e) tokenHash w (cache_drop w s2)))))))"

record renew_response =
  rr_renewed :: bool
  rr_api_token :: string
  rr_reason :: string

definition RenewEnrollment ::
  "env \<Rightarrow> string option \<Rightarrow> string \<Rightarrow> server \<Rightarrow> (rpc_code + renew_response) \<times> server" where
  "RenewEnrollment e randTok w s =
     (if w = [] then (Inl InvalidArgument, s)
      else
        (case sql (net e Q_GetWorkerByID w) (GetWorkerByID w) s of
           (Inl _, s1) \<Rightarrow> (Inl NotFound, s1)
         | (Inr worker, s1) \<Rightarrow>
             if w_status worker = Revoked
             then (Inr \<lparr>rr_renewed = False, rr_api_token = [],
                         rr_reason = ''worker enrollment is revoked''\<rparr>, s1)
             else
               (case GenerateAPIToken randTok of
                  None \<Rightarrow> (Inl Internal, s1)
                | Some (apiToken, tokenHash) \<Rightarrow>
                    (case sql (net e Q_SetWorkerToken w) (SetWorkerToken (Some tokenHash) w) s1 of
                       (Inl _, s2) \<Rightarrow> (Inl Internal, s2)
                     | (Inr _, s2) \<Rightarrow>
                         (Inr \<lparr>rr_renewed = True, rr_api_token = apiToken, rr_reason = []\<rparr>,
                          cache_store (go_now e) tokenHash w (cache_drop w s2))))))"

definition RevokeEnrollment ::
  "env \<Rightarrow> string \<Rightarrow> string \<Rightarrow> server \<Rightarrow> (rpc_code + bool) \<times> server" where
  "RevokeEnrollment e w reason s =
     (if w = [] then (Inl InvalidArgument, s)
      else
        (case sql (net e Q_GetWorkerByID w) (GetWorkerByID w) s of
           (Inl _, s1) \<Rightarrow> (Inl NotFound, s1)
         | (Inr _, s1) \<Rightarrow>
             (let s2 = cache_drop w (snd (sql (net e Q_SetWorkerToken w) (SetWorkerToken None w) s1))
              in case sql (net e Q_RevokeWorker w)
                      (RevokeWorker (sql_now e) (if reason = [] then None else Some reason) w) s2 of
                   (Inl _, s3) \<Rightarrow> (Inl Internal, s3)
                 | (Inr _, s3) \<Rightarrow> (Inr True, s3))))"

definition unix_seconds :: "time \<Rightarrow> int" where
  "unix_seconds t = t div second"

record worker_info =
  wi_worker_id :: string
  wi_status :: string
  wi_enrolled_at :: int
  wi_last_seen_at :: int
  wi_region :: string
  wi_hostname :: string
  wi_worker_version :: string

definition worker_info_of :: "string \<Rightarrow> app_worker \<Rightarrow> worker_info" where
  "worker_info_of status w =
     \<lparr>wi_worker_id = w_id w, wi_status = status, wi_enrolled_at = unix_seconds (w_enrolled_at w),
      wi_last_seen_at = unix_seconds (w_last_seen_at w), wi_region = w_region w,
      wi_hostname = (case w_hostname w of None \<Rightarrow> w_id w | Some h \<Rightarrow> h),
      wi_worker_version = w_version w\<rparr>"

definition GetWorkerStatus :: "env \<Rightarrow> string \<Rightarrow> server \<Rightarrow> (rpc_code + worker_info) \<times> server" where
  "GetWorkerStatus e w s =
     (if w = [] then (Inl InvalidArgument, s)
      else
        (case sql (net e Q_GetWorkerByID w) (GetWorkerByID w) s of
           (Inl _, s1) \<Rightarrow> (Inl NotFound, s1)
         | (Inr worker, s1) \<Rightarrow>
             (let status = worker_status_text (w_status worker);
                  status' = (if status \<noteq> ''revoked'' \<and> 5 * minute < time_sub (go_now e) (w_last_seen_at worker)
                             then ''inactive'' else status)
              in (Inr (worker_info_of status' worker), s1))))"

definition page_size :: "int \<Rightarrow> int" where
  "page_size n = (if n = 0 \<or> 100 < n then 100 else n)"

definition ListWorkers ::
  "env \<Rightarrow> int \<Rightarrow> string \<Rightarrow> string \<Rightarrow> server \<Rightarrow> (rpc_code + worker_info list \<times> int) \<times> server" where
  "ListWorkers e pageSize region status s =
     (case sql (net e Q_ListWorkers []) (ListWorkers_query region status (page_size pageSize) 0) s of
        (Inl _, s1) \<Rightarrow> (Inl Internal, s1)
      | (Inr workers, s1) \<Rightarrow>
          (let (count, s2) =
             (case sql (net e Q_CountWorkers []) (CountWorkers region status) s1 of
                (Inl _, s2) \<Rightarrow> (int (length workers), s2)
              | (Inr n, s2) \<Rightarrow> (n, s2))
           in (Inr (map (\<lambda>w. worker_info_of (worker_status_text (w_status w)) w) workers, wrap32 count), s2)))"

section \<open>Tokens in the database\<close>

text \<open>An update of one worker's row leaves the other workers' tokens as they are.\<close>

lemma token_of_update_other:
  assumes "\<And>x. w_id (f x) = w_id x" and "w' \<noteq> w" and "token_of d h w'"
  shows "token_of (update_workers (\<lambda>x. w_id x = w) f d) h w'"
  using assms update_where_miss [of _ "d_workers d" "\<lambda>x. w_id x = w" f] by (auto simp: token_of_def)

lemma token_of_update_only:
  assumes "token_of (update_workers (\<lambda>x. w_id x = w) f d) h w'" and "\<And>x. w_id (f x) = w_id x"
  shows "if w' = w then (\<exists>x \<in> set (d_workers d). w_id x = w \<and> token_usable h (f x)) else token_of d h w'"
proof -
  obtain y where y: "y \<in> set (d_workers d)" "w_id (if w_id y = w then f y else y) = w'"
    "token_usable h (if w_id y = w then f y else y)"
    using assms(1) by (auto simp: token_of_def set_update_where)
  then show ?thesis
    by (cases "w_id y = w") (auto simp: token_of_def assms(2))
qed

lemma token_of_SetWorkerToken:
  "token_of (snd (SetWorkerToken (Some h0) w d)) h w \<Longrightarrow> h = h0"
  using token_of_update_only [of w "\<lambda>x. x\<lparr>w_token_hash := Some h0\<rparr>" d h w]
  by (auto simp: SetWorkerToken_def token_usable_def)

lemma token_of_RevokeWorker:
  "\<not> token_of (snd (RevokeWorker now r w d)) h w"
  using token_of_update_only [of w "\<lambda>x. x\<lparr>w_status := Revoked, w_revoked_at := Some now, w_revoked_reason := r\<rparr>" d h w]
  by (auto simp: RevokeWorker_def token_usable_def)

lemma token_of_others:
  assumes "w' \<noteq> w" and "token_of d h w'"
  shows "token_of (snd (SetWorkerToken t w d)) h w'" "token_of (snd (RevokeWorker now r w d)) h w'"
  unfolding SetWorkerToken_def RevokeWorker_def snd_conv
  by (rule token_of_update_other [OF _ assms], simp)+

text \<open>A heartbeat and a sweep of stale workers keep every usable token usable.\<close>

lemma token_of_update_keep:
  assumes "token_of d h w'"
    and "\<And>x. P x \<Longrightarrow> w_id (f x) = w_id x \<and> (token_usable h x \<longrightarrow> token_usable h (f x))"
  shows "token_of (update_workers P f d) h w'"
proof -
  obtain x where x: "x \<in> set (d_workers d)" "w_id x = w'" "token_usable h x"
    using assms(1) by (auto simp: token_of_def)
  then have "(if P x then f x else x) \<in> set (d_workers (update_workers P f d))"
    by (auto simp: set_update_where)
  moreover have "w_id (if P x then f x else x) = w'" "token_usable h (if P x then f x else x)"
    using x assms(2) [of x] by simp_all
  ultimately show ?thesis unfolding token_of_def by blast
qed

lemma token_of_heartbeat: "token_of d h w' \<Longrightarrow> token_of (snd (UpdateWorkerHeartbeat now w d)) h w'"
  unfolding UpdateWorkerHeartbeat_def snd_conv
  by (erule token_of_update_keep) (simp add: token_usable_def)

lemma token_of_inactive: "token_of d h w' \<Longrightarrow> token_of (snd (MarkWorkerInactive now d)) h w'"
  unfolding MarkWorkerInactive_def snd_conv
  by (erule token_of_update_keep) (simp add: token_usable_def)

lemma cache_ok_mono:
  assumes "cache_ok s0" and "s_cache s = s_cache s0"
    and "\<And>h w. token_of (s_db s0) h w \<Longrightarrow> token_of (s_db s) h w"
  shows "cache_ok s"
  using assms(1,2) wac.all_entries_mono [of "token_of (s_db s0)" _ "token_of (s_db s)"] assms(3)
  by (auto simp: cache_ok_def split: option.splits)

lemma touch_cache_ok: "cache_ok s \<Longrightarrow> cache_ok (touchWorkerHeartbeat e w s)"
  using touch_db [of e w s] by (elim cache_ok_mono) (auto simp: token_of_heartbeat)

section \<open>Renewal and revocation\<close>

lemma read_worker:
  assumes "sql n (GetWorkerByID w) s = (Inr x, s1)"
  shows "x \<in> set (d_workers (s_db s))" "w_id x = w" "s_db s1 = s_db s" "s_cache s1 = s_cache s" "s_hb s1 = s_hb s"
  using sql_Inr [OF assms] GetWorkerByID_Inr [of w "s_db s" x] by auto

lemma RenewEnrollment_True:
  assumes "RenewEnrollment e randTok w s = (Inr resp, s')" and "rr_renewed resp"
  obtains x tokenHash s2 where "w \<noteq> []" and "x \<in> set (d_workers (s_db s))" and "w_id x = w" and "w_status x \<noteq> Revoked"
    and "GenerateAPIToken randTok = Some (rr_api_token resp, tokenHash)"
    and "s_db s2 = snd (SetWorkerToken (Some tokenHash) w (s_db s))"
    and "s_cache s2 = s_cache s" and "s' = cache_store (go_now e) tokenHash w (cache_drop w s2)"
proof -
  have w: "w \<noteq> []" using assms by (auto simp: RenewEnrollment_def)
  obtain r1 s1 where q: "sql (net e Q_GetWorkerByID w) (GetWorkerByID w) s = (r1, s1)"
    by (cases "sql (net e Q_GetWorkerByID w) (GetWorkerByID w) s")
  with assms w obtain x where r1: "r1 = Inr x" by (cases r1) (auto simp: RenewEnrollment_def)
  note x = read_worker [OF q [unfolded r1]]
  have live: "w_status x \<noteq> Revoked" using assms w q r1 by (auto simp: RenewEnrollment_def)
  obtain apiToken tokenHash where g: "GenerateAPIToken randTok = Some (apiToken, tokenHash)"
    using assms w q r1 live by (cases "GenerateAPIToken randTok") (auto simp: RenewEnrollment_def)
  obtain r2 s2 where t: "sql (net e Q_SetWorkerToken w) (SetWorkerToken (Some tokenHash) w) s1 = (r2, s2)"
    by (cases "sql (net e Q_SetWorkerToken w) (SetWorkerToken (Some tokenHash) w) s1")
  with assms w q r1 live g obtain u where r2: "r2 = Inr u" "rr_api_token resp = apiToken"
    "s' = cache_store (go_now e) tokenHash w (cache_drop w s2)"
    by (cases r2) (auto simp: RenewEnrollment_def)
  have s2: "s_db s2 = snd (SetWorkerToken (Some tokenHash) w (s_db s))" "s_cache s2 = s_cache s"
    using sql_Inr [OF t [unfolded r2(1)]] x(3,4) by (metis snd_conv, simp)
  show thesis
    by (rule that [OF w x(1,2) live _ s2 r2(3)]) (simp add: g r2(2))
qed

lemma RevokeEnrollment_True:
  assumes "RevokeEnrollment e w reason s = (Inr b, s')"
  obtains s2 reason' where "s_db s2 = s_db s \<or> s_db s2 = snd (SetWorkerToken None w (s_db s))"
    and "s_cache s2 = s_cache s" and "s_db s' = snd (RevokeWorker (sql_now e) reason' w (s_db s2))"
    and "s_cache s' = s_cache (cache_drop w s2)"
proof -
  have w: "w \<noteq> []" using assms by (auto simp: RevokeEnrollment_def)
  obtain r1 s1 where q: "sql (net e Q_GetWorkerByID w) (GetWorkerByID w) s = (r1, s1)"
    by (cases "sql (net e Q_GetWorkerByID w) (GetWorkerByID w) s")
  with assms w obtain x where r1: "r1 = Inr x" by (cases r1) (auto simp: RevokeEnrollment_def)
  note x = read_worker [OF q [unfolded r1]]
  obtain rt s2 where t: "sql (net e Q_SetWorkerToken w) (SetWorkerToken None w) s1 = (rt, s2)"
    by (cases "sql (net e Q_SetWorkerToken w) (SetWorkerToken None w) s1")
  let ?reason = "if reason = [] then None else Some reason"
  obtain r3 s3 where k: "sql (net e Q_RevokeWorker w) (RevokeWorker (sql_now e) ?reason w) (cache_drop w s2) = (r3, s3)"
    by (cases "sql (net e Q_RevokeWorker w) (RevokeWorker (sql_now e) ?reason w) (cache_drop w s2)")
  with assms w q r1 t obtain u where r3: "r3 = Inr u" "s' = s3"
    by (cases r3) (auto simp: RevokeEnrollment_def Let_def)
  have s2: "s_db s2 = s_db s \<or> s_db s2 = snd (SetWorkerToken None w (s_db s))" "s_cache s2 = s_cache s"
    using sql_eq [OF t] x(3,4) call_state_cases [of "net e Q_SetWorkerToken w" "SetWorkerToken None w" "s_db s1"] by auto
  have s3: "s_db s' = snd (RevokeWorker (sql_now e) ?reason w (s_db s2))" "s_cache s' = s_cache (cache_drop w s2)"
    using sql_Inr [OF k [unfolded r3(1)]] r3(2) by (metis cache_drop_sel(1) snd_conv, simp)
  show thesis by (rule that [OF s2 s3])
qed

text \<open>
  C17. A revoked worker is locked out: after a successful revocation, with the cache in step
  with the database before it, no Authorization header is accepted for that worker, by cache
  or by database, even where clearing its token had failed.
\<close>

theorem revoke_locks_out:
  assumes ok: "cache_ok s" and rev: "RevokeEnrollment e w reason s = (Inr b, s')"
  shows "fst (authenticateWorkerToken e' hdr s') \<noteq> Inr w"
proof -
  obtain s2 reason' where s2: "s_db s2 = s_db s \<or> s_db s2 = snd (SetWorkerToken None w (s_db s))"
      "s_cache s2 = s_cache s"
    and s': "s_db s' = snd (RevokeWorker (sql_now e) reason' w (s_db s2))" "s_cache s' = s_cache (cache_drop w s2)"
    using RevokeEnrollment_True [OF rev] .
  have "token_of (s_db s2) h w'" if "token_of (s_db s) h w'" "w' \<noteq> w" for h w'
    using s2(1) that token_of_others(1) by auto
  then have keep: "token_of (s_db s') h w'" if "w' \<noteq> w" "token_of (s_db s) h w'" for h w'
    using that token_of_others(2) by (simp add: s'(1))
  have "cache_ok (cache_drop w (s2\<lparr>s_db := s_db s'\<rparr>))"
    by (rule cache_drop_ok [OF ok]) (use s2(2) keep in simp_all)
  then have "cache_ok s'"
    by (rule cache_ok_cong) (simp_all add: s'(2) cache_drop_def)
  from authenticate_cases [OF this, of e' hdr] token_of_RevokeWorker show ?thesis
    unfolding s'(1) by (metis prod.collapse)
qed

lemma sample_cache_ok: "cache_ok sample_server"
  by (simp add: cache_ok_def sample_server_def)

lemma sample_revoke:
  "RevokeEnrollment (calm 7) ''w1'' ''gone'' sample_server
     = (Inr True, snd (RevokeEnrollment (calm 7) ''w1'' ''gone'' sample_server))"
  by (rule run_answer) code_simp

theorem revoke_locks_out_witness:
  "fst (authenticateWorkerToken (calm 8) ''Bearer x'' (snd (RevokeEnrollment (calm 7) ''w1'' ''gone'' sample_server)))
     \<noteq> Inr ''w1''"
  by (rule revoke_locks_out [OF sample_cache_ok sample_revoke])

text \<open>
  Renewal replaces the token: after a successful renewal every header accepted for the
  worker carries a token with the new token's hash, so the old token is dead at once.
\<close>

theorem renew_replaces_token:
  assumes ok: "cache_ok s" and ren: "RenewEnrollment e randTok w s = (Inr resp, s')" "rr_renewed resp"
    and auth: "fst (authenticateWorkerToken e' hdr s') = Inr w" and hdr: "parseBearerToken hdr = Inr token"
  shows "HashToken token = HashToken (rr_api_token resp)"
proof -
  obtain x tokenHash s2 where x: "x \<in> set (d_workers (s_db s))" "w_id x = w" "w_status x \<noteq> Revoked"
    and g: "GenerateAPIToken randTok = Some (rr_api_token resp, tokenHash)"
    and s2: "s_db s2 = snd (SetWorkerToken (Some tokenHash) w (s_db s))" "s_cache s2 = s_cache s"
    and s': "s' = cache_store (go_now e) tokenHash w (cache_drop w s2)"
    using RenewEnrollment_True [OF ren] by metis
  have h: "tokenHash = HashToken (rr_api_token resp)"
    using g by (auto simp: GenerateAPIToken_def Let_def split: option.splits)
  have "token_of (s_db s2) h w'" if "w' \<noteq> w" "token_of (s_db s) h w'" for h w'
    using token_of_others(1) [OF that] by (simp add: s2(1))
  then have "cache_ok (cache_drop w s2)" by (intro cache_drop_ok [OF ok s2(2)])
  moreover have "token_of (s_db s2) tokenHash w"
  proof -
    have "x\<lparr>w_token_hash := Some tokenHash\<rparr> \<in> set (d_workers (s_db s2))"
      unfolding s2(1) SetWorkerToken_def using x by (auto intro: update_where_hit)
    with x show ?thesis
      by (auto simp: token_of_def token_usable_def intro!: bexI [of _ "x\<lparr>w_token_hash := Some tokenHash\<rparr>"]
          intro: worker_status.exhaust [of "w_status x"])
  qed
  ultimately have "cache_ok s'" by (simp add: s' cache_store_ok)
  moreover have "s_db s' = s_db s2" by (simp add: s')
  ultimately have "token_of (s_db s2) (HashToken token) w"
    using authenticate_cases [of s' e' hdr] auth hdr by (metis prod.collapse sum.inject(2))
  then show ?thesis using token_of_SetWorkerToken h by (simp add: s2(1))
qed

section \<open>Enrolling\<close>

lemma EnrollWorker_Inr:
  assumes "EnrollWorker e cfg randId randTok msg s = (Inr resp, s')"
  obtains w tokenHash row d1 s2 where "eq_enrollment_token msg = ec_clusterToken cfg" and "eq_enrollment_token msg \<noteq> []"
    and "generateWorkerID randId = Some w" and "er_worker_id resp = w"
    and "GenerateAPIToken randTok = Some (er_api_token resp, tokenHash)"
    and "EnrollWorker_query (sql_now e) w (Some (eq_hostname msg)) (Normalize (eq_region msg)) (eq_worker_version msg) (s_db s)
           = (Inr row, d1)"
    and "s_db s2 = snd (SetWorkerToken (Some tokenHash) w (d1))" and "s_cache s2 = s_cache s"
    and "s' = cache_store (go_now e) tokenHash w (cache_drop w s2)"
proof -
  have gate: "eq_enrollment_token msg \<noteq> []" "eq_enrollment_token msg = ec_clusterToken cfg"
    "eq_hostname msg \<noteq> []" "eq_worker_version msg \<noteq> []"
    using assms by (auto simp: EnrollWorker_def split: if_splits)
  with assms obtain w where w: "generateWorkerID randId = Some w"
    by (cases "generateWorkerID randId") (auto simp: EnrollWorker_def)
  with assms gate obtain apiToken tokenHash where g: "GenerateAPIToken randTok = Some (apiToken, tokenHash)"
    by (cases "GenerateAPIToken randTok") (auto simp: EnrollWorker_def)
  let ?q = "EnrollWorker_query (sql_now e) w (Some (eq_hostname msg)) (Normalize (eq_region msg)) (eq_worker_version msg)"
  obtain r1 s1 where q: "sql (net e Q_EnrollWorker w) ?q s = (r1, s1)" by (cases "sql (net e Q_EnrollWorker w) ?q s")
  with assms gate w g obtain row where r1: "r1 = Inr row" by (cases r1) (auto simp: EnrollWorker_def)
  obtain r2 s2 where t: "sql (net e Q_SetWorkerToken w) (SetWorkerToken (Some tokenHash) w) s1 = (r2, s2)"
    by (cases "sql (net e Q_SetWorkerToken w) (SetWorkerToken (Some tokenHash) w) s1")
  with assms gate w g q r1 obtain u where r2: "r2 = Inr u" "er_worker_id resp = w" "er_api_token resp = apiToken"
    "s' = cache_store (go_now e) tokenHash w (cache_drop w s2)"
    by (cases r2) (auto simp: EnrollWorker_def)
  have 1: "?q (s_db s) = (Inr row, s_db s1)" "s_cache s1 = s_cache s" using sql_Inr [OF q [unfolded r1]] by simp_all
  have 2: "s_db s2 = snd (SetWorkerToken (Some tokenHash) w (s_db s1))" "s_cache s2 = s_cache s"
    using sql_Inr [OF t [unfolded r2(1)]] 1(2) by (metis snd_conv, simp)
  show thesis
    by (rule that [OF gate(2,1) w r2(2) _ 1(1) 2 r2(4)]) (simp add: g r2(3))
qed

text \<open>
  Enrollment is gated by the cluster token: only a request that carries exactly that
  token (and it is not empty) is accepted, and a request with another token changes nothing.
\<close>

theorem enroll_needs_cluster_token:
  "(case EnrollWorker e cfg randId randTok msg s of
      (Inr resp, _) \<Rightarrow> eq_enrollment_token msg = ec_clusterToken cfg \<and> ec_clusterToken cfg \<noteq> []
    | (Inl _, s') \<Rightarrow> eq_enrollment_token msg = ec_clusterToken cfg \<and> ec_clusterToken cfg \<noteq> [] \<or> s' = s)"
proof (cases "EnrollWorker e cfg randId randTok msg s")
  case (Pair r s')
  show ?thesis
  proof (cases r)
    case (Inl err)
    with Pair show ?thesis
      by (cases "eq_enrollment_token msg = ec_clusterToken cfg \<and> ec_clusterToken cfg \<noteq> []")
         (auto simp: EnrollWorker_def split: if_splits)
  next
    case (Inr resp)
    then show ?thesis using Pair EnrollWorker_Inr [of e cfg randId randTok msg s resp s'] by auto
  qed
qed

lemma parse_issued_token:
  assumes "length bytes = 32" and "GenerateAPIToken (Some bytes) = Some (token, h)"
  shows "parseBearerToken (''Bearer '' @ token) = Inr token" and "h = HashToken token"
proof -
  have t: "token = tokenPrefix @ hex_encode bytes" "h = HashToken token"
    using assms(2) by (auto simp: GenerateAPIToken_def Let_def)
  then show "h = HashToken token" by simp
  have "ValidateTokenFormat token" using generated_token(2) [OF assms(1)] t by simp
  then show "parseBearerToken (''Bearer '' @ token) = Inr token"
    using has_prefix_append [of "''Bearer ''" token] trim_prefix_append [of "''Bearer ''" token]
    by (simp add: parseBearerToken_def Let_def del: has_prefix_append trim_prefix_append)
qed

text \<open>An accepted enrollment adds one row, which holds the token that is handed out.\<close>

lemma enrolled_row:
  assumes "EnrollWorker e cfg randId randTok msg s = (Inr resp, s')"
  obtains row tokenHash where "d_workers (s_db s') = d_workers (s_db s) @ [row]" and "w_id row = er_worker_id resp"
    and "w_status row = Enrolled" and "w_token_hash row = Some tokenHash"
    and "GenerateAPIToken randTok = Some (er_api_token resp, tokenHash)" and "cache_ok s \<Longrightarrow> cache_ok s'"
proof -
  obtain w tokenHash row d1 s2 where w: "er_worker_id resp = w"
    and g: "GenerateAPIToken randTok = Some (er_api_token resp, tokenHash)"
    and ins: "EnrollWorker_query (sql_now e) w (Some (eq_hostname msg)) (Normalize (eq_region msg)) (eq_worker_version msg) (s_db s)
           = (Inr row, d1)"
    and s2: "s_db s2 = snd (SetWorkerToken (Some tokenHash) w (d1))" "s_cache s2 = s_cache s"
    and s': "s' = cache_store (go_now e) tokenHash w (cache_drop w s2)"
    using EnrollWorker_Inr [OF assms] by metis
  have fresh: "\<forall>x \<in> set (d_workers (s_db s)). w_id x \<noteq> w" and rows1: "d_workers d1 = d_workers (s_db s) @ [row]"
    and row: "w_id row = w" "w_status row = Enrolled"
    using ins by (auto simp: EnrollWorker_query_def Let_def split: if_splits)
  let ?new = "row\<lparr>w_token_hash := Some tokenHash\<rparr>"
  have rows: "d_workers (s_db s2) = d_workers (s_db s) @ [?new]"
    using fresh row by (simp add: s2(1) SetWorkerToken_def rows1 update_where_def map_idI)
  have "cache_ok s'" if "cache_ok s"
  proof -
    have "token_of (s_db s) h w' \<Longrightarrow> token_of (s_db s2) h w'" for h w' by (auto simp: token_of_def rows)
    then have "cache_ok (cache_drop w s2)" by (intro cache_drop_ok [OF that s2(2)])
    moreover have "token_of (s_db s2) tokenHash w" using row by (auto simp: token_of_def rows token_usable_def)
    ultimately show ?thesis by (simp add: s' cache_store_ok)
  qed
  then show thesis using that [of ?new tokenHash] rows row w g by (simp add: s')
qed

text \<open>
  Enroll, then call: the token an accepted enrollment returns authenticates the worker
  it was issued to, from the cache or from the database (the lookup being served), provided no
  other worker's row holds the same token hash.
\<close>

theorem enroll_authenticates:
  assumes ok: "cache_ok s" and enroll: "EnrollWorker e cfg randId (Some bytes) msg s = (Inr resp, s')"
    and bytes: "length bytes = 32"
    and fresh: "\<forall>x \<in> set (d_workers (s_db s)). w_token_hash x \<noteq> Some (HashToken (er_api_token resp))"
    and served: "net e' Q_GetWorkerByTokenHash (HashToken (er_api_token resp)) = Served"
  shows "fst (authenticateWorkerToken e' (''Bearer '' @ er_api_token resp) s') = Inr (er_worker_id resp)"
proof -
  obtain row tokenHash where row: "d_workers (s_db s') = d_workers (s_db s) @ [row]" "w_id row = er_worker_id resp"
      "w_status row = Enrolled" "w_token_hash row = Some tokenHash"
    and g: "GenerateAPIToken (Some bytes) = Some (er_api_token resp, tokenHash)" and ok': "cache_ok s'"
    using enrolled_row [OF enroll] ok by metis
  note tok = parse_issued_token [OF bytes g]
  have "token_of (s_db s') (HashToken (er_api_token resp)) (er_worker_id resp)"
    using row tok(2) by (auto simp: token_of_def token_usable_def)
  moreover have "\<forall>y \<in> set (d_workers (s_db s')). w_token_hash y = Some (HashToken (er_api_token resp)) \<longrightarrow> w_id y = er_worker_id resp"
    using row fresh by auto
  ultimately obtain s1 where "authenticateWorkerToken e' (''Bearer '' @ er_api_token resp) s' = (Inr (er_worker_id resp), s1)"
    using authenticate_sole [OF ok' _ _ tok(1) served] by metis
  then show ?thesis by simp
qed

definition sample_bytes :: string where
  "sample_bytes = replicate 32 (CHR 0x41)"

definition sample_token :: string where
  "sample_token = tokenPrefix @ hex_encode sample_bytes"

lemma sample_generate: "GenerateAPIToken (Some sample_bytes) = Some (sample_token, HashToken sample_token)"
  by (simp add: sample_token_def sample_bytes_def generated_token(1))

lemma sample_bytes_length: "length sample_bytes = 32"
  by (simp add: sample_bytes_def)

lemma sample_hash_fresh: "HashToken t \<noteq> ''h1''" "HashToken t \<noteq> ''h2''"
  by (rule notI, use HashToken_length [of t] in simp)+

definition sample_enroll_config :: enrollment_config where
  "sample_enroll_config = \<lparr>ec_clusterToken = ''c'', ec_apiEndpoint = ''e''\<rparr>"

definition sample_enroll_request :: enroll_request where
  "sample_enroll_request = \<lparr>eq_enrollment_token = ''c'', eq_hostname = ''h'', eq_worker_version = ''1'', eq_region = []\<rparr>"

theorem enroll_authenticates_witness:
  "\<exists>resp s'. EnrollWorker (calm 3) sample_enroll_config (Some ''i'') (Some sample_bytes) sample_enroll_request sample_server
       = (Inr resp, s')
     \<and> fst (authenticateWorkerToken (calm 4) (''Bearer '' @ er_api_token resp) s') = Inr (er_worker_id resp)"
proof -
  let ?r = "\<lparr>er_worker_id = ''worker-'' @ hex_encode ''i'', er_accepted = True, er_api_token = sample_token,
             er_api_endpoint = ''e''\<rparr>"
  have e: "\<exists>s'. EnrollWorker (calm 3) sample_enroll_config (Some ''i'') (Some sample_bytes) sample_enroll_request sample_server
      = (Inr ?r, s')"
    by (simp add: EnrollWorker_def sample_enroll_config_def sample_enroll_request_def generateWorkerID_def
        sample_generate EnrollWorker_query_def SetWorkerToken_def sample_defs empty_db_def Let_def)
  then obtain s' where s': "EnrollWorker (calm 3) sample_enroll_config (Some ''i'') (Some sample_bytes)
      sample_enroll_request sample_server = (Inr ?r, s')" by blast
  have "fst (authenticateWorkerToken (calm 4) (''Bearer '' @ er_api_token ?r) s') = Inr (er_worker_id ?r)"
    by (rule enroll_authenticates [OF sample_cache_ok s' sample_bytes_length])
       (auto simp: sample_defs empty_db_def dest: sym [of _ "HashToken sample_token"] simp: sample_hash_fresh sample_hash_fresh [symmetric])
  with s' show ?thesis by blast
qed

theorem renew_replaces_token_witness:
  "\<exists>resp s'. RenewEnrollment (calm 3) (Some sample_bytes) ''w1'' sample_server = (Inr resp, s') \<and> rr_renewed resp
     \<and> HashToken sample_token = HashToken (rr_api_token resp)"
proof -
  let ?r = "\<lparr>rr_renewed = True, rr_api_token = sample_token, rr_reason = []\<rparr>"
  let ?s = "snd (RenewEnrollment (calm 3) (Some sample_bytes) ''w1'' sample_server)"
  have r: "RenewEnrollment (calm 3) (Some sample_bytes) ''w1'' sample_server = (Inr ?r, ?s)"
    by (simp add: RenewEnrollment_def sample_generate GetWorkerByID_def SetWorkerToken_def sample_defs empty_db_def Let_def)
  have tok: "parseBearerToken (''Bearer '' @ sample_token) = Inr sample_token"
    by (rule parse_issued_token(1) [OF sample_bytes_length sample_generate])
  have "fst (authenticateWorkerToken (calm 4) (''Bearer '' @ sample_token) ?s) = Inr ''w1''"
    by (simp only: authenticateWorkerToken_def tok)
       (simp add: RenewEnrollment_def sample_generate GetWorkerByID_def SetWorkerToken_def
         sample_defs empty_db_def Let_def cache_lookup_def cache_store_def cache_drop_def GetWorkerByTokenHash_def token_usable_def
         sample_hash_fresh sample_hash_fresh [symmetric])
  from renew_replaces_token [OF sample_cache_ok r _ this tok] r show ?thesis by auto
qed

section \<open>What revocation does not survive\<close>

text \<open>
  C29. A heartbeat un-revokes: if a request of the worker was authenticated before the
  revocation and its heartbeat is written after it, the revoked worker's row is active again,
  and from then on the unauthenticated \<open>RenewEnrollment\<close> issues it a fresh token.
\<close>

theorem heartbeat_resurrects_revoked:
  assumes x: "x \<in> set (d_workers (s_db s))" "w_id x = w" "w \<noteq> []" and inv: "workers_inv (s_db s)"
    and served: "net e Q_UpdateWorkerHeartbeat w = Served" "net e Q_GetWorkerByID w = Served" "net e Q_SetWorkerToken w = Served"
    and due: "fst (ShouldUpdate (go_now e) w (s_hb s))"
  shows "\<exists>resp s'. RenewEnrollment e (Some bytes) w (touchWorkerHeartbeat e w s) = (Inr resp, s')
     \<and> rr_renewed resp \<and> rr_api_token resp = tokenPrefix @ hex_encode bytes"
proof -
  let ?t = "touchWorkerHeartbeat e w s"
  let ?x = "x\<lparr>w_last_seen_at := sql_now e, w_status := Active\<rparr>"
  have t: "s_db ?t = snd (UpdateWorkerHeartbeat (sql_now e) w (s_db s))"
    using due served(1) by (auto simp: touchWorkerHeartbeat_def UpdateWorkerHeartbeat_def split: prod.splits bool.splits)
  have "?x \<in> set (d_workers (s_db ?t))"
    unfolding t UpdateWorkerHeartbeat_def using x by (auto intro: update_where_hit)
  moreover have "workers_inv (s_db ?t)" unfolding t by (rule worker_updates_inv(3) [OF inv])
  ultimately have "GetWorkerByID w (s_db ?t) = (Inr ?x, s_db ?t)" using x(2) by (simp add: GetWorkerByID_iff)
  then show ?thesis
    using x(3) served by (auto simp: RenewEnrollment_def GenerateAPIToken_def Let_def SetWorkerToken_def)
qed

theorem heartbeat_resurrects_revoked_witness:
  "\<exists>resp s'. RenewEnrollment (calm 9) (Some sample_bytes) ''w1''
       (touchWorkerHeartbeat (calm 9) ''w1'' (snd (RevokeEnrollment (calm 7) ''w1'' ''gone'' sample_server))) = (Inr resp, s')
     \<and> rr_renewed resp"
proof -
  let ?s = "snd (RevokeEnrollment (calm 7) ''w1'' ''gone'' sample_server)"
  let ?x = "(sample_worker ''w1'' ''us'' Revoked None)\<lparr>w_revoked_at := Some 7, w_revoked_reason := Some ''gone''\<rparr>"
  have x: "?x \<in> set (d_workers (s_db ?s))" and i: "workers_inv (s_db ?s)"
    by (simp_all add: RevokeEnrollment_def GetWorkerByID_def SetWorkerToken_def RevokeWorker_def
        sample_defs empty_db_def workers_inv_def cache_drop_def)
  have h: "s_hb ?s = None"
    by (simp add: RevokeEnrollment_def GetWorkerByID_def SetWorkerToken_def RevokeWorker_def
        sample_defs empty_db_def cache_drop_def)
  have "\<exists>resp s'. RenewEnrollment (calm 9) (Some sample_bytes) ''w1'' (touchWorkerHeartbeat (calm 9) ''w1'' ?s) = (Inr resp, s')
     \<and> rr_renewed resp \<and> rr_api_token resp = tokenPrefix @ hex_encode sample_bytes"
    by (rule heartbeat_resurrects_revoked [OF x]) (simp_all add: i h ShouldUpdate_def sample_worker_def)
  then show ?thesis by blast
qed

text \<open>
  A listing without a status filter is empty: an absent filter reaches the statement as
  the empty string, which is not NULL, so no worker matches and the count is zero.
\<close>

theorem list_workers_unfiltered:
  assumes "net e Q_ListWorkers [] = Served" and "0 \<le> n"
  shows "\<exists>s'. ListWorkers e n region [] s = (Inr ([], 0), s')"
proof -
  have "\<not> worker_listed region [] w" for w
    by (cases "w_status w") (simp_all add: worker_listed_def null_or_eq_def)
  then have none: "filter (worker_listed region []) ws = []" for ws by simp
  have l: "ListWorkers_query region [] (page_size n) 0 d = (Inr [], d)" for d
    using assms(2) none by (simp add: ListWorkers_query_def sql_limit_def page_size_def)
  have c: "CountWorkers region [] d = (Inr 0, d)" for d
    by (simp add: CountWorkers_def none)
  have wz: "wrap32 0 = 0" by (simp add: wrap32_def)
  show ?thesis
    using assms(1) by (cases "net e Q_CountWorkers []")
      (simp_all add: ListWorkers_def l c sql_def call_def wz)
qed

theorem list_workers_unfiltered_witness:
  "\<exists>s'. ListWorkers (calm 1) 0 [] [] sample_server = (Inr ([], 0), s')"
  by (rule list_workers_unfiltered) simp_all

end
