(* ===== verification/Worker_Agent.thy ===== *)
theory Worker_Agent
  imports Enrollment
begin

text \<open>
  The worker process (\<open>internal/app/worker/worker.go\<close> and \<open>polling.go\<close>). Its generated RPC
  clients are a parameter: a record of functions on a world \<open>'w\<close> that holds everything the
  worker does not see, with the Authorization header as an argument; so is the wait between
  two attempts, which a cancelled context cuts short.
\<close>

section \<open>The clients\<close>

datatype client_error = Rpc rpc_code | Transport

definition isUnauthenticatedError :: "client_error \<Rightarrow> bool" where
  "isUnauthenticatedError err \<longleftrightarrow> err = Rpc Unauthenticated"

type_synonym ('r, 'w) rpc = "'w \<Rightarrow> (client_error + 'r) \<times> 'w"

record 'w clients =
  rc_enroll :: "enroll_request \<Rightarrow> (enroll_response, 'w) rpc"
  rc_renewEnrollment :: "string \<Rightarrow> (renew_response, 'w) rpc"
  rc_getJobs :: "string \<Rightarrow> int \<Rightarrow> (monitor_job list, 'w) rpc"
  rc_submitResult :: "string \<Rightarrow> monitor_result \<Rightarrow> (submit_response, 'w) rpc"
  rc_renewLease :: "string \<Rightarrow> string \<Rightarrow> (bool, 'w) rpc"
  rc_wait :: "duration \<Rightarrow> 'w \<Rightarrow> bool \<times> 'w"

section \<open>State and configuration\<close>

record worker =
  k_id :: string
  k_region :: string
  k_version :: string
  k_apiEndpoint :: string
  k_enrollmentURL :: string
  k_clusterToken :: string
  k_apiToken :: string
  k_maxConcurrency :: int
  k_activeJobs :: "string list"
  k_pollBaseInterval :: duration
  k_pollMaxInterval :: duration
  k_leaseRenewalThreshold :: int
  k_leaseRenewalInterval :: duration
  k_resultSubmitMaxAttempts :: int
  k_resultSubmitRetryInterval :: duration
  k_resultSubmitTimeout :: duration

definition NewWorker :: "string \<Rightarrow> string \<Rightarrow> string \<Rightarrow> string \<Rightarrow> string \<Rightarrow> int \<Rightarrow> worker" where
  "NewWorker i region version enrollmentURL clusterToken maxConcurrency =
     \<lparr>k_id = i, k_region = region, k_version = version, k_apiEndpoint = [], k_enrollmentURL = enrollmentURL,
      k_clusterToken = clusterToken, k_apiToken = [], k_maxConcurrency = maxConcurrency,
      k_activeJobs = [], k_pollBaseInterval = second, k_pollMaxInterval = 10 * second,
      k_leaseRenewalThreshold = 20000, k_leaseRenewalInterval = 10 * second,
      k_resultSubmitMaxAttempts = 6, k_resultSubmitRetryInterval = 5 * second,
      k_resultSubmitTimeout = 10 * second\<rparr>"

definition WithLeaseRenewalConfig :: "int \<Rightarrow> duration \<Rightarrow> worker \<Rightarrow> worker" where
  "WithLeaseRenewalConfig threshold interval k =
     k\<lparr>k_leaseRenewalThreshold := (if 0 < threshold then threshold else k_leaseRenewalThreshold k),
       k_leaseRenewalInterval := (if 0 < interval then interval else k_leaseRenewalInterval k)\<rparr>"

definition WithPollingConfig :: "duration \<Rightarrow> duration \<Rightarrow> worker \<Rightarrow> worker" where
  "WithPollingConfig baseInterval maxInterval k =
     (let b = (if baseInterval \<le> 0 then second else baseInterval);
          m = (if maxInterval < b then b else maxInterval)
      in k\<lparr>k_pollBaseInterval := b, k_pollMaxInterval := m\<rparr>)"

definition WithResultRetryConfig :: "int \<Rightarrow> duration \<Rightarrow> duration \<Rightarrow> worker \<Rightarrow> worker" where
  "WithResultRetryConfig maxAttempts retryInterval submitTimeout k =
     k\<lparr>k_resultSubmitMaxAttempts := (if maxAttempts \<le> 0 then 1 else maxAttempts),
       k_resultSubmitRetryInterval := (if retryInterval \<le> 0 then 5 * second else retryInterval),
       k_resultSubmitTimeout := (if submitTimeout \<le> 0 then 10 * second else submitTimeout)\<rparr>"

definition authHeader :: "worker \<Rightarrow> string" where
  "authHeader k = ''Bearer '' @ k_apiToken k"

text \<open>One call of the worker service, with the current token.\<close>

definition getJobs :: "'w clients \<Rightarrow> int \<Rightarrow> worker \<Rightarrow> (monitor_job list, 'w) rpc" where
  "getJobs c available k = rc_getJobs c (authHeader k) available"

definition submitResultOnce :: "'w clients \<Rightarrow> monitor_result \<Rightarrow> worker \<Rightarrow> (submit_response, 'w) rpc" where
  "submitResultOnce c x k = rc_submitResult c (authHeader k) x"

definition renewLeaseOnce :: "'w clients \<Rightarrow> string \<Rightarrow> worker \<Rightarrow> (bool, 'w) rpc" where
  "renewLeaseOnce c run k = rc_renewLease c (authHeader k) run"

declare getJobs_def [simp] submitResultOnce_def [simp] renewLeaseOnce_def [simp]

section \<open>Enrolling and renewing\<close>

definition worker_enroll :: "'w clients \<Rightarrow> worker \<Rightarrow> 'w \<Rightarrow> bool \<times> worker \<times> 'w" where
  "worker_enroll c k w =
     (case rc_enroll c \<lparr>eq_enrollment_token = k_clusterToken k, eq_hostname = k_id k,
               eq_worker_version = k_version k, eq_region = k_region k\<rparr> w of
        (Inl _, w') \<Rightarrow> (False, k, w')
      | (Inr resp, w') \<Rightarrow>
          if \<not> er_accepted resp then (False, k, w')
          else (True, k\<lparr>k_id := er_worker_id resp, k_apiToken := er_api_token resp,
                        k_apiEndpoint := er_api_endpoint resp\<rparr>, w'))"

definition refreshAPIToken :: "'w clients \<Rightarrow> worker \<Rightarrow> 'w \<Rightarrow> bool \<times> worker \<times> 'w" where
  "refreshAPIToken c k w =
     (if k_id k = [] then (False, k, w)
      else
        (case rc_renewEnrollment c (k_id k) w of
           (Inl _, w') \<Rightarrow> (False, k, w')
         | (Inr resp, w') \<Rightarrow>
             if \<not> rr_renewed resp \<or> rr_api_token resp = [] then (False, k, w')
             else (True, k\<lparr>k_apiToken := rr_api_token resp\<rparr>, w')))"

section \<open>Polling\<close>

definition nextPollInterval :: "worker \<Rightarrow> duration \<Rightarrow> int \<Rightarrow> bool \<Rightarrow> duration" where
  "nextPollInterval k current jobsReceived pollErr =
     (let current' = (if current < k_pollBaseInterval k then k_pollBaseInterval k else current)
      in if jobsReceived < 0 then k_pollBaseInterval k
         else if \<not> pollErr \<and> 0 < jobsReceived then k_pollBaseInterval k
         else
           (let nxt = wrap64 (current' * 2);
                nxt' = (if nxt < k_pollBaseInterval k then k_pollBaseInterval k else nxt)
            in if k_pollMaxInterval k < nxt' then k_pollMaxInterval k else nxt'))"

definition getJobsWithAuthRecovery ::
  "'w clients \<Rightarrow> int \<Rightarrow> worker \<Rightarrow> 'w \<Rightarrow> (client_error + monitor_job list) \<times> worker \<times> 'w" where
  "getJobsWithAuthRecovery c available k w =
     (case getJobs c available k w of
        (Inr jobs, w1) \<Rightarrow> (Inr jobs, k, w1)
      | (Inl err, w1) \<Rightarrow>
          if \<not> isUnauthenticatedError err then (Inl err, k, w1)
          else
            (case refreshAPIToken c k w1 of
               (False, k', w2) \<Rightarrow> (Inl Transport, k', w2)
             | (True, k', w2) \<Rightarrow>
                 (case getJobs c available k' w2 of (r, w3) \<Rightarrow> (r, k', w3))))"

text \<open>
  \<open>pollForJobs\<close> answers the number of jobs received (\<open>-1\<close> at capacity) and whether there was
  an error; the jobs for which it starts a goroutine are the third component. Each of them
  enters itself into \<open>activeJobs\<close> when it is scheduled (\<open>start_job\<close>, the head of
  \<open>executeCheck\<close>).
\<close>

definition active_count :: "worker \<Rightarrow> int" where
  "active_count k = int (length (k_activeJobs k))"

definition pollForJobs :: "'w clients \<Rightarrow> worker \<Rightarrow> 'w \<Rightarrow> int \<times> bool \<times> monitor_job list \<times> worker \<times> 'w" where
  "pollForJobs c k w =
     (let available = wrap32 (k_maxConcurrency k - wrap32 (active_count k))
      in if available \<le> 0 then (-1, False, [], k, w)
         else
           (case getJobsWithAuthRecovery c available k w of
              (Inl _, k', w') \<Rightarrow> (0, True, [], k', w')
            | (Inr jobs, k', w') \<Rightarrow> (int (length jobs), False, jobs, k', w')))"

definition start_job :: "monitor_job \<Rightarrow> worker \<Rightarrow> worker" where
  "start_job job k = k\<lparr>k_activeJobs := List.insert (mj_run_id job) (k_activeJobs k)\<rparr>"

definition cancelAllJobs :: "worker \<Rightarrow> worker" where
  "cancelAllJobs k = k\<lparr>k_activeJobs := []\<rparr>"

section \<open>Submitting a result\<close>

definition isJobActive :: "string \<Rightarrow> worker \<Rightarrow> bool" where
  "isJobActive run k \<longleftrightarrow> run \<in> set (k_activeJobs k)"

definition worker_completeJob :: "string \<Rightarrow> worker \<Rightarrow> worker" where
  "worker_completeJob run k = k\<lparr>k_activeJobs := removeAll run (k_activeJobs k)\<rparr>"

text \<open>
  One round of the loop of \<open>sendResult\<close>: \<open>Inl (True, b)\<close> when it breaks, with \<open>b\<close> the
  \<open>committed\<close> flag, \<open>Inl (False, _)\<close> when the function returns from inside it, \<open>Inr\<close> the
  next attempt when it goes on. A refreshed token costs no attempt (\<open>attempt--; continue\<close>).
\<close>

definition after_attempt :: "'w clients \<Rightarrow> int \<Rightarrow> worker \<Rightarrow> 'w \<Rightarrow> ((bool \<times> bool) + int) \<times> worker \<times> 'w" where
  "after_attempt c attempt k w =
     (if attempt = k_resultSubmitMaxAttempts k then (Inl (True, False), k, w)
      else
        (case rc_wait c (k_resultSubmitRetryInterval k) w of
           (False, w') \<Rightarrow> (Inl (False, False), k, w')
         | (True, w') \<Rightarrow> (Inr (attempt + 1), k, w')))"

definition send_round ::
  "'w clients \<Rightarrow> monitor_result \<Rightarrow> int \<Rightarrow> worker \<Rightarrow> 'w \<Rightarrow> ((bool \<times> bool) + int) \<times> worker \<times> 'w" where
  "send_round c x attempt k w =
     (if \<not> isJobActive (x_run_id x) k then (Inl (False, False), k, w)
      else
        (case submitResultOnce c x k w of
           (Inl err, w1) \<Rightarrow>
             if isUnauthenticatedError err then
               (case refreshAPIToken c k w1 of
                  (True, k', w2) \<Rightarrow> (Inr attempt, k', w2)
                | (False, k', w2) \<Rightarrow> after_attempt c attempt k' w2)
             else after_attempt c attempt k w1
         | (Inr resp, w1) \<Rightarrow>
             if sr_committed resp then (Inl (True, True), k, w1) else after_attempt c attempt k w1))"

text \<open>The loop need not end, so it is partial: \<open>None\<close> is a run that never leaves it.\<close>

partial_function (option) send_loop ::
  "'w clients \<Rightarrow> monitor_result \<Rightarrow> int \<Rightarrow> worker \<Rightarrow> 'w \<Rightarrow> ((bool \<times> bool) \<times> worker \<times> 'w) option" where
  "send_loop c x attempt k w =
     (if k_resultSubmitMaxAttempts k < attempt then Some ((True, False), k, w)
      else
        (case send_round c x attempt k w of (r, k', w') \<Rightarrow>
           (case r of
              Inl b \<Rightarrow> Some (b, k', w')
            | Inr attempt' \<Rightarrow> send_loop c x attempt' k' w')))"

definition sendResult :: "'w clients \<Rightarrow> monitor_result \<Rightarrow> worker \<Rightarrow> 'w \<Rightarrow> ((bool \<times> bool) \<times> worker \<times> 'w) option" where
  "sendResult c x k w =
     (case send_loop c x 1 k w of
        None \<Rightarrow> None
      | Some ((broke, committed), k', w') \<Rightarrow>
          Some ((broke, committed), (if broke then worker_completeJob (x_run_id x) k' else k'), w'))"

section \<open>Renewing leases\<close>

text \<open>One tick of \<open>renewLease\<close>: whether its loop goes on.\<close>

definition renew_tick :: "'w clients \<Rightarrow> string \<Rightarrow> worker \<Rightarrow> 'w \<Rightarrow> bool \<times> worker \<times> 'w" where
  "renew_tick c run k w =
     (case renewLeaseOnce c run k w of
        (Inr renewed, w1) \<Rightarrow> (renewed, k, w1)
      | (Inl err, w1) \<Rightarrow>
          if isUnauthenticatedError err then
            (case refreshAPIToken c k w1 of
               (False, k', w2) \<Rightarrow> (False, k', w2)
             | (True, k', w2) \<Rightarrow>
                 (case renewLeaseOnce c run k' w2 of
                    (Inr renewed, w3) \<Rightarrow> (renewed, k', w3)
                  | (Inl _, w3) \<Rightarrow> (False, k', w3)))
          else (False, k, w1))"

fun renewLease_ticks :: "'w clients \<Rightarrow> string \<Rightarrow> nat \<Rightarrow> worker \<Rightarrow> 'w \<Rightarrow> bool \<times> worker \<times> 'w" where
  "renewLease_ticks c run 0 k w = (True, k, w)"
| "renewLease_ticks c run (Suc n) k w =
     (case renew_tick c run k w of
        (False, k', w') \<Rightarrow> (False, k', w')
      | (True, k', w') \<Rightarrow> renewLease_ticks c run n k' w')"

section \<open>The loop\<close>

text \<open>
  \<open>pollLoop\<close> over the events of its \<open>select\<close> until the context ends, with the steps its
  goroutines make in between. Its trace holds, for every poll, the interval to the next one and
  the jobs for which a goroutine is started.
\<close>

datatype 'w loop_event = PollTimer | HeartbeatTicker | Goroutine "worker \<Rightarrow> 'w \<Rightarrow> worker \<times> 'w"

fun poll_loop :: "'w clients \<Rightarrow> duration \<Rightarrow> 'w loop_event list \<Rightarrow> worker \<Rightarrow> 'w
    \<Rightarrow> (duration \<times> monitor_job list) list \<times> worker \<times> 'w" where
  "poll_loop c currentInterval [] k w = ([], cancelAllJobs k, w)"
| "poll_loop c currentInterval (PollTimer # es) k w =
     (case pollForJobs c k w of (jobsReceived, err, jobs, k', w') \<Rightarrow>
        (let currentInterval' = nextPollInterval k' currentInterval jobsReceived err
         in case poll_loop c currentInterval' es k' w' of
              (tr, k'', w'') \<Rightarrow> ((currentInterval', jobs) # tr, k'', w'')))"
| "poll_loop c currentInterval (HeartbeatTicker # es) k w = poll_loop c currentInterval es k w"
| "poll_loop c currentInterval (Goroutine f # es) k w =
     (case f k w of (k', w') \<Rightarrow> poll_loop c currentInterval es k' w')"

definition pollLoop :: "'w clients \<Rightarrow> 'w loop_event list \<Rightarrow> worker \<Rightarrow> 'w
    \<Rightarrow> (duration \<times> monitor_job list) list \<times> worker \<times> 'w" where
  "pollLoop c es k w = poll_loop c (k_pollBaseInterval k) es k w"

definition Worker_Run :: "'w clients \<Rightarrow> 'w loop_event list \<Rightarrow> worker \<Rightarrow> 'w
    \<Rightarrow> (duration \<times> monitor_job list) list option \<times> worker \<times> 'w" where
  "Worker_Run c es k w =
     (case worker_enroll c k w of
        (False, k', w') \<Rightarrow> (None, k', w')
      | (True, k', w') \<Rightarrow> (case pollLoop c es k' w' of (tr, k'', w'') \<Rightarrow> (Some tr, k'', w'')))"

section \<open>Polling intervals\<close>

lemma nextPollInterval_range:
  assumes "k_pollBaseInterval k \<le> k_pollMaxInterval k"
  shows "k_pollBaseInterval k \<le> nextPollInterval k current n err"
    and "nextPollInterval k current n err \<le> k_pollMaxInterval k"
  using assms by (simp_all add: nextPollInterval_def Let_def)

lemma nextPollInterval_idle:
  assumes "k_pollBaseInterval k \<le> current" and "current \<le> k_pollMaxInterval k"
    and "0 \<le> k_pollBaseInterval k" and "2 * k_pollMaxInterval k < 2 ^ 63" and "0 \<le> n" and "err \<or> n = 0"
  shows "nextPollInterval k current n err = min (k_pollMaxInterval k) (2 * current)"
proof -
  have "wrap64 (current * 2) = 2 * current"
    using assms by (subst wrap64_id) (simp_all add: in_i64_def)
  then show ?thesis using assms by (auto simp: nextPollInterval_def Let_def)
qed

lemma WithPollingConfig_ordered:
  "0 < k_pollBaseInterval (WithPollingConfig b m k) \<and>
   k_pollBaseInterval (WithPollingConfig b m k) \<le> k_pollMaxInterval (WithPollingConfig b m k)"
  by (simp add: WithPollingConfig_def Let_def second_def)

lemma idle_polls:
  assumes "0 \<le> k_pollBaseInterval k" and "k_pollBaseInterval k \<le> k_pollMaxInterval k"
    and "2 * k_pollMaxInterval k < 2 ^ 63"
  shows "((\<lambda>current. nextPollInterval k current 0 err) ^^ i) (k_pollBaseInterval k)
     = min (k_pollMaxInterval k) (k_pollBaseInterval k * 2 ^ i)"
proof (induction i)
  case 0
  then show ?case using assms by simp
next
  case (Suc i)
  let ?x = "min (k_pollMaxInterval k) (k_pollBaseInterval k * 2 ^ i)"
  have "k_pollBaseInterval k * 1 \<le> k_pollBaseInterval k * 2 ^ i"
    using assms(1) by (intro mult_left_mono) simp_all
  then have "k_pollBaseInterval k \<le> ?x" using assms(2) by simp
  then have "nextPollInterval k ?x 0 err = min (k_pollMaxInterval k) (2 * ?x)"
    using assms by (intro nextPollInterval_idle) simp_all
  also have "\<dots> = min (k_pollMaxInterval k) (k_pollBaseInterval k * 2 ^ Suc i)"
    using assms(1,2) by (auto simp: min_def)
  finally show ?case using Suc by simp
qed

text \<open>
  Idle or failing polls back off exponentially from the base interval to the maximum; a
  poll that brought jobs, and one at capacity, goes back to the base; every interval lies
  between the two. \<open>WithPollingConfig\<close> makes the configuration sane; the doubling stays clear
  of the width of \<open>Duration\<close>.
\<close>

theorem poll_backoff:
  fixes b m :: duration and k0 :: worker
  defines "k \<equiv> WithPollingConfig b m k0"
  assumes "2 * k_pollMaxInterval k < 2 ^ 63"
  shows "((\<lambda>current. nextPollInterval k current 0 err) ^^ i) (k_pollBaseInterval k)
        = min (k_pollMaxInterval k) (k_pollBaseInterval k * 2 ^ i)
    \<and> nextPollInterval k current (int n + 1) False = k_pollBaseInterval k
    \<and> nextPollInterval k current (-1) err = k_pollBaseInterval k
    \<and> k_pollBaseInterval k \<le> nextPollInterval k current j err
    \<and> nextPollInterval k current j err \<le> k_pollMaxInterval k"
proof (intro conjI)
  note o = WithPollingConfig_ordered [of b m k0, folded k_def]
  show "((\<lambda>current. nextPollInterval k current 0 err) ^^ i) (k_pollBaseInterval k)
        = min (k_pollMaxInterval k) (k_pollBaseInterval k * 2 ^ i)"
    using o assms(2) by (intro idle_polls) simp_all
  show "k_pollBaseInterval k \<le> nextPollInterval k current j err" "nextPollInterval k current j err \<le> k_pollMaxInterval k"
    using o nextPollInterval_range by simp_all
qed (simp_all add: nextPollInterval_def Let_def)

theorem poll_backoff_witness:
  "((\<lambda>current. nextPollInterval (NewWorker [] [] [] [] [] 5) current 0 True) ^^ 3) second = 8 * second"
  using poll_backoff [where b = second and m = "10 * second" and ?k0.0 = "NewWorker [] [] [] [] [] 5" and err = True and i = 3]
  by (simp add: NewWorker_def WithPollingConfig_def second_def)

end
