(* ===== verification/Worker_Protocol.thy ===== *)
theory Worker_Protocol
  imports Worker_Agent
begin

text \<open>
  Submitting results and polling, over any control plane: when \<open>sendResult\<close> returns, what its
  answer means, and that a worker stays within its concurrency, given the contract
  \<open>control_plane_contract\<close> of the RPC clients.
\<close>

section \<open>Rounds\<close>


definition same_but_token :: "worker \<Rightarrow> worker \<Rightarrow> bool" where
  "same_but_token k k' \<longleftrightarrow> (\<exists>t. k' = k\<lparr>k_apiToken := t\<rparr>)"

lemma same_but_token_refl [simp]: "same_but_token k k"
  unfolding same_but_token_def by (rule exI [of _ "k_apiToken k"]) simp

lemma same_but_token_trans: "same_but_token k k' \<Longrightarrow> same_but_token k' k'' \<Longrightarrow> same_but_token k k''"
  by (auto simp: same_but_token_def)

lemma same_but_token_sel:
  assumes "same_but_token k k'"
  shows "k_activeJobs k' = k_activeJobs k" "k_resultSubmitMaxAttempts k' = k_resultSubmitMaxAttempts k"
    "k_id k' = k_id k" "k_maxConcurrency k' = k_maxConcurrency k"
  using assms by (auto simp: same_but_token_def)

lemma same_but_token_set [simp]: "same_but_token k (k\<lparr>k_apiToken := t\<rparr>)"
  by (auto simp: same_but_token_def)

lemma refresh_same: "refreshAPIToken c k w = (b, k', w') \<Longrightarrow> same_but_token k k'"
  by (auto simp: refreshAPIToken_def split: if_splits prod.splits sum.splits)

lemma getJobs_same: "getJobsWithAuthRecovery c n k w = (r, k', w') \<Longrightarrow> same_but_token k k'"
  by (auto simp: getJobsWithAuthRecovery_def dest: refresh_same split: prod.splits sum.splits if_splits bool.splits)

lemma after_attempt_cases:
  assumes "after_attempt c attempt k w = (r, k', w')"
  shows "k' = k" and "r = Inl (True, False) \<and> w' = w \<or>
     (attempt \<noteq> k_resultSubmitMaxAttempts k \<and> (r = Inl (False, False) \<or> r = Inr (attempt + 1))
      \<and> w' = snd (rc_wait c (k_resultSubmitRetryInterval k) w))"
  using assms by (auto simp: after_attempt_def split: if_splits prod.splits bool.splits)

text \<open>
  The three ways a round ends: with a renewed token and the same attempt; through
  \<open>after_attempt\<close>; or for good.
\<close>

lemma send_round_cases:
  assumes "send_round c x attempt k w = (r, k', w')"
  obtains (inactive) "\<not> isJobActive (x_run_id x) k" and "r = Inl (False, False)" and "k' = k" and "w' = w"
  | (committed) resp where "rc_submitResult c (authHeader k) x w = (Inr resp, w')" and "sr_committed resp"
      and "r = Inl (True, True)" and "k' = k"
  | (renewed) err w1 where "rc_submitResult c (authHeader k) x w = (Inl err, w1)" and "isUnauthenticatedError err"
      and "refreshAPIToken c k w1 = (True, k', w')" and "r = Inr attempt"
  | (refused) err w1 w2 where "rc_submitResult c (authHeader k) x w = (Inl err, w1)" and "isUnauthenticatedError err"
      and "refreshAPIToken c k w1 = (False, k', w2)" and "after_attempt c attempt k' w2 = (r, k', w')"
  | (failed) q w1 where "rc_submitResult c (authHeader k) x w = (q, w1)" and "k' = k"
      and "after_attempt c attempt k w1 = (r, k, w')"
proof (cases "isJobActive (x_run_id x) k")
  case False
  with assms show thesis by (intro inactive) (simp_all add: send_round_def)
next
  case act: True
  obtain q w1 where sub: "rc_submitResult c (authHeader k) x w = (q, w1)" by (cases "rc_submitResult c (authHeader k) x w")
  have fin: thesis if "after_attempt c attempt k w1 = (r, k', w')"
    using failed [OF sub] after_attempt_cases(1) [OF that] that by simp
  show thesis
  proof (cases q)
    case (Inr resp)
    show thesis
    proof (cases "sr_committed resp")
      case True
      with assms act sub Inr show thesis by (intro committed [of resp]) (simp_all add: send_round_def)
    next
      case False
      with assms act sub Inr show thesis by (intro fin) (simp add: send_round_def)
    qed
  next
    case (Inl err)
    show thesis
    proof (cases "isUnauthenticatedError err")
      case False
      with assms act sub Inl show thesis by (intro fin) (simp add: send_round_def)
    next
      case un: True
      obtain b k2 w2 where rf: "refreshAPIToken c k w1 = (b, k2, w2)" by (cases "refreshAPIToken c k w1") auto
      show thesis
      proof (cases b)
        case True
        with assms act sub Inl un rf show thesis by (intro renewed [of err w1]) (simp_all add: send_round_def)
      next
        case False
        with assms act sub Inl un rf have "after_attempt c attempt k2 w2 = (r, k', w')" by (simp add: send_round_def)
        with after_attempt_cases(1) [OF this] sub Inl un rf False show thesis by (intro refused [of err w1 w2]) simp_all
      qed
    qed
  qed
qed

lemma send_round_same: "send_round c x attempt k w = (r, k', w') \<Longrightarrow> same_but_token k k'"
  by (cases rule: send_round_cases) (auto dest: refresh_same)

lemma send_loop_returns:
  fixes m :: "'w \<Rightarrow> nat"
  assumes submit: "\<And>h w. m (snd (rc_submitResult c h x w)) \<le> m w"
    and renew: "\<And>i w. m (snd (rc_renewEnrollment c i w)) \<le> m w"
    and wait: "\<And>d w. m (snd (rc_wait c d w)) \<le> m w"
    and spend: "\<And>k w err w1 k' w2. rc_submitResult c (authHeader k) x w = (Inl err, w1) \<Longrightarrow>
        isUnauthenticatedError err \<Longrightarrow> refreshAPIToken c k w1 = (True, k', w2) \<Longrightarrow> m w2 < m w"
  shows "send_loop c x attempt k w \<noteq> None"
proof (induction "(m w, nat (k_resultSubmitMaxAttempts k + 1 - attempt))" arbitrary: attempt k w
    rule: wf_induct_rule [OF wf_lex_prod [OF wf_less_than wf_less_than]])
  case (1 attempt k w)
  have refresh: "m w2 \<le> m w1" if "refreshAPIToken c k w1 = (b, k', w2)" for b k' w1 w2
    using that renew [of "k_id k" w1] by (auto simp: refreshAPIToken_def split: if_splits prod.splits sum.splits)
  have after: "m w2 \<le> m w1 \<and> (\<forall>a. r = Inr a \<longrightarrow> a = attempt + 1)"
    if "after_attempt c attempt k' w1 = (r, k', w2)" for r k' w1 w2
    using after_attempt_cases(2) [OF that] wait by auto
  show ?case
  proof (cases "k_resultSubmitMaxAttempts k < attempt")
    case True
    then show ?thesis by (subst send_loop.simps) simp
  next
    case False
    obtain r k' w' where rd: "send_round c x attempt k w = (r, k', w')" by (cases "send_round c x attempt k w")
    note eq = send_loop.simps [of c x attempt k w] and same = same_but_token_sel(2) [OF send_round_same [OF rd]]
    show ?thesis
    proof (cases r)
      case (Inl b)
      with False rd show ?thesis by (simp add: eq)
    next
      case (Inr a)
      have "m w' < m w \<or> m w' \<le> m w \<and> a = attempt + 1"
        using rd
      proof (cases rule: send_round_cases)
        case (renewed err w1)
        then show ?thesis using spend by blast
      next
        case (refused err w1 w2)
        then show ?thesis using refresh [OF refused(3)] after [OF refused(4)] submit [of "authHeader k" w] Inr by auto
      next
        case (failed q w1)
        then show ?thesis using after [OF failed(3)] submit [of "authHeader k" w] Inr by auto
      qed (use Inr in simp_all)
      then have "send_loop c x a k' w' \<noteq> None" using False same by (intro "1.hyps") auto
      with False rd Inr show ?thesis by (simp add: eq)
    qed
  qed
qed

lemma send_result_unfold:
  "sendResult c x k w = None \<longleftrightarrow> send_loop c x 1 k w = None"
  by (auto simp: sendResult_def split: option.splits)

text \<open>
  C19. A result is given up or committed after finitely many rounds, provided the control plane
  can answer \<open>Unauthenticated\<close> and still renew the token only so often (\<open>m\<close> bounds how often
  from each state): \<open>sendResult\<close> returns.
\<close>

theorem send_result_returns:
  fixes m :: "'w \<Rightarrow> nat"
  assumes "\<And>h w. m (snd (rc_submitResult c h x w)) \<le> m w"
    and "\<And>i w. m (snd (rc_renewEnrollment c i w)) \<le> m w"
    and "\<And>d w. m (snd (rc_wait c d w)) \<le> m w"
    and "\<And>k w err w1 k' w2. rc_submitResult c (authHeader k) x w = (Inl err, w1) \<Longrightarrow>
        isUnauthenticatedError err \<Longrightarrow> refreshAPIToken c k w1 = (True, k', w2) \<Longrightarrow> m w2 < m w"
  shows "\<exists>b k' w'. sendResult c x k w = Some (b, k', w')"
proof -
  have "send_loop c x 1 k w \<noteq> None" by (rule send_loop_returns [of m, OF assms])
  then show ?thesis using send_result_unfold [of c x k w] by (cases "sendResult c x k w") auto
qed

text \<open>A control plane that accepts nothing and, \<open>w\<close> more times, calls the token invalid.\<close>

definition grumpy_clients :: "nat clients" where
  "grumpy_clients = \<lparr>rc_enroll = (\<lambda>_ w. (Inl Transport, w)),
     rc_renewEnrollment = (\<lambda>_ w. (Inr \<lparr>rr_renewed = True, rr_api_token = ''t'', rr_reason = []\<rparr>, w)),
     rc_getJobs = (\<lambda>_ _ w. (Inl Transport, w)),
     rc_submitResult = (\<lambda>_ _ w. if w = 0 then (Inl Transport, 0) else (Inl (Rpc Unauthenticated), w - 1)),
     rc_renewLease = (\<lambda>_ _ w. (Inl Transport, w)), rc_wait = (\<lambda>_ w. (True, w))\<rparr>"

theorem send_result_returns_witness:
  "\<exists>b k' w'. sendResult grumpy_clients (sample_result ''r'' ''m'' ''us'' 1 ''OK'')
     ((NewWorker ''w'' [] [] [] [] 5)\<lparr>k_activeJobs := [''r'']\<rparr>) 3 = Some (b, k', w')"
  by (rule send_result_returns [where m = id])
     (auto simp: grumpy_clients_def refreshAPIToken_def isUnauthenticatedError_def split: if_splits prod.splits sum.splits)

text \<open>
  Rule induction over the rounds of a run that ends: it gave up, the last round stopped it, or
  a round went on to the rest of the run.
\<close>

lemma send_loop_induct:
  assumes "send_loop c x a k w = Some y"
    and step: "\<And>loop c x a k w y. (\<And>c x a k w y. loop c x a k w = Some y \<Longrightarrow> P c x a k w y) \<Longrightarrow>
       (if k_resultSubmitMaxAttempts k < a then Some ((True, False), k, w)
        else case send_round c x a k w of (r, k', w') \<Rightarrow>
          (case r of Inl b \<Rightarrow> Some (b, k', w') | Inr a' \<Rightarrow> loop c x a' k' w')) = Some y \<Longrightarrow> P c x a k w y"
  shows "P c x a k w y"
proof -
  note r = send_loop.raw_induct [where P = P and xa = "((((c, x), a), k), w)" and y = y, unfolded prod.case]
  show ?thesis by (rule r [OF step assms(1)])
qed

lemma send_loop_rounds [consumes 1, case_names gave_up stopped went_on]:
  assumes "send_loop c x a k w = Some y"
    and gave_up: "\<And>a k w. k_resultSubmitMaxAttempts k < a \<Longrightarrow> P a k w ((True, False), k, w)"
    and stopped: "\<And>a k w b k' w'. a \<le> k_resultSubmitMaxAttempts k \<Longrightarrow>
        send_round c x a k w = (Inl b, k', w') \<Longrightarrow> P a k w (b, k', w')"
    and went_on: "\<And>a k w a' k' w' y. a \<le> k_resultSubmitMaxAttempts k \<Longrightarrow>
        send_round c x a k w = (Inr a', k', w') \<Longrightarrow> P a' k' w' y \<Longrightarrow> P a k w y"
  shows "P a k w y"
proof -
  have "c = c \<and> x = x \<longrightarrow> P a k w y"
  proof (rule send_loop_induct [where P = "\<lambda>c' x' a k w y. c' = c \<and> x' = x \<longrightarrow> P a k w y", OF assms(1)], intro impI)
    fix loop c' x' a k w y
    assume ih: "\<And>c' x' a k w y. loop c' x' a k w = Some y \<Longrightarrow> c' = c \<and> x' = x \<longrightarrow> P a k w y"
      and body: "(if k_resultSubmitMaxAttempts k < a then Some ((True, False), k, w)
        else case send_round c' x' a k w of (r, k', w') \<Rightarrow>
          (case r of Inl b \<Rightarrow> Some (b, k', w') | Inr a' \<Rightarrow> loop c' x' a' k' w')) = Some y"
      and pre: "c' = c \<and> x' = x"
    obtain r k' w' where rd: "send_round c x a k w = (r, k', w')" by (cases "send_round c x a k w")
    show "P a k w y"
    proof (cases "k_resultSubmitMaxAttempts k < a")
      case True
      with body gave_up show ?thesis by auto
    next
      case False
      then show ?thesis
        using body pre rd ih stopped [of a k w] went_on [of a k w] by (cases r) auto
    qed
  qed
  then show ?thesis by simp
qed

lemma send_loop_stuck:
  assumes "send_loop c x a k w = Some y"
    and un: "\<And>h w. fst (rc_submitResult c h x w) = Inl (Rpc Unauthenticated)"
    and rn: "\<And>i w. \<exists>resp. fst (rc_renewEnrollment c i w) = Inr resp \<and> rr_renewed resp \<and> rr_api_token resp \<noteq> []"
    and "k_id k \<noteq> []" and "isJobActive (x_run_id x) k" and "a \<le> k_resultSubmitMaxAttempts k"
  shows False
proof -
  have round: "\<exists>t w'. send_round c x a k w = (Inr a, k\<lparr>k_apiToken := t\<rparr>, w')"
    if "k_id k \<noteq> []" and "isJobActive (x_run_id x) k" for a k w
  proof -
    obtain w1 where sub: "rc_submitResult c (authHeader k) x w = (Inl (Rpc Unauthenticated), w1)"
      using un [of "authHeader k" w] by (cases "rc_submitResult c (authHeader k) x w") simp
    obtain resp w2 where "rc_renewEnrollment c (k_id k) w1 = (Inr resp, w2)" "rr_renewed resp" "rr_api_token resp \<noteq> []"
      using rn [of "k_id k" w1] by (cases "rc_renewEnrollment c (k_id k) w1") auto
    then have "refreshAPIToken c k w1 = (True, k\<lparr>k_apiToken := rr_api_token resp\<rparr>, w2)"
      using that by (simp add: refreshAPIToken_def)
    with sub that show ?thesis by (auto simp: send_round_def isUnauthenticatedError_def)
  qed
  from assms(1,4-) show False
  proof (induction rule: send_loop_rounds)
    case (stopped a k w b k' w')
    with round [of k a w] show ?case by auto
  next
    case (went_on a k w a' k' w' y)
    then obtain t where "k' = k\<lparr>k_apiToken := t\<rparr>" "a' = a" using round [of k a w] by auto
    with went_on show ?case by (simp add: isJobActive_def)
  qed simp
qed

text \<open>
  C36. Against a control plane that answers every submission \<open>Unauthenticated\<close> and renews the
  token whenever asked, \<open>sendResult\<close> never returns: such a round costs no attempt.
\<close>

theorem send_result_diverges:
  assumes "\<And>h w. fst (rc_submitResult c h x w) = Inl (Rpc Unauthenticated)"
    and "\<And>i w. \<exists>resp. fst (rc_renewEnrollment c i w) = Inr resp \<and> rr_renewed resp \<and> rr_api_token resp \<noteq> []"
    and "k_id k \<noteq> []" and "isJobActive (x_run_id x) k" and "1 \<le> k_resultSubmitMaxAttempts k"
  shows "sendResult c x k w = None"
proof (rule ccontr)
  assume "sendResult c x k w \<noteq> None"
  then obtain y where "send_loop c x 1 k w = Some y" by (auto simp: sendResult_def split: option.splits)
  from send_loop_stuck [OF this assms] show False .
qed

theorem send_result_diverges_witness:
  "sendResult (grumpy_clients\<lparr>rc_submitResult := \<lambda>_ _ w. (Inl (Rpc Unauthenticated), w)\<rparr>)
     (sample_result ''r'' ''m'' ''us'' 1 ''OK'')
     ((NewWorker ''w'' [] [] [] [] 5)\<lparr>k_activeJobs := [''r'']\<rparr>) 0 = None"
  by (rule send_result_diverges)
     (simp_all add: grumpy_clients_def NewWorker_def isJobActive_def sample_result_def)


section \<open>The contract of the control plane\<close>

text \<open>
  What a worker relies on. The world may move under every call (\<open>ok\<close> is kept); a committed
  answer means that the result is recorded (\<open>stored\<close>); a batch is no larger than asked for.
\<close>

locale control_plane_contract =
  fixes c :: "'w clients" and ok :: "'w \<Rightarrow> bool" and stored :: "monitor_result \<Rightarrow> 'w \<Rightarrow> bool"
  assumes submit_ok: "ok w \<Longrightarrow> ok (snd (rc_submitResult c h x w))"
    and renew_ok: "ok w \<Longrightarrow> ok (snd (rc_renewEnrollment c i w))"
    and jobs_ok: "ok w \<Longrightarrow> ok (snd (rc_getJobs c h n w))"
    and lease_ok: "ok w \<Longrightarrow> ok (snd (rc_renewLease c h run w))"
    and wait_ok: "ok w \<Longrightarrow> ok (snd (rc_wait c d w))"
    and submit_stored: "ok w \<Longrightarrow> rc_submitResult c h x w = (Inr resp, w') \<Longrightarrow> sr_committed resp \<Longrightarrow> stored x w'"
    and jobs_bound: "ok w \<Longrightarrow> 0 < n \<Longrightarrow> rc_getJobs c h n w = (Inr jobs, w') \<Longrightarrow> int (length jobs) \<le> n"
begin

lemma submit_ok': "ok w \<Longrightarrow> rc_submitResult c h x w = (r, w') \<Longrightarrow> ok w'"
  using submit_ok [of w h x] by simp

lemma jobs_ok': "ok w \<Longrightarrow> rc_getJobs c h n w = (r, w') \<Longrightarrow> ok w'"
  using jobs_ok [of w h n] by simp

lemma refresh_ok: "ok w \<Longrightarrow> refreshAPIToken c k w = (b, k', w') \<Longrightarrow> ok w'"
  using renew_ok [of w "k_id k"] by (auto simp: refreshAPIToken_def split: if_splits prod.splits sum.splits)

lemma after_ok: "ok w \<Longrightarrow> after_attempt c attempt k w = (r, k', w') \<Longrightarrow> ok w'"
  using wait_ok [of w] by (auto dest: after_attempt_cases(2))

lemma renew_tick_ok: "ok w \<Longrightarrow> renew_tick c run k w = (b, k', w') \<Longrightarrow> ok w'"
proof -
  assume w: "ok w" and t: "renew_tick c run k w = (b, k', w')"
  obtain q w1 where q: "rc_renewLease c (authHeader k) run w = (q, w1)" by (cases "rc_renewLease c (authHeader k) run w")
  with lease_ok [OF w, of "authHeader k" run] have w1: "ok w1" by simp
  obtain g k2 w2 where f: "refreshAPIToken c k w1 = (g, k2, w2)" by (cases "refreshAPIToken c k w1")
  with refresh_ok [OF w1] have w2: "ok w2" by blast
  obtain q3 w3 where l: "rc_renewLease c (authHeader k2) run w2 = (q3, w3)" by (cases "rc_renewLease c (authHeader k2) run w2")
  with lease_ok [OF w2, of "authHeader k2" run] have "ok w3" by simp
  with w1 w2 t q f l show "ok w'" by (auto simp: renew_tick_def split: sum.splits if_splits bool.splits)
qed

lemma renewals_ok: "ok w \<Longrightarrow> renewLease_ticks c run n k w = (b, k', w') \<Longrightarrow> ok w'"
proof (induction n arbitrary: k w)
  case (Suc n)
  obtain g k1 w1 where t: "renew_tick c run k w = (g, k1, w1)" by (cases "renew_tick c run k w")
  with renew_tick_ok [OF Suc.prems(1)] have "ok w1" by blast
  with Suc t show ?case by (cases g) auto
qed simp

lemma round_ok: "ok w \<Longrightarrow> send_round c x attempt k w = (r, k', w') \<Longrightarrow> ok w'"
proof -
  assume w: "ok w" and "send_round c x attempt k w = (r, k', w')"
  from this(2) show "ok w'"
  proof (cases rule: send_round_cases)
    case (refused err w1 w2)
    from after_ok [OF refresh_ok [OF submit_ok' [OF w refused(1)] refused(3)] refused(4)] show ?thesis .
  next
    case (failed q w1)
    from after_ok [OF submit_ok' [OF w failed(1)] failed(3)] show ?thesis .
  qed (use w in \<open>auto intro: submit_ok' refresh_ok\<close>)
qed

lemma round_committed:
  assumes "ok w" and "send_round c x attempt k w = (Inl (b, True), k', w')"
  shows "b \<and> stored x w'"
  using assms(2)
proof (cases rule: send_round_cases)
  case (committed resp)
  then show ?thesis using submit_stored [OF assms(1)] by auto
next
  case (refused err w1 w2)
  from after_attempt_cases(2) [OF refused(4)] show ?thesis by auto
next
  case (failed q w1)
  from after_attempt_cases(2) [OF failed(3)] show ?thesis by auto
qed auto

lemma loop_committed:
  assumes "send_loop c x a k w = Some ((b, True), k', w')" and "ok w"
  shows "b \<and> stored x w'"
  using assms
proof (induction y \<equiv> "((b, True), k', w')" rule: send_loop_rounds)
  case (stopped a k w)
  from round_committed [OF stopped(3,2)] show ?case .
next
  case (went_on a k w a' k' w')
  then show ?case using round_ok by blast
qed auto

lemma loop_ok: "send_loop c x a k w = Some (b, k', w') \<Longrightarrow> ok w \<Longrightarrow> ok w'"
  by (induction y \<equiv> "(b, k', w')" rule: send_loop_rounds) (auto dest: round_ok)

lemma sendResult_committed:
  assumes "sendResult c x k w = Some ((b, True), k', w')" and "ok w"
  shows "stored x w' \<and> \<not> isJobActive (x_run_id x) k'"
proof -
  obtain k1 where "send_loop c x 1 k w = Some ((b, True), k1, w')"
    and k': "k' = (if b then worker_completeJob (x_run_id x) k1 else k1)"
    using assms(1) by (auto simp: sendResult_def split: option.splits)
  from loop_committed [OF this(1) assms(2)] k' show ?thesis
    by (simp add: isJobActive_def worker_completeJob_def)
qed

lemma recovery_bound:
  assumes "ok w" and "0 < n" and "getJobsWithAuthRecovery c n k w = (Inr jobs, k', w')"
  shows "int (length jobs) \<le> n"
proof -
  obtain q w1 where g: "rc_getJobs c (authHeader k) n w = (q, w1)" by (cases "rc_getJobs c (authHeader k) n w")
  obtain b k2 w2 where f: "refreshAPIToken c k w1 = (b, k2, w2)" by (cases "refreshAPIToken c k w1") auto
  have "ok w2" using refresh_ok [OF jobs_ok' [OF assms(1) g] f] .
  then have "rc_getJobs c h n w2 = (Inr jobs, w') \<Longrightarrow> int (length jobs) \<le> n" for h
    using jobs_bound assms(2) by blast
  with assms(3) g f jobs_bound [OF assms(1,2)] show ?thesis
    by (cases q; cases b) (auto simp: getJobsWithAuthRecovery_def split: if_splits prod.splits)
qed

lemma poll_ok: "ok w \<Longrightarrow> pollForJobs c k w = (n, err, jobs, k', w') \<Longrightarrow> ok w'"
proof -
  assume w: "ok w" and p: "pollForJobs c k w = (n, err, jobs, k', w')"
  have r: "ok w2" if g: "getJobsWithAuthRecovery c m k w = (q, k2, w2)" for m q k2 w2
  proof -
    obtain q1 w1 where a: "rc_getJobs c (authHeader k) m w = (q1, w1)" by (cases "rc_getJobs c (authHeader k) m w")
    obtain b k3 w3 where f: "refreshAPIToken c k w1 = (b, k3, w3)" by (cases "refreshAPIToken c k w1")
    have w1: "ok w1" and w3: "ok w3" using jobs_ok' [OF w a] refresh_ok [OF jobs_ok' [OF w a] f] .
    show ?thesis
      using g a f w1 w3 jobs_ok' [OF w3, of "authHeader k3" m]
      by (auto simp: getJobsWithAuthRecovery_def split: sum.splits if_splits bool.splits prod.splits)
  qed
  from p w show "ok w'" by (auto simp: pollForJobs_def Let_def split: if_splits prod.splits sum.splits dest: r)
qed

text \<open>Starting all the jobs of one poll keeps the worker within its concurrency.\<close>

lemma poll_capacity:
  assumes "ok w" and conc: "in_i32 (k_maxConcurrency k)" and act: "active_count k \<le> k_maxConcurrency k"
    and poll: "pollForJobs c k w = (n, err, jobs, k', w')"
  shows "active_count (fold start_job jobs k') \<le> k_maxConcurrency k"
proof -
  have small: "in_i32 (active_count k)" "0 \<le> active_count k" using conc act by (simp_all add: in_i32_def active_count_def)
  have avail: "wrap32 (k_maxConcurrency k - wrap32 (active_count k)) = k_maxConcurrency k - active_count k"
    using small conc act by (subst wrap32_id [OF small(1)], intro wrap32_id) (auto simp: in_i32_def)
  have start: "active_count (fold start_job js k0) \<le> active_count k0 + int (length js)" for js k0
  proof (induction js arbitrary: k0)
    case (Cons j js)
    have "active_count (start_job j k0) \<le> active_count k0 + 1" by (simp add: active_count_def start_job_def List.insert_def)
    with Cons [of "start_job j k0"] show ?case by simp
  qed simp
  show ?thesis
  proof (cases "k_maxConcurrency k - active_count k \<le> 0")
    case True
    with poll avail act show ?thesis by (auto simp: pollForJobs_def)
  next
    case False
    obtain q k2 w2 where g: "getJobsWithAuthRecovery c (k_maxConcurrency k - active_count k) k w = (q, k2, w2)"
      by (cases "getJobsWithAuthRecovery c (k_maxConcurrency k - active_count k) k w") auto
    have same: "active_count k2 = active_count k"
      using same_but_token_sel(1) [OF getJobs_same [OF g]] by (simp add: active_count_def)
    show ?thesis
    proof (cases q)
      case (Inl e)
      with poll avail False g same act show ?thesis by (auto simp: pollForJobs_def)
    next
      case (Inr js)
      with poll avail False g have "jobs = js" "k' = k2" by (auto simp: pollForJobs_def)
      moreover have "int (length js) \<le> k_maxConcurrency k - active_count k"
        using recovery_bound [OF assms(1) _ g [unfolded Inr]] False by simp
      ultimately show ?thesis using start [of js k2] same by simp
    qed
  qed
qed

end

end
