(* ===== verification/Executor.thy ===== *)
theory Executor
  imports Worker_Protocol
begin

text \<open>
  \<open>internal/app/worker/executor.go\<close>: one check of a monitor, from the job to the message that
  \<open>sendResult\<close> submits. What the HTTP stack and the clock do during the check is a \<open>probe\<close>:
  the answer of \<open>NewRequestWithContext\<close> and of \<open>Do\<close>, the readings of \<open>time.Now\<close> and those the
  trace hooks left behind (\<open>None\<close> is the zero time).
\<close>

section \<open>A check\<close>

record probe =
  b_event_at :: time
  b_start :: time
  b_request_error :: "string option"
  b_do :: "string + int \<times> int"
  b_failed_at :: time
  b_dns_start :: "time option"
  b_dns_done :: "time option"
  b_connect_start :: "time option"
  b_connect_done :: "time option"
  b_tls_start :: "time option"
  b_tls_done :: "time option"
  b_first_byte :: "time option"
  b_read_start :: time
  b_read_done :: time
  b_done :: time

definition milliseconds :: "time \<Rightarrow> time \<Rightarrow> int" where
  "milliseconds t0 t1 = go_div (time_sub t1 t0) millisecond"

definition span_ms :: "time option \<Rightarrow> time option \<Rightarrow> int" where
  "span_ms t0 t1 = (case (t0, t1) of (Some a, Some b) \<Rightarrow> milliseconds a b | _ \<Rightarrow> 0)"

text \<open>\<open>if ms > 0 { v := int32(ms); field = &v }\<close>\<close>

definition ms_field :: "int \<Rightarrow> int option" where
  "ms_field ms = (if 0 < ms then Some (wrap32 ms) else None)"

definition maxResponseSize :: int where
  "maxResponseSize = 10 * 1024 * 1024"

definition blank_result :: "worker \<Rightarrow> monitor_job \<Rightarrow> probe \<Rightarrow> monitor_result" where
  "blank_result k job b =
     \<lparr>x_run_id = mj_run_id job, x_monitor_id = mj_monitor_id job, x_region = k_region k,
      x_event_at = Some (b_event_at b), x_status = ''ERROR'', x_http_code = None, x_dns_ms = None,
      x_connect_ms = None, x_tls_ms = None, x_ttfb_ms = None, x_download_ms = None,
      x_total_ms = None, x_size_bytes = None, x_error_message = None\<rparr>"

definition check_result :: "worker \<Rightarrow> monitor_job \<Rightarrow> probe \<Rightarrow> monitor_result" where
  "check_result k job b =
     (let result = blank_result k job b
      in case b_request_error b of
           Some msg \<Rightarrow> result\<lparr>x_error_message := Some msg\<rparr>
         | None \<Rightarrow>
             (case b_do b of
                Inl msg \<Rightarrow> result\<lparr>x_error_message := Some msg,
                                  x_total_ms := Some (wrap32 (milliseconds (b_start b) (b_failed_at b)))\<rparr>
              | Inr (code, body) \<Rightarrow>
                  (let sz = min maxResponseSize body
                   in result\<lparr>x_http_code := Some (wrap32 code),
                            x_status := (if 200 \<le> code \<and> code < 400 then ''OK'' else ''FAIL''),
                            x_dns_ms := ms_field (span_ms (b_dns_start b) (b_dns_done b)),
                            x_connect_ms := ms_field (span_ms (b_connect_start b) (b_connect_done b)),
                            x_tls_ms := ms_field (span_ms (b_tls_start b) (b_tls_done b)),
                            x_ttfb_ms := ms_field (span_ms (Some (b_start b)) (b_first_byte b)),
                            x_download_ms := Some (wrap32 (milliseconds (b_read_start b) (b_read_done b))),
                            x_total_ms := Some (wrap32 (milliseconds (b_start b) (b_done b))),
                            x_size_bytes := (if 0 < sz then Some sz else None)\<rparr>)))"

text \<open>The deadline of the request's context; the lease is renewed beside a slow check only.\<close>

definition job_timeout :: "monitor_job \<Rightarrow> duration" where
  "job_timeout job = mj_timeout_ms job * millisecond"

definition needs_renewal :: "worker \<Rightarrow> monitor_job \<Rightarrow> bool" where
  "needs_renewal k job \<longleftrightarrow> k_leaseRenewalThreshold k < mj_timeout_ms job"

text \<open>
  The goroutine of one job: it enters itself, the renewals tick (\<open>ticks\<close> of them before the
  check is over), the result is sent. The ticks that may still come while it is being sent are
  requests of the same worker like any other of its goroutines.
\<close>

definition executeCheck ::
  "'w clients \<Rightarrow> monitor_job \<Rightarrow> probe \<Rightarrow> nat \<Rightarrow> worker \<Rightarrow> 'w \<Rightarrow> ((bool \<times> bool) \<times> worker \<times> 'w) option" where
  "executeCheck c job b ticks k w =
     (let k1 = start_job job k;
          (_, k2, w2) = (if needs_renewal k1 job then renewLease_ticks c (mj_run_id job) ticks k1 w
                         else (True, k1, w))
      in sendResult c (check_result k2 job b) k2 w2)"

section \<open>Facts\<close>

lemma check_result_sel [simp]:
  "x_run_id (check_result k job b) = mj_run_id job" "x_monitor_id (check_result k job b) = mj_monitor_id job"
  "x_region (check_result k job b) = k_region k" "x_event_at (check_result k job b) = Some (b_event_at b)"
  by (simp_all add: check_result_def blank_result_def Let_def split: option.splits sum.splits prod.splits)

lemma check_result_status_ok: "result_status_ok (x_status (check_result k job b))"
  by (simp add: check_result_def blank_result_def Let_def result_status_ok_def split: option.splits sum.splits prod.splits)

lemma ProcessResult_served:
  assumes "net e Q_UpsertResult (x_run_id x) = Served" and "result_status_ok (x_status x)"
  shows "fst (ProcessResult e x s) = Inr ()"
proof -
  have "\<exists>r. fst (UpsertResult (result_params x) d) = Inr r" for d
  proof -
    let ?new = "(result_params x)\<lparr>r_event_at := pg_ts (as_time (x_event_at x))\<rparr>"
    let ?P = "same_result (r_run_id ?new) (r_event_at ?new)"
    have "\<exists>r. first_row (map (overwrite_result ?new) (filter ?P (d_results d))) = Inr r" if "\<exists>r \<in> set (d_results d). ?P r"
    proof -
      from that have "filter ?P (d_results d) \<noteq> []" by (simp add: filter_empty_conv)
      then show ?thesis by (cases "filter ?P (d_results d)") simp_all
    qed
    then show ?thesis using assms(2) by (auto simp: UpsertResult_def Let_def convertStatus_ok)
  qed
  then obtain r where "fst (UpsertResult (result_params x) (s_db s)) = Inr r" by blast
  then show ?thesis using assms(1) by (simp add: ProcessResult_def)
qed

lemma milliseconds_bounds:
  assumes "t0 \<le> t1" and "t1 \<le> t0 + 2147483648 * millisecond - 1"
  shows "wrap32 (milliseconds t0 t1) = (t1 - t0) div millisecond"
proof -
  have "time_sub t1 t0 = t1 - t0" using assms by (simp add: time_sub_def millisecond_def)
  then have "milliseconds t0 t1 = (t1 - t0) div millisecond"
    using assms by (simp add: milliseconds_def go_div_nonneg millisecond_def)
  moreover have "0 \<le> (t1 - t0) div millisecond" "(t1 - t0) div millisecond < 2147483648"
    using assms unfolding millisecond_def by linarith+
  ultimately show ?thesis by (simp add: wrap32_id in_i32_def)
qed

text \<open>
  C39. Whatever happens during a check, its result can be stored: a served upsert accepts it, and
  the row carries the run, the time of the check and its verdict. A request that cannot be made
  or gets no answer is an ERROR with a message and without an HTTP code; an answered one is OK
  exactly for the codes 200 to 399.
\<close>

theorem check_stored:
  assumes "net e Q_UpsertResult (mj_run_id job) = Served"
  shows "\<exists>s'. ProcessResult e (check_result k job b) s = (Inr (), s') \<and>
     (\<exists>r \<in> set (d_results (s_db s')). r_run_id r = mj_run_id job \<and> r_event_at r = pg_ts (b_event_at b) \<and>
        (case (b_request_error b, b_do b) of
           (None, Inr (code, _)) \<Rightarrow> r_http_code r = positive (Some (wrap32 code)) \<and>
              r_status r = (if 200 \<le> code \<and> code < 400 then ''OK'' else ''FAIL'')
         | _ \<Rightarrow> r_http_code r = None \<and> r_status r = ''ERROR'' \<and> x_error_message (check_result k job b) \<noteq> None))"
proof -
  let ?x = "check_result k job b"
  obtain s' where p: "ProcessResult e ?x s = (Inr (), s')"
    using ProcessResult_served [of e ?x s] assms check_result_status_ok [of k job b]
    by (cases "ProcessResult e ?x s") simp
  obtain r0 where u: "UpsertResult (result_params ?x) (s_db s) = (Inr r0, s_db s')"
    using ProcessResult_Inr [OF p] by blast
  obtain r where r: "r \<in> set (d_results (s_db s'))" "r_run_id r = mj_run_id job"
    "r_event_at r = pg_ts (b_event_at b)" "r_status r = x_status ?x" "r_http_code r = positive (x_http_code ?x)"
    using UpsertResult_Inr(2) [OF u] check_result_status_ok [of k job b] by (auto simp: convertStatus_id as_time_def)
  have "case (b_request_error b, b_do b) of
           (None, Inr (code, _)) \<Rightarrow> r_http_code r = positive (Some (wrap32 code)) \<and>
              r_status r = (if 200 \<le> code \<and> code < 400 then ''OK'' else ''FAIL'')
         | _ \<Rightarrow> r_http_code r = None \<and> r_status r = ''ERROR'' \<and> x_error_message ?x \<noteq> None"
    using r(4,5)
    by (cases "b_request_error b"; cases "b_do b") (auto simp: check_result_def blank_result_def Let_def positive_def)
  with p r show ?thesis by blast
qed

definition sample_probe :: probe where
  "sample_probe = \<lparr>b_event_at = 2500, b_start = 2500, b_request_error = None, b_do = Inr (200, 12), b_failed_at = 0,
     b_dns_start = None, b_dns_done = None, b_connect_start = None, b_connect_done = None, b_tls_start = None,
     b_tls_done = None, b_first_byte = None, b_read_start = 2600, b_read_done = 2700, b_done = 2800\<rparr>"

definition sample_leased_job :: monitor_job where
  "sample_leased_job = \<lparr>mj_run_id = ''r2'', mj_monitor_id = ''m1'', mj_url = ''http://x'',
     mj_timeout_ms = 5000, mj_method = ''GET'', mj_headers = []\<rparr>"

theorem check_stored_witness:
  "\<exists>s'. ProcessResult (calm 3000) (check_result (NewWorker ''w2'' ''us'' [] [] [] 5) sample_leased_job sample_probe)
     sample_server = (Inr (), s')"
  using check_stored [of "calm 3000" sample_leased_job "NewWorker ''w2'' ''us'' [] [] [] 5" sample_probe sample_server]
  by (auto simp: calm_def)

end
