(* ===== verification/Recovery.thy ===== *)
theory Recovery
  imports Main
begin

text \<open>
  \<open>internal/pkg/recovery/panic.go\<close>: what becomes of a panic in a goroutine's body. A body maps
  the state it works on to the value it panicked with (\<open>None\<close> when it returned), the lines it
  logged and the state it left. A panic that escapes a goroutine ends the process.
\<close>

type_synonym 'w body = "'w \<Rightarrow> string option \<times> string list \<times> 'w"

section \<open>The wrappers\<close>

text \<open>
  Of a logged line the goroutine and the value; the caller and the stack the runtime adds are left out.
  The callback's line and error have a wording of their own.
\<close>

definition quoted :: "string \<Rightarrow> string" where
  "quoted name = CHR 0x27 # name @ [CHR 0x27]"

definition recovered_line :: "string \<Rightarrow> string \<Rightarrow> string" where
  "recovered_line name r = ''PANIC RECOVERED in goroutine '' @ quoted name @ '': '' @ r"

definition restart_line :: "string \<Rightarrow> string \<Rightarrow> string" where
  "restart_line name r = ''PANIC RECOVERED in goroutine '' @ quoted name @ '' (will restart): '' @ r"

definition exited_line :: "string \<Rightarrow> string" where
  "exited_line name = ''Goroutine '' @ quoted name @ '' exited normally, not restarting''"

definition panic_err :: "string \<Rightarrow> string \<Rightarrow> string" where
  "panic_err name r = ''panic in goroutine '' @ quoted name @ '': '' @ r"

definition WithRecover :: "string \<Rightarrow> 'w body \<Rightarrow> 'w body" where
  "WithRecover name f w =
     (case f w of
        (None, ls, w') \<Rightarrow> (None, ls, w')
      | (Some r, ls, w') \<Rightarrow> (None, ls @ [recovered_line name r], w'))"

text \<open>The loop of \<open>WithRecoverAndRestart\<close> ends with a \<open>break\<close>: its body runs once.\<close>

definition WithRecoverAndRestart :: "string \<Rightarrow> 'w body \<Rightarrow> 'w body" where
  "WithRecoverAndRestart name f w =
     (case (case f w of
              (None, ls, w') \<Rightarrow> (ls, w')
            | (Some r, ls, w') \<Rightarrow> (ls @ [restart_line name r], w')) of
        (ls, w') \<Rightarrow> (None, ls @ [exited_line name], w'))"

text \<open>The callback runs inside the deferred function: nothing recovers a panic of its own.\<close>

definition WithRecoverCallback :: "string \<Rightarrow> 'w body \<Rightarrow> (string \<Rightarrow> 'w body) option \<Rightarrow> 'w body" where
  "WithRecoverCallback name f onPanic w =
     (case f w of
        (None, ls, w') \<Rightarrow> (None, ls, w')
      | (Some r, ls, w') \<Rightarrow>
          (case onPanic of
             None \<Rightarrow> (None, ls @ [''PANIC RECOVERED: '' @ panic_err name r], w')
           | Some g \<Rightarrow>
               (case g (panic_err name r) w' of
                  (p, ls', w'') \<Rightarrow> (p, ls @ [''PANIC RECOVERED: '' @ panic_err name r] @ ls', w''))))"

section \<open>Facts\<close>

text \<open>
  No wrapper lets a panic of its body escape, save that the callback's own panic is not
  recovered; each runs the body exactly once. In particular \<open>WithRecoverAndRestart\<close> does not
  restart anything: it leaves the state of a single run and logs a normal exit, also after a
  panic it announced to restart from.
\<close>

theorem recover_runs_once:
  "fst (WithRecover name f w) = None
   \<and> fst (WithRecoverAndRestart name f w) = None
   \<and> snd (snd (WithRecover name f w)) = snd (snd (f w))
   \<and> snd (snd (WithRecoverAndRestart name f w)) = snd (snd (f w))
   \<and> last (fst (snd (WithRecoverAndRestart name f w))) = exited_line name
   \<and> (fst (WithRecoverCallback name f onPanic w) =
        (case fst (f w) of
           None \<Rightarrow> None
         | Some r \<Rightarrow> (case onPanic of None \<Rightarrow> None | Some g \<Rightarrow> fst (g (panic_err name r) (snd (snd (f w)))))))
   \<and> snd (snd (WithRecoverCallback name f onPanic w)) =
        (case fst (f w) of
           None \<Rightarrow> snd (snd (f w))
         | Some r \<Rightarrow> (case onPanic of None \<Rightarrow> snd (snd (f w)) | Some g \<Rightarrow> snd (snd (g (panic_err name r) (snd (snd (f w)))))))"
  by (simp add: WithRecover_def WithRecoverAndRestart_def WithRecoverCallback_def split: prod.splits option.splits)

end
