(* ===== verification/Process.thy ===== *)
theory Process
  imports Recovery Prelude
begin

text \<open>
  The life of the control plane's process (\<open>cmd/control-plane/main.go\<close>): \<open>main\<close> starts five
  services as goroutines counted by a \<open>WaitGroup\<close>, waits for a signal, stops the HTTP server and
  waits at most 15 seconds for the services. Its steps interleave with those of the services, of
  the goroutine that shuts the server down, of the one that waits, and of the requests.
\<close>

section \<open>The services\<close>

datatype service_goroutine = LeaseReaper_goroutine | Scheduler_goroutine | InactivityMonitor_goroutine
  | JobCleaner_goroutine | HTTPServer_goroutine

definition service_name :: "service_goroutine \<Rightarrow> string" where
  "service_name g =
     (case g of
        LeaseReaper_goroutine \<Rightarrow> ''lease-reaper''
      | Scheduler_goroutine \<Rightarrow> ''scheduler''
      | InactivityMonitor_goroutine \<Rightarrow> ''worker-inactivity-monitor''
      | JobCleaner_goroutine \<Rightarrow> ''job-cleaner''
      | HTTPServer_goroutine \<Rightarrow> ''http-server'')"

definition critical_line :: "service_goroutine \<Rightarrow> string \<Rightarrow> string" where
  "critical_line g err =
     (case g of
        LeaseReaper_goroutine \<Rightarrow> ''CRITICAL: Lease reaper crashed - jobs may not be reclaimed: ''
      | Scheduler_goroutine \<Rightarrow> ''CRITICAL: Scheduler crashed - no new monitoring jobs will be created: ''
      | InactivityMonitor_goroutine \<Rightarrow>
          ''CRITICAL: Worker inactivity monitor crashed - stale worker statuses may linger: ''
      | JobCleaner_goroutine \<Rightarrow> ''CRITICAL: Job cleaner crashed - completed jobs will accumulate: ''
      | HTTPServer_goroutine \<Rightarrow> ''CRITICAL: HTTP server crashed: '') @ err"

text \<open>The order in which \<open>main\<close> starts them.\<close>

definition services :: "service_goroutine list" where
  "services = [LeaseReaper_goroutine, Scheduler_goroutine, InactivityMonitor_goroutine,
     JobCleaner_goroutine, HTTPServer_goroutine]"

section \<open>The process\<close>

text \<open>\<open>Crashed\<close>: a panic escaped a goroutine. \<open>Killed\<close>: a signal ended the process the default way.\<close>

datatype exit = Clean | Forced | Killed | Crashed string

text \<open>
  Where \<open>main\<close> is: before the \<open>wg.Add(1)\<close> of the first of these services (before \<open><-ctx.Done()\<close>
  if there is none left), before the \<open>go\<close> of one, in the \<open>select\<close>, or gone with the process.
\<close>

datatype main_at = Adding "service_goroutine list" | Spawning service_goroutine "service_goroutine list"
  | Selecting | Exited exit

record process =
  pr_main :: main_at
  pr_wg :: int
  pr_running :: "service_goroutine list"
  pr_ctx_done :: bool
  pr_shutdown :: bool
  pr_in_flight :: nat
  pr_done :: bool
  pr_waited :: duration
  pr_log :: "string list"

definition process_start :: process where
  "process_start = \<lparr>pr_main = Adding services, pr_wg = 0, pr_running = [], pr_ctx_done = False,
     pr_shutdown = False, pr_in_flight = 0, pr_done = False, pr_waited = 0, pr_log = []\<rparr>"

text \<open>\<open>WaitGroup.Done\<close> panics when the counter would get negative.\<close>

definition wg_done :: "process body" where
  "wg_done P =
     (let P' = P\<lparr>pr_wg := pr_wg P - 1\<rparr>
      in (if pr_wg P' < 0 then Some ''sync: negative WaitGroup counter'' else None, [], P'))"

text \<open>\<open>defer wg.Done()\<close> in front of a body: it runs also when the body panics, before any \<open>recover\<close>.\<close>

definition with_deferred_done :: "process body \<Rightarrow> process body" where
  "with_deferred_done f P =
     (case f P of
        (p, ls, P1) \<Rightarrow>
          (case wg_done P1 of (q, ls', P2) \<Rightarrow> (if q = None then p else q, ls @ ls', P2)))"

text \<open>
  How the call in a service's body ends: \<open>Start\<close> returned or \<open>ListenAndServe\<close> returned
  \<open>ErrServerClosed\<close>, \<open>ListenAndServe\<close> returned another error, or a panic.
\<close>

datatype ended = Stopped | Serve_failed string | Panicked string

definition service_call :: "ended \<Rightarrow> process body" where
  "service_call o' P =
     (case o' of
        Stopped \<Rightarrow> (None, [], P)
      | Serve_failed err \<Rightarrow> (None, [''HTTP server error: '' @ err], P)
      | Panicked r \<Rightarrow> (Some r, [], P))"

definition goroutine_end :: "service_goroutine \<Rightarrow> ended \<Rightarrow> process \<Rightarrow> process" where
  "goroutine_end g o' P =
     (case WithRecoverCallback (service_name g) (with_deferred_done (service_call o'))
             (Some (\<lambda>err P. (None, [critical_line g err], P))) P of
        (p, ls, P') \<Rightarrow>
          P'\<lparr>pr_running := remove1 g (pr_running P'), pr_log := pr_log P' @ ls,
             pr_main := (case p of None \<Rightarrow> pr_main P' | Some r \<Rightarrow> Exited (Crashed r))\<rparr>)"

text \<open>
  The loops return once the context is done; \<open>ListenAndServe\<close> returns \<open>ErrServerClosed\<close> as soon
  as \<open>Shutdown\<close> is called, and an error of its own only before that.
\<close>

definition may_end :: "service_goroutine \<Rightarrow> ended \<Rightarrow> process \<Rightarrow> bool" where
  "may_end g o' P \<longleftrightarrow>
     (case o' of
        Stopped \<Rightarrow> if g = HTTPServer_goroutine then pr_shutdown P else pr_ctx_done P
      | Serve_failed _ \<Rightarrow> g = HTTPServer_goroutine \<and> \<not> pr_shutdown P
      | Panicked _ \<Rightarrow> True)"

section \<open>Steps\<close>

definition start_lines :: "string \<Rightarrow> service_goroutine \<Rightarrow> string list" where
  "start_lines port g = (if g = HTTPServer_goroutine then [''HTTP server starting on :'' @ port] else [])"

definition shutdown_lines :: "string list" where
  "shutdown_lines = [''Shutting down gracefully...'', ''Stopping HTTP server...'', ''Stopping background services...'']"

inductive process_step :: "string \<Rightarrow> process \<Rightarrow> process \<Rightarrow> bool" for port where
  wg_add: "pr_main P = Adding (g # gs) \<Longrightarrow>
     process_step port P (P\<lparr>pr_wg := pr_wg P + 1, pr_main := Spawning g gs\<rparr>)"
| spawn: "pr_main P = Spawning g gs \<Longrightarrow>
     process_step port P (P\<lparr>pr_running := g # pr_running P, pr_main := Adding gs, pr_log := pr_log P @ start_lines port g\<rparr>)"
| goroutine: "\<forall>x. pr_main P \<noteq> Exited x \<Longrightarrow> g \<in> set (pr_running P) \<Longrightarrow> may_end g o' P \<Longrightarrow>
     process_step port P (goroutine_end g o' P)"
| signal: "\<forall>x. pr_main P \<noteq> Exited x \<Longrightarrow> pr_main P \<noteq> Selecting \<Longrightarrow> process_step port P (P\<lparr>pr_ctx_done := True\<rparr>)"
| signalled: "pr_main P = Adding [] \<Longrightarrow> pr_ctx_done P \<Longrightarrow>
     process_step port P (P\<lparr>pr_main := Selecting, pr_log := pr_log P @ shutdown_lines\<rparr>)"
| signal_again: "pr_main P = Selecting \<Longrightarrow> process_step port P (P\<lparr>pr_main := Exited Killed\<rparr>)"
| shutdown: "pr_main P = Selecting \<Longrightarrow> process_step port P (P\<lparr>pr_shutdown := True\<rparr>)"
| request: "\<forall>x. pr_main P \<noteq> Exited x \<Longrightarrow> HTTPServer_goroutine \<in> set (pr_running P) \<Longrightarrow> \<not> pr_shutdown P \<Longrightarrow>
     process_step port P (P\<lparr>pr_in_flight := pr_in_flight P + 1\<rparr>)"
| response: "\<forall>x. pr_main P \<noteq> Exited x \<Longrightarrow> 0 < pr_in_flight P \<Longrightarrow>
     process_step port P (P\<lparr>pr_in_flight := pr_in_flight P - 1\<rparr>)"
| wg_wait: "pr_main P = Selecting \<Longrightarrow> pr_wg P = 0 \<Longrightarrow> process_step port P (P\<lparr>pr_done := True\<rparr>)"
| passes: "pr_main P = Selecting \<Longrightarrow> 0 < d \<Longrightarrow> process_step port P (P\<lparr>pr_waited := pr_waited P + d\<rparr>)"
| select_done: "pr_main P = Selecting \<Longrightarrow> pr_done P \<Longrightarrow>
     process_step port P (P\<lparr>pr_main := Exited Clean,
       pr_log := pr_log P @ [''Shutdown complete - all services stopped cleanly'']\<rparr>)"
| select_timeout: "pr_main P = Selecting \<Longrightarrow> 15 * second \<le> pr_waited P \<Longrightarrow>
     process_step port P (P\<lparr>pr_main := Exited Forced, pr_log := pr_log P @ [''Shutdown timeout - forcing exit'']\<rparr>)"

inductive process_reachable :: "string \<Rightarrow> process \<Rightarrow> bool" for port where
  started: "process_reachable port process_start"
| stepped: "process_reachable port P \<Longrightarrow> process_step port P P' \<Longrightarrow> process_reachable port P'"

section \<open>Facts\<close>

text \<open>As long as the counter counts it, a service that ends leaves \<open>main\<close> where it is.\<close>

lemma goroutine_end_counted:
  assumes "0 < pr_wg P"
  shows "goroutine_end g o' P = P\<lparr>pr_running := remove1 g (pr_running P), pr_wg := pr_wg P - 1,
     pr_log := pr_log P @ (case o' of Stopped \<Rightarrow> [] | Serve_failed err \<Rightarrow> [''HTTP server error: '' @ err]
       | Panicked r \<Rightarrow> [''PANIC RECOVERED: '' @ panic_err (service_name g) r, critical_line g (panic_err (service_name g) r)])\<rparr>"
  using assms by (simp add: goroutine_end_def with_deferred_done_def service_call_def wg_done_def Let_def
      WithRecoverCallback_def split: ended.split)

definition process_inv :: "process \<Rightarrow> bool" where
  "process_inv P \<longleftrightarrow>
     pr_wg P = int (length (pr_running P)) + (case pr_main P of Spawning _ _ \<Rightarrow> 1 | _ \<Rightarrow> 0)
     \<and> (pr_main P = Selecting \<or> (\<exists>x. pr_main P = Exited x) \<longrightarrow> pr_ctx_done P)
     \<and> (pr_done P \<longrightarrow> pr_wg P = 0 \<and> (pr_main P = Selecting \<or> (\<exists>x. pr_main P = Exited x)))
     \<and> (pr_main P = Exited Clean \<longrightarrow> pr_done P)
     \<and> (pr_main P = Exited Forced \<longrightarrow> 15 * second \<le> pr_waited P)
     \<and> (\<forall>r. pr_main P \<noteq> Exited (Crashed r))"

lemma process_step_inv:
  assumes "process_step port P P'" and "process_inv P"
  shows "process_inv P'"
  using assms
proof (induction rule: process_step.induct)
  case (goroutine P g o')
  then have "0 < length (pr_running P)" by (cases "pr_running P") simp_all
  with goroutine(2) have n: "int (length (remove1 g (pr_running P))) = int (length (pr_running P)) - 1"
    "0 < length (pr_running P)"
    by (simp_all add: length_remove1 of_nat_diff del: length_greater_0_conv)
  with goroutine have "0 < pr_wg P" by (auto simp: process_inv_def split: main_at.splits)
  with goroutine n show ?case by (auto simp: goroutine_end_counted process_inv_def split: main_at.splits)
qed (auto simp: process_inv_def split: main_at.splits)

lemma process_reachable_inv: "process_reachable port P \<Longrightarrow> process_inv P"
proof (induction rule: process_reachable.induct)
  case started
  then show ?case by (simp add: process_start_def process_inv_def)
next
  case stepped
  then show ?case using process_step_inv by blast
qed

text \<open>
  C25. The process outlives its services: whatever panics, in any interleaving, the counter of the
  \<open>WaitGroup\<close> is the number of services that were started and have not ended, and no panic
  escapes. The process ends only after a signal; when it says that all services stopped, each one
  has; when it forces its exit, the 15 seconds are over.
\<close>

theorem process_shutdown:
  assumes "process_reachable port P"
  shows "pr_wg P = int (length (pr_running P)) + (case pr_main P of Spawning _ _ \<Rightarrow> 1 | _ \<Rightarrow> 0)
     \<and> (\<forall>r. pr_main P \<noteq> Exited (Crashed r))
     \<and> (\<forall>x. pr_main P = Exited x \<longrightarrow> pr_ctx_done P)
     \<and> (pr_main P = Exited Clean \<longrightarrow> pr_running P = [])
     \<and> (pr_main P = Exited Forced \<longrightarrow> 15 * second \<le> pr_waited P)"
  using process_reachable_inv [OF assms] by (auto simp: process_inv_def)

section \<open>A server that failed, and a shutdown with a request in flight\<close>

text \<open>Starting one service, and stopping one.\<close>

lemma launch_one:
  assumes "process_reachable port P" and "pr_main P = Adding (g # gs)"
  shows "process_reachable port (P\<lparr>pr_wg := pr_wg P + 1, pr_running := g # pr_running P, pr_main := Adding gs,
     pr_log := pr_log P @ start_lines port g\<rparr>)"
proof -
  let ?P = "P\<lparr>pr_wg := pr_wg P + 1, pr_main := Spawning g gs\<rparr>"
  have "process_reachable port ?P" by (rule stepped [OF assms(1) wg_add [OF assms(2)]])
  from stepped [OF this spawn [of ?P g gs]] show ?thesis by simp
qed

lemma stop_one:
  assumes "process_reachable port P" and "pr_main P = Selecting" and "0 < pr_wg P"
    and "g \<in> set (pr_running P)" and "may_end g Stopped P"
  shows "process_reachable port (P\<lparr>pr_running := remove1 g (pr_running P), pr_wg := pr_wg P - 1\<rparr>)"
  using stepped [OF assms(1) goroutine [OF _ assms(4,5)]] assms(2) by (simp add: goroutine_end_counted [OF assms(3)])

lemma stop_all:
  assumes "process_reachable port P" and "pr_main P = Selecting" and "pr_ctx_done P" and "pr_shutdown P"
    and "pr_wg P = int (length (pr_running P))"
  shows "process_reachable port (P\<lparr>pr_running := [], pr_wg := 0\<rparr>)"
  using assms
proof (induction "pr_running P" arbitrary: P)
  case Nil
  then have "P\<lparr>pr_running := [], pr_wg := 0\<rparr> = P" by simp
  with Nil.prems(1) show ?case by simp
next
  case (Cons g gs)
  then have g: "pr_running P = g # gs" by simp
  let ?P = "P\<lparr>pr_running := gs, pr_wg := pr_wg P - 1\<rparr>"
  have "process_reachable port ?P"
    using stop_one [OF Cons.prems(1,2), of g] Cons.prems(3-5) g by (simp add: may_end_def)
  from Cons.hyps(1) [OF _ this] Cons.prems g show ?case by simp
qed

definition all_running :: "string \<Rightarrow> process" where
  "all_running port = process_start\<lparr>pr_wg := 5, pr_running := rev services, pr_main := Adding [],
     pr_log := start_lines port HTTPServer_goroutine\<rparr>"

lemma all_running_reachable: "process_reachable port (all_running port)"
  using launch_one [OF launch_one [OF launch_one [OF launch_one [OF launch_one [OF started]]]]]
  by (simp add: process_start_def services_def all_running_def start_lines_def)

text \<open>
  A server that cannot listen is no reason to exit: the error is logged, and the process goes on
  without an HTTP server until somebody stops it.
\<close>

theorem server_failure_not_fatal:
  "\<exists>P. process_reachable port P \<and> pr_main P = Adding [] \<and> HTTPServer_goroutine \<notin> set (pr_running P)
     \<and> \<not> pr_ctx_done P \<and> last (pr_log P) = ''HTTP server error: '' @ err"
proof -
  note defs = all_running_def process_start_def services_def may_end_def
  have "process_reachable port (goroutine_end HTTPServer_goroutine (Serve_failed err) (all_running port))"
    by (rule stepped [OF all_running_reachable goroutine]) (simp_all add: defs)
  then show ?thesis
    by (rule_tac exI, intro conjI, assumption) (simp_all add: goroutine_end_counted defs)
qed

lemma serving_reachable:
  "process_reachable port ((all_running port)\<lparr>pr_in_flight := 1, pr_ctx_done := True, pr_main := Selecting,
     pr_shutdown := True, pr_log := start_lines port HTTPServer_goroutine @ shutdown_lines\<rparr>)"
proof -
  let ?P = "all_running port"
  note defs = all_running_def process_start_def services_def
  have r: "process_reachable port (?P\<lparr>pr_in_flight := 1\<rparr>)"
    using stepped [OF all_running_reachable request, of port] by (simp add: defs)
  have s: "process_reachable port (?P\<lparr>pr_in_flight := 1, pr_ctx_done := True\<rparr>)"
    using stepped [OF r signal] by (simp add: defs)
  have m: "process_reachable port (?P\<lparr>pr_in_flight := 1, pr_ctx_done := True, pr_main := Selecting,
      pr_log := start_lines port HTTPServer_goroutine @ shutdown_lines\<rparr>)"
    using stepped [OF s signalled] by (simp add: defs)
  show ?thesis using stepped [OF m shutdown] by (simp add: defs)
qed

text \<open>
  C27. The clean exit does not wait for the requests: \<open>ListenAndServe\<close> returns when \<open>Shutdown\<close> is
  called, the \<open>WaitGroup\<close> does not count the goroutine that runs \<open>Shutdown\<close>, and so the process
  can report that all services stopped cleanly, and exit, with a request still being handled.
\<close>

theorem clean_exit_cuts_requests:
  "\<exists>P. process_reachable port P \<and> pr_main P = Exited Clean \<and> 0 < pr_in_flight P
     \<and> last (pr_log P) = ''Shutdown complete - all services stopped cleanly''"
proof -
  note defs = all_running_def process_start_def services_def
  let ?P = "(all_running port)\<lparr>pr_in_flight := 1, pr_ctx_done := True, pr_main := Selecting, pr_shutdown := True,
      pr_log := start_lines port HTTPServer_goroutine @ shutdown_lines, pr_running := [], pr_wg := 0\<rparr>"
  have "process_reachable port ?P" using stop_all [OF serving_reachable, of port] by (simp add: defs)
  from stepped [OF this wg_wait] have "process_reachable port (?P\<lparr>pr_done := True\<rparr>)" by simp
  from stepped [OF this select_done] show ?thesis by (intro exI conjI) auto
qed

theorem process_shutdown_witness:
  "pr_wg (all_running ''8080'') = int (length (pr_running (all_running ''8080'')))"
  using process_shutdown [OF all_running_reachable, of "''8080''"] by (simp add: all_running_def)

end
