(* ===== verification/Statements.thy ===== *)
theory Statements
  imports Scheduler Maintenance Enrollment Monitors_Service
begin

text \<open>
  Every operation of the control plane changes the database through the statements of the
  store alone. \<open>statement a\<close> is the step relation of those statements, by the actor on whose
  behalf they are sent; each operation is a path of them. What holds of the statements then
  holds of all operations.
\<close>

section \<open>The step relation\<close>

datatype actor = Worker_Actor string | Scheduler_Actor | Reaper_Actor | Cleaner_Actor | Anyone

inductive statement :: "actor \<Rightarrow> db \<Rightarrow> db \<Rightarrow> bool" where
  st_heartbeat: "statement (Worker_Actor w) d (snd (UpdateWorkerHeartbeat now w d))"
| st_lease: "statement (Worker_Actor w) d (snd (LeaseJobsWithMonitorData e w n region t d))"
| st_complete: "statement (Worker_Actor w) d (snd (CompleteJob run w d))"
| st_renew: "statement (Worker_Actor w) d (snd (RenewLease_query run w t d))"
| st_upsert: "statement (Worker_Actor w) d (snd (UpsertResult x d))"
| st_create_job: "statement Scheduler_Actor d (snd (CreateJobIdempotent now run m region sched lo hi d))"
| st_scheduled: "statement Scheduler_Actor d (snd (UpdateMonitorSchedulingTime now i l nx d))"
| st_reclaim: "statement Reaper_Actor d (snd (ReclaimExpiredLeases now d))"
| st_clean: "statement Cleaner_Actor d (snd (DeleteDoneJobsBefore cutoff n d))"
| st_inactive: "statement Anyone d (snd (MarkWorkerInactive now d))"
| st_enroll: "statement Anyone d (snd (EnrollWorker_query now w hst region v d))"
| st_token: "statement Anyone d (snd (SetWorkerToken h w d))"
| st_revoke: "statement Anyone d (snd (RevokeWorker now reason w d))"
| st_create_monitor: "statement Anyone d (snd (CreateMonitor_query now p d))"
| st_update_monitor: "statement Anyone d (snd (UpdateMonitorByUser now p d))"
| st_delete_monitor: "statement Anyone d (snd (DeleteMonitorByUser now i u d))"

lemmas statement_intros = statement.intros

inductive_simps statement_cleaner: "statement Cleaner_Actor d d'"
inductive_simps statement_reaper: "statement Reaper_Actor d d'"
inductive_cases statement_worker: "statement (Worker_Actor w) d d'"
inductive_cases statement_scheduler: "statement Scheduler_Actor d d'"
inductive_cases statement_anyone: "statement Anyone d d'"

abbreviation statements :: "actor \<Rightarrow> db \<Rightarrow> db \<Rightarrow> bool" where
  "statements a \<equiv> (statement a)\<^sup>*\<^sup>*"

lemma sql_statements:
  assumes "\<And>d. statements a d (snd (f d))"
  shows "statements a (s_db s) (s_db (snd (sql n f s)))"
  using assms by (cases n) (simp_all add: call_def)

lemma sql_statements_step:
  assumes "sql n f s = (r, s')" and "\<And>d. statement a d (snd (f d))"
  shows "statements a (s_db s) (s_db s')"
  using sql_statements [of a f s n] assms by auto

text \<open>A read changes nothing at all.\<close>

lemma sql_read_id:
  assumes "\<And>d. snd (f d) = d"
  shows "snd (sql n f s) = s"
proof -
  obtain r where "f (s_db s) = (r, s_db s)" using assms by (metis prod.collapse)
  then show ?thesis by (cases n) (simp_all add: sql_def call_def split: prod.split)
qed

lemma sql_read_eq: "sql n f s = (r, s') \<Longrightarrow> (\<And>d. snd (f d) = d) \<Longrightarrow> s' = s"
  using sql_read_id [of f n s] by simp

section \<open>The operations are paths of statements\<close>

lemma touch_statements: "statements (Worker_Actor w) (s_db s) (s_db (touchWorkerHeartbeat e w s))"
  using touch_db [of e w s] by (metis r_into_rtranclp rtranclp.rtrancl_refl st_heartbeat)

lemma GetWorkerByID_state: "snd (GetWorkerByID w d) = d"
  by (simp add: GetWorkerByID_def)

lemma GetJobs_statements: "statements (Worker_Actor w) (s_db s) (s_db (snd (GetJobs e svc n (Some w) s)))"
proof -
  let ?s1 = "touchWorkerHeartbeat e w s"
  obtain r2 s2 where q: "sql (net e Q_GetWorkerByID w) (GetWorkerByID w) ?s1 = (r2, s2)"
    by (cases "sql (net e Q_GetWorkerByID w) (GetWorkerByID w) ?s1")
  have s2: "s2 = ?s1" by (rule sql_read_eq [OF q GetWorkerByID_state])
  show ?thesis
  proof (cases r2)
    case (Inl err)
    with q s2 show ?thesis by (simp add: GetJobs_def touch_statements)
  next
    case (Inr x)
    let ?f = "LeaseJobsWithMonitorData e w (max_jobs n) (w_region x) (go_now e + svc)"
    have "snd (GetJobs e svc n (Some w) s) = snd (sql (net e Q_LeaseJobs w) ?f ?s1)"
      using q s2 Inr by (auto simp: GetJobs_def Let_def split: prod.splits sum.splits)
    moreover have "statements (Worker_Actor w) (s_db ?s1) (s_db (snd (sql (net e Q_LeaseJobs w) ?f ?s1)))"
      by (rule sql_statements) (blast intro: st_lease)
    ultimately show ?thesis using touch_statements [of w s e] by (metis rtranclp_trans)
  qed
qed

lemma SubmitResult_statements: "statements (Worker_Actor w) (s_db s) (s_db (snd (SubmitResult e msg (Some w) s)))"
proof (cases msg)
  case None
  then show ?thesis by (simp add: SubmitResult_def touch_statements)
next
  case (Some x)
  let ?s1 = "touchWorkerHeartbeat e w s"
  let ?s2 = "snd (ProcessResult e x ?s1)"
  have p: "statements (Worker_Actor w) (s_db ?s1) (s_db ?s2)"
    using ProcessResult_db [of e x ?s1] by (metis r_into_rtranclp rtranclp.rtrancl_refl st_upsert)
  have c: "statements (Worker_Actor w) (s_db ?s2) (s_db (snd (completeJob e w (x_run_id x) ?s2)))"
    using completeJob_db [of e w "x_run_id x" ?s2] by (metis r_into_rtranclp rtranclp.rtrancl_refl st_complete)
  show ?thesis
    using SubmitResult_state [of e x w s] touch_statements [of w s e] p c Some by (metis rtranclp_trans)
qed

lemma RenewLease_statements: "statements (Worker_Actor w) (s_db s) (s_db (snd (RenewLease e svc run (Some w) s)))"
proof -
  let ?s1 = "touchWorkerHeartbeat e w s" and ?f = "RenewLease_query run w (go_now e + svc)"
  have "snd (RenewLease e svc run (Some w) s) = snd (sql (net e Q_RenewLease run) ?f ?s1)"
    by (simp add: RenewLease_def Let_def split: prod.splits sum.splits)
  moreover have "statements (Worker_Actor w) (s_db ?s1) (s_db (snd (sql (net e Q_RenewLease run) ?f ?s1)))"
    by (rule sql_statements) (blast intro: st_renew)
  ultimately show ?thesis using touch_statements [of w s e] by (metis rtranclp_trans)
qed

lemma no_context: "snd (GetJobs e svc n None s) = s" "snd (SubmitResult e msg None s) = s" "snd (RenewLease e svc run None s) = s"
  by (simp_all add: GetJobs_def SubmitResult_def RenewLease_def)

lemma EnrollWorker_statements: "statements Anyone (s_db s) (s_db (snd (EnrollWorker e cfg ri rt msg s)))"
proof -
  have en: "statements Anyone (s_db s0) (s_db s1)"
    if "sql n (EnrollWorker_query now w hst region v) s0 = (r, s1)" for n now w hst region v s0 r s1
    by (rule sql_statements_step [OF that st_enroll])
  have tk: "statements Anyone (s_db s0) (s_db s1)"
    if "sql n (SetWorkerToken h w) s0 = (r, s1)" for n h w s0 r s1
    by (rule sql_statements_step [OF that st_token])
  show ?thesis
    unfolding EnrollWorker_def
    by (auto split: option.splits prod.splits sum.splits dest!: en tk intro: rtranclp_trans)
qed

lemma RenewEnrollment_statements: "statements Anyone (s_db s) (s_db (snd (RenewEnrollment e rt w s)))"
proof -
  have tk: "statements Anyone (s_db s0) (s_db s1)"
    if "sql n (SetWorkerToken h w) s0 = (r, s1)" for n h w s0 r s1
    by (rule sql_statements_step [OF that st_token])
  have rd: "s1 = s0" if "sql n (GetWorkerByID w) s0 = (r, s1)" for n w s0 r s1
    by (rule sql_read_eq [OF that GetWorkerByID_state])
  show ?thesis
    unfolding RenewEnrollment_def
    by (auto split: option.splits prod.splits sum.splits dest!: tk rd)
qed

lemma RevokeEnrollment_statements: "statements Anyone (s_db s) (s_db (snd (RevokeEnrollment e w reason s)))"
proof -
  have tk: "statements Anyone (s_db s0) (s_db (snd (sql n (SetWorkerToken h w) s0)))" for n h w s0
    by (rule sql_statements) (blast intro: st_token)
  have rv: "statements Anyone (s_db s0) (s_db s1)"
    if "sql n (RevokeWorker now rs w) s0 = (r, s1)" for n now rs w s0 r s1
    by (rule sql_statements_step [OF that st_revoke])
  have rd: "s1 = s0" if "sql n (GetWorkerByID w) s0 = (r, s1)" for n w s0 r s1
    by (rule sql_read_eq [OF that GetWorkerByID_state])
  show ?thesis
    unfolding RevokeEnrollment_def Let_def
    using tk [of s "net e Q_SetWorkerToken w" None w]
    by (auto split: prod.splits sum.splits dest!: rv rd intro: rtranclp_trans)
qed

lemma region_warnings_same: "snd (region_warnings e rs s) = s"
proof -
  have "snd (sql n (ListRegionHealth now) s) = s" for n now
    by (rule sql_read_id) (simp add: ListRegionHealth_def)
  then show ?thesis
    by (auto simp: region_warnings_def zeroHealthyRegions_def split: prod.splits sum.splits) (metis snd_conv)+
qed

lemma owned_monitor_same: "snd (owned_monitor e i u s) = s"
proof -
  have "snd (sql n (GetMonitorByUser i u) s) = s" for n
    by (rule sql_read_id) (simp add: GetMonitorByUser_def)
  then show ?thesis
    by (auto simp: owned_monitor_def split: prod.splits sum.splits) (metis snd_conv)+
qed

lemma CreateMonitor_statements: "statements Anyone (s_db s) (s_db (snd (CreateMonitor k e msg ctx s)))"
proof -
  have cr: "statements Anyone (s_db s0) (s_db s1)"
    if "sql n (CreateMonitor_query now p) s0 = (r, s1)" for n now p s0 r s1
    by (rule sql_statements_step [OF that st_create_monitor])
  have rw: "s1 = s0" if "region_warnings e rs s0 = (ws, s1)" for rs s0 ws s1
    using region_warnings_same [of e rs s0] that by simp
  show ?thesis
    unfolding CreateMonitor_def Let_def
    by (auto split: option.splits prod.splits sum.splits dest!: cr rw)
qed

lemma UpdateMonitor_statements: "statements Anyone (s_db s) (s_db (snd (UpdateMonitor k e msg ctx s)))"
proof -
  have up: "statements Anyone (s_db s0) (s_db s1)"
    if "sql n (UpdateMonitorByUser now p) s0 = (r, s1)" for n now p s0 r s1
    by (rule sql_statements_step [OF that st_update_monitor])
  have rw: "s1 = s0" if "region_warnings e rs s0 = (ws, s1)" for rs s0 ws s1
    using region_warnings_same [of e rs s0] that by simp
  have ow: "s1 = s0" if "owned_monitor e i u s0 = (r, s1)" for i u s0 r s1
    using owned_monitor_same [of e i u s0] that by simp
  show ?thesis
    unfolding UpdateMonitor_def Let_def
    by (auto split: option.splits prod.splits sum.splits dest!: up rw ow)
qed

lemma DeleteMonitor_statements: "statements Anyone (s_db s) (s_db (snd (DeleteMonitor e i ctx s)))"
proof -
  have dl: "statements Anyone (s_db s0) (s_db s1)"
    if "sql n (DeleteMonitorByUser now i u) s0 = (r, s1)" for n now i u s0 r s1
    by (rule sql_statements_step [OF that st_delete_monitor])
  show ?thesis
    unfolding DeleteMonitor_def
    by (auto split: option.splits prod.splits sum.splits dest!: dl)
qed

section \<open>The background services\<close>

lemma reclaim_statements: "statements Reaper_Actor (s_db s) (s_db (reclaim_work e s))"
  unfolding reclaim_work_def by (rule sql_statements) (blast intro: st_reclaim)

lemma inactivity_statements: "statements Anyone (s_db s) (s_db (inactivity_tick e s))"
  unfolding inactivity_tick_def by (rule sql_statements) (blast intro: st_inactive)

lemma clean_batches_statements:
  "clean_batches e cutoff b s = Some s' \<Longrightarrow> statements Cleaner_Actor (s_db s) (s_db s')"
  by (erule clean_batches_steps) (blast intro: sql_statements_step st_clean, rule rtranclp_trans)

lemma tx_sql_statements:
  assumes "tx_sql n f t = (r, t')" and "\<And>d. statement a d (snd (f d))"
  shows "statements a (tx_db t) (tx_db t')"
proof (cases "tx_aborted t \<or> n \<noteq> Served")
  case True
  with assms(1) show ?thesis by (auto simp: tx_sql_def split: if_splits outcome.splits)
next
  case False
  with assms(1) have "tx_db t' = snd (f (tx_db t))"
    by (auto simp: tx_sql_def split: prod.splits sum.splits)
  with assms(2) show ?thesis by (metis r_into_rtranclp)
qed

lemma schedule_regions_statements:
  "schedule_regions e zone m t0 rs t = (r, t') \<Longrightarrow> statements Scheduler_Actor (tx_db t) (tx_db t')"
proof (induction e zone m t0 rs t arbitrary: r t' rule: schedule_regions.induct)
  case (2 e zone m t0 region rs t)
  let ?run = "generateRunID zone (m_id m) region t0" and ?w = "calculateDedupWindow (base_interval (m_interval_ms m))"
  obtain r1 t1 where q: "tx_sql (net e Q_CreateJobIdempotent ?run)
      (CreateJobIdempotent (sql_now e) ?run (m_id m) region t0 (t0 - ?w) (t0 + ?w)) t = (r1, t1)"
    by (cases "tx_sql (net e Q_CreateJobIdempotent ?run)
      (CreateJobIdempotent (sql_now e) ?run (m_id m) region t0 (t0 - ?w) (t0 + ?w)) t")
  note st = tx_sql_statements [OF q st_create_job]
  show ?case
  proof (cases r1)
    case (Inl err)
    with 2 q st show ?thesis by (cases "err = ErrNoRows") (auto simp: Let_def intro: rtranclp_trans)
  next
    case (Inr j)
    with 2 q st show ?thesis by (auto simp: Let_def intro: rtranclp_trans)
  qed
qed simp

lemma scheduleMonitorTx_statements:
  assumes "scheduleMonitorTx e zone m now t = (r, t')"
  shows "statements Scheduler_Actor (tx_db t) (tx_db t')"
proof -
  have up: "statements Scheduler_Actor (tx_db t1) (tx_db t2)"
    if "tx_sql n (UpdateMonitorSchedulingTime now i l nx) t1 = (r, t2)" for n now i l nx t1 r t2
    by (rule tx_sql_statements [OF that st_scheduled])
  show ?thesis
    using assms unfolding scheduleMonitorTx_def Let_def
    by (auto split: prod.splits sum.splits dest!: up schedule_regions_statements intro: rtranclp_trans)
qed

lemma schedule_loop_statements:
  "schedule_loop e zone now budget ms cnt t = Some (cnt', t') \<Longrightarrow> statements Scheduler_Actor (tx_db t) (tx_db t')"
  by (induction e zone now budget ms cnt t arbitrary: cnt' t' rule: schedule_loop.induct)
    (auto split: prod.splits sum.splits dest!: scheduleMonitorTx_statements intro: rtranclp_trans)

lemma ListDueMonitors_tx:
  "tx_sql n (ListDueMonitors e t) \<lparr>tx_db = d, tx_aborted = b\<rparr> = (r, t') \<Longrightarrow> tx_db t' = d"
  by (auto simp: tx_sql_def ListDueMonitors_def Let_def split: if_splits outcome.splits prod.splits sum.splits)

lemma schedule_work_statements: "statements Scheduler_Actor (s_db s) (s_db (schedule_work e zone budget s))"
  unfolding schedule_work_def Let_def
  by (auto split: prod.splits sum.splits option.splits if_splits outcome.splits
      dest!: ListDueMonitors_tx schedule_loop_statements)

end
