(* ===== verification/Job_Lifecycle.thy ===== *)
theory Job_Lifecycle
  imports Statements
begin

text \<open>
  The invariant of the store under every statement, and the life of a job: an abstract machine
  per run id that every statement, hence every operation, refines.
\<close>

section \<open>The store invariant\<close>

text \<open>Referential integrity: the monitor of a job is a row of its table (soft-deleted or not).\<close>

definition refs_ok :: "db \<Rightarrow> bool" where
  "refs_ok d \<longleftrightarrow> (\<forall>j \<in> set (d_jobs d). \<exists>m \<in> set (d_monitors d). m_id m = j_monitor_id j)"

definition db_ok :: "db \<Rightarrow> bool" where
  "db_ok d \<longleftrightarrow> store_inv d \<and> refs_ok d"

lemma db_ok_empty: "db_ok empty_db"
  using store_inv_empty by (simp add: db_ok_def refs_ok_def empty_db_def)

lemma refs_ok_update:
  assumes "refs_ok d" and "\<And>j'. j' \<in> set (d_jobs d') \<Longrightarrow> \<exists>j \<in> set (d_jobs d). j_monitor_id j' = j_monitor_id j"
    and "m_id ` set (d_monitors d) \<subseteq> m_id ` set (d_monitors d')"
  shows "refs_ok d'"
  unfolding refs_ok_def
proof
  fix j' assume "j' \<in> set (d_jobs d')"
  with assms(2) obtain j where "j \<in> set (d_jobs d)" "j_monitor_id j' = j_monitor_id j" by blast
  with assms(1) obtain m where "m \<in> set (d_monitors d)" "m_id m = j_monitor_id j'" by (auto simp: refs_ok_def)
  with assms(3) have "j_monitor_id j' \<in> m_id ` set (d_monitors d')" by (metis imageI subsetD)
  then show "\<exists>m \<in> set (d_monitors d'). m_id m = j_monitor_id j'" by auto
qed

text \<open>The two shapes of a statement: it rewrites jobs in place, or leaves them alone.\<close>

lemma db_ok_jobs:
  assumes "db_ok d" and "jobs_inv d'" and "d_monitors d' = d_monitors d" and "d_workers d' = d_workers d"
    and "d_results d' = d_results d"
    and "\<And>j'. j' \<in> set (d_jobs d') \<Longrightarrow> \<exists>j \<in> set (d_jobs d). j_monitor_id j' = j_monitor_id j"
  shows "db_ok d'"
  using assms store_inv_jobs [of d d'] refs_ok_update [of d d'] by (simp add: db_ok_def)

lemma db_ok_frame:
  assumes "db_ok d" and "store_inv d'" and "d_jobs d' = d_jobs d"
    and "m_id ` set (d_monitors d) \<subseteq> m_id ` set (d_monitors d')"
  shows "db_ok d'"
  using assms refs_ok_update [of d d'] by (auto simp: db_ok_def)

lemma db_ok_workers:
  assumes "db_ok d" and "workers_inv d'" and "d_jobs d' = d_jobs d" and "d_monitors d' = d_monitors d"
    and "d_results d' = d_results d"
  shows "db_ok d'"
  using assms store_inv_workers [of d d'] by (intro db_ok_frame [OF assms(1)]) (simp_all add: db_ok_def)

lemma db_ok_monitors:
  assumes "db_ok d" and "monitors_inv d'" and "d_jobs d' = d_jobs d" and "d_workers d' = d_workers d"
    and "d_results d' = d_results d" and "m_id ` set (d_monitors d) \<subseteq> m_id ` set (d_monitors d')"
  shows "db_ok d'"
  using assms store_inv_monitors [of d d'] by (intro db_ok_frame [OF assms(1)]) (simp_all add: db_ok_def)

lemma db_okD:
  assumes "db_ok d"
  shows "store_inv d" "jobs_inv d" "monitors_inv d" "workers_inv d" "results_inv d" "refs_ok d"
  using assms by (simp_all add: db_ok_def store_invD)

lemma update_jobs_monitor:
  assumes "j' \<in> set (d_jobs (update_jobs P f d))" and "\<And>j. j_monitor_id (f j) = j_monitor_id j"
  shows "\<exists>j \<in> set (d_jobs d). j_monitor_id j' = j_monitor_id j"
  using assms by (auto simp: in_update_where)

lemma update_where_ids:
  assumes "\<And>m. m_id (f m) = m_id m"
  shows "m_id ` set (update_where P f ms) = m_id ` set ms"
  using update_where_cong_key [of P m_id f ms] assms by (metis list.set_map)

lemma insert_job_refs:
  assumes "db_ok d" and "wf_job j"
  shows "db_ok (snd (insert_job j d))"
proof -
  have "jobs_inv (snd (insert_job j d))" by (rule insert_job_inv [OF db_okD(2) [OF assms(1)] assms(2)])
  then have "store_inv (snd (insert_job j d))"
    by (rule store_inv_jobs [OF db_okD(1) [OF assms(1)]]) (simp_all add: insert_job_def)
  moreover have "refs_ok (snd (insert_job j d))"
    using db_okD(6) [OF assms(1)] by (auto simp: refs_ok_def insert_job_def)
  ultimately show ?thesis by (simp add: db_ok_def)
qed

lemma statement_ok: "statement a d d' \<Longrightarrow> db_ok d \<Longrightarrow> db_ok d'"
proof (induction rule: statement.induct)
  case (st_heartbeat w d now)
  then show ?case
    by (intro db_ok_workers [OF st_heartbeat]) (simp_all add: worker_updates_inv db_okD, simp_all add: UpdateWorkerHeartbeat_def)
next
  case (st_lease w d e n region t)
  show ?case
  proof (rule db_ok_jobs [OF st_lease])
    fix j' assume "j' \<in> set (d_jobs (snd (LeaseJobsWithMonitorData e w n region t d)))"
    then show "\<exists>j \<in> set (d_jobs d). j_monitor_id j' = j_monitor_id j"
      by (auto simp: LeaseJobsWithMonitorData_state lease_rows_def Let_def lease_mark_def in_update_where split: sum.splits)
  qed (simp_all add: LeaseJobsWithMonitorData_inv db_okD [OF st_lease])
next
  case (st_complete w d run)
  show ?case
    by (rule db_ok_jobs [OF st_complete])
      (simp_all add: CompleteJob_inv db_okD [OF st_complete],
       auto simp: CompleteJob_def update_jobs_returning_def in_update_where)
next
  case (st_renew w d run t)
  show ?case
    by (rule db_ok_jobs [OF st_renew])
      (simp_all add: RenewLease_query_inv db_okD [OF st_renew],
       auto simp: RenewLease_query_def update_jobs_returning_def in_update_where)
next
  case (st_upsert w d x)
  then show ?case
    by (intro db_ok_frame [OF st_upsert]) (simp_all add: UpsertResult_store_inv db_okD UpsertResult_tables)
next
  case (st_create_job d now run m region sched lo hi)
  then show ?case by (simp add: CreateJobIdempotent_def insert_job_refs wf_new_job)
next
  case (st_scheduled d now i l nx)
  then show ?case
    by (intro db_ok_monitors [OF st_scheduled])
      (simp_all add: UpdateMonitorSchedulingTime_inv db_okD,
       simp_all add: UpdateMonitorSchedulingTime_def update_monitors_returning_def update_where_ids)
next
  case (st_reclaim d now)
  show ?case
    by (rule db_ok_jobs [OF st_reclaim])
      (simp_all add: ReclaimExpiredLeases_inv db_okD [OF st_reclaim],
       auto simp: ReclaimExpiredLeases_def in_update_where)
next
  case (st_clean d cutoff n)
  show ?case
    by (rule db_ok_jobs [OF st_clean])
      (simp_all add: DeleteDoneJobsBefore_inv db_okD [OF st_clean],
       auto simp: DeleteDoneJobsBefore_def sql_limit_def Let_def split: if_splits)
next
  case (st_inactive d now)
  then show ?case
    by (intro db_ok_workers [OF st_inactive]) (simp_all add: worker_updates_inv db_okD, simp_all add: MarkWorkerInactive_def)
next
  case (st_enroll d now w hst region v)
  then show ?case
    by (intro db_ok_workers [OF st_enroll]) (simp_all add: EnrollWorker_query_inv db_okD, simp_all add: EnrollWorker_query_def Let_def)
next
  case (st_token d h w)
  then show ?case
    by (intro db_ok_workers [OF st_token]) (simp_all add: worker_updates_inv db_okD, simp_all add: SetWorkerToken_def)
next
  case (st_revoke d now reason w)
  then show ?case
    by (intro db_ok_workers [OF st_revoke]) (simp_all add: worker_updates_inv db_okD, simp_all add: RevokeWorker_def)
next
  case (st_create_monitor d now p)
  then show ?case
    by (intro db_ok_monitors [OF st_create_monitor])
      (simp_all add: CreateMonitor_query_inv db_okD, auto simp: CreateMonitor_query_def Let_def)
next
  case (st_update_monitor d now p)
  then show ?case
    by (intro db_ok_monitors [OF st_update_monitor])
      (simp_all add: UpdateMonitorByUser_inv db_okD,
       simp_all add: UpdateMonitorByUser_def update_monitors_returning_def update_where_ids set_params_def)
next
  case (st_delete_monitor d now i u)
  then show ?case
    by (intro db_ok_monitors [OF st_delete_monitor])
      (simp_all add: DeleteMonitorByUser_inv db_okD,
       simp_all add: DeleteMonitorByUser_def update_where_ids)
qed

lemma statements_ok: "statements a d d' \<Longrightarrow> db_ok d \<Longrightarrow> db_ok d'"
  by (induction rule: rtranclp_induct) (auto intro: statement_ok)

text \<open>The statements of any number of requests and services, interleaved in any order.\<close>

lemma interleaved_ok: "(\<lambda>d d'. \<exists>a. statement a d d')\<^sup>*\<^sup>* d d' \<Longrightarrow> db_ok d \<Longrightarrow> db_ok d'"
  by (induction rule: rtranclp_induct) (auto dest: statement_ok)


section \<open>The life of a job\<close>

datatype phase = Absent | Waiting | Held string | Finished string

text \<open>
  Who may move a job of some run, and how: the scheduler creates it, a worker leases it and
  finishes what it holds, the reaper takes it back, the cleaner removes it once finished.
\<close>

inductive life :: "actor \<Rightarrow> phase \<Rightarrow> phase \<Rightarrow> bool" where
  created: "life Scheduler_Actor Absent Waiting"
| leased: "life (Worker_Actor w) Waiting (Held w)"
| finished: "life (Worker_Actor w) (Held w) (Finished w)"
| expired: "life Reaper_Actor (Held w) Waiting"
| cleaned: "life Cleaner_Actor (Finished w) Absent"

inductive_cases life_worker: "life (Worker_Actor w) p p'"
inductive_simps life_anyone: "life Anyone p p'"
inductive_simps life_cleaner: "life Cleaner_Actor p p'"
inductive_simps life_reaper: "life Reaper_Actor p p'"
inductive_simps life_scheduler: "life Scheduler_Actor p p'"

abbreviation lives :: "actor \<Rightarrow> phase \<Rightarrow> phase \<Rightarrow> bool" where
  "lives a \<equiv> (life a)\<^sup>*\<^sup>*"

definition job_phase :: "app_job \<Rightarrow> phase" where
  "job_phase j =
     (let w = (case j_worker_id j of None \<Rightarrow> [] | Some w \<Rightarrow> w)
      in case j_status j of Ready \<Rightarrow> Waiting | Leased \<Rightarrow> Held w | Done \<Rightarrow> Finished w)"

text \<open>The abstraction: the phase of a run in the database.\<close>

definition phase_of :: "string \<Rightarrow> db \<Rightarrow> phase" where
  "phase_of run d = (case filter (\<lambda>j. j_run_id j = run) (d_jobs d) of [] \<Rightarrow> Absent | j # _ \<Rightarrow> job_phase j)"

lemma phase_of_cong: "d_jobs d' = d_jobs d \<Longrightarrow> phase_of run d' = phase_of run d"
  by (simp add: phase_of_def)

lemma phase_of_absent: "phase_of run d = Absent \<longleftrightarrow> (\<forall>j \<in> set (d_jobs d). j_run_id j \<noteq> run)"
  by (auto simp: phase_of_def job_phase_def Let_def filter_empty_conv split: list.splits job_status.splits
      dest: filter_eq_ConsD)

lemma phase_of_row:
  assumes "jobs_inv d" and "j \<in> set (d_jobs d)"
  shows "phase_of (j_run_id j) d = job_phase j"
  using distinct_key_filter [OF jobs_invD(1) [OF assms(1)] assms(2)] by (simp add: phase_of_def)

lemma phase_of_cases:
  assumes "jobs_inv d"
  obtains (none) "phase_of run d = Absent" and "\<forall>j \<in> set (d_jobs d). j_run_id j \<noteq> run"
  | (row) j where "j \<in> set (d_jobs d)" and "j_run_id j = run" and "phase_of run d = job_phase j" and "wf_job j"
  using assms phase_of_absent phase_of_row jobs_invD(2) by metis

lemma filter_update_where:
  assumes "\<And>j. j_run_id (f j) = j_run_id j"
  shows "filter (\<lambda>j. j_run_id j = run) (update_where P f js) = update_where P f (filter (\<lambda>j. j_run_id j = run) js)"
  by (induction js) (simp_all add: assms)

text \<open>A statement that rewrites rows in place moves a run at most as the rewriting says.\<close>

lemma phase_update:
  assumes inv: "jobs_inv d" and d': "d_jobs d' = update_where P f (d_jobs d)"
    and key: "\<And>j. j_run_id (f j) = j_run_id j"
    and move: "\<And>j. j \<in> set (d_jobs d) \<Longrightarrow> wf_job j \<Longrightarrow> P j \<Longrightarrow>
        job_phase (f j) = job_phase j \<or> life a (job_phase j) (job_phase (f j))"
  shows "phase_of run d' = phase_of run d \<or> life a (phase_of run d) (phase_of run d')"
proof (cases "filter (\<lambda>j. j_run_id j = run) (d_jobs d)")
  case Nil
  then show ?thesis by (simp add: phase_of_def d' filter_update_where key)
next
  case (Cons j js)
  then have "j \<in> set (d_jobs d)" by (metis filter_is_subset list.set_intros(1) subsetD)
  with Cons move [of j] jobs_invD(2) [OF inv, of j] show ?thesis
    by (auto simp: phase_of_def d' filter_update_where key)
qed

lemma phase_insert:
  "phase_of run (snd (insert_job (new_job now r m g t) d)) = phase_of run d
   \<or> phase_of run d = Absent \<and> phase_of run (snd (insert_job (new_job now r m g t) d)) = Waiting"
  by (auto simp: phase_of_def insert_job_def new_job_def job_phase_def split: list.splits)

theorem statement_life:
  assumes "statement a d d'" and "jobs_inv d"
  shows "phase_of run d' = phase_of run d \<or> life a (phase_of run d) (phase_of run d')"
  using assms
proof (induction rule: statement.induct)
  case (st_lease w d e n region t)
  let ?f = "lease_mark w t"
  show ?case
  proof (cases "n < 0")
    case True
    then show ?thesis by (simp add: LeaseJobsWithMonitorData_state lease_rows_def sql_limit_def)
  next
    case False
    let ?pk = "picked_rows (lease_order region) e [region, ''global''] n d"
    have "d_jobs (snd (LeaseJobsWithMonitorData e w n region t d))
        = update_where (\<lambda>j. j_run_id j \<in> j_run_id ` set ?pk) ?f (d_jobs d)"
      using False by (simp add: LeaseJobsWithMonitorData_state lease_rows_def sql_limit_def Let_def picked_rows_def)
    then show ?thesis
    proof (rule phase_update [OF st_lease])
      fix j assume j: "j \<in> set (d_jobs d)" "j_run_id j \<in> j_run_id ` set ?pk"
      have sub: "set ?pk \<subseteq> set (d_jobs d)" using picked_rows_leasable(1) [OF permutes_lease_order] by blast
      have "leasable e [region, ''global''] j"
        using picked_rows_leasable(2) [OF permutes_lease_order] run_in_picked [OF st_lease sub j(1)] j(2) by blast
      then show "job_phase (?f j) = job_phase j \<or> life (Worker_Actor w) (job_phase j) (job_phase (?f j))"
        by (simp add: leasable_def job_phase_def lease_mark_def leased)
    qed (simp add: lease_mark_def)
  qed
next
  case (st_complete w d run')
  show ?case
    by (rule phase_update [OF st_complete, where P = "held_by run' w" and f = "\<lambda>j. j\<lparr>j_status := Done, j_lease_expires_at := None\<rparr>"])
      (auto simp: CompleteJob_def update_jobs_returning_def held_by_def job_phase_def finished)
next
  case (st_renew w d run' t)
  show ?case
    by (rule phase_update [OF st_renew, where P = "held_by run' w" and f = "\<lambda>j. j\<lparr>j_lease_expires_at := Some (pg_ts t)\<rparr>"])
      (auto simp: RenewLease_query_def update_jobs_returning_def job_phase_def)
next
  case (st_create_job d now r m region sched lo hi)
  then show ?case
    using phase_insert [of run now r m region sched d] by (auto simp: CreateJobIdempotent_def created)
next
  case (st_reclaim d now)
  show ?case
    by (rule phase_update [OF st_reclaim, where P = "lease_expired now" and f = "\<lambda>j. j\<lparr>j_status := Ready, j_lease_expires_at := None, j_worker_id := None\<rparr>"])
      (auto simp: ReclaimExpiredLeases_def lease_expired_def job_phase_def expired)
next
  case (st_clean d cutoff n)
  show ?case
  proof (cases "n < 0")
    case True
    then show ?thesis by (simp add: DeleteDoneJobsBefore_def sql_limit_def)
  next
    case False
    define pk where "pk = take (nat n) (sort_key j_scheduled_at (filter (expired_done cutoff) (d_jobs d)))"
    have d': "d_jobs (snd (DeleteDoneJobsBefore cutoff n d)) = filter (\<lambda>j. j_run_id j \<notin> j_run_id ` set pk) (d_jobs d)"
      using False by (simp add: DeleteDoneJobsBefore_def sql_limit_def Let_def pk_def)
    show ?thesis
    proof (cases "run \<in> j_run_id ` set pk")
      case False
      then have "filter (\<lambda>j. j_run_id j = run) (filter (\<lambda>j. j_run_id j \<notin> j_run_id ` set pk) (d_jobs d))
          = filter (\<lambda>j. j_run_id j = run) (d_jobs d)" by (auto intro!: filter_cong)
      then show ?thesis by (simp add: phase_of_def d')
    next
      case True
      then obtain j where j: "j \<in> set pk" "j_run_id j = run" by auto
      have "j \<in> set (d_jobs d)" "expired_done cutoff j"
        using j(1) set_take_sort_key unfolding pk_def by fastforce+
      then have "\<exists>w. phase_of run d = Finished w"
        using phase_of_row [OF st_clean] j(2) by (auto simp: expired_done_def job_phase_def)
      moreover have "phase_of run (snd (DeleteDoneJobsBefore cutoff n d)) = Absent"
        using True by (auto simp: phase_of_absent d')
      ultimately show ?thesis using cleaned by auto
    qed
  qed
qed ((intro disjI1 phase_of_cong, simp add: UpdateWorkerHeartbeat_def UpsertResult_tables UpdateMonitorSchedulingTime_def
      MarkWorkerInactive_def EnrollWorker_query_def Let_def SetWorkerToken_def RevokeWorker_def CreateMonitor_query_def
      UpdateMonitorByUser_def update_monitors_returning_def DeleteMonitorByUser_def)+)

lemma statements_life:
  assumes "statements a d d'" and "db_ok d"
  shows "lives a (phase_of run d) (phase_of run d')"
  using assms
proof (induction rule: rtranclp_induct)
  case (step d1 d2)
  then have "jobs_inv d1" using statements_ok db_okD(2) by blast
  from statement_life [OF step(2) this, of run] step show ?case by (auto intro: rtranclp.rtrancl_into_rtrancl)
qed simp

text \<open>What a worker cannot do, at any number of steps.\<close>

lemma worker_life:
  assumes "lives (Worker_Actor w) p p'"
  shows "p' = p \<or> (p = Waiting \<and> p' \<in> {Held w, Finished w}) \<or> (p = Held w \<and> p' = Finished w)"
  using assms by (induction rule: rtranclp_induct) (auto elim: life_worker)

lemma other_lives:
  "lives Anyone p p' \<Longrightarrow> p' = p"
  "lives Reaper_Actor p p' \<Longrightarrow> p' = p \<or> (\<exists>w. p = Held w \<and> p' = Waiting)"
  "lives Cleaner_Actor p p' \<Longrightarrow> p' = p \<or> (\<exists>w. p = Finished w \<and> p' = Absent)"
  "lives Scheduler_Actor p p' \<Longrightarrow> p' = p \<or> (p = Absent \<and> p' = Waiting)"
proof -
  show "lives Anyone p p' \<Longrightarrow> p' = p"
    by (induction rule: rtranclp_induct) (auto simp: life_anyone)
  show "lives Reaper_Actor p p' \<Longrightarrow> p' = p \<or> (\<exists>w. p = Held w \<and> p' = Waiting)"
    by (induction rule: rtranclp_induct) (auto simp: life_reaper)
  show "lives Cleaner_Actor p p' \<Longrightarrow> p' = p \<or> (\<exists>w. p = Finished w \<and> p' = Absent)"
    by (induction rule: rtranclp_induct) (auto simp: life_cleaner)
  show "lives Scheduler_Actor p p' \<Longrightarrow> p' = p \<or> (p = Absent \<and> p' = Waiting)"
    by (induction rule: rtranclp_induct) (auto simp: life_scheduler)
qed

end
