(* ===== verification/System.thy ===== *)
theory System
  imports Job_Lifecycle
begin

text \<open>
  The control plane as one machine: every request it serves and every tick of its services is a
  step, in any order. From the steps, its reachable states and what holds of all of them.
\<close>

section \<open>Steps\<close>

text \<open>Who acts in a request to the worker service: the worker its token belongs to, or nobody.\<close>

definition caller :: "env \<Rightarrow> string \<Rightarrow> server \<Rightarrow> actor" where
  "caller e hdr s = (case fst (authenticateWorkerToken e hdr s) of Inl _ \<Rightarrow> Anyone | Inr w \<Rightarrow> Worker_Actor w)"

text \<open>
  \<open>k\<close> is the codec of \<open>protojson\<close>. \<open>reliable\<close> restricts the network: an update of a worker's token that the database made is
  also answered. Without it a renewal can change the token behind the back of the cache.
\<close>

definition token_acked :: "env \<Rightarrow> bool" where
  "token_acked e \<longleftrightarrow> (\<forall>w. net e Q_SetWorkerToken w \<noteq> LostAfter)"

inductive server_step :: "bool \<Rightarrow> 'st struct_codec \<Rightarrow> actor \<Rightarrow> server \<Rightarrow> server \<Rightarrow> bool"
  for reliable k where
  get_jobs: "server_step reliable k (caller e hdr s) s (snd (TokenAuthHandlerWithCache e hdr (GetJobs e svc n) s))"
| submit_result: "server_step reliable k (caller e hdr s) s (snd (TokenAuthHandlerWithCache e hdr (SubmitResult e msg) s))"
| renew_lease: "server_step reliable k (caller e hdr s) s (snd (TokenAuthHandlerWithCache e hdr (RenewLease e svc run) s))"
| enroll: "server_step reliable k Anyone s (snd (EnrollWorker e cfg ri rt req s))"
| renew_enrollment: "reliable \<longrightarrow> token_acked e \<Longrightarrow> server_step reliable k Anyone s (snd (RenewEnrollment e rt w s))"
| revoke: "server_step reliable k Anyone s (snd (RevokeEnrollment e w reason s))"
| create_monitor: "server_step reliable k Anyone s (snd (CreateMonitor k e cmsg ctx s))"
| update_monitor: "server_step reliable k Anyone s (snd (UpdateMonitor k e umsg ctx s))"
| delete_monitor: "server_step reliable k Anyone s (snd (DeleteMonitor e i ctx s))"
| inactivity: "server_step reliable k Anyone s (inactivity_tick e s)"

inductive system_step :: "bool \<Rightarrow> 'st struct_codec \<Rightarrow> actor \<Rightarrow> cluster \<Rightarrow> cluster \<Rightarrow> bool"
  for reliable k where
  serve: "server_step reliable k a (cl_server c) s \<Longrightarrow> system_step reliable k a c (c\<lparr>cl_server := s\<rparr>)"
| reap: "system_step reliable k Reaper_Actor c (reaper_tick e p q c)"
| clean: "runCleanup e p q jc c = Some c' \<Longrightarrow> system_step reliable k Cleaner_Actor c c'"
| schedule: "system_step reliable k Scheduler_Actor c (scheduleIteration e zone budget p q c)"

definition initial_cluster :: "worker_auth_cache option \<Rightarrow> heartbeat_tracker option \<Rightarrow> cluster" where
  "initial_cluster ch hb =
     \<lparr>cl_locks = Map.empty, cl_server = \<lparr>s_db = empty_db, s_cache = ch, s_hb = hb\<rparr>\<rparr>"

inductive reachable :: "bool \<Rightarrow> 'st struct_codec \<Rightarrow> cluster \<Rightarrow> bool" for reliable k where
  initial: "reachable reliable k (initial_cluster None hb)"
| initial_cached: "reachable reliable k (initial_cluster (Some (NewWorkerAuthCache t n)) hb)"
| step: "reachable reliable k c \<Longrightarrow> system_step reliable k a c c' \<Longrightarrow> reachable reliable k c'"

section \<open>Every step is a path of statements\<close>

lemma authenticate_db: "s_db (snd (authenticateWorkerToken e hdr s)) = s_db s"
proof -
  have l: "s_db (snd (cache_lookup t h s)) = s_db s" for t h
    by (auto simp: cache_lookup_def split: option.splits prod.splits)
  have q: "s_db s2 = s_db s1" if "sql n (GetWorkerByTokenHash h) s1 = (r, s2)" for n h s1 r s2
    using sql_read_eq [OF that] by simp
  show ?thesis
  proof (cases "parseBearerToken hdr")
    case (Inr token)
    obtain r1 s1 where c: "cache_lookup (go_now e) (HashToken token) s = (r1, s1)"
      by (cases "cache_lookup (go_now e) (HashToken token) s")
    with l [of "go_now e" "HashToken token"] have "s_db s1 = s_db s" by simp
    with Inr c show ?thesis
      by (auto simp: authenticateWorkerToken_def Let_def split: option.splits prod.splits sum.splits dest!: q)
  qed (simp add: authenticateWorkerToken_def)
qed

lemma guarded_statements:
  assumes "\<And>w s. statements (Worker_Actor w) (s_db s) (s_db (snd (h (Some w) s)))"
  shows "statements (caller e hdr s) (s_db s) (s_db (snd (TokenAuthHandlerWithCache e hdr h s)))"
proof (cases "authenticateWorkerToken e hdr s")
  case (Pair r s1)
  then have "s_db s1 = s_db s" using authenticate_db [of e hdr s] by simp
  with Pair assms [of _ s1] show ?thesis
    by (cases r) (simp_all add: TokenAuthHandlerWithCache_def caller_def)
qed

lemma server_step_statements: "server_step reliable k a s s' \<Longrightarrow> statements a (s_db s) (s_db s')"
  by (induction rule: server_step.induct)
    (simp_all add: guarded_statements GetJobs_statements SubmitResult_statements RenewLease_statements
      EnrollWorker_statements RenewEnrollment_statements RevokeEnrollment_statements CreateMonitor_statements
      UpdateMonitor_statements DeleteMonitor_statements inactivity_statements)

lemma runCleanup_statements:
  assumes "runCleanup e p q jc c = Some c'"
  shows "statements Cleaner_Actor (s_db (cl_server c)) (s_db (cl_server c'))"
  using assms clean_batches_statements
  by (auto simp: runCleanup_def lock_call_def split: prod.splits sum.splits option.splits if_splits)

lemma system_step_statements:
  "system_step reliable k a c c' \<Longrightarrow> statements a (s_db (cl_server c)) (s_db (cl_server c'))"
proof (induction rule: system_step.induct)
  case (serve a c s)
  then show ?case by (simp add: server_step_statements)
next
  case (reap c e p q)
  show ?case
    using with_lock_server [of e p q 54321 "reclaim_work e" c] reclaim_statements by (auto simp: reaper_tick_def)
next
  case (clean e p q jc c c')
  then show ?case by (rule runCleanup_statements)
next
  case (schedule c e zone budget p q)
  show ?case
    using with_lock_server [of e p q 12345 "schedule_work e zone budget" c] schedule_work_statements
    by (auto simp: scheduleIteration_def)
qed

lemma reachable_db_ok: "reachable reliable k c \<Longrightarrow> db_ok (s_db (cl_server c))"
proof (induction rule: reachable.induct)
  case (step c a c')
  then show ?case using statements_ok system_step_statements by blast
qed (simp_all add: initial_cluster_def db_ok_empty)

lemma job_moves:
  assumes "reachable reliable k c" and "system_step reliable k a c c'"
  shows "lives a (phase_of run (s_db (cl_server c))) (phase_of run (s_db (cl_server c')))"
  by (rule statements_life [OF system_step_statements [OF assms(2)] reachable_db_ok [OF assms(1)]])

text \<open>
  In every state the control plane reaches from an empty database, whatever requests it
  serves and whatever the network loses: run ids are unique, rows of \<open>app.jobs\<close> agree with
  their status, at most one active job has a slot, the keys of all tables are unique, and the
  monitor of every job exists.
\<close>

theorem reachable_store_ok:
  assumes "reachable reliable k c"
  shows "store_inv (s_db (cl_server c)) \<and> refs_ok (s_db (cl_server c))"
  using reachable_db_ok [OF assms] by (simp add: db_ok_def)

lemma sample_reachable:
  "reachable r sample_codec (scheduleIteration (calm 1) (\<lambda>_. 0) 5 1 1 (initial_cluster None None))"
  by (rule reachable.step [OF reachable.initial system_step.schedule])

theorem reachable_store_ok_witness:
  "store_inv (s_db (cl_server (scheduleIteration (calm 1) (\<lambda>_. 0) 5 1 1 (initial_cluster None None))))"
  using reachable_store_ok [OF sample_reachable] by simp

text \<open>
  The control plane refines the life of a job: whatever a step does, every run id moves along
  the abstract machine \<open>life\<close>, and only by the moves of the actor of that step.
\<close>

theorem job_life_refinement:
  assumes "reachable reliable k c" and "system_step reliable k a c c'"
  shows "lives a (phase_of run (s_db (cl_server c))) (phase_of run (s_db (cl_server c')))"
  by (rule job_moves [OF assms])

theorem job_life_refinement_witness:
  "lives Reaper_Actor (phase_of ''r'' (s_db (cl_server (initial_cluster None None))))
     (phase_of ''r'' (s_db (cl_server (reaper_tick (calm 1) 1 1 (initial_cluster None None)))))"
  by (rule job_life_refinement [OF reachable.initial [of True sample_codec] system_step.reap])


section \<open>Finished for good\<close>

definition step_not_by :: "actor \<Rightarrow> bool \<Rightarrow> 'st struct_codec \<Rightarrow> cluster \<Rightarrow> cluster \<Rightarrow> bool" where
  "step_not_by a0 reliable k c c' \<longleftrightarrow> (\<exists>a. a \<noteq> a0 \<and> system_step reliable k a c c')"

lemma finished_step:
  assumes "lives a (Finished w) p'" and "a \<noteq> Cleaner_Actor"
  shows "p' = Finished w"
proof (cases a)
  case (Worker_Actor w')
  with assms worker_life show ?thesis by blast
next
  case Scheduler_Actor
  with assms other_lives(4) show ?thesis by blast
next
  case Reaper_Actor
  with assms other_lives(2) show ?thesis by blast
next
  case Anyone
  with assms other_lives(1) show ?thesis by blast
qed (use assms in simp)

text \<open>
  C16. A finished run stays with the worker that finished it, through any requests of any workers
  and users and any work of the scheduler and the reaper; only the cleaner can end it.
\<close>

theorem finished_for_good:
  assumes "reachable reliable k c" and "phase_of run (s_db (cl_server c)) = Finished w"
    and "(step_not_by Cleaner_Actor reliable k)\<^sup>*\<^sup>* c c'"
  shows "phase_of run (s_db (cl_server c')) = Finished w"
proof -
  from assms(3) have "reachable reliable k c' \<and> phase_of run (s_db (cl_server c')) = Finished w"
  proof (induction rule: rtranclp_induct)
    case base
    with assms show ?case by simp
  next
    case (step c1 c2)
    then obtain a where a: "a \<noteq> Cleaner_Actor" "system_step reliable k a c1 c2" by (auto simp: step_not_by_def)
    with step have "lives a (Finished w) (phase_of run (s_db (cl_server c2)))"
      using job_moves [of reliable k c1 a c2 run] by simp
    from finished_step [OF this a(1)] reachable.step a(2) step show ?case by blast
  qed
  then show ?thesis by simp
qed

section \<open>What a lease protects\<close>

text \<open>What a step can do to a run that a worker holds, if it is not a step of this worker.\<close>

lemma held_step:
  assumes "lives a (Held i) p'" and "a \<noteq> Worker_Actor i"
  shows "p' = Held i \<or> a = Reaper_Actor \<and> p' = Waiting"
proof (cases a)
  case (Worker_Actor w)
  with assms worker_life show ?thesis by blast
next
  case Scheduler_Actor
  with assms other_lives(4) show ?thesis by blast
next
  case Reaper_Actor
  with assms other_lives(2) show ?thesis by blast
next
  case Anyone
  with assms other_lives(1) show ?thesis by blast
next
  case Cleaner_Actor
  with assms other_lives(3) show ?thesis by blast
qed

inductive_cases reaper_step: "system_step reliable k Reaper_Actor c c'"
inductive_cases reaper_server_step: "server_step reliable k Reaper_Actor s s'"

lemma no_reaper_requests: "\<not> server_step reliable k Reaper_Actor s s'"
  by (auto elim!: reaper_server_step simp: caller_def split: sum.splits)

text \<open>And of the reaper's steps only one after the lease's expiry takes it back.\<close>

lemma held_kept:
  assumes ok: "db_ok (s_db (cl_server c))" and step: "system_step reliable k a c c'" and a: "a \<noteq> Worker_Actor i"
    and j: "j \<in> set (d_jobs (s_db (cl_server c)))" "job_phase j = Held i"
  shows "phase_of (j_run_id j) (s_db (cl_server c')) = Held i
     \<or> (\<exists>e p q. c' = reaper_tick e p q c \<and> lease_expired (sql_now e) j
          \<and> phase_of (j_run_id j) (s_db (cl_server c')) = Waiting)"
proof -
  note path = system_step_statements [OF step]
  have inv: "jobs_inv (s_db (cl_server c))" "jobs_inv (s_db (cl_server c'))"
    using db_okD(2) ok statements_ok [OF path ok] by blast+
  have "lives a (Held i) (phase_of (j_run_id j) (s_db (cl_server c')))"
    using statements_life [OF path ok, of "j_run_id j"] phase_of_row [OF inv(1) j(1)] j(2) by simp
  from held_step [OF this a] show ?thesis
  proof
    assume *: "a = Reaper_Actor \<and> phase_of (j_run_id j) (s_db (cl_server c')) = Waiting"
    with step obtain e p q where c': "c' = reaper_tick e p q c"
      by (auto elim!: reaper_step simp: no_reaper_requests)
    moreover have "lease_expired (sql_now e) j"
    proof (rule ccontr)
      assume "\<not> lease_expired (sql_now e) j"
      from phase_of_row [OF inv(2) reaper_tick_rows [OF j(1) this, of p q, folded c']] j(2) *
      show False by simp
    qed
    ultimately show ?thesis using * by blast
  qed simp
qed

section \<open>Tokens\<close>

lemma statement_worker_tokens: "statement (Worker_Actor w) d d' \<Longrightarrow> token_of d h w' \<Longrightarrow> token_of d' h w'"
proof (induction "Worker_Actor w" d d' rule: statement.induct)
  case (st_heartbeat d now)
  then show ?case by (simp add: token_of_heartbeat)
next
  case (st_upsert d x)
  then show ?case using token_of_cong [of "snd (UpsertResult x d)" d] by (simp add: UpsertResult_tables)
next
  case (st_lease d e n region t)
  then show ?case using token_of_cong [of "snd (LeaseJobsWithMonitorData e w n region t d)" d] by simp
next
  case (st_complete d run)
  then show ?case using token_of_cong [of "snd (CompleteJob run w d)" d] by simp
next
  case (st_renew d run t)
  then show ?case using token_of_cong [of "snd (RenewLease_query run w t d)" d] by simp
qed

lemma statements_worker_tokens: "statements (Worker_Actor w) d d' \<Longrightarrow> token_of d h w' \<Longrightarrow> token_of d' h w'"
  by (induction rule: rtranclp_induct) (auto intro: statement_worker_tokens)

lemma background_workers:
  assumes "statement a d d'" and "a \<in> {Scheduler_Actor, Reaper_Actor, Cleaner_Actor}"
  shows "d_workers d' = d_workers d"
  using assms
proof (induction rule: statement.induct)
  case (st_create_job d now run m region sched lo hi)
  then show ?case by (simp add: CreateJobIdempotent_def insert_job_def)
next
  case (st_scheduled d now i l nx)
  then show ?case by (simp add: UpdateMonitorSchedulingTime_def update_monitors_returning_def)
next
  case (st_clean d cutoff n)
  then show ?case by (simp add: DeleteDoneJobsBefore_def Let_def split: sum.splits)
qed (simp_all add: ReclaimExpiredLeases_def)

lemma background_paths:
  "statements a d d' \<Longrightarrow> a \<in> {Scheduler_Actor, Reaper_Actor, Cleaner_Actor} \<Longrightarrow> d_workers d' = d_workers d"
proof (induction rule: rtranclp_induct)
  case (step d1 d2)
  then show ?case using background_workers by simp
qed simp

section \<open>The cache in step with the database\<close>

lemma cache_ok_worker:
  assumes "cache_ok s" and "s_cache s' = s_cache s" and "statements (Worker_Actor w) (s_db s) (s_db s')"
  shows "cache_ok s'"
  by (rule cache_ok_mono [OF assms(1,2)]) (rule statements_worker_tokens [OF assms(3)])

lemma worker_rpc_cache:
  "s_cache (snd (GetJobs e svc n (Some w) s)) = s_cache s"
  "s_cache (snd (SubmitResult e msg (Some w) s)) = s_cache s"
  "s_cache (snd (RenewLease e svc run (Some w) s)) = s_cache s"
proof -
  show "s_cache (snd (GetJobs e svc n (Some w) s)) = s_cache s"
    by (auto simp: GetJobs_def Let_def split: prod.splits sum.splits dest!: sql_eq)
  have c: "s_cache (snd (completeJob e w run s)) = s_cache s" for run s
    by (auto simp: completeJob_def split: prod.splits sum.splits dest!: sql_eq)
  show "s_cache (snd (SubmitResult e msg (Some w) s)) = s_cache s"
  proof (cases msg)
    case (Some x)
    with SubmitResult_state [of e x w s] c show ?thesis by auto
  qed (simp add: SubmitResult_def)
  show "s_cache (snd (RenewLease e svc run (Some w) s)) = s_cache s"
    by (auto simp: RenewLease_def Let_def split: prod.splits sum.splits dest!: sql_eq)
qed

lemma guarded_cache_ok:
  assumes "cache_ok s" and "\<And>w s. s_cache (snd (h (Some w) s)) = s_cache s"
    and "\<And>w s. statements (Worker_Actor w) (s_db s) (s_db (snd (h (Some w) s)))"
  shows "cache_ok (snd (TokenAuthHandlerWithCache e hdr h s))"
proof (cases "authenticateWorkerToken e hdr s")
  case (Pair r s1)
  with authenticate_cases [OF assms(1) Pair] have ok: "cache_ok s1" by blast
  show ?thesis
  proof (cases r)
    case (Inr w)
    with Pair cache_ok_worker [OF ok assms(2) assms(3)] show ?thesis by (simp add: TokenAuthHandlerWithCache_def)
  qed (use Pair ok in \<open>simp add: TokenAuthHandlerWithCache_def\<close>)
qed

lemma monitor_rpc_frame:
  assumes "\<And>d. d_workers (snd (f d)) = d_workers d" and "sql n f s = (r, s')"
  shows "s_cache s' = s_cache s \<and> d_workers (s_db s') = d_workers (s_db s)"
  using sql_eq [OF assms(2)] call_state_cases [of n f "s_db s"] assms(1) by metis

lemma monitor_rpcs_frame:
  "s_cache (snd (CreateMonitor k e cmsg ctx s)) = s_cache s \<and> d_workers (s_db (snd (CreateMonitor k e cmsg ctx s))) = d_workers (s_db s)"
  "s_cache (snd (UpdateMonitor k e umsg ctx s)) = s_cache s \<and> d_workers (s_db (snd (UpdateMonitor k e umsg ctx s))) = d_workers (s_db s)"
  "s_cache (snd (DeleteMonitor e i ctx s)) = s_cache s \<and> d_workers (s_db (snd (DeleteMonitor e i ctx s))) = d_workers (s_db s)"
proof -
  have rw: "s1 = s0" if "region_warnings e rs s0 = (ws, s1)" for rs s0 ws s1
    using region_warnings_same [of e rs s0] that by simp
  have ow: "s1 = s0" if "owned_monitor e i u s0 = (r, s1)" for i u s0 r s1
    using owned_monitor_same [of e i u s0] that by simp
  have cr: "s_cache s1 = s_cache s0 \<and> d_workers (s_db s1) = d_workers (s_db s0)"
    if "sql n (CreateMonitor_query now p) s0 = (r, s1)" for n now p s0 r s1
    by (rule monitor_rpc_frame [OF _ that]) (simp add: CreateMonitor_query_def Let_def)
  have up: "s_cache s1 = s_cache s0 \<and> d_workers (s_db s1) = d_workers (s_db s0)"
    if "sql n (UpdateMonitorByUser now p) s0 = (r, s1)" for n now p s0 r s1
    by (rule monitor_rpc_frame [OF _ that]) (simp add: UpdateMonitorByUser_def update_monitors_returning_def)
  have dl: "s_cache s1 = s_cache s0 \<and> d_workers (s_db s1) = d_workers (s_db s0)"
    if "sql n (DeleteMonitorByUser now i u) s0 = (r, s1)" for n now i u s0 r s1
    by (rule monitor_rpc_frame [OF _ that]) (simp add: DeleteMonitorByUser_def)
  show "s_cache (snd (CreateMonitor k e cmsg ctx s)) = s_cache s \<and> d_workers (s_db (snd (CreateMonitor k e cmsg ctx s))) = d_workers (s_db s)"
    unfolding CreateMonitor_def Let_def by (auto split: option.splits prod.splits sum.splits dest!: cr rw)
  show "s_cache (snd (UpdateMonitor k e umsg ctx s)) = s_cache s \<and> d_workers (s_db (snd (UpdateMonitor k e umsg ctx s))) = d_workers (s_db s)"
    unfolding UpdateMonitor_def Let_def by (auto split: option.splits prod.splits sum.splits dest!: up rw ow)
  show "s_cache (snd (DeleteMonitor e i ctx s)) = s_cache s \<and> d_workers (s_db (snd (DeleteMonitor e i ctx s))) = d_workers (s_db s)"
    unfolding DeleteMonitor_def by (auto split: option.splits prod.splits sum.splits dest!: dl)
qed

lemma RevokeEnrollment_cache_ok:
  assumes ok: "cache_ok s"
  shows "cache_ok (snd (RevokeEnrollment e w reason s))"
proof -
  obtain r1 s1 where q: "sql (net e Q_GetWorkerByID w) (GetWorkerByID w) s = (r1, s1)"
    by (cases "sql (net e Q_GetWorkerByID w) (GetWorkerByID w) s")
  have s1: "s1 = s" by (rule sql_read_eq [OF q GetWorkerByID_state])
  let ?s2 = "snd (sql (net e Q_SetWorkerToken w) (SetWorkerToken None w) s)"
  have tok2: "token_of (s_db ?s2) h w'" if "w' \<noteq> w" "token_of (s_db s) h w'" for h w'
    using call_state_cases [of "net e Q_SetWorkerToken w" "SetWorkerToken None w" "s_db s"] token_of_others(1) [OF that] that(2) by auto
  have "cache_ok (cache_drop w ?s2)" by (rule cache_drop_ok [OF ok]) (use tok2 in simp_all)
  moreover have "cache_ok (snd (sql n (RevokeWorker now rs w) (cache_drop w ?s2)))" for n now rs
  proof -
    let ?s3 = "snd (sql n (RevokeWorker now rs w) (cache_drop w ?s2))"
    have "token_of (s_db ?s3) h w'" if "w' \<noteq> w" "token_of (s_db s) h w'" for h w'
      using call_state_cases [of n "RevokeWorker now rs w" "s_db ?s2"] token_of_others(2) [OF that(1) tok2 [OF that]] tok2 [OF that]
      by auto
    then have "cache_ok (cache_drop w (?s2\<lparr>s_db := s_db ?s3\<rparr>))" by (intro cache_drop_ok [OF ok]) simp_all
    then show ?thesis by (rule cache_ok_cong) (simp_all add: cache_drop_def)
  qed
  moreover have "snd (RevokeEnrollment e w reason s) = s
      \<or> snd (RevokeEnrollment e w reason s) = snd (sql (net e Q_RevokeWorker w)
          (RevokeWorker (sql_now e) (if reason = [] then None else Some reason) w) (cache_drop w ?s2))"
    using q s1 by (cases r1) (simp_all add: RevokeEnrollment_def Let_def split: prod.split sum.split)
  ultimately show ?thesis using ok by metis
qed

text \<open>A token that was set for a worker, and stored in place of its old entries.\<close>

lemma token_set:
  assumes "\<exists>x \<in> set (d_workers d). w_id x = w \<and> w_status x \<noteq> Revoked"
  shows "token_of (snd (SetWorkerToken (Some th) w d)) th w"
proof -
  from assms obtain x where x: "x \<in> set (d_workers d)" "w_id x = w" "w_status x \<noteq> Revoked" by blast
  then have "x\<lparr>w_token_hash := Some th\<rparr> \<in> set (d_workers (snd (SetWorkerToken (Some th) w d)))"
    unfolding SetWorkerToken_def by (auto intro: update_where_hit)
  then show ?thesis
    using x by (auto simp: token_of_def token_usable_def intro!: bexI [of _ "x\<lparr>w_token_hash := Some th\<rparr>"]
          intro: worker_status.exhaust [of "w_status x"])
qed

lemma token_set_cache_ok:
  assumes ok: "cache_ok s" and x: "\<exists>x \<in> set (d_workers d1). w_id x = w \<and> w_status x \<noteq> Revoked"
    and others: "\<And>h w'. w' \<noteq> w \<Longrightarrow> token_of (s_db s) h w' \<Longrightarrow> token_of d1 h w'"
    and s2: "s_db s2 = snd (SetWorkerToken (Some th) w d1)" "s_cache s2 = s_cache s"
  shows "cache_ok (cache_store t th w (cache_drop w s2))"
proof -
  have "token_of (s_db s2) h w'" if "w' \<noteq> w" "token_of (s_db s) h w'" for h w'
    using token_of_others(1) [OF that(1) others [OF that]] by (simp add: s2(1))
  then have "cache_ok (cache_drop w s2)" by (intro cache_drop_ok [OF ok s2(2)])
  then show ?thesis using token_set [OF x] by (simp add: cache_store_ok s2(1))
qed

lemma RenewEnrollment_cache_ok:
  assumes ok: "cache_ok s" and ack: "token_acked e"
  shows "cache_ok (snd (RenewEnrollment e rt w s))"
proof (cases "\<exists>resp. fst (RenewEnrollment e rt w s) = Inr resp \<and> rr_renewed resp")
  case True
  then obtain resp s' where r: "RenewEnrollment e rt w s = (Inr resp, s')" "rr_renewed resp"
    by (metis prod.collapse)
  obtain x th s2 where x: "x \<in> set (d_workers (s_db s))" "w_id x = w" "w_status x \<noteq> Revoked"
    and s2: "s_db s2 = snd (SetWorkerToken (Some th) w (s_db s))" "s_cache s2 = s_cache s"
    and s': "s' = cache_store (go_now e) th w (cache_drop w s2)"
    using RenewEnrollment_True [OF r] by metis
  have "cache_ok s'" unfolding s' by (rule token_set_cache_ok [OF ok _ _ s2]) (use x in auto)
  with r show ?thesis by simp
next
  case False
  have rd: "s1 = s0" if "sql n (GetWorkerByID w) s0 = (r, s1)" for n s0 r s1
    by (rule sql_read_eq [OF that GetWorkerByID_state])
  have lost: "s1 = s0" if "sql (net e Q_SetWorkerToken w) (SetWorkerToken h w) s0 = (Inl err, s1)" for h s0 err s1
  proof -
    from ack have "net e Q_SetWorkerToken w \<noteq> LostAfter" by (simp add: token_acked_def)
    with that show ?thesis
      by (cases "net e Q_SetWorkerToken w") (auto simp: sql_def call_def SetWorkerToken_def)
  qed
  have "snd (RenewEnrollment e rt w s) = s"
    using False unfolding RenewEnrollment_def
    by (auto split: option.splits prod.splits sum.splits if_splits dest!: lost dest: rd)
  with ok show ?thesis by simp
qed

lemma EnrollWorker_cache_ok:
  assumes ok: "cache_ok s"
  shows "cache_ok (snd (EnrollWorker e cfg ri rt msg s))"
proof (cases "fst (EnrollWorker e cfg ri rt msg s)")
  case (Inr resp)
  then obtain s' where r: "EnrollWorker e cfg ri rt msg s = (Inr resp, s')" by (metis prod.collapse)
  with enrolled_row [OF r] ok show ?thesis by (metis snd_conv)
next
  case (Inl err)
  let ?EQ = "\<lambda>w. EnrollWorker_query (sql_now e) w (Some (eq_hostname msg)) (Normalize (eq_region msg)) (eq_worker_version msg)"
  have en: "s_cache s1 = s_cache s \<and> (s_db s1 = s_db s \<or> s_db s1 = snd (?EQ w (s_db s)))"
    if "sql n (?EQ w) s = (Inl er, s1)" for n w er s1
    using sql_eq [OF that] call_state_cases [of n "?EQ w" "s_db s"] by metis
  have en': "s_cache s1 = s_cache s \<and> ?EQ w (s_db s) = (Inr row, s_db s1)" if "sql n (?EQ w) s = (Inr row, s1)" for n w row s1
    using sql_Inr [OF that] by simp
  have tk: "s_cache s2 = s_cache s1 \<and> (s_db s2 = s_db s1 \<or> s_db s2 = snd (SetWorkerToken h w (s_db s1)))"
    if "sql n (SetWorkerToken h w) s1 = (Inl er, s2)" for n h w s1 er s2
    using sql_eq [OF that] call_state_cases [of n "SetWorkerToken h w" "s_db s1"] by metis
  let ?s' = "snd (EnrollWorker e cfg ri rt msg s)"
  have cases: "s_cache ?s' = s_cache s \<and> (\<exists>w. s_db ?s' = s_db s \<or> s_db ?s' = snd (?EQ w (s_db s))
      \<or> (\<exists>row d1 h. ?EQ w (s_db s) = (Inr row, d1) \<and> (s_db ?s' = d1 \<or> s_db ?s' = snd (SetWorkerToken h w d1))))"
    using Inl unfolding EnrollWorker_def
    by (auto split: option.splits prod.splits sum.splits if_splits dest!: en en' tk)
  have keep: "token_of d1 h w0" if "d1 = snd (?EQ w (s_db s))" "token_of (s_db s) h w0" for w h w0 d1
    using that by (auto simp: EnrollWorker_query_def Let_def token_of_def)
  have fresh: "w0 \<noteq> w" if "?EQ w (s_db s) = (Inr row, d1)" "token_of (s_db s) h w0" for w row d1 h w0
    using that by (auto simp: EnrollWorker_query_def Let_def token_of_def split: if_splits)
  show ?thesis
  proof (rule cache_ok_mono [OF ok])
    show "s_cache ?s' = s_cache s" using cases by blast
    fix h w0 assume t: "token_of (s_db s) h w0"
    from cases obtain w where "s_db ?s' = s_db s \<or> s_db ?s' = snd (?EQ w (s_db s))
      \<or> (\<exists>row d1 h. ?EQ w (s_db s) = (Inr row, d1) \<and> (s_db ?s' = d1 \<or> s_db ?s' = snd (SetWorkerToken h w d1)))" by blast
    then show "token_of (s_db ?s') h w0"
    proof (elim disjE exE conjE)
      fix row d1 h1
      assume q: "?EQ w (s_db s) = (Inr row, d1)" and d: "s_db ?s' = snd (SetWorkerToken h1 w d1)"
      have "token_of d1 h w0" using keep [of d1 w] q t by simp
      with token_of_others(1) [OF fresh [OF q t]] d show ?thesis by simp
    next
      fix row d1 h1
      assume q: "?EQ w (s_db s) = (Inr row, d1)" and d: "s_db ?s' = d1"
      from keep [of d1 w] q t d show ?thesis by simp
    qed (use t keep in auto)
  qed
qed

lemma server_step_cache_ok: "server_step True k a s s' \<Longrightarrow> cache_ok s \<Longrightarrow> cache_ok s'"
proof (induction rule: server_step.induct)
  case (create_monitor s e cmsg ctx)
  then show ?case using cache_ok_cong monitor_rpcs_frame(1) by blast
next
  case (update_monitor s e umsg ctx)
  then show ?case using cache_ok_cong monitor_rpcs_frame(2) by blast
next
  case (delete_monitor s e i ctx)
  then show ?case using cache_ok_cong monitor_rpcs_frame(3) by blast
next
  case (inactivity s e)
  show ?case
  proof (rule cache_ok_mono [OF inactivity])
    fix h w assume "token_of (s_db s) h w"
    then show "token_of (s_db (inactivity_tick e s)) h w"
      using call_state_cases [of "net e Q_MarkWorkerInactive []" "MarkWorkerInactive (sql_now e)" "s_db s"]
      by (auto simp: inactivity_tick_def token_of_inactive)
  qed (simp add: inactivity_tick_def)
qed (simp_all add: guarded_cache_ok worker_rpc_cache GetJobs_statements SubmitResult_statements RenewLease_statements
  EnrollWorker_cache_ok RenewEnrollment_cache_ok RevokeEnrollment_cache_ok)

lemma clean_batches_cache: "clean_batches e cutoff b s = Some s' \<Longrightarrow> s_cache s' = s_cache s"
  by (erule clean_batches_steps [where R = "\<lambda>s s'. s_cache s' = s_cache s"]) (auto dest: sql_eq)

lemma background_cache_ok:
  assumes "cache_ok (cl_server c)" and "s_cache (cl_server c') = s_cache (cl_server c)"
    and "statements a (s_db (cl_server c)) (s_db (cl_server c'))" and "a \<in> {Scheduler_Actor, Reaper_Actor, Cleaner_Actor}"
  shows "cache_ok (cl_server c')"
  by (rule cache_ok_cong [OF assms(1,2) background_paths [OF assms(3,4)]])

lemma system_step_cache_ok:
  assumes "system_step True k a c c'" and "cache_ok (cl_server c)"
  shows "cache_ok (cl_server c')"
  using assms
proof (cases rule: system_step.cases)
  case (serve s)
  with server_step_cache_ok assms(2) show ?thesis by auto
next
  case (reap e p q)
  have "s_cache (cl_server c') = s_cache (cl_server c)"
    using with_lock_server [of e p q 54321 "reclaim_work e" c] reap by (auto simp: reaper_tick_def reclaim_work_def)
  from background_cache_ok [OF assms(2) this system_step_statements [OF assms(1)]] reap show ?thesis by simp
next
  case (clean e p q jc)
  then have "s_cache (cl_server c') = s_cache (cl_server c)"
    using clean_batches_cache
    by (auto simp: runCleanup_def lock_call_def split: prod.splits sum.splits option.splits if_splits)
  from background_cache_ok [OF assms(2) this system_step_statements [OF assms(1)]] clean show ?thesis by simp
next
  case (schedule e zone budget p q)
  have w: "s_cache (schedule_work e zone budget s) = s_cache s" for s
    by (auto simp: schedule_work_def Let_def split: prod.splits sum.splits option.splits)
  then have "s_cache (cl_server c') = s_cache (cl_server c)"
    using with_lock_server [of e p q 12345 "schedule_work e zone budget" c] schedule by (auto simp: scheduleIteration_def)
  from background_cache_ok [OF assms(2) this system_step_statements [OF assms(1)]] schedule show ?thesis by simp
qed

lemma reachable_cache_ok: "reachable True k c \<Longrightarrow> cache_ok (cl_server c)"
proof (induction rule: reachable.induct)
  case (initial_cached t n hb)
  have "lookup (NewWorkerAuthCache t n) h = None" for h by (simp add: NewWorkerAuthCache_def lookup_def)
  then show ?case
    using NewWorkerAuthCache_inv by (simp add: cache_ok_def initial_cluster_def wac.all_entries_def)
next
  case (step c a c')
  then show ?case using system_step_cache_ok by blast
qed (simp add: cache_ok_def initial_cluster_def)

section \<open>What a request can do\<close>


lemma guarded_Inr:
  assumes "TokenAuthHandlerWithCache e hdr h s = (Inr resp, s')"
  obtains w s1 where "authenticateWorkerToken e hdr s = (Inr w, s1)" and "s_db s1 = s_db s"
    and "h (Some w) s1 = (Inr resp, s')"
proof (cases "authenticateWorkerToken e hdr s")
  case (Pair r s1)
  with assms obtain w where "r = Inr w" "h (Some w) s1 = (Inr resp, s')"
    by (cases r) (auto simp: TokenAuthHandlerWithCache_def)
  with Pair authenticate_db [of e hdr s] that show thesis by simp
qed

lemma committed_phases:
  assumes ok: "jobs_inv (s_db s)" and sub: "SubmitResult e (Some x) (Some w) s = (Inr resp, s')" "sr_committed resp"
    and ok': "jobs_inv (s_db s')"
  shows "(phase_of (x_run_id x) (s_db s) = Held w \<or> (\<exists>w'. phase_of (x_run_id x) (s_db s) = Finished w'))
    \<and> (\<exists>w'. phase_of (x_run_id x) (s_db s') = Finished w')"
proof -
  obtain j where j: "j \<in> set (d_jobs (s_db s'))" "j_run_id j = x_run_id x" "j_status j = Done"
    "j \<in> set (d_jobs (s_db s)) \<or> (\<exists>j0 \<in> set (d_jobs (s_db s)). held_by (x_run_id x) w j0
                 \<and> j = j0\<lparr>j_status := Done, j_lease_expires_at := None\<rparr>)"
    using submit_committed_row [OF sub] by blast
  have "\<exists>w'. phase_of (x_run_id x) (s_db s') = Finished w'"
    using phase_of_row [OF ok' j(1)] j(2,3) by (auto simp: job_phase_def Let_def)
  moreover from j(4) have "phase_of (x_run_id x) (s_db s) = Held w \<or> (\<exists>w'. phase_of (x_run_id x) (s_db s) = Finished w')"
  proof
    assume "j \<in> set (d_jobs (s_db s))"
    from phase_of_row [OF ok this] j(2,3) show ?thesis by (auto simp: job_phase_def Let_def)
  next
    assume "\<exists>j0 \<in> set (d_jobs (s_db s)). held_by (x_run_id x) w j0 \<and> j = j0\<lparr>j_status := Done, j_lease_expires_at := None\<rparr>"
    then obtain j0 where "j0 \<in> set (d_jobs (s_db s))" "held_by (x_run_id x) w j0" by blast
    with phase_of_row [OF ok this(1)] show ?thesis by (auto simp: job_phase_def held_by_def)
  qed
  ultimately show ?thesis by blast
qed


section \<open>A run of the system\<close>

text \<open>
  From an empty database: a worker enrolls, a user creates a monitor, the scheduler creates its
  first job, the worker leases it with its token and submits the result.
\<close>

definition day_worker :: "worker_status \<Rightarrow> time \<Rightarrow> app_worker" where
  "day_worker st t = \<lparr>w_id = ''worker-'' @ hex_encode ''i'', w_region = ''global'', w_version = ''1'', w_last_seen_at = t,
     w_registered_at = 1, w_status = st, w_hostname = Some ''h'', w_enrolled_at = 1, w_revoked_at = None,
     w_revoked_reason = None, w_token_hash = Some (HashToken sample_token)\<rparr>"

definition day_monitor :: "time option \<Rightarrow> time option \<Rightarrow> time \<Rightarrow> app_monitor" where
  "day_monitor l n u = \<lparr>m_id = ''m9'', m_url = ''http://y'', m_interval_ms = 60000, m_timeout_ms = 5000,
     m_regions = [''global''], m_jitter_seed = 42, m_rate_limit_key = None, m_method = ''GET'',
     m_headers = Some ''{a'', m_assertions = None, m_enabled = Some True, m_last_scheduled_at = l,
     m_next_due_at = n, m_user_id = Some ''alice'', m_created_at = 2, m_updated_at = u, m_name = ''n'',
     m_deleted_at = None\<rparr>"

definition day_server :: "app_job list \<Rightarrow> app_monitor list \<Rightarrow> app_worker list \<Rightarrow> ts_result_raw list \<Rightarrow> server" where
  "day_server js ms ws rs = \<lparr>s_db = empty_db\<lparr>d_jobs := js, d_monitors := ms, d_workers := ws, d_results := rs\<rparr>,
     s_cache = None, s_hb = None\<rparr>"

lemma normalize_global: "NormalizeList [''global''] = [''global'']" "Normalize [] = ''global''"
  by code_simp+

lemma day_enroll:
  "snd (EnrollWorker (calm 1) sample_enroll_config (Some ''i'') (Some sample_bytes) sample_enroll_request
      (day_server [] [] [] []))
    = day_server [] [] [day_worker Enrolled 1] []"
  by (simp add: EnrollWorker_def sample_enroll_config_def sample_enroll_request_def generateWorkerID_def
      normalize_global cache_store_def cache_drop_def update_workers_def update_where_def sample_generate
      EnrollWorker_query_def SetWorkerToken_def day_server_def empty_db_def Let_def day_worker_def)

lemma day_create:
  "snd (CreateMonitor sample_codec (calm 2) sample_create (Some ''alice'') (day_server [] [] ws []))
    = day_server [] [day_monitor None None 2] ws []"
  by (simp add: CreateMonitor_def sample_create_def sample_codec_def encode_field_def Let_def
      CreateMonitor_query_def day_server_def create_params_def empty_db_def dbMonitorToProto_def decode_column_def
      case_prod_beta normalize_global day_monitor_def region_warnings_same)

definition day_due :: time where
  "day_due = pg_ts (5000000000 + applyJitter (base_interval 60000) ''m9'' 42)"

definition day_run :: string where
  "day_run = generateRunID (\<lambda>_. 0) ''m9'' ''global'' 5000000000"

definition day_job :: "job_status \<Rightarrow> string option \<Rightarrow> time option \<Rightarrow> app_job" where
  "day_job st w l = \<lparr>j_run_id = day_run, j_monitor_id = ''m9'', j_region = ''global'',
     j_status = st, j_scheduled_at = pg_ts 5000000000, j_lease_expires_at = l, j_worker_id = w, 
     j_created_at = 5000000000, j_deleted_at = None\<rparr>"

definition day_cluster :: "server \<Rightarrow> cluster" where
  "day_cluster s = \<lparr>cl_locks = Map.empty, cl_server = s\<rparr>"

definition day_hdr :: string where "day_hdr = ''Bearer '' @ sample_token"

definition day_mon :: app_monitor where
  "day_mon = day_monitor (Some (pg_ts 5000000000)) (Some day_due) 5000000000"

lemma day_schedule:
  "scheduleIteration (calm 5000000000) (\<lambda>_. 0) 1 1 1 (day_cluster (day_server [] [day_monitor None None 2] ws []))
    = day_cluster (day_server [day_job Ready None None] [day_mon] ws [])"
  by (simp add: scheduleIteration_def with_advisory_lock_def lock_call_def pg_try_advisory_lock_def
      pg_advisory_unlock_def schedule_work_def Let_def ListDueMonitors_def day_server_def empty_db_def tx_sql_def
      monitor_due_def null_rank_def day_monitor_def day_cluster_def scheduleMonitorTx_def scheduled_at_def
      day_job_def day_due_def day_run_def day_mon_def update_monitors_def update_where_def CreateJobIdempotent_def
      job_in_window_def insert_job_def new_job_def job_active_def UpdateMonitorSchedulingTime_def
      update_monitors_returning_def)

lemma day_auth:
  assumes "st \<noteq> Revoked"
  shows "authenticateWorkerToken (calm t) day_hdr (day_server js ms [day_worker st u] rs)
    = (Inr (w_id (day_worker st u)), day_server js ms [day_worker st u] rs)"
proof -
  have tok: "parseBearerToken day_hdr = Inr sample_token" unfolding day_hdr_def
    by (rule parse_issued_token(1) [OF sample_bytes_length sample_generate])
  show ?thesis using assms
    by (simp only: authenticateWorkerToken_def tok, cases st)
      (simp_all add: day_server_def day_worker_def empty_db_def cache_lookup_def GetWorkerByTokenHash_def
        token_usable_def Let_def cache_store_def)
qed

lemmas day_heartbeat_defs = touchWorkerHeartbeat_def day_server_def empty_db_def ShouldUpdate_def
  UpdateWorkerHeartbeat_def update_workers_def update_where_def day_worker_def Let_def

abbreviation day_w :: string where "day_w \<equiv> w_id (day_worker Enrolled 1)"

abbreviation day_result :: monitor_result where
  "day_result \<equiv> sample_result day_run ''m9'' ''global'' 6500000000 ''OK''"

definition day_leased :: server where
  "day_leased = day_server [day_job Leased (Some day_w) (Some (pg_ts (6000000000 + 45 * second)))] [day_mon]
     [day_worker Active 6000000000] []"

definition day_done :: server where
  "day_done = day_server [day_job Done (Some day_w) None] [day_mon] [day_worker Active 7000000000]
     [(result_params day_result)\<lparr>r_event_at := pg_ts 6500000000\<rparr>]"

lemma day_lease:
  "snd (TokenAuthHandlerWithCache (calm 6000000000) day_hdr (GetJobs (calm 6000000000) (45 * second) 5)
      (day_server [day_job Ready None None] [day_mon] [day_worker Enrolled 1] [])) = day_leased"
  by (simp add: TokenAuthHandlerWithCache_def day_auth)
    (simp add: GetJobs_def day_heartbeat_defs day_leased_def GetWorkerByID_def LeaseJobsWithMonitorData_def
      lease_rows_def leasable_def day_job_def sql_limit_def max_jobs_def update_jobs_def lease_order_def
      region_rank_def lease_mark_def pg_ts_def second_def)

lemma day_submit:
  "TokenAuthHandlerWithCache (calm 7000000000) day_hdr (SubmitResult (calm 7000000000) (Some day_result)) day_leased
    = (Inr \<lparr>sr_committed = True, sr_run_id = day_run\<rparr>, day_done)"
  by (simp add: TokenAuthHandlerWithCache_def day_auth day_leased_def)
    (simp add: SubmitResult_def day_heartbeat_defs day_done_def ProcessResult_def UpsertResult_def
      result_params_def sample_result_def convertStatus_def result_status_ok_def as_time_def completeJob_def
      CompleteJob_def day_job_def held_by_def update_jobs_returning_def update_jobs_def)

lemma day_initial: "initial_cluster None None = day_cluster (day_server [] [] [] [])"
  by (simp add: initial_cluster_def day_cluster_def day_server_def empty_db_def)

lemma day_served: "reachable r k (day_cluster s) \<Longrightarrow> server_step r k a s s' \<Longrightarrow> reachable r k (day_cluster s')"
  using reachable.step system_step.serve [where c = "day_cluster s"] by (fastforce simp: day_cluster_def)

lemma day_cluster_server [simp]: "cl_server (day_cluster s) = s"
  by (simp add: day_cluster_def)

definition day_ready :: server where
  "day_ready = day_server [day_job Ready None None] [day_mon] [day_worker Enrolled 1] []"

lemma day_scheduled: "reachable r sample_codec (day_cluster day_ready)"
proof -
  have "reachable r sample_codec (day_cluster (day_server [] [] [] []))"
    using reachable.initial [of r sample_codec None] by (simp add: day_initial)
  from day_served [OF this server_step.enroll, of "calm 1" sample_enroll_config "Some ''i''" "Some sample_bytes" sample_enroll_request]
  have "reachable r sample_codec (day_cluster (day_server [] [] [day_worker Enrolled 1] []))" by (simp add: day_enroll)
  from day_served [OF this server_step.create_monitor, of "calm 2" sample_create "Some ''alice''"]
  have "reachable r sample_codec (day_cluster (day_server [] [day_monitor None None 2] [day_worker Enrolled 1] []))"
    by (simp add: day_create)
  from reachable.step [OF this system_step.schedule, of "calm 5000000000" "\<lambda>_. 0" 1 1 1]
  show ?thesis by (simp only: day_schedule day_ready_def)
qed

lemma day_reachable: "reachable r sample_codec (day_cluster day_leased)"
  using day_served [OF day_scheduled server_step.get_jobs, of r "calm 6000000000" day_hdr "45 * second" 5]
  by (simp add: day_ready_def day_lease)

lemma day_finished: "reachable r sample_codec (day_cluster day_done)"
  using day_served [OF day_reachable server_step.submit_result, of r "calm 7000000000" day_hdr "Some day_result"]
  by (simp add: day_submit)

theorem finished_for_good_witness:
  "\<exists>c. reachable True sample_codec c \<and> phase_of day_run (s_db (cl_server c)) = Finished day_w
     \<and> phase_of day_run (s_db (cl_server (reaper_tick (calm 8000000000) 1 1 c))) = Finished day_w"
proof -
  let ?c = "day_cluster day_done"
  have p: "phase_of day_run (s_db (cl_server ?c)) = Finished day_w"
    by (simp add: phase_of_def day_done_def day_server_def day_job_def job_phase_def empty_db_def Let_def)
  have "(step_not_by Cleaner_Actor True sample_codec)\<^sup>*\<^sup>* ?c (reaper_tick (calm 8000000000) 1 1 ?c)"
    by (rule r_into_rtranclp) (auto simp: step_not_by_def intro!: exI [of _ Reaper_Actor] system_step.reap)
  from finished_for_good [OF day_finished p this] day_finished p show ?thesis by blast
qed



end
