(* ===== verification/Worker_Client.thy ===== *)
theory Worker_Client
  imports System Executor
begin

text \<open>
  The worker of \<open>Worker_Agent\<close> in front of the control plane's own handlers: its RPC clients are
  the handlers behind a network that loses requests and answers, while other workers, users and
  services move the same database. The handlers keep the contract of \<open>Worker_Protocol\<close>.
\<close>

section \<open>The world of a worker\<close>

text \<open>
  Call \<open>n\<close> is made in the environment \<open>rw_env n\<close>, over a link that does \<open>rw_link n\<close> to it, after
  \<open>rw_others n\<close> has happened to the server.
\<close>

record world =
  rw_server :: server
  rw_tick :: nat
  rw_env :: "nat \<Rightarrow> env"
  rw_link :: "nat \<Rightarrow> outcome"
  rw_others :: "nat \<Rightarrow> server \<Rightarrow> server"
  rw_go_on :: "nat \<Rightarrow> bool"
  rw_random :: "nat \<Rightarrow> string option"
  rw_config :: enrollment_config
  rw_lease :: duration

definition remote :: "(world \<Rightarrow> server \<Rightarrow> (rpc_code + 'r) \<times> server) \<Rightarrow> ('r, world) rpc" where
  "remote h w =
     (let n = rw_tick w; s = rw_others w n (rw_server w)
      in case rw_link w n of
           LostBefore \<Rightarrow> (Inl Transport, w\<lparr>rw_server := s, rw_tick := Suc n\<rparr>)
         | LostAfter \<Rightarrow> (Inl Transport, w\<lparr>rw_server := snd (h w s), rw_tick := Suc n\<rparr>)
         | Served \<Rightarrow>
             (case h w s of
                (Inl code, s') \<Rightarrow> (Inl (Rpc code), w\<lparr>rw_server := s', rw_tick := Suc n\<rparr>)
              | (Inr r, s') \<Rightarrow> (Inr r, w\<lparr>rw_server := s', rw_tick := Suc n\<rparr>)))"

definition now_env :: "world \<Rightarrow> env" where
  "now_env w = rw_env w (rw_tick w)"

definition real_clients :: "world clients" where
  "real_clients =
     \<lparr>rc_enroll = (\<lambda>msg. remote (\<lambda>w. EnrollWorker (now_env w) (rw_config w) (rw_random w (rw_tick w))
                                     (rw_random w (Suc (rw_tick w))) msg)),
      rc_renewEnrollment = (\<lambda>i. remote (\<lambda>w. RenewEnrollment (now_env w) (rw_random w (Suc (rw_tick w))) i)),
      rc_getJobs = (\<lambda>hdr n. remote (\<lambda>w. TokenAuthHandlerWithCache (now_env w) hdr (GetJobs (now_env w) (rw_lease w) n))),
      rc_submitResult = (\<lambda>hdr x. remote (\<lambda>w. TokenAuthHandlerWithCache (now_env w) hdr (SubmitResult (now_env w) (Some x)))),
      rc_renewLease = (\<lambda>hdr run. remote (\<lambda>w. TokenAuthHandlerWithCache (now_env w) hdr (RenewLease (now_env w) (rw_lease w) run))),
      rc_wait = (\<lambda>d w. (rw_go_on w (rw_tick w), w))\<rparr>"

section \<open>Calls\<close>

lemma remote_frame [simp]:
  "rw_others (snd (remote h w)) = rw_others w" "rw_env (snd (remote h w)) = rw_env w"
  "rw_link (snd (remote h w)) = rw_link w" "rw_go_on (snd (remote h w)) = rw_go_on w"
  "rw_tick (snd (remote h w)) = Suc (rw_tick w)"
  by (simp_all add: remote_def Let_def split: outcome.splits sum.splits prod.splits)

lemma remote_server:
  "rw_server (snd (remote h w)) = rw_others w (rw_tick w) (rw_server w)
   \<or> rw_server (snd (remote h w)) = snd (h w (rw_others w (rw_tick w) (rw_server w)))"
  by (simp add: remote_def Let_def split: outcome.splits sum.splits prod.splits)

lemma remote_Inr:
  assumes "remote h w = (Inr r, w')"
  shows "h w (rw_others w (rw_tick w) (rw_server w)) = (Inr r, rw_server w')"
  using assms by (auto simp: remote_def Let_def split: outcome.splits sum.splits prod.splits)

lemma remote_served:
  assumes "rw_link w (rw_tick w) = Served"
    and "h w (rw_others w (rw_tick w) (rw_server w)) = (Inr r, s')"
  shows "remote h w = (Inr r, w\<lparr>rw_server := s', rw_tick := Suc (rw_tick w)\<rparr>)"
  using assms by (simp add: remote_def Let_def)

text \<open>The state is sound and what happens elsewhere keeps it so.\<close>

definition world_ok :: "world \<Rightarrow> bool" where
  "world_ok w \<longleftrightarrow> db_ok (s_db (rw_server w))
     \<and> (\<forall>n s. db_ok (s_db s) \<longrightarrow> db_ok (s_db (rw_others w n s)))"

definition recorded :: "monitor_result \<Rightarrow> world \<Rightarrow> bool" where
  "recorded x w \<longleftrightarrow>
     (\<exists>r \<in> set (d_results (s_db (rw_server w))). r_run_id r = x_run_id x
          \<and> r_event_at r = pg_ts (as_time (x_event_at x)) \<and> r_status r = x_status x)
     \<and> (\<exists>j \<in> set (d_jobs (s_db (rw_server w))). j_run_id j = x_run_id x \<and> j_status j = Done)"

lemma world_ok_others: "world_ok w \<Longrightarrow> db_ok (s_db (rw_others w n (rw_server w)))"
  by (simp add: world_ok_def)

lemma remote_ok:
  assumes "world_ok w" and "\<And>w s. \<exists>a. statements a (s_db s) (s_db (snd (h w s)))"
  shows "world_ok (snd (remote h w))"
proof -
  have "db_ok (s_db (snd (h w (rw_others w (rw_tick w) (rw_server w)))))"
    using assms(2) statements_ok world_ok_others [OF assms(1)] by blast
  with remote_server [of h w] world_ok_others [OF assms(1)] assms(1) show ?thesis
    by (auto simp: world_ok_def)
qed

lemma remote_guarded:
  assumes "remote (\<lambda>w. TokenAuthHandlerWithCache (now_env w) hdr (h w)) w = (Inr resp, w')" and "world_ok w"
  obtains wid s1 where "h w (Some wid) s1 = (Inr resp, rw_server w')" and "db_ok (s_db s1)"
proof -
  let ?s = "rw_others w (rw_tick w) (rw_server w)"
  obtain wid s1 where "s_db s1 = s_db ?s" "h w (Some wid) s1 = (Inr resp, rw_server w')"
    using guarded_Inr [OF remote_Inr [OF assms(1)]] by metis
  with that world_ok_others [OF assms(2)] show thesis by simp
qed

interpretation cp: control_plane_contract real_clients world_ok recorded
proof unfold_locales
  fix w :: world and h i :: string and x n d
  assume w: "world_ok w"
  show "world_ok (snd (rc_submitResult real_clients h x w))"
    by (simp add: real_clients_def, rule remote_ok [OF w]) (use guarded_statements SubmitResult_statements in blast)
  show "world_ok (snd (rc_renewEnrollment real_clients i w))"
    by (simp add: real_clients_def, rule remote_ok [OF w]) (use RenewEnrollment_statements in blast)
  show "world_ok (snd (rc_getJobs real_clients h n w))"
    by (simp add: real_clients_def, rule remote_ok [OF w]) (use guarded_statements GetJobs_statements in blast)
  show "world_ok (snd (rc_renewLease real_clients h i w))"
    by (simp add: real_clients_def, rule remote_ok [OF w]) (use guarded_statements RenewLease_statements in blast)
  show "world_ok (snd (rc_wait real_clients d w))"
    using w by (simp add: real_clients_def)
next
  fix w w' :: world and h x resp
  assume w: "world_ok w" and sub: "rc_submitResult real_clients h x w = (Inr resp, w')" and c: "sr_committed resp"
  obtain wid s1 where q: "SubmitResult (now_env w) (Some x) (Some wid) s1 = (Inr resp, rw_server w')" "db_ok (s_db s1)"
    using remote_guarded [OF sub [unfolded real_clients_def, simplified] w] .
  from submit_committed_result [OF q(1) c] submit_committed_row [OF q(1) c] show "recorded x w'" by (auto simp: recorded_def)
next
  fix w w' :: world and h and n :: int and jobs
  assume w: "world_ok w" and n: "0 < n" and g: "rc_getJobs real_clients h n w = (Inr jobs, w')"
  obtain wid s1 where q: "GetJobs (now_env w) (rw_lease w) n (Some wid) s1 = (Inr jobs, rw_server w')" "db_ok (s_db s1)"
    using remote_guarded [OF g [unfolded real_clients_def, simplified] w] .
  obtain y where "length jobs \<le> nat (max_jobs n)" using GetJobs_effect [OF db_okD(1) [OF q(2)] q(1)] by metis
  with n show "int (length jobs) \<le> n" by (simp add: max_jobs_def)
qed

section \<open>What a worker can rely on\<close>

text \<open>
  C10. When \<open>sendResult\<close> reports a commit, the result is a row with its run, time and status, the
  run's job is done, and the worker has freed its slot: over any network, with anything going on
  elsewhere, whatever the number of attempts and renewed tokens.
\<close>

theorem worker_commit_sound:
  assumes "sendResult real_clients x k w = Some ((b, True), k', w')" and "world_ok w"
  shows "(\<exists>r \<in> set (d_results (s_db (rw_server w'))). r_run_id r = x_run_id x
            \<and> r_event_at r = pg_ts (as_time (x_event_at x)) \<and> r_status r = x_status x)
     \<and> (\<exists>j \<in> set (d_jobs (s_db (rw_server w'))). j_run_id j = x_run_id x \<and> j_status j = Done)
     \<and> \<not> isJobActive (x_run_id x) k'"
  using cp.sendResult_committed [OF assms] by (simp add: recorded_def)

text \<open>
  C35. A worker never takes more jobs than it may run: when the goroutines of one poll have
  started, its active jobs are within its configured concurrency.
\<close>

theorem worker_within_concurrency:
  assumes "pollForJobs real_clients k w = (n, err, jobs, k', w')" and "world_ok w"
    and "in_i32 (k_maxConcurrency k)" and "active_count k \<le> k_maxConcurrency k"
  shows "active_count (fold start_job jobs k') \<le> k_maxConcurrency k"
  by (rule cp.poll_capacity [OF assms(2-4,1)])

section \<open>Retries\<close>

text \<open>
  What a submission needs to hold meanwhile: the token is the worker's and nobody else's, and
  the job is the worker's or finished.
\<close>

definition identified :: "string \<Rightarrow> string \<Rightarrow> server \<Rightarrow> bool" where
  "identified h i s \<longleftrightarrow> db_ok (s_db s) \<and> cache_ok s \<and> token_of (s_db s) h i
     \<and> (\<forall>y \<in> set (d_workers (s_db s)). w_token_hash y = Some h \<longrightarrow> w_id y = i)"

definition holding :: "string \<Rightarrow> string \<Rightarrow> string \<Rightarrow> server \<Rightarrow> bool" where
  "holding h i run s \<longleftrightarrow> identified h i s
     \<and> (phase_of run (s_db s) = Held i \<or> (\<exists>w. phase_of run (s_db s) = Finished w))"

definition token_hashes :: "db \<Rightarrow> (string \<times> string option) list" where
  "token_hashes d = map (\<lambda>y. (w_id y, w_token_hash y)) (d_workers d)"

lemma sole_token_hashes:
  "(\<forall>y \<in> set (d_workers d). w_token_hash y = Some h \<longrightarrow> w_id y = i) \<longleftrightarrow> (\<forall>a. (a, Some h) \<in> set (token_hashes d) \<longrightarrow> a = i)"
  by (auto simp: token_hashes_def image_iff) metis

lemma worker_token_hashes: "statement (Worker_Actor w) d d' \<Longrightarrow> token_hashes d' = token_hashes d"
proof (induction "Worker_Actor w" d d' rule: statement.induct)
  case (st_heartbeat d now)
  show ?case
    by (simp add: token_hashes_def UpdateWorkerHeartbeat_def update_workers_def update_where_cong_key)
next
  case (st_upsert d x)
  then show ?case by (simp add: token_hashes_def UpsertResult_tables)
qed (simp_all add: token_hashes_def)

lemma worker_paths_token_hashes: "statements (Worker_Actor w) d d' \<Longrightarrow> token_hashes d' = token_hashes d"
  by (induction rule: rtranclp_induct) (auto dest: worker_token_hashes)

lemma identified_path:
  assumes "identified h i s" and st: "statements (Worker_Actor w) (s_db s) (s_db s')" and "cache_ok s'"
  shows "identified h i s'"
  using worker_paths_token_hashes [OF st] statements_worker_tokens [OF st] statements_ok [OF st] assms
  by (simp add: identified_def sole_token_hashes)

lemma holding_path:
  assumes "holding h i run s" and st: "statements (Worker_Actor i) (s_db s) (s_db s')" and "cache_ok s'"
  shows "holding h i run s'"
proof -
  have ok: "db_ok (s_db s)" using assms(1) by (simp add: holding_def identified_def)
  from worker_life [OF statements_life [OF st ok, of run]] identified_path [OF _ st assms(3)] assms(1)
  show ?thesis by (auto simp: holding_def)
qed

text \<open>A call of the worker's own: let in as the worker, and the worker keeps what it has.\<close>

lemma identified_call:
  assumes id: "identified (HashToken tok) i s" and tok: "parseBearerToken hdr = Inr tok"
    and served: "net e Q_GetWorkerByTokenHash (HashToken tok) = Served"
    and st: "\<And>s. statements (Worker_Actor i) (s_db s) (s_db (snd (h (Some i) s)))"
    and cache: "\<And>s. s_cache (snd (h (Some i) s)) = s_cache s"
  obtains s1 where "TokenAuthHandlerWithCache e hdr h s = h (Some i) s1" and "s_db s1 = s_db s"
    and "identified (HashToken tok) i s1" and "cache_ok (snd (h (Some i) s1))"
proof -
  obtain s1 where a: "authenticateWorkerToken e hdr s = (Inr i, s1)" "s_db s1 = s_db s"
    using authenticate_sole [OF _ _ _ tok served, of s i] id by (auto simp: identified_def)
  have ok: "cache_ok s1" using authenticate_cases [OF _ a(1)] id by (simp add: identified_def)
  moreover have "identified (HashToken tok) i s1" using id a(2) ok by (simp add: identified_def)
  ultimately show thesis using that [of s1] a cache_ok_worker [OF ok cache st] by (simp add: TokenAuthHandlerWithCache_def)
qed

lemma completeJob_served:
  assumes ok: "jobs_inv (s_db s)" and ph: "phase_of run (s_db s) = Held i \<or> (\<exists>w. phase_of run (s_db s) = Finished w)"
    and net: "net e Q_CompleteJob run = Served" "net e Q_GetJobByRunID run = Served"
  shows "\<exists>s'. completeJob e i run s = (Inr (), s')"
proof -
  obtain j where j: "j \<in> set (d_jobs (s_db s))" "j_run_id j = run" "phase_of run (s_db s) = job_phase j" "wf_job j"
    using ph by (cases rule: phase_of_cases [OF ok, of run]) auto
  show ?thesis
  proof (cases "j_status j")
    case Done
    from completeJob_again [OF ok j(1,2) Done net] show ?thesis by blast
  next
    case Ready
    with ph j(3) show ?thesis by (simp add: job_phase_def)
  next
    case Leased
    with ph j have "held_by run i j" by (auto simp: job_phase_def held_by_def wf_job_def job_active_def Let_def split: option.splits)
    with j(1) obtain j' where "fst (CompleteJob run i (s_db s)) = Inr j'"
      unfolding CompleteJob_def update_jobs_returning_def
      by (cases "filter (held_by run i) (d_jobs (s_db s))") (auto simp: filter_empty_conv)
    with net show ?thesis by (simp add: completeJob_def)
  qed
qed


lemma SubmitResult_served:
  assumes hold: "holding h i (x_run_id x) s" and net: "\<forall>q a. net e q a = Served" and "result_status_ok (x_status x)"
  shows "\<exists>resp. fst (SubmitResult e (Some x) (Some i) s) = Inr resp \<and> sr_committed resp"
proof -
  let ?s1 = "touchWorkerHeartbeat e i s"
  obtain s2 where p: "ProcessResult e x ?s1 = (Inr (), s2)"
    using ProcessResult_served [of e x ?s1] net assms(3) by (cases "ProcessResult e x ?s1") auto
  have jobs: "d_jobs (s_db s2) = d_jobs (s_db s)" using ProcessResult_frame(3) [of e x ?s1] p by simp
  then have "jobs_inv (s_db s2)"
    using hold table_inv_cong(1) [of "s_db s2" "s_db s"] by (simp add: holding_def identified_def db_okD)
  moreover have "phase_of (x_run_id x) (s_db s2) = phase_of (x_run_id x) (s_db s)" using jobs by (rule phase_of_cong)
  ultimately obtain s' where "completeJob e i (x_run_id x) s2 = (Inr (), s')"
    using completeJob_served [of s2 "x_run_id x" i e] hold net by (auto simp: holding_def identified_def)
  with p show ?thesis by (simp add: SubmitResult_def)
qed

text \<open>One submission while the job is held: it is answered, keeps the job, and a served one commits.\<close>

lemma submit_holding:
  assumes hold: "holding (HashToken tok) i (x_run_id x) s" and tok: "parseBearerToken hdr = Inr tok"
    and auth: "net e Q_GetWorkerByTokenHash (HashToken tok) = Served"
  obtains resp s' where "TokenAuthHandlerWithCache e hdr (SubmitResult e (Some x)) s = (Inr resp, s')"
    and "holding (HashToken tok) i (x_run_id x) s'"
    and "(\<forall>q a. net e q a = Served) \<Longrightarrow> result_status_ok (x_status x) \<Longrightarrow> sr_committed resp"
proof -
  let ?h = "SubmitResult e (Some x)"
  obtain s1 where q: "TokenAuthHandlerWithCache e hdr ?h s = ?h (Some i) s1" "s_db s1 = s_db s"
    "identified (HashToken tok) i s1" "cache_ok (snd (?h (Some i) s1))"
    using identified_call [where h = ?h and s = s, OF _ tok auth SubmitResult_statements worker_rpc_cache(2)] hold
    unfolding holding_def by blast
  then have hold1: "holding (HashToken tok) i (x_run_id x) s1" using hold by (simp add: holding_def)
  obtain r s' where r: "?h (Some i) s1 = (r, s')" by (cases "?h (Some i) s1")
  have "holding (HashToken tok) i (x_run_id x) s'"
    using holding_path [OF hold1] SubmitResult_statements [of i s1 e "Some x"] q(4) r by (metis snd_conv)
  moreover obtain resp where "r = Inr resp" using r by (auto simp: SubmitResult_def Let_def split: prod.splits)
  moreover have "(\<forall>q a. net e q a = Served) \<Longrightarrow> result_status_ok (x_status x) \<Longrightarrow> sr_committed resp"
    using SubmitResult_served [OF hold1] r calculation(2) by fastforce
  ultimately show thesis using that q r by simp
qed

definition undisturbed :: "string \<Rightarrow> string \<Rightarrow> string \<Rightarrow> world \<Rightarrow> bool" where
  "undisturbed h i run w \<longleftrightarrow> holding h i run (rw_server w)
     \<and> (\<forall>n s. holding h i run s \<longrightarrow> holding h i run (rw_others w n s))
     \<and> (\<forall>n. net (rw_env w n) Q_GetWorkerByTokenHash h = Served \<and> rw_go_on w n)"

text \<open>One attempt: it commits, which it does when everything is served, or it goes to the wait.\<close>

lemma one_attempt:
  assumes un: "undisturbed (HashToken tok) i (x_run_id x) w" and tok: "parseBearerToken (authHeader k) = Inr tok"
    and act: "isJobActive (x_run_id x) k"
  obtains (commits) w' where "send_round real_clients x a k w = (Inl (True, True), k, w')"
  | (waits) w' where "\<not> (result_status_ok (x_status x) \<and> rw_link w (rw_tick w) = Served
          \<and> (\<forall>q b. net (rw_env w (rw_tick w)) q b = Served))"
      and "send_round real_clients x a k w = after_attempt real_clients a k w'"
      and "undisturbed (HashToken tok) i (x_run_id x) w'" and "rw_tick w' = Suc (rw_tick w)"
      and "rw_link w' = rw_link w" and "rw_env w' = rw_env w"
proof -
  let ?n = "rw_tick w" and ?h = "\<lambda>w. TokenAuthHandlerWithCache (now_env w) (authHeader k) (SubmitResult (now_env w) (Some x))"
  let ?s = "rw_others w ?n (rw_server w)"
  have hold: "holding (HashToken tok) i (x_run_id x) ?s" using un by (simp add: undisturbed_def)
  have auth: "net (now_env w) Q_GetWorkerByTokenHash (HashToken tok) = Served"
    using un by (simp add: undisturbed_def now_env_def)
  obtain resp s' where sub: "?h w ?s = (Inr resp, s')" and hold': "holding (HashToken tok) i (x_run_id x) s'"
    and ok: "(\<forall>q a. net (now_env w) q a = Served) \<Longrightarrow> result_status_ok (x_status x) \<Longrightarrow> sr_committed resp"
    using submit_holding [OF hold tok auth] by blast
  obtain r w' where rm: "remote ?h w = (r, w')" by (cases "remote ?h w")
  have call: "rc_submitResult real_clients (authHeader k) x w = (r, w')" using rm by (simp add: real_clients_def)
  have frame: "rw_tick w' = Suc ?n" "rw_link w' = rw_link w" "rw_env w' = rw_env w" "rw_others w' = rw_others w"
    "rw_go_on w' = rw_go_on w"
    using remote_frame [of ?h w] rm by simp_all
  have "rw_server w' = ?s \<or> rw_server w' = s'" using remote_server [of ?h w] rm sub by simp
  then have un': "undisturbed (HashToken tok) i (x_run_id x) w'"
    using un hold hold' frame by (auto simp: undisturbed_def)
  have r: "r = Inl Transport \<and> rw_link w ?n \<noteq> Served \<or> r = Inr resp"
    using rm sub by (auto simp: remote_def Let_def split: outcome.splits)
  show thesis
  proof (cases "r = Inr resp \<and> sr_committed resp")
    case True
    with act call show thesis by (intro commits [of w']) (simp add: send_round_def)
  next
    case False
    have "send_round real_clients x a k w = after_attempt real_clients a k w'"
      using False r act call by (auto simp: send_round_def isUnauthenticatedError_def)
    moreover have "\<not> (result_status_ok (x_status x) \<and> rw_link w ?n = Served \<and> (\<forall>q b. net (rw_env w ?n) q b = Served))"
      using False r ok by (auto simp: now_env_def)
    ultimately show thesis using un' frame by (intro waits [of w']) simp_all
  qed
qed

lemma attempts_commit:
  assumes "undisturbed (HashToken tok) i (x_run_id x) w" and "parseBearerToken (authHeader k) = Inr tok"
    and "isJobActive (x_run_id x) k" and "result_status_ok (x_status x)"
    and "a + int j \<le> k_resultSubmitMaxAttempts k"
    and "rw_link w (rw_tick w + j) = Served" and "\<forall>q b. net (rw_env w (rw_tick w + j)) q b = Served"
  shows "\<exists>k' w'. send_loop real_clients x a k w = Some ((True, True), k', w')"
  using assms(1,5-)
proof (induction j arbitrary: a w)
  case 0
  from one_attempt [OF 0(1) assms(2,3), of a] 0 assms(4)
  obtain w' where "send_round real_clients x a k w = (Inl (True, True), k, w')"
    by (metis Nat.add_0_right)
  with 0(2) show ?case by (subst send_loop.simps) simp
next
  case (Suc j)
  show ?case
  proof (cases rule: one_attempt [OF Suc.prems(1) assms(2,3), of a, case_names commits waits])
    case (commits w')
    with Suc.prems(2) show ?thesis by (subst send_loop.simps) simp
  next
    case (waits w')
    have "send_round real_clients x a k w = (Inr (a + 1), k, w')"
      using waits Suc.prems(2) by (simp add: after_attempt_def real_clients_def undisturbed_def)
    moreover have "\<exists>k' w''. send_loop real_clients x (a + 1) k w' = Some ((True, True), k', w'')"
      using Suc.prems waits by (intro Suc.IH) simp_all
    ultimately show ?thesis using Suc.prems(2) by (subst send_loop.simps) simp
  qed
qed

text \<open>
  Retries get through: while the worker holds the job and its token, one attempt of its
  budget that is served from end to end is enough for \<open>sendResult\<close> to return a commit, whatever
  was lost before it: requests, answers, or single statements of a submission.
\<close>

theorem retries_commit:
  assumes "world_ok w" and "undisturbed (HashToken tok) i (x_run_id x) w"
    and "parseBearerToken (authHeader k) = Inr tok" and "isJobActive (x_run_id x) k"
    and "result_status_ok (x_status x)" and "int j < k_resultSubmitMaxAttempts k"
    and "rw_link w (rw_tick w + j) = Served" and "\<forall>q b. net (rw_env w (rw_tick w + j)) q b = Served"
  shows "\<exists>k' w'. sendResult real_clients x k w = Some ((True, True), k', w') \<and> recorded x w'
     \<and> \<not> isJobActive (x_run_id x) k'"
proof -
  obtain k' w' where "send_loop real_clients x 1 k w = Some ((True, True), k', w')"
    using attempts_commit [OF assms(2-5) _ assms(7,8), of 1] assms(6) by auto
  then have "sendResult real_clients x k w = Some ((True, True), worker_completeJob (x_run_id x) k', w')"
    by (simp add: sendResult_def)
  with cp.sendResult_committed [OF this assms(1)] show ?thesis by blast
qed

section \<open>A worker on a bad day\<close>

definition bad_day :: world where
  "bad_day = \<lparr>rw_server = day_leased, rw_tick = 0, rw_env = (\<lambda>n. calm (7000000000 + int n)),
     rw_link = (\<lambda>n. if n = 0 then LostAfter else if n = 1 then LostBefore else Served),
     rw_others = (\<lambda>_ s. s), rw_go_on = (\<lambda>_. True), rw_random = (\<lambda>_. Some sample_bytes),
     rw_config = sample_enroll_config, rw_lease = 45 * second\<rparr>"

definition day_agent :: worker where
  "day_agent = (NewWorker day_w ''global'' ''1'' ''http://cp:8080'' ''c'' 5)\<lparr>k_apiToken := sample_token, k_activeJobs := [day_run]\<rparr>"

lemma bad_day_ok: "world_ok bad_day"
  using reachable_db_ok [OF day_reachable] by (simp add: world_ok_def bad_day_def)

lemma day_agent_token: "parseBearerToken (authHeader day_agent) = Inr sample_token"
  using parse_issued_token(1) [OF sample_bytes_length sample_generate] by (simp add: authHeader_def day_agent_def)

lemma bad_day_undisturbed: "undisturbed (HashToken sample_token) day_w day_run bad_day"
proof -
  have "db_ok (s_db day_leased)" using reachable_db_ok [OF day_reachable] by simp
  moreover have "cache_ok day_leased" by (simp add: cache_ok_def day_leased_def day_server_def)
  moreover have "token_of (s_db day_leased) (HashToken sample_token) day_w"
    by (simp add: token_of_def token_usable_def day_leased_def day_server_def day_worker_def empty_db_def)
  moreover have "\<forall>y \<in> set (d_workers (s_db day_leased)). w_id y = day_w"
    by (simp add: day_leased_def day_server_def day_worker_def empty_db_def)
  moreover have "phase_of day_run (s_db day_leased) = Held day_w"
    by (simp add: phase_of_def day_leased_def day_server_def day_job_def job_phase_def empty_db_def Let_def)
  ultimately show ?thesis by (simp add: undisturbed_def holding_def identified_def bad_day_def)
qed

lemma day_result_ok: "x_run_id day_result = day_run" "result_status_ok (x_status day_result)"
  by (simp_all add: sample_result_def result_status_ok_def)

lemma day_agent_active: "isJobActive day_run day_agent" "k_resultSubmitMaxAttempts day_agent = 6"
  by (simp_all add: isJobActive_def day_agent_def NewWorker_def)

theorem retries_commit_witness:
  "\<exists>k' w'. sendResult real_clients day_result day_agent bad_day = Some ((True, True), k', w')"
  using retries_commit [OF bad_day_ok _ day_agent_token, of day_w day_result 2] bad_day_undisturbed day_agent_active
    day_result_ok by (auto simp: bad_day_def)

theorem worker_commit_sound_witness:
  "\<exists>b k' w'. sendResult real_clients day_result day_agent bad_day = Some (b, k', w') \<and> \<not> isJobActive day_run k'"
proof -
  obtain k' w' where "send_loop real_clients day_result 1 day_agent bad_day = Some ((True, True), k', w')"
    using attempts_commit [OF _ day_agent_token, of day_w day_result bad_day 1 2] bad_day_undisturbed day_agent_active
      day_result_ok by (auto simp: bad_day_def)
  then have s: "sendResult real_clients day_result day_agent bad_day
      = Some ((True, True), worker_completeJob (x_run_id day_result) k', w')" by (simp add: sendResult_def)
  from worker_commit_sound [OF this bad_day_ok] s day_result_ok(1) show ?thesis by auto
qed

theorem worker_within_concurrency_witness:
  "\<exists>n err jobs k' w'. pollForJobs real_clients day_agent bad_day = (n, err, jobs, k', w')
     \<and> active_count (fold start_job jobs k') \<le> 5"
proof -
  obtain n err jobs k' w' where p: "pollForJobs real_clients day_agent bad_day = (n, err, jobs, k', w')"
    by (metis prod_cases5)
  have "in_i32 (k_maxConcurrency day_agent)" "active_count day_agent \<le> k_maxConcurrency day_agent" "k_maxConcurrency day_agent = 5"
    by (simp_all add: day_agent_def NewWorker_def in_i32_def active_count_def)
  with worker_within_concurrency [OF p bad_day_ok] p show ?thesis by metis
qed

end
