(* ===== verification/Lease_Variants.thy ===== *)
theory Lease_Variants
  imports Worker_Service "HOL-Library.Multiset"
begin

text \<open>
  The \<open>ORDER BY\<close> of the leasing statements as one key: the worker's own region first, then the
  time a job is scheduled for.
\<close>

datatype lease_key = Lease_Key (key_rank: nat) (key_time: time)

instantiation lease_key :: linorder
begin

definition less_lease_key :: "lease_key \<Rightarrow> lease_key \<Rightarrow> bool" where
  "less_lease_key a b \<longleftrightarrow> key_rank a < key_rank b \<or> key_rank a = key_rank b \<and> key_time a < key_time b"

definition less_eq_lease_key :: "lease_key \<Rightarrow> lease_key \<Rightarrow> bool" where
  "less_eq_lease_key a b \<longleftrightarrow> key_rank a < key_rank b \<or> key_rank a = key_rank b \<and> key_time a \<le> key_time b"

instance
  by standard (auto simp: less_lease_key_def less_eq_lease_key_def intro: lease_key.expand)

end

definition lease_key_of :: "string \<Rightarrow> app_job \<Rightarrow> lease_key" where
  "lease_key_of region j = Lease_Key (region_rank region j) (j_scheduled_at j)"

text \<open>Two stable sorts, the minor key first, are one sort on the pair.\<close>

lemma insort_lease_key:
  "\<forall>y \<in> set ys. j_scheduled_at j \<le> j_scheduled_at y \<Longrightarrow>
     insort_key (region_rank region) j ys = insort_key (lease_key_of region) j ys"
  by (induction ys) (auto simp: lease_key_of_def less_eq_lease_key_def)

lemma sort_rank_key:
  "sorted (map j_scheduled_at js) \<Longrightarrow> sort_key (region_rank region) js = sort_key (lease_key_of region) js"
  by (induction js) (simp_all add: insort_lease_key)

lemma lease_order_key: "lease_order region js = sort_key (lease_key_of region) js"
proof (rule properties_for_sort_key [symmetric])
  show "mset (lease_order region js) = mset js" by (simp add: lease_order_def)
  show "filter (\<lambda>y. lease_key_of region x = lease_key_of region y) (lease_order region js)
      = filter (\<lambda>y. lease_key_of region x = lease_key_of region y) js" for x
  proof -
    let ?R = "\<lambda>y. region_rank region y = region_rank region x" and ?T = "\<lambda>y. j_scheduled_at y = j_scheduled_at x"
    have k: "filter (\<lambda>y. lease_key_of region x = lease_key_of region y) ys = filter ?T (filter ?R ys)" for ys
      by (simp add: lease_key_of_def) (metis (lifting))
    have swap: "filter ?T (filter ?R ys) = filter ?R (filter ?T ys)" for ys by (simp add: conj_commute)
    have "filter ?T (filter ?R (lease_order region js)) = filter ?T (filter ?R (sort_key j_scheduled_at js))"
      by (simp only: lease_order_def sort_key_stable)
    also have "\<dots> = filter ?T (filter ?R js)" by (simp only: swap sort_key_stable)
    finally show ?thesis by (simp only: k)
  qed
  show "sorted (map (lease_key_of region) (lease_order region js))"
    by (simp add: lease_order_def sort_rank_key)
qed

text \<open>
  The three leasing statements agree: the one with the monitors' data leases what the
  one with the fallback region leases, and answers the rows of live monitors; for a worker in
  the global region the fallback statement is the plain one.
\<close>

theorem lease_variants_agree:
  assumes "monitors_inv d"
  shows "snd (LeaseJobsWithMonitorData e w n region t d) = snd (LeaseJobsWithFallback e w n region t d)
     \<and> (case fst (LeaseJobsWithFallback e w n region t d) of
          Inl err \<Rightarrow> fst (LeaseJobsWithMonitorData e w n region t d) = Inl err
        | Inr js \<Rightarrow> \<exists>jms. fst (LeaseJobsWithMonitorData e w n region t d) = Inr jms
            \<and> map fst jms = filter (\<lambda>j. \<exists>m \<in> set (d_monitors d). j_monitor_id j = m_id m \<and> m_deleted_at m = None) js)
     \<and> LeaseJobsWithFallback e w n ''global'' t d = LeaseJobs e w n ''global'' t d"
proof (intro conjI)
  let ?C = "\<lambda>j m. j_monitor_id j = m_id m \<and> m_deleted_at m = None"
  show "snd (LeaseJobsWithMonitorData e w n region t d) = snd (LeaseJobsWithFallback e w n region t d)"
    by (simp add: LeaseJobsWithMonitorData_def LeaseJobsWithFallback_def split: prod.splits sum.splits)
  have join: "map fst [(j, m). j \<leftarrow> js, m \<leftarrow> d_monitors d, ?C j m] = filter (\<lambda>j. \<exists>m \<in> set (d_monitors d). ?C j m) js" for js
  proof (induction js)
    case (Cons j js)
    have "concat (map (\<lambda>m. if ?C j m then [(j, m)] else []) ms) = map (Pair j) (filter (?C j) ms)" for ms :: "app_monitor list"
      by (induction ms) simp_all
    moreover have "length (filter (?C j) (d_monitors d)) \<le> 1"
      using assms distinct_key_join [of m_id] by (simp add: monitors_inv_def)
    moreover have "filter (?C j) (d_monitors d) = [] \<longleftrightarrow> \<not> (\<exists>m \<in> set (d_monitors d). ?C j m)" by (auto simp: filter_empty_conv)
    ultimately show ?case using Cons by (cases "filter (?C j) (d_monitors d)") auto
  qed simp
  show "case fst (LeaseJobsWithFallback e w n region t d) of
          Inl err \<Rightarrow> fst (LeaseJobsWithMonitorData e w n region t d) = Inl err
        | Inr js \<Rightarrow> \<exists>jms. fst (LeaseJobsWithMonitorData e w n region t d) = Inr jms
            \<and> map fst jms = filter (\<lambda>j. \<exists>m \<in> set (d_monitors d). ?C j m) js"
    using join by (auto simp: LeaseJobsWithMonitorData_def LeaseJobsWithFallback_def split: prod.splits sum.splits)
  have leas: "leasable e [''global'', ''global''] = leasable e [''global'']" by (rule ext) (simp add: leasable_def)
  let ?js = "sort_key j_scheduled_at (filter (leasable e [''global'']) (d_jobs d))"
  have "map (region_rank ''global'') ?js = map (\<lambda>_. 0) ?js" by (rule map_cong) (auto simp: region_rank_def leasable_def)
  then have "sorted (map (region_rank ''global'') ?js)" by (simp only: map_replicate_const sorted_replicate)
  then have "sort_key (region_rank ''global'') ?js = ?js" by (rule sort_key_id_if_sorted)
  then show "LeaseJobsWithFallback e w n ''global'' t d = LeaseJobs e w n ''global'' t d"
    by (simp add: LeaseJobsWithFallback_def LeaseJobs_def lease_rows_def lease_order_def leas)
qed

theorem lease_variants_agree_witness:
  "LeaseJobsWithFallback (calm 3000) ''w1'' 5 ''global'' 9000 sample_db = LeaseJobs (calm 3000) ''w1'' 5 ''global'' 9000 sample_db"
  using lease_variants_agree [of sample_db "calm 3000" "''w1''" 5 "''us''" 9000] sample_inv
  by (simp add: store_inv_def sample_server_def)
end
