(* ===== verification/Connect.thy ===== *)
theory Connect
  imports Enrollment Worker_Service Monitors_Service Dashboard Session
begin

text \<open>
  The generated service side of the RPCs (\<open>gen/openseer/v1/openseerv1connect\<close>): for every service
  the paths of its procedures, its interface, the implementation that answers \<open>Unimplemented\<close>, and
  the HTTP handler that dispatches on the path. The codec of the connect library is not in the
  repository: a request carries its decoded message, and a message of another procedure than
  the path's is one the codec refuses.
\<close>

section \<open>Messages\<close>

record health_status =
  hc_status :: string
  hc_message :: string

datatype 'st call =
    Call_EnrollWorker enroll_request | Call_RenewEnrollment string | Call_RevokeEnrollment string string
  | Call_GetWorkerStatus string | Call_ListWorkers int string string
  | Call_GetJobs int | Call_SubmitResult "monitor_result option" | Call_RenewLease string
  | Call_CreateMonitor "'st create_request" | Call_GetMonitor string | Call_UpdateMonitor "'st update_request"
  | Call_DeleteMonitor string | Call_ListMonitors | Call_GetMonitorResults string int
  | Call_GetMonitorMetrics string "time option" "time option" | Call_GetMonitorUptime string string
  | Call_GetMonitorUptimeTimeline string string
  | Call_GetDashboardOverview | Call_GetRegionHealth | Call_GetUserProfile | Call_HealthCheck

datatype 'st reply =
    Re_EnrollWorker enroll_response | Re_RenewEnrollment renew_response | Re_RevokeEnrollment bool
  | Re_GetWorkerStatus worker_info | Re_ListWorkers "worker_info list \<times> int"
  | Re_GetJobs "monitor_job list" | Re_SubmitResult submit_response | Re_RenewLease bool
  | Re_CreateMonitor "'st monitor_message \<times> string list" | Re_GetMonitor "'st monitor_message"
  | Re_UpdateMonitor "'st monitor_message \<times> string list" | Re_DeleteMonitor unit
  | Re_ListMonitors "'st monitor_message list" | Re_GetMonitorResults "monitor_result list"
  | Re_GetMonitorMetrics "metrics_message list" | Re_GetMonitorUptime uptime_row
  | Re_GetMonitorUptimeTimeline "timeline_row list"
  | Re_GetDashboardOverview dashboard_overview | Re_GetRegionHealth "(string \<times> int) list"
  | Re_GetUserProfile user_message | Re_HealthCheck health_status

datatype 'st http = Page_not_found | Unauthorized | Refused_message | Failed rpc_code | Reply "'st reply"

text \<open>What the middlewares put into the context of a request, and how the services read it.\<close>

record rpc_context =
  ctx_worker_id :: "string option"
  ctx_user :: "session_user option"

definition WorkerIDFromContext :: "rpc_context \<Rightarrow> string option" where
  "WorkerIDFromContext ctx = ctx_worker_id ctx"

definition GetUserFromContext :: "rpc_context \<Rightarrow> session_user option" where
  "GetUserFromContext ctx = ctx_user ctx"

text \<open>A method of a service, and an HTTP handler behind the mux.\<close>

type_synonym ('m, 'r) unary = "rpc_context \<Rightarrow> 'm \<Rightarrow> server \<Rightarrow> (rpc_code + 'r) \<times> server"

type_synonym 'st http_handler = "rpc_context \<Rightarrow> string \<Rightarrow> 'st call \<Rightarrow> server \<Rightarrow> 'st http \<times> server"

definition reply_with :: "('r \<Rightarrow> 'st reply) \<Rightarrow> (rpc_code + 'r) \<times> server \<Rightarrow> 'st http \<times> server" where
  "reply_with f p = (case p of (Inl code, s) \<Rightarrow> (Failed code, s) | (Inr r, s) \<Rightarrow> (Reply (f r), s))"

text \<open>\<open>connect.NewUnaryHandler\<close>: decode, call the method, encode.\<close>

definition unary_handler ::
  "('st call \<Rightarrow> 'm option) \<Rightarrow> ('m, 'r) unary \<Rightarrow> ('r \<Rightarrow> 'st reply) \<Rightarrow> rpc_context \<Rightarrow> 'st call \<Rightarrow> server \<Rightarrow> 'st http \<times> server" where
  "unary_handler decode f encode ctx body s =
     (case decode body of None \<Rightarrow> (Refused_message, s) | Some m \<Rightarrow> reply_with encode (f ctx m s))"

text \<open>The method of an \<open>Unimplemented...Handler\<close>.\<close>

definition unimplemented :: "('m, 'r) unary" where
  "unimplemented ctx m s = (Inl Unimplemented, s)"

section \<open>EnrollmentService\<close>

definition EnrollmentServiceEnrollWorkerProcedure :: string where
  "EnrollmentServiceEnrollWorkerProcedure = ''/openseer.v1.EnrollmentService/EnrollWorker''"

definition EnrollmentServiceRenewEnrollmentProcedure :: string where
  "EnrollmentServiceRenewEnrollmentProcedure = ''/openseer.v1.EnrollmentService/RenewEnrollment''"

definition EnrollmentServiceRevokeEnrollmentProcedure :: string where
  "EnrollmentServiceRevokeEnrollmentProcedure = ''/openseer.v1.EnrollmentService/RevokeEnrollment''"

definition EnrollmentServiceGetWorkerStatusProcedure :: string where
  "EnrollmentServiceGetWorkerStatusProcedure = ''/openseer.v1.EnrollmentService/GetWorkerStatus''"

definition EnrollmentServiceListWorkersProcedure :: string where
  "EnrollmentServiceListWorkersProcedure = ''/openseer.v1.EnrollmentService/ListWorkers''"

record enrollment_service =
  es_EnrollWorker :: "(enroll_request, enroll_response) unary"
  es_RenewEnrollment :: "(string, renew_response) unary"
  es_RevokeEnrollment :: "(string \<times> string, bool) unary"
  es_GetWorkerStatus :: "(string, worker_info) unary"
  es_ListWorkers :: "(int \<times> string \<times> string, worker_info list \<times> int) unary"

definition UnimplementedEnrollmentServiceHandler :: "enrollment_service" where
  "UnimplementedEnrollmentServiceHandler =
     \<lparr>es_EnrollWorker = unimplemented, es_RenewEnrollment = unimplemented, es_RevokeEnrollment = unimplemented, es_GetWorkerStatus = unimplemented, es_ListWorkers = unimplemented\<rparr>"

definition NewEnrollmentServiceHandler :: "enrollment_service \<Rightarrow> string \<times> 'st http_handler" where
  "NewEnrollmentServiceHandler svc =
     (''/openseer.v1.EnrollmentService/'', \<lambda>ctx path body s.
        if path = EnrollmentServiceEnrollWorkerProcedure then
          unary_handler (\<lambda>b. case b of Call_EnrollWorker m \<Rightarrow> Some m | _ \<Rightarrow> None) (es_EnrollWorker svc) Re_EnrollWorker ctx body s
        else if path = EnrollmentServiceRenewEnrollmentProcedure then
          unary_handler (\<lambda>b. case b of Call_RenewEnrollment w \<Rightarrow> Some w | _ \<Rightarrow> None) (es_RenewEnrollment svc) Re_RenewEnrollment ctx body s
        else if path = EnrollmentServiceRevokeEnrollmentProcedure then
          unary_handler (\<lambda>b. case b of Call_RevokeEnrollment w reason \<Rightarrow> Some (w, reason) | _ \<Rightarrow> None) (es_RevokeEnrollment svc) Re_RevokeEnrollment ctx body s
        else if path = EnrollmentServiceGetWorkerStatusProcedure then
          unary_handler (\<lambda>b. case b of Call_GetWorkerStatus w \<Rightarrow> Some w | _ \<Rightarrow> None) (es_GetWorkerStatus svc) Re_GetWorkerStatus ctx body s
        else if path = EnrollmentServiceListWorkersProcedure then
          unary_handler (\<lambda>b. case b of Call_ListWorkers n region status \<Rightarrow> Some (n, region, status) | _ \<Rightarrow> None) (es_ListWorkers svc) Re_ListWorkers ctx body s
        else (Page_not_found, s))"

section \<open>WorkerService\<close>

definition WorkerServiceGetJobsProcedure :: string where
  "WorkerServiceGetJobsProcedure = ''/openseer.v1.WorkerService/GetJobs''"

definition WorkerServiceSubmitResultProcedure :: string where
  "WorkerServiceSubmitResultProcedure = ''/openseer.v1.WorkerService/SubmitResult''"

definition WorkerServiceRenewLeaseProcedure :: string where
  "WorkerServiceRenewLeaseProcedure = ''/openseer.v1.WorkerService/RenewLease''"

record worker_service =
  ws_GetJobs :: "(int, monitor_job list) unary"
  ws_SubmitResult :: "(monitor_result option, submit_response) unary"
  ws_RenewLease :: "(string, bool) unary"

definition UnimplementedWorkerServiceHandler :: "worker_service" where
  "UnimplementedWorkerServiceHandler =
     \<lparr>ws_GetJobs = unimplemented, ws_SubmitResult = unimplemented, ws_RenewLease = unimplemented\<rparr>"

definition NewWorkerServiceHandler :: "worker_service \<Rightarrow> string \<times> 'st http_handler" where
  "NewWorkerServiceHandler svc =
     (''/openseer.v1.WorkerService/'', \<lambda>ctx path body s.
        if path = WorkerServiceGetJobsProcedure then
          unary_handler (\<lambda>b. case b of Call_GetJobs n \<Rightarrow> Some n | _ \<Rightarrow> None) (ws_GetJobs svc) Re_GetJobs ctx body s
        else if path = WorkerServiceSubmitResultProcedure then
          unary_handler (\<lambda>b. case b of Call_SubmitResult m \<Rightarrow> Some m | _ \<Rightarrow> None) (ws_SubmitResult svc) Re_SubmitResult ctx body s
        else if path = WorkerServiceRenewLeaseProcedure then
          unary_handler (\<lambda>b. case b of Call_RenewLease run \<Rightarrow> Some run | _ \<Rightarrow> None) (ws_RenewLease svc) Re_RenewLease ctx body s
        else (Page_not_found, s))"

section \<open>MonitorsService\<close>

definition MonitorsServiceCreateMonitorProcedure :: string where
  "MonitorsServiceCreateMonitorProcedure = ''/openseer.v1.MonitorsService/CreateMonitor''"

definition MonitorsServiceGetMonitorProcedure :: string where
  "MonitorsServiceGetMonitorProcedure = ''/openseer.v1.MonitorsService/GetMonitor''"

definition MonitorsServiceUpdateMonitorProcedure :: string where
  "MonitorsServiceUpdateMonitorProcedure = ''/openseer.v1.MonitorsService/UpdateMonitor''"

definition MonitorsServiceDeleteMonitorProcedure :: string where
  "MonitorsServiceDeleteMonitorProcedure = ''/openseer.v1.MonitorsService/DeleteMonitor''"

definition MonitorsServiceListMonitorsProcedure :: string where
  "MonitorsServiceListMonitorsProcedure = ''/openseer.v1.MonitorsService/ListMonitors''"

definition MonitorsServiceGetMonitorResultsProcedure :: string where
  "MonitorsServiceGetMonitorResultsProcedure = ''/openseer.v1.MonitorsService/GetMonitorResults''"

definition MonitorsServiceGetMonitorMetricsProcedure :: string where
  "MonitorsServiceGetMonitorMetricsProcedure = ''/openseer.v1.MonitorsService/GetMonitorMetrics''"

definition MonitorsServiceGetMonitorUptimeProcedure :: string where
  "MonitorsServiceGetMonitorUptimeProcedure = ''/openseer.v1.MonitorsService/GetMonitorUptime''"

definition MonitorsServiceGetMonitorUptimeTimelineProcedure :: string where
  "MonitorsServiceGetMonitorUptimeTimelineProcedure = ''/openseer.v1.MonitorsService/GetMonitorUptimeTimeline''"

record 'st monitors_service =
  ns_CreateMonitor :: "('st create_request, 'st monitor_message \<times> string list) unary"
  ns_GetMonitor :: "(string, 'st monitor_message) unary"
  ns_UpdateMonitor :: "('st update_request, 'st monitor_message \<times> string list) unary"
  ns_DeleteMonitor :: "(string, unit) unary"
  ns_ListMonitors :: "(unit, 'st monitor_message list) unary"
  ns_GetMonitorResults :: "(string \<times> int, monitor_result list) unary"
  ns_GetMonitorMetrics :: "(string \<times> time option \<times> time option, metrics_message list) unary"
  ns_GetMonitorUptime :: "(string \<times> string, uptime_row) unary"
  ns_GetMonitorUptimeTimeline :: "(string \<times> string, timeline_row list) unary"

definition UnimplementedMonitorsServiceHandler :: "'st monitors_service" where
  "UnimplementedMonitorsServiceHandler =
     \<lparr>ns_CreateMonitor = unimplemented, ns_GetMonitor = unimplemented, ns_UpdateMonitor = unimplemented, ns_DeleteMonitor = unimplemented, ns_ListMonitors = unimplemented, ns_GetMonitorResults = unimplemented, ns_GetMonitorMetrics = unimplemented, ns_GetMonitorUptime = unimplemented, ns_GetMonitorUptimeTimeline = unimplemented\<rparr>"

definition NewMonitorsServiceHandler :: "'st monitors_service \<Rightarrow> string \<times> 'st http_handler" where
  "NewMonitorsServiceHandler svc =
     (''/openseer.v1.MonitorsService/'', \<lambda>ctx path body s.
        if path = MonitorsServiceCreateMonitorProcedure then
          unary_handler (\<lambda>b. case b of Call_CreateMonitor m \<Rightarrow> Some m | _ \<Rightarrow> None) (ns_CreateMonitor svc) Re_CreateMonitor ctx body s
        else if path = MonitorsServiceGetMonitorProcedure then
          unary_handler (\<lambda>b. case b of Call_GetMonitor i \<Rightarrow> Some i | _ \<Rightarrow> None) (ns_GetMonitor svc) Re_GetMonitor ctx body s
        else if path = MonitorsServiceUpdateMonitorProcedure then
          unary_handler (\<lambda>b. case b of Call_UpdateMonitor m \<Rightarrow> Some m | _ \<Rightarrow> None) (ns_UpdateMonitor svc) Re_UpdateMonitor ctx body s
        else if path = MonitorsServiceDeleteMonitorProcedure then
          unary_handler (\<lambda>b. case b of Call_DeleteMonitor i \<Rightarrow> Some i | _ \<Rightarrow> None) (ns_DeleteMonitor svc) Re_DeleteMonitor ctx body s
        else if path = MonitorsServiceListMonitorsProcedure then
          unary_handler (\<lambda>b. case b of Call_ListMonitors \<Rightarrow> Some () | _ \<Rightarrow> None) (ns_ListMonitors svc) Re_ListMonitors ctx body s
        else if path = MonitorsServiceGetMonitorResultsProcedure then
          unary_handler (\<lambda>b. case b of Call_GetMonitorResults i n \<Rightarrow> Some (i, n) | _ \<Rightarrow> None) (ns_GetMonitorResults svc) Re_GetMonitorResults ctx body s
        else if path = MonitorsServiceGetMonitorMetricsProcedure then
          unary_handler (\<lambda>b. case b of Call_GetMonitorMetrics i a b \<Rightarrow> Some (i, a, b) | _ \<Rightarrow> None) (ns_GetMonitorMetrics svc) Re_GetMonitorMetrics ctx body s
        else if path = MonitorsServiceGetMonitorUptimeProcedure then
          unary_handler (\<lambda>b. case b of Call_GetMonitorUptime i rng \<Rightarrow> Some (i, rng) | _ \<Rightarrow> None) (ns_GetMonitorUptime svc) Re_GetMonitorUptime ctx body s
        else if path = MonitorsServiceGetMonitorUptimeTimelineProcedure then
          unary_handler (\<lambda>b. case b of Call_GetMonitorUptimeTimeline i rng \<Rightarrow> Some (i, rng) | _ \<Rightarrow> None) (ns_GetMonitorUptimeTimeline svc) Re_GetMonitorUptimeTimeline ctx body s
        else (Page_not_found, s))"

section \<open>DashboardService\<close>

definition DashboardServiceGetDashboardOverviewProcedure :: string where
  "DashboardServiceGetDashboardOverviewProcedure = ''/openseer.v1.DashboardService/GetDashboardOverview''"

definition DashboardServiceGetRegionHealthProcedure :: string where
  "DashboardServiceGetRegionHealthProcedure = ''/openseer.v1.DashboardService/GetRegionHealth''"

record dashboard_service =
  bs_GetDashboardOverview :: "(unit, dashboard_overview) unary"
  bs_GetRegionHealth :: "(unit, (string \<times> int) list) unary"

definition UnimplementedDashboardServiceHandler :: "dashboard_service" where
  "UnimplementedDashboardServiceHandler =
     \<lparr>bs_GetDashboardOverview = unimplemented, bs_GetRegionHealth = unimplemented\<rparr>"

definition NewDashboardServiceHandler :: "dashboard_service \<Rightarrow> string \<times> 'st http_handler" where
  "NewDashboardServiceHandler svc =
     (''/openseer.v1.DashboardService/'', \<lambda>ctx path body s.
        if path = DashboardServiceGetDashboardOverviewProcedure then
          unary_handler (\<lambda>b. case b of Call_GetDashboardOverview \<Rightarrow> Some () | _ \<Rightarrow> None) (bs_GetDashboardOverview svc) Re_GetDashboardOverview ctx body s
        else if path = DashboardServiceGetRegionHealthProcedure then
          unary_handler (\<lambda>b. case b of Call_GetRegionHealth \<Rightarrow> Some () | _ \<Rightarrow> None) (bs_GetRegionHealth svc) Re_GetRegionHealth ctx body s
        else (Page_not_found, s))"

section \<open>UserService\<close>

definition UserServiceGetUserProfileProcedure :: string where
  "UserServiceGetUserProfileProcedure = ''/openseer.v1.UserService/GetUserProfile''"

record user_service =
  us_GetUserProfile :: "(unit, user_message) unary"

definition UnimplementedUserServiceHandler :: "user_service" where
  "UnimplementedUserServiceHandler =
     \<lparr>us_GetUserProfile = unimplemented\<rparr>"

definition NewUserServiceHandler :: "user_service \<Rightarrow> string \<times> 'st http_handler" where
  "NewUserServiceHandler svc =
     (''/openseer.v1.UserService/'', \<lambda>ctx path body s.
        if path = UserServiceGetUserProfileProcedure then
          unary_handler (\<lambda>b. case b of Call_GetUserProfile \<Rightarrow> Some () | _ \<Rightarrow> None) (us_GetUserProfile svc) Re_GetUserProfile ctx body s
        else (Page_not_found, s))"

section \<open>HealthService\<close>

definition HealthServiceCheckProcedure :: string where
  "HealthServiceCheckProcedure = ''/openseer.v1.HealthService/Check''"

record health_service =
  hs_Check :: "(unit, health_status) unary"

definition UnimplementedHealthServiceHandler :: "health_service" where
  "UnimplementedHealthServiceHandler =
     \<lparr>hs_Check = unimplemented\<rparr>"

definition NewHealthServiceHandler :: "health_service \<Rightarrow> string \<times> 'st http_handler" where
  "NewHealthServiceHandler svc =
     (''/openseer.v1.HealthService/'', \<lambda>ctx path body s.
        if path = HealthServiceCheckProcedure then
          unary_handler (\<lambda>b. case b of Call_HealthCheck \<Rightarrow> Some () | _ \<Rightarrow> None) (hs_Check svc) Re_HealthCheck ctx body s
        else (Page_not_found, s))"

section \<open>Facts\<close>

lemma snd_reply_with [simp]: "snd (reply_with f p) = snd p"
  by (simp add: reply_with_def split: prod.splits sum.splits)

lemma reply_with_Inl [simp]: "reply_with f (Inl code, s) = (Failed code, s)"
  by (simp add: reply_with_def)

lemma unary_handler_sel [simp]:
  "snd (unary_handler decode f encode ctx body s) = (case decode body of None \<Rightarrow> s | Some m \<Rightarrow> snd (f ctx m s))"
  "fst (unary_handler decode f encode ctx body s) =
     (case decode body of None \<Rightarrow> Refused_message
      | Some m \<Rightarrow> (case fst (f ctx m s) of Inl code \<Rightarrow> Failed code | Inr r \<Rightarrow> Reply (encode r)))"
  by (simp_all add: unary_handler_def reply_with_def split: option.split prod.split sum.split)

lemma from_context [simp]:
  "WorkerIDFromContext \<lparr>ctx_worker_id = w, ctx_user = u\<rparr> = w" "GetUserFromContext \<lparr>ctx_worker_id = w, ctx_user = u\<rparr> = u"
  "WorkerIDFromContext (ctx\<lparr>ctx_worker_id := w\<rparr>) = w" "GetUserFromContext (ctx\<lparr>ctx_worker_id := w\<rparr>) = GetUserFromContext ctx"
  by (simp_all add: WorkerIDFromContext_def GetUserFromContext_def)

end
