(* ===== verification/Routing.thy ===== *)
theory Routing
  imports System Connect
begin

text \<open>
  The HTTP surface of the control plane: the services behind their generated handlers, and the
  session middleware and the mux of \<open>cmd/control-plane/main.go\<close>.
\<close>

section \<open>Requests\<close>

record 'st request =
  q_path :: string
  q_authorization :: string
  q_cookies :: "(string \<times> string) list"
  q_body :: "'st call"

text \<open>What \<open>main\<close> hands to the services, and the session tables beside the store.\<close>

record 'st deployment =
  dp_enrollment :: enrollment_config
  dp_lease :: duration
  dp_secret :: string
  dp_codec :: "'st struct_codec"
  dp_sessions :: "session_row list"

text \<open>The circumstances of one request: those of its statements, of the session query, and fresh random bytes.\<close>

record circumstances =
  ci_env :: env
  ci_session :: outcome
  ci_random_id :: "string option"
  ci_random_token :: "string option"

section \<open>The services\<close>

text \<open>
  A service embeds its \<open>Unimplemented...Handler\<close> and overrides its methods. The services of the
  users take the user's id from the context, the worker service the worker's.
\<close>

definition user_id :: "rpc_context \<Rightarrow> string option" where
  "user_id ctx = map_option su_id (GetUserFromContext ctx)"

definition EnrollmentService :: "'st deployment \<Rightarrow> circumstances \<Rightarrow> enrollment_service" where
  "EnrollmentService dp ci = UnimplementedEnrollmentServiceHandler
     \<lparr>es_EnrollWorker := \<lambda>ctx. EnrollWorker (ci_env ci) (dp_enrollment dp) (ci_random_id ci) (ci_random_token ci),
      es_RenewEnrollment := \<lambda>ctx. RenewEnrollment (ci_env ci) (ci_random_token ci),
      es_RevokeEnrollment := \<lambda>ctx (w, reason). RevokeEnrollment (ci_env ci) w reason,
      es_GetWorkerStatus := \<lambda>ctx. GetWorkerStatus (ci_env ci),
      es_ListWorkers := \<lambda>ctx (n, region, status). ListWorkers (ci_env ci) n region status\<rparr>"

definition WorkerService :: "'st deployment \<Rightarrow> circumstances \<Rightarrow> worker_service" where
  "WorkerService dp ci = UnimplementedWorkerServiceHandler
     \<lparr>ws_GetJobs := \<lambda>ctx n. GetJobs (ci_env ci) (dp_lease dp) n (WorkerIDFromContext ctx),
      ws_SubmitResult := \<lambda>ctx msg. SubmitResult (ci_env ci) msg (WorkerIDFromContext ctx),
      ws_RenewLease := \<lambda>ctx run. RenewLease (ci_env ci) (dp_lease dp) run (WorkerIDFromContext ctx)\<rparr>"

definition MonitorsService :: "'st deployment \<Rightarrow> circumstances \<Rightarrow> 'st monitors_service" where
  "MonitorsService dp ci = UnimplementedMonitorsServiceHandler
     \<lparr>ns_CreateMonitor := \<lambda>ctx msg. CreateMonitor (dp_codec dp) (ci_env ci) msg (user_id ctx),
      ns_GetMonitor := \<lambda>ctx i. GetMonitor (dp_codec dp) (ci_env ci) i (user_id ctx),
      ns_UpdateMonitor := \<lambda>ctx msg. UpdateMonitor (dp_codec dp) (ci_env ci) msg (user_id ctx),
      ns_DeleteMonitor := \<lambda>ctx i. DeleteMonitor (ci_env ci) i (user_id ctx),
      ns_ListMonitors := \<lambda>ctx _. ListMonitors (dp_codec dp) (ci_env ci) (user_id ctx),
      ns_GetMonitorResults := \<lambda>ctx (i, n). GetMonitorResults (ci_env ci) i n (user_id ctx),
      ns_GetMonitorMetrics := \<lambda>ctx (i, a, b). GetMonitorMetrics (ci_env ci) i a b (user_id ctx),
      ns_GetMonitorUptime := \<lambda>ctx (i, rng). GetMonitorUptime (ci_env ci) i rng (user_id ctx),
      ns_GetMonitorUptimeTimeline := \<lambda>ctx (i, rng). GetMonitorUptimeTimeline (ci_env ci) i rng (user_id ctx)\<rparr>"

definition DashboardService :: "circumstances \<Rightarrow> dashboard_service" where
  "DashboardService ci = UnimplementedDashboardServiceHandler
     \<lparr>bs_GetDashboardOverview := \<lambda>ctx _. GetDashboardOverview (ci_env ci) (user_id ctx),
      bs_GetRegionHealth := \<lambda>ctx _. GetRegionHealth (ci_env ci) (user_id ctx)\<rparr>"

definition UserService :: user_service where
  "UserService = UnimplementedUserServiceHandler
     \<lparr>us_GetUserProfile := \<lambda>ctx _ s. (GetUserProfile (GetUserFromContext ctx), s)\<rparr>"

section \<open>The mux\<close>

text \<open>The token middleware in front of a handler: 401, or the handler with the worker in its context.\<close>

definition token_auth :: "env \<Rightarrow> string \<Rightarrow> 'st http_handler \<Rightarrow> 'st http_handler" where
  "token_auth e hdr h ctx path body s =
     (case TokenAuthHandlerWithCache e hdr (\<lambda>w s1. map_prod Inr id (h (ctx\<lparr>ctx_worker_id := w\<rparr>) path body s1)) s of
        (Inl _, s') \<Rightarrow> (Unauthorized, s')
      | (Inr out, s') \<Rightarrow> (out, s'))"

definition mounted :: "'st deployment \<Rightarrow> circumstances \<Rightarrow> string \<Rightarrow> (string \<times> 'st http_handler) list" where
  "mounted dp ci hdr =
     [NewEnrollmentServiceHandler (EnrollmentService dp ci),
      map_prod id (token_auth (ci_env ci) hdr) (NewWorkerServiceHandler (WorkerService dp ci)),
      NewMonitorsServiceHandler (MonitorsService dp ci),
      NewDashboardServiceHandler (DashboardService ci),
      NewUserServiceHandler UserService]"

text \<open>
  A pattern that ends in a slash matches the paths below it. None of the five is a prefix of
  another, so at most one matches. A path \<open>ServeMux\<close> would redirect is none of a procedure.
\<close>

definition serve_mux ::
  "'st deployment \<Rightarrow> circumstances \<Rightarrow> 'st request \<Rightarrow> session_user option \<Rightarrow> server \<Rightarrow> 'st http \<times> server" where
  "serve_mux dp ci r user s =
     (case find (\<lambda>(pattern, _). has_prefix pattern (q_path r)) (mounted dp ci (q_authorization r)) of
        None \<Rightarrow> (Page_not_found, s)
      | Some (_, h) \<Rightarrow> h \<lparr>ctx_worker_id = None, ctx_user = user\<rparr> (q_path r) (q_body r) s)"

definition session_of :: "'st deployment \<Rightarrow> circumstances \<Rightarrow> 'st request \<Rightarrow> session_user option" where
  "session_of dp ci r =
     WithSession (ci_session ci) (sql_now (ci_env ci)) (dp_secret dp) (dp_sessions dp) (q_authorization r) (q_cookies r)"

definition serve_http :: "'st deployment \<Rightarrow> circumstances \<Rightarrow> 'st request \<Rightarrow> server \<Rightarrow> 'st http \<times> server" where
  "serve_http dp ci r s = serve_mux dp ci r (session_of dp ci r) s"

text \<open>The handlers with their services, and the mux as a case distinction.\<close>

lemmas service_defs = EnrollmentService_def WorkerService_def MonitorsService_def DashboardService_def UserService_def
  UnimplementedEnrollmentServiceHandler_def UnimplementedWorkerServiceHandler_def UnimplementedMonitorsServiceHandler_def
  UnimplementedDashboardServiceHandler_def UnimplementedUserServiceHandler_def

lemmas handler_defs = NewEnrollmentServiceHandler_def NewWorkerServiceHandler_def NewMonitorsServiceHandler_def
  NewDashboardServiceHandler_def NewUserServiceHandler_def

lemmas procedure_defs = EnrollmentServiceEnrollWorkerProcedure_def EnrollmentServiceRenewEnrollmentProcedure_def
  EnrollmentServiceRevokeEnrollmentProcedure_def EnrollmentServiceGetWorkerStatusProcedure_def
  EnrollmentServiceListWorkersProcedure_def WorkerServiceGetJobsProcedure_def WorkerServiceSubmitResultProcedure_def
  WorkerServiceRenewLeaseProcedure_def MonitorsServiceCreateMonitorProcedure_def MonitorsServiceGetMonitorProcedure_def
  MonitorsServiceUpdateMonitorProcedure_def MonitorsServiceDeleteMonitorProcedure_def MonitorsServiceListMonitorsProcedure_def
  MonitorsServiceGetMonitorResultsProcedure_def MonitorsServiceGetMonitorMetricsProcedure_def
  MonitorsServiceGetMonitorUptimeProcedure_def MonitorsServiceGetMonitorUptimeTimelineProcedure_def
  DashboardServiceGetDashboardOverviewProcedure_def DashboardServiceGetRegionHealthProcedure_def
  UserServiceGetUserProfileProcedure_def

lemma mounted_patterns:
  "map fst (mounted dp ci hdr) = [''/openseer.v1.EnrollmentService/'', ''/openseer.v1.WorkerService/'',
     ''/openseer.v1.MonitorsService/'', ''/openseer.v1.DashboardService/'', ''/openseer.v1.UserService/'']"
  by (simp add: mounted_def handler_defs)

definition enrollment_http where "enrollment_http dp ci = snd (NewEnrollmentServiceHandler (EnrollmentService dp ci))"
definition worker_http where "worker_http dp ci = snd (NewWorkerServiceHandler (WorkerService dp ci))"
definition monitors_http where "monitors_http dp ci = snd (NewMonitorsServiceHandler (MonitorsService dp ci))"
definition dashboard_http where "dashboard_http ci = snd (NewDashboardServiceHandler (DashboardService ci))"
definition user_http where "user_http = snd (NewUserServiceHandler UserService)"

lemmas http_defs = enrollment_http_def worker_http_def monitors_http_def dashboard_http_def user_http_def

lemma serve_mux_cases:
  "serve_mux dp ci r user s =
     (let path = q_path r; body = q_body r; ctx = \<lparr>ctx_worker_id = None, ctx_user = user\<rparr>
      in if has_prefix ''/openseer.v1.EnrollmentService/'' path then enrollment_http dp ci ctx path body s
         else if has_prefix ''/openseer.v1.WorkerService/'' path then
           token_auth (ci_env ci) (q_authorization r) (worker_http dp ci) ctx path body s
         else if has_prefix ''/openseer.v1.MonitorsService/'' path then monitors_http dp ci ctx path body s
         else if has_prefix ''/openseer.v1.DashboardService/'' path then dashboard_http ci ctx path body s
         else if has_prefix ''/openseer.v1.UserService/'' path then user_http ctx path body s
         else (Page_not_found, s))"
  by (simp add: serve_mux_def mounted_def handler_defs http_defs Let_def del: has_prefix.simps)

section \<open>Reading procedures\<close>

text \<open>The statements of the reading procedures, and that a served or lost read leaves the server alone.\<close>

lemma read_statements:
  "snd (GetWorkerByID w d) = d" "snd (ListWorkers_query region st n off d) = d" "snd (CountWorkers region st d) = d"
  "snd (GetMonitorByUser i u d) = d" "snd (ListMonitorsByUser u d) = d" "snd (GetRecentResults_query now m n d) = d"
  "snd (GetAggregatedMetrics m a b d) = d" "snd (GetUptimeData24h now m d) = d" "snd (GetUptimeData24hRaw now m d) = d"
  "snd (GetUptimeData7d now m d) = d" "snd (GetUptimeData30d now m d) = d" "snd (GetUptimeTimeline24h now m d) = d"
  "snd (GetUptimeTimeline7d now m d) = d" "snd (GetUptimeTimeline30d now m d) = d"
  "snd (GetLatestResultPerMonitor now d) = d" "snd (ListRegionHealth now d) = d"
  by (simp_all add: GetWorkerByID_def ListWorkers_query_def CountWorkers_def GetMonitorByUser_def ListMonitorsByUser_def
      GetRecentResults_query_def GetAggregatedMetrics_def GetUptimeData24h_def GetUptimeData24hRaw_def GetUptimeData7d_def
      GetUptimeData30d_def GetUptimeTimeline24h_def GetUptimeTimeline7d_def GetUptimeTimeline30d_def
      GetLatestResultPerMonitor_def ListRegionHealth_def Let_def)

lemmas reads = sql_read_eq [OF _ read_statements(1)] sql_read_eq [OF _ read_statements(2)] sql_read_eq [OF _ read_statements(3)]
  sql_read_eq [OF _ read_statements(4)] sql_read_eq [OF _ read_statements(5)] sql_read_eq [OF _ read_statements(6)]
  sql_read_eq [OF _ read_statements(7)] sql_read_eq [OF _ read_statements(8)] sql_read_eq [OF _ read_statements(9)]
  sql_read_eq [OF _ read_statements(10)] sql_read_eq [OF _ read_statements(11)] sql_read_eq [OF _ read_statements(12)]
  sql_read_eq [OF _ read_statements(13)] sql_read_eq [OF _ read_statements(14)] sql_read_eq [OF _ read_statements(15)]
  sql_read_eq [OF _ read_statements(16)]

lemma owned_monitor_reads: "owned_monitor e i u s = (r, s') \<Longrightarrow> s' = s"
  using owned_monitor_same [of e i u s] by simp

lemma uptime_reads:
  "fetchUptime24h e i s = (r, s') \<Longrightarrow> s' = s" "fetchUptime7d e i s = (r, s') \<Longrightarrow> s' = s"
  "fetchUptime30d e i s = (r, s') \<Longrightarrow> s' = s"
proof -
  have a: "fetchUptime24h e i s = (r, s') \<Longrightarrow> s' = s" for s r s'
    by (auto simp: fetchUptime24h_def split: prod.splits sum.splits if_splits dest!: reads)
  have b: "fetchUptime7d e i s = (r, s') \<Longrightarrow> s' = s" for s r s'
    by (auto simp: fetchUptime7d_def split: prod.splits sum.splits if_splits dest!: reads a)
  show "fetchUptime24h e i s = (r, s') \<Longrightarrow> s' = s" "fetchUptime7d e i s = (r, s') \<Longrightarrow> s' = s"
    "fetchUptime30d e i s = (r, s') \<Longrightarrow> s' = s"
    by (auto simp: fetchUptime30d_def split: prod.splits sum.splits if_splits dest!: reads a b)
qed

lemma timeline_reads: "fetch_timeline e rng i s = (r, s') \<Longrightarrow> s' = s"
  by (auto simp: fetch_timeline_def timeline24h_def timeline7d_def split: prod.splits sum.splits if_splits list.splits dest!: reads)

lemma reading_procedures:
  "snd (GetWorkerStatus e w s) = s" "snd (ListWorkers e n region st s) = s"
  "snd (GetMonitor k e i ctx s) = s" "snd (ListMonitors k e ctx s) = s" "snd (GetMonitorResults e i n ctx s) = s"
  "snd (GetMonitorMetrics e i a b ctx s) = s" "snd (GetMonitorUptime e i rng ctx s) = s"
  "snd (GetMonitorUptimeTimeline e i rng ctx s) = s"
  "snd (GetDashboardOverview e ctx s) = s" "snd (GetRegionHealth e ctx s) = s"
proof -
  show "snd (GetWorkerStatus e w s) = s"
    by (auto simp: GetWorkerStatus_def Let_def split: prod.splits sum.splits dest!: reads)
  show "snd (ListWorkers e n region st s) = s"
    by (auto simp: ListWorkers_def Let_def split: prod.splits sum.splits dest!: reads)
  show "snd (GetMonitor k e i ctx s) = s"
    by (auto simp: GetMonitor_def split: prod.splits sum.splits option.splits dest!: owned_monitor_reads)
  show "snd (ListMonitors k e ctx s) = s"
    by (auto simp: ListMonitors_def split: prod.splits sum.splits option.splits dest!: reads)
  show "snd (GetMonitorResults e i n ctx s) = s"
    by (auto simp: GetMonitorResults_def split: prod.splits sum.splits option.splits dest!: reads owned_monitor_reads)
  show "snd (GetMonitorMetrics e i a b ctx s) = s"
    by (auto simp: GetMonitorMetrics_def split: prod.splits sum.splits option.splits dest!: reads owned_monitor_reads)
  show "snd (GetMonitorUptime e i rng ctx s) = s"
    by (auto simp: GetMonitorUptime_def fetch_uptime_def split: prod.splits sum.splits option.splits if_splits
        dest!: owned_monitor_reads uptime_reads)
  show "snd (GetMonitorUptimeTimeline e i rng ctx s) = s"
    by (auto simp: GetMonitorUptimeTimeline_def split: prod.splits sum.splits option.splits
        dest!: owned_monitor_reads timeline_reads)
  show "snd (GetDashboardOverview e ctx s) = s"
    by (auto simp: GetDashboardOverview_def Let_def split: prod.splits sum.splits option.splits dest!: reads)
  show "snd (GetRegionHealth e ctx s) = s"
    by (auto simp: GetRegionHealth_def split: prod.splits sum.splits option.splits dest!: reads)
qed

lemma no_session:
  "CreateMonitor k e cmsg None s = (Inl Unauthenticated, s)" "GetMonitor k e i None s = (Inl Unauthenticated, s)"
  "UpdateMonitor k e umsg None s = (Inl Unauthenticated, s)" "DeleteMonitor e i None s = (Inl Unauthenticated, s)"
  "ListMonitors k e None s = (Inl Unauthenticated, s)" "GetMonitorResults e i n None s = (Inl Unauthenticated, s)"
  "GetMonitorMetrics e i a b None s = (Inl Unauthenticated, s)" "GetMonitorUptime e i rng None s = (Inl Unauthenticated, s)"
  "GetMonitorUptimeTimeline e i rng None s = (Inl Unauthenticated, s)"
  "GetDashboardOverview e None s = (Inl Unauthenticated, s)" "GetRegionHealth e None s = (Inl Unauthenticated, s)"
  "GetUserProfile None = Inl Unauthenticated"
  by (simp_all add: CreateMonitor_def GetMonitor_def UpdateMonitor_def DeleteMonitor_def ListMonitors_def GetMonitorResults_def
      GetMonitorMetrics_def GetMonitorUptime_def GetMonitorUptimeTimeline_def GetDashboardOverview_def GetRegionHealth_def
      GetUserProfile_def)

section \<open>What a request can do\<close>

lemma user_id_None [simp]: "user_id \<lparr>ctx_worker_id = w, ctx_user = None\<rparr> = None"
  by (simp add: user_id_def)

lemma enrollment_http_statements: "statements Anyone (s_db s) (s_db (snd (enrollment_http dp ci ctx path body s)))"
  by (simp add: http_defs handler_defs service_defs EnrollWorker_statements RenewEnrollment_statements
      RevokeEnrollment_statements reading_procedures split: option.split prod.split)

lemma monitors_http_statements: "statements Anyone (s_db s) (s_db (snd (monitors_http dp ci ctx path body s)))"
  by (simp add: http_defs handler_defs service_defs CreateMonitor_statements UpdateMonitor_statements
      DeleteMonitor_statements reading_procedures split: option.split prod.split)

lemma dashboard_http_same: "snd (dashboard_http ci ctx path body s) = s"
  by (simp add: http_defs handler_defs service_defs reading_procedures split: option.split)

lemma user_http_same: "snd (user_http ctx path body s) = s"
  by (simp add: http_defs handler_defs service_defs split: option.split)

lemma worker_http_statements:
  "statements (Worker_Actor w) (s_db s) (s_db (snd (worker_http dp ci (ctx\<lparr>ctx_worker_id := Some w\<rparr>) path body s)))"
  by (simp add: http_defs handler_defs service_defs GetJobs_statements SubmitResult_statements RenewLease_statements
      split: option.split)

definition enrollment_procedures :: "string list" where
  "enrollment_procedures = map ((@) ''/openseer.v1.EnrollmentService/'')
     [''EnrollWorker'', ''RenewEnrollment'', ''RevokeEnrollment'', ''GetWorkerStatus'', ''ListWorkers'']"

text \<open>The worker service behind its token check: nothing without a token, then the worker's statements.\<close>

lemma guarded_service:
  fixes h :: "string option \<Rightarrow> server \<Rightarrow> 'st http \<times> server"
  assumes "TokenAuthHandlerWithCache e hdr (\<lambda>ctx s1. map_prod Inr id (h ctx s1)) s = (q, s')"
    and "\<And>w s. statements (Worker_Actor w) (s_db s) (s_db (snd (h (Some w) s)))"
  shows "(\<exists>code. q = Inl code \<and> s_db s' = s_db s) \<or> (\<exists>w out. q = Inr out \<and> fst (authenticateWorkerToken e hdr s) = Inr w
     \<and> statements (Worker_Actor w) (s_db s) (s_db s'))"
proof (cases "authenticateWorkerToken e hdr s")
  case (Pair r s1)
  then have db: "s_db s1 = s_db s" using authenticate_db [of e hdr s] by simp
  show ?thesis
  proof (cases r)
    case (Inl err)
    with Pair db assms(1) show ?thesis by (auto simp: TokenAuthHandlerWithCache_def)
  next
    case (Inr w)
    with Pair assms(1) have "q = Inr (fst (h (Some w) s1))" "s' = snd (h (Some w) s1)"
      by (auto simp: TokenAuthHandlerWithCache_def map_prod_def split: prod.splits)
    with Pair Inr db assms(2) [of w s1] show ?thesis by simp
  qed
qed

lemma not_an_enrollment_procedure:
  "path \<notin> set enrollment_procedures \<Longrightarrow> enrollment_http dp ci ctx path body s = (Page_not_found, s)"
  by (simp add: http_defs handler_defs procedure_defs enrollment_procedures_def)

text \<open>The user's services answer nothing without a session.\<close>

definition unanswered :: "server \<Rightarrow> 'st http \<times> server \<Rightarrow> bool" where
  "unanswered s p \<longleftrightarrow> snd p = s \<and> (\<forall>a. fst p \<noteq> Reply a)"

lemma unanswered_if: "unanswered s p \<Longrightarrow> unanswered s q \<Longrightarrow> unanswered s (if b then p else q)"
  by simp

lemma unanswered_unary:
  "(\<And>m. f ctx m s = (Inl Unauthenticated, s)) \<Longrightarrow> unanswered s (unary_handler decode f encode ctx body s)"
  by (simp add: unanswered_def split: option.split)

lemma without_session:
  fixes w path s body
  defines "ctx \<equiv> \<lparr>ctx_worker_id = w, ctx_user = None\<rparr>"
  shows "unanswered s (monitors_http dp ci ctx path body s)" "unanswered s (dashboard_http ci ctx path body s)"
    "unanswered s (user_http ctx path body s)"
  unfolding http_defs handler_defs service_defs snd_conv ctx_def
  by (intro unanswered_if unanswered_unary; simp add: no_session unanswered_def split: prod.split)+

text \<open>The four ways a request can go.\<close>

lemma serve_cases:
  assumes "serve_http dp ci r s = (out, s')"
  obtains (enrollment) "q_path r \<in> set enrollment_procedures" and "statements Anyone (s_db s) (s_db s')"
  | (worker) w where "fst (authenticateWorkerToken (ci_env ci) (q_authorization r) s) = Inr w"
      and "has_prefix ''/openseer.v1.WorkerService/'' (q_path r)" and "statements (Worker_Actor w) (s_db s) (s_db s')"
  | (user) u where "session_of dp ci r = Some u" and "statements Anyone (s_db s) (s_db s')"
  | (no_answer) "\<forall>a. out \<noteq> Reply a" and "s_db s' = s_db s"
proof -
  let ?p = "q_path r" and ?b = "q_body r" and ?u = "session_of dp ci r"
  let ?ctx = "\<lparr>ctx_worker_id = None, ctx_user = ?u\<rparr>"
  note unfold = serve_http_def serve_mux_cases Let_def
  have no_effect: "(\<forall>a. out \<noteq> Reply a) \<and> s_db s' = s_db s \<Longrightarrow> thesis" using no_answer by blast
  consider (e) "has_prefix ''/openseer.v1.EnrollmentService/'' ?p"
    | (w) "\<not> has_prefix ''/openseer.v1.EnrollmentService/'' ?p" "has_prefix ''/openseer.v1.WorkerService/'' ?p"
    | (o) "\<not> has_prefix ''/openseer.v1.EnrollmentService/'' ?p" "\<not> has_prefix ''/openseer.v1.WorkerService/'' ?p" by blast
  then show thesis
  proof cases
    case e
    then have s: "enrollment_http dp ci ?ctx ?p ?b s = (out, s')" using assms by (simp add: unfold)
    show thesis
    proof (cases "?p \<in> set enrollment_procedures")
      case True
      from enrollment [OF this] enrollment_http_statements [of s dp ci ?ctx ?p ?b] s show thesis by simp
    next
      case False
      have "out = Page_not_found" "s' = s" using s not_an_enrollment_procedure [OF False, of dp ci ?ctx ?b s] by simp_all
      then show thesis by (intro no_effect) simp
    qed
  next
    case w
    let ?h = "\<lambda>i. worker_http dp ci (?ctx\<lparr>ctx_worker_id := i\<rparr>) ?p ?b"
    obtain q s1 where t: "TokenAuthHandlerWithCache (ci_env ci) (q_authorization r) (\<lambda>ctx s1. map_prod Inr id (?h ctx s1)) s = (q, s1)"
      by (cases "TokenAuthHandlerWithCache (ci_env ci) (q_authorization r) (\<lambda>ctx s1. map_prod Inr id (?h ctx s1)) s")
    with w assms have out: "(out, s') = (case q of Inl _ \<Rightarrow> (Unauthorized, s1) | Inr out \<Rightarrow> (out, s1))"
      by (simp add: unfold token_auth_def)
    from guarded_service [OF t worker_http_statements] show thesis
    proof (elim disjE exE conjE)
      fix code assume "q = Inl code" "s_db s1 = s_db s"
      with out show thesis by (intro no_effect) simp
    next
      fix i o' assume "q = Inr o'" "fst (authenticateWorkerToken (ci_env ci) (q_authorization r) s) = Inr i"
        "statements (Worker_Actor i) (s_db s) (s_db s1)"
      with out worker [OF _ w(2)] show thesis by simp
    qed
  next
    case o
    show thesis
    proof (cases ?u)
      case None
      have "s' = s \<and> (\<forall>a. out \<noteq> Reply a)"
        using o assms without_session(1) [of s dp ci None ?p ?b] without_session(2) [of s ci None ?p ?b]
          without_session(3) [of s None ?p ?b] None
        by (auto simp: unfold unanswered_def split: if_splits)
      then show thesis by (intro no_effect) simp
    next
      case (Some u)
      have "statements Anyone (s_db s) (s_db s')"
        using o assms monitors_http_statements [of s dp ci ?ctx ?p ?b] dashboard_http_same [of ci ?ctx ?p ?b]
          user_http_same [of ?ctx ?p ?b]
        by (auto simp: unfold split: if_splits) (metis rtranclp.rtrancl_refl snd_conv)+
      with user [OF Some] show thesis by simp
    qed
  qed
qed

text \<open>
  C12. Credentials are required: a request that gets an answer or changes the database has a valid
  worker token and goes to the worker service, or has a live session, or asks for one of the
  five enrollment procedures, which need neither.
\<close>

theorem credentials_required:
  assumes "serve_http dp ci r s = (out, s')" and "(\<exists>a. out = Reply a) \<or> s_db s' \<noteq> s_db s"
  shows "q_path r \<in> set enrollment_procedures
     \<or> (has_prefix ''/openseer.v1.WorkerService/'' (q_path r)
        \<and> (\<exists>w. fst (authenticateWorkerToken (ci_env ci) (q_authorization r) s) = Inr w))
     \<or> (\<exists>u. session_of dp ci r = Some u)"
  using serve_cases [OF assms(1)] assms(2) by metis

text \<open>
  C11. No request breaks the store or steals a job: whatever is sent to the server, its invariant
  holds afterwards, and a run is where it was or was moved by the worker whose token the
  request carries, along the life of a job.
\<close>

theorem request_effects:
  assumes "db_ok (s_db s)" and "serve_http dp ci r s = (out, s')"
  shows "db_ok (s_db s') \<and> (phase_of run (s_db s') = phase_of run (s_db s)
     \<or> (\<exists>w. fst (authenticateWorkerToken (ci_env ci) (q_authorization r) s) = Inr w
          \<and> lives (Worker_Actor w) (phase_of run (s_db s)) (phase_of run (s_db s'))))"
  using assms(2)
proof (cases rule: serve_cases)
  case enrollment
  with statements_ok assms(1) statements_life [OF _ assms(1)] other_lives(1) show ?thesis by metis
next
  case (worker w)
  with statements_ok assms(1) statements_life [OF _ assms(1)] show ?thesis by metis
next
  case (user u)
  with statements_ok assms(1) statements_life [OF _ assms(1)] other_lives(1) show ?thesis by metis
qed (use assms(1) in simp)

text \<open>
  C28. A worker's id is enough to become the worker: \<open>RenewEnrollment\<close> asks for no credentials, so
  a request without any gets a fresh token of any worker that is not revoked, and that token
  authenticates its holder as the worker.
\<close>

theorem renew_without_credentials:
  assumes ok: "cache_ok s" "workers_inv (s_db s)"
    and x: "x \<in> set (d_workers (s_db s))" "w_id x = w" "w \<noteq> []" "w_status x \<noteq> Revoked"
    and served: "net (ci_env ci) Q_GetWorkerByID w = Served" "net (ci_env ci) Q_SetWorkerToken w = Served"
    and bytes: "ci_random_token ci = Some bytes" "length bytes = 32"
    and r: "q_path r = ''/openseer.v1.EnrollmentService/RenewEnrollment''" "q_body r = Call_RenewEnrollment w"
    and fresh: "\<forall>y \<in> set (d_workers (s_db s)). w_token_hash y \<noteq> Some (HashToken (tokenPrefix @ hex_encode bytes))"
    and query: "net e' Q_GetWorkerByTokenHash (HashToken (tokenPrefix @ hex_encode bytes)) = Served"
  shows "\<exists>resp. fst (serve_http dp ci r s) = Reply (Re_RenewEnrollment resp) \<and> rr_renewed resp
     \<and> fst (authenticateWorkerToken e' (''Bearer '' @ rr_api_token resp) (snd (serve_http dp ci r s))) = Inr w"
proof -
  let ?tok = "tokenPrefix @ hex_encode bytes" and ?e = "ci_env ci"
  let ?resp = "\<lparr>rr_renewed = True, rr_api_token = ?tok, rr_reason = []\<rparr>"
  let ?s2 = "s\<lparr>s_db := snd (SetWorkerToken (Some (HashToken ?tok)) w (s_db s))\<rparr>"
  let ?s' = "cache_store (go_now ?e) (HashToken ?tok) w (cache_drop w ?s2)"
  have g: "GenerateAPIToken (Some bytes) = Some (?tok, HashToken ?tok)" by (rule generated_token(1) [OF bytes(2)])
  have "GetWorkerByID w (s_db s) = (Inr x, s_db s)" using x GetWorkerByID_iff [OF ok(2)] by simp
  then have ren: "RenewEnrollment ?e (Some bytes) w s = (Inr ?resp, ?s')"
    using x(3,4) served by (simp add: RenewEnrollment_def g SetWorkerToken_def)
  then have sv: "serve_http dp ci r s = (Reply (Re_RenewEnrollment ?resp), ?s')"
    using r bytes by (simp add: serve_http_def serve_mux_cases Let_def http_defs handler_defs procedure_defs service_defs
        unary_handler_def reply_with_def)
  have "cache_ok ?s'"
    by (rule token_set_cache_ok [OF ok(1), of "s_db s"]) (use x in auto)
  moreover have "token_of (s_db ?s') (HashToken ?tok) w" using token_set [of "s_db s"] x by auto
  moreover have "\<forall>y \<in> set (d_workers (s_db ?s')). w_token_hash y = Some (HashToken ?tok) \<longrightarrow> w_id y = w"
    using fresh by (auto simp: SetWorkerToken_def in_update_where)
  ultimately obtain s3 where "authenticateWorkerToken e' (''Bearer '' @ ?tok) ?s' = (Inr w, s3)"
    using authenticate_sole [OF _ _ _ parse_issued_token(1) [OF bytes(2) g] query, of ?s' w] by metis
  with sv show ?thesis by simp
qed

section \<open>Requests\<close>

definition day_deployment :: "string deployment" where
  "day_deployment = \<lparr>dp_enrollment = sample_enroll_config, dp_lease = 45 * second, dp_secret = ''s'',
     dp_codec = sample_codec, dp_sessions = []\<rparr>"

definition day_circumstances :: circumstances where
  "day_circumstances = \<lparr>ci_env = calm 7000000000, ci_session = Served, ci_random_id = Some ''i'', ci_random_token = Some sample_bytes\<rparr>"

definition day_request :: "string request" where
  "day_request = \<lparr>q_path = ''/openseer.v1.WorkerService/SubmitResult'', q_authorization = day_hdr, q_cookies = [],
     q_body = Call_SubmitResult (Some day_result)\<rparr>"

lemma day_served_http:
  "serve_http day_deployment day_circumstances day_request day_leased
     = (Reply (Re_SubmitResult \<lparr>sr_committed = True, sr_run_id = day_run\<rparr>), day_done)"
proof -
  let ?h = "\<lambda>w s1. map_prod Inr id (worker_http day_deployment day_circumstances
      \<lparr>ctx_worker_id = w, ctx_user = session_of day_deployment day_circumstances day_request\<rparr>
      (q_path day_request) (q_body day_request) s1)"
  have "TokenAuthHandlerWithCache (calm 7000000000) day_hdr ?h day_leased
      = (Inr (Reply (Re_SubmitResult \<lparr>sr_committed = True, sr_run_id = day_run\<rparr>)), day_done)"
  proof (cases "authenticateWorkerToken (calm 7000000000) day_hdr day_leased")
    case (Pair r s1)
    with day_submit show ?thesis
      by (cases r) (simp_all add: TokenAuthHandlerWithCache_def http_defs handler_defs procedure_defs service_defs
          unary_handler_def day_request_def day_circumstances_def reply_with_def)
  qed
  then show ?thesis
    by (simp add: serve_http_def serve_mux_cases Let_def token_auth_def day_request_def day_circumstances_def)
qed

theorem credentials_required_witness:
  "(\<exists>w. fst (authenticateWorkerToken (calm 7000000000) day_hdr day_leased) = Inr w)
     \<or> (\<exists>u. session_of day_deployment day_circumstances day_request = Some u)"
  using credentials_required [OF day_served_http]
  by (simp add: day_request_def day_circumstances_def enrollment_procedures_def)

theorem request_effects_witness:
  "db_ok (s_db day_done) \<and> phase_of day_run (s_db day_done) \<noteq> phase_of day_run (s_db day_leased)
     \<and> (\<exists>w. fst (authenticateWorkerToken (calm 7000000000) day_hdr day_leased) = Inr w)"
proof -
  have "db_ok (s_db day_leased)" using reachable_db_ok [OF day_reachable] by simp
  note eff = request_effects [OF this day_served_http, of day_run]
  have "phase_of day_run (s_db day_done) \<noteq> phase_of day_run (s_db day_leased)"
    by (simp add: phase_of_def day_done_def day_leased_def day_server_def day_job_def job_phase_def empty_db_def Let_def)
  with eff show ?thesis by (auto simp: day_request_def day_circumstances_def)
qed

theorem renew_without_credentials_witness:
  "\<exists>resp. fst (serve_http day_deployment day_circumstances
       \<lparr>q_path = ''/openseer.v1.EnrollmentService/RenewEnrollment'', q_authorization = [], q_cookies = [],
        q_body = Call_RenewEnrollment ''w1''\<rparr> sample_server) = Reply (Re_RenewEnrollment resp) \<and> rr_renewed resp"
proof -
  let ?r = "\<lparr>q_path = ''/openseer.v1.EnrollmentService/RenewEnrollment'', q_authorization = [], q_cookies = [],
        q_body = Call_RenewEnrollment ''w1''\<rparr> :: string request"
  have x: "sample_worker ''w1'' ''us'' Active (Some ''h1'') \<in> set (d_workers (s_db sample_server))"
    by (simp add: sample_defs)
  have i: "workers_inv (s_db sample_server)" using sample_inv by (simp add: store_inv_def)
  have "\<forall>y \<in> set (d_workers (s_db sample_server)). w_token_hash y \<noteq> Some (HashToken (tokenPrefix @ hex_encode sample_bytes))"
    using sample_hash_fresh [of "tokenPrefix @ hex_encode sample_bytes"] by (auto simp: sample_defs empty_db_def)
  from renew_without_credentials [OF sample_cache_ok i x, where ci = day_circumstances and r = ?r and e' = "calm 9" and bytes = sample_bytes
      and dp = day_deployment, OF _ _ _ _ _ _ sample_bytes_length _ _ this]
  show ?thesis by (auto simp: day_circumstances_def sample_worker_def)
qed

end
