(* ===== verification/Connect_Clients.thy ===== *)
theory Connect_Clients
  imports Connect Worker_Agent
begin

text \<open>
  The generated client side of the RPCs (\<open>gen/openseer/v1/openseerv1connect\<close>). A client holds the
  URL of each of its procedures. How \<open>connect.Client\<close> sends a message there and reads the answer is
  not in the repository: \<open>transport\<close>, from the URL, the Authorization header (empty if there is
  none) and the message, is a parameter. At the end the clients a worker makes.
\<close>

section \<open>Calls\<close>

type_synonym ('st, 'w) transport = "string \<Rightarrow> string \<Rightarrow> 'st call \<Rightarrow> ('st reply, 'w) rpc"

text \<open>\<open>CallUnary\<close>: an answer of another type than the procedure's is one the client cannot read.\<close>

definition CallUnary :: "('st, 'w) transport \<Rightarrow> string \<Rightarrow> string \<Rightarrow> 'st call \<Rightarrow> ('st reply \<Rightarrow> 'r option) \<Rightarrow> ('r, 'w) rpc" where
  "CallUnary cu url hdr body decode w =
     (case cu url hdr body w of
        (Inl err, w') \<Rightarrow> (Inl err, w')
      | (Inr a, w') \<Rightarrow> (case decode a of None \<Rightarrow> (Inl Transport, w') | Some r \<Rightarrow> (Inr r, w')))"

section \<open>EnrollmentService\<close>

record enrollment_service_client =
  ecl_enrollWorker :: string
  ecl_renewEnrollment :: string
  ecl_revokeEnrollment :: string
  ecl_getWorkerStatus :: string
  ecl_listWorkers :: string

definition NewEnrollmentServiceClient :: "string \<Rightarrow> enrollment_service_client" where
  "NewEnrollmentServiceClient baseURL =
     (let base = trim_right (CHR ''/'') baseURL
      in \<lparr>ecl_enrollWorker = base @ EnrollmentServiceEnrollWorkerProcedure,
          ecl_renewEnrollment = base @ EnrollmentServiceRenewEnrollmentProcedure,
          ecl_revokeEnrollment = base @ EnrollmentServiceRevokeEnrollmentProcedure,
          ecl_getWorkerStatus = base @ EnrollmentServiceGetWorkerStatusProcedure,
          ecl_listWorkers = base @ EnrollmentServiceListWorkersProcedure\<rparr>)"

definition enrollment_EnrollWorker ::
  "('st, 'w) transport \<Rightarrow> enrollment_service_client \<Rightarrow> string \<Rightarrow> enroll_request \<Rightarrow> (enroll_response, 'w) rpc" where
  "enrollment_EnrollWorker cu c hdr m =
     CallUnary cu (ecl_enrollWorker c) hdr (Call_EnrollWorker m) (\<lambda>a. case a of Re_EnrollWorker r \<Rightarrow> Some r | _ \<Rightarrow> None)"

definition enrollment_RenewEnrollment ::
  "('st, 'w) transport \<Rightarrow> enrollment_service_client \<Rightarrow> string \<Rightarrow> string \<Rightarrow> (renew_response, 'w) rpc" where
  "enrollment_RenewEnrollment cu c hdr w =
     CallUnary cu (ecl_renewEnrollment c) hdr (Call_RenewEnrollment w) (\<lambda>a. case a of Re_RenewEnrollment r \<Rightarrow> Some r | _ \<Rightarrow> None)"

definition enrollment_RevokeEnrollment ::
  "('st, 'w) transport \<Rightarrow> enrollment_service_client \<Rightarrow> string \<Rightarrow> string \<Rightarrow> string \<Rightarrow> (bool, 'w) rpc" where
  "enrollment_RevokeEnrollment cu c hdr w reason =
     CallUnary cu (ecl_revokeEnrollment c) hdr (Call_RevokeEnrollment w reason) (\<lambda>a. case a of Re_RevokeEnrollment r \<Rightarrow> Some r | _ \<Rightarrow> None)"

definition enrollment_GetWorkerStatus ::
  "('st, 'w) transport \<Rightarrow> enrollment_service_client \<Rightarrow> string \<Rightarrow> string \<Rightarrow> (worker_info, 'w) rpc" where
  "enrollment_GetWorkerStatus cu c hdr w =
     CallUnary cu (ecl_getWorkerStatus c) hdr (Call_GetWorkerStatus w) (\<lambda>a. case a of Re_GetWorkerStatus r \<Rightarrow> Some r | _ \<Rightarrow> None)"

definition enrollment_ListWorkers ::
  "('st, 'w) transport \<Rightarrow> enrollment_service_client \<Rightarrow> string \<Rightarrow> int \<Rightarrow> string \<Rightarrow> string \<Rightarrow> (worker_info list \<times> int, 'w) rpc" where
  "enrollment_ListWorkers cu c hdr n region status =
     CallUnary cu (ecl_listWorkers c) hdr (Call_ListWorkers n region status) (\<lambda>a. case a of Re_ListWorkers r \<Rightarrow> Some r | _ \<Rightarrow> None)"

section \<open>WorkerService\<close>

record worker_service_client =
  wcl_getJobs :: string
  wcl_submitResult :: string
  wcl_renewLease :: string

definition NewWorkerServiceClient :: "string \<Rightarrow> worker_service_client" where
  "NewWorkerServiceClient baseURL =
     (let base = trim_right (CHR ''/'') baseURL
      in \<lparr>wcl_getJobs = base @ WorkerServiceGetJobsProcedure,
          wcl_submitResult = base @ WorkerServiceSubmitResultProcedure,
          wcl_renewLease = base @ WorkerServiceRenewLeaseProcedure\<rparr>)"

definition worker_GetJobs ::
  "('st, 'w) transport \<Rightarrow> worker_service_client \<Rightarrow> string \<Rightarrow> int \<Rightarrow> (monitor_job list, 'w) rpc" where
  "worker_GetJobs cu c hdr n =
     CallUnary cu (wcl_getJobs c) hdr (Call_GetJobs n) (\<lambda>a. case a of Re_GetJobs r \<Rightarrow> Some r | _ \<Rightarrow> None)"

definition worker_SubmitResult ::
  "('st, 'w) transport \<Rightarrow> worker_service_client \<Rightarrow> string \<Rightarrow> monitor_result option \<Rightarrow> (submit_response, 'w) rpc" where
  "worker_SubmitResult cu c hdr m =
     CallUnary cu (wcl_submitResult c) hdr (Call_SubmitResult m) (\<lambda>a. case a of Re_SubmitResult r \<Rightarrow> Some r | _ \<Rightarrow> None)"

definition worker_RenewLease ::
  "('st, 'w) transport \<Rightarrow> worker_service_client \<Rightarrow> string \<Rightarrow> string \<Rightarrow> (bool, 'w) rpc" where
  "worker_RenewLease cu c hdr run =
     CallUnary cu (wcl_renewLease c) hdr (Call_RenewLease run) (\<lambda>a. case a of Re_RenewLease r \<Rightarrow> Some r | _ \<Rightarrow> None)"

section \<open>MonitorsService\<close>

record monitors_service_client =
  ncl_createMonitor :: string
  ncl_getMonitor :: string
  ncl_updateMonitor :: string
  ncl_deleteMonitor :: string
  ncl_listMonitors :: string
  ncl_getMonitorResults :: string
  ncl_getMonitorMetrics :: string
  ncl_getMonitorUptime :: string
  ncl_getMonitorUptimeTimeline :: string

definition NewMonitorsServiceClient :: "string \<Rightarrow> monitors_service_client" where
  "NewMonitorsServiceClient baseURL =
     (let base = trim_right (CHR ''/'') baseURL
      in \<lparr>ncl_createMonitor = base @ MonitorsServiceCreateMonitorProcedure,
          ncl_getMonitor = base @ MonitorsServiceGetMonitorProcedure,
          ncl_updateMonitor = base @ MonitorsServiceUpdateMonitorProcedure,
          ncl_deleteMonitor = base @ MonitorsServiceDeleteMonitorProcedure,
          ncl_listMonitors = base @ MonitorsServiceListMonitorsProcedure,
          ncl_getMonitorResults = base @ MonitorsServiceGetMonitorResultsProcedure,
          ncl_getMonitorMetrics = base @ MonitorsServiceGetMonitorMetricsProcedure,
          ncl_getMonitorUptime = base @ MonitorsServiceGetMonitorUptimeProcedure,
          ncl_getMonitorUptimeTimeline = base @ MonitorsServiceGetMonitorUptimeTimelineProcedure\<rparr>)"

definition monitors_CreateMonitor ::
  "('st, 'w) transport \<Rightarrow> monitors_service_client \<Rightarrow> string \<Rightarrow> 'st create_request \<Rightarrow> ('st monitor_message \<times> string list, 'w) rpc" where
  "monitors_CreateMonitor cu c hdr m =
     CallUnary cu (ncl_createMonitor c) hdr (Call_CreateMonitor m) (\<lambda>a. case a of Re_CreateMonitor r \<Rightarrow> Some r | _ \<Rightarrow> None)"

definition monitors_GetMonitor ::
  "('st, 'w) transport \<Rightarrow> monitors_service_client \<Rightarrow> string \<Rightarrow> string \<Rightarrow> ('st monitor_message, 'w) rpc" where
  "monitors_GetMonitor cu c hdr i =
     CallUnary cu (ncl_getMonitor c) hdr (Call_GetMonitor i) (\<lambda>a. case a of Re_GetMonitor r \<Rightarrow> Some r | _ \<Rightarrow> None)"

definition monitors_UpdateMonitor ::
  "('st, 'w) transport \<Rightarrow> monitors_service_client \<Rightarrow> string \<Rightarrow> 'st update_request \<Rightarrow> ('st monitor_message \<times> string list, 'w) rpc" where
  "monitors_UpdateMonitor cu c hdr m =
     CallUnary cu (ncl_updateMonitor c) hdr (Call_UpdateMonitor m) (\<lambda>a. case a of Re_UpdateMonitor r \<Rightarrow> Some r | _ \<Rightarrow> None)"

definition monitors_DeleteMonitor ::
  "('st, 'w) transport \<Rightarrow> monitors_service_client \<Rightarrow> string \<Rightarrow> string \<Rightarrow> (unit, 'w) rpc" where
  "monitors_DeleteMonitor cu c hdr i =
     CallUnary cu (ncl_deleteMonitor c) hdr (Call_DeleteMonitor i) (\<lambda>a. case a of Re_DeleteMonitor r \<Rightarrow> Some r | _ \<Rightarrow> None)"

definition monitors_ListMonitors ::
  "('st, 'w) transport \<Rightarrow> monitors_service_client \<Rightarrow> string \<Rightarrow> ('st monitor_message list, 'w) rpc" where
  "monitors_ListMonitors cu c hdr =
     CallUnary cu (ncl_listMonitors c) hdr Call_ListMonitors (\<lambda>a. case a of Re_ListMonitors r \<Rightarrow> Some r | _ \<Rightarrow> None)"

definition monitors_GetMonitorResults ::
  "('st, 'w) transport \<Rightarrow> monitors_service_client \<Rightarrow> string \<Rightarrow> string \<Rightarrow> int \<Rightarrow> (monitor_result list, 'w) rpc" where
  "monitors_GetMonitorResults cu c hdr i n =
     CallUnary cu (ncl_getMonitorResults c) hdr (Call_GetMonitorResults i n) (\<lambda>a. case a of Re_GetMonitorResults r \<Rightarrow> Some r | _ \<Rightarrow> None)"

definition monitors_GetMonitorMetrics ::
  "('st, 'w) transport \<Rightarrow> monitors_service_client \<Rightarrow> string \<Rightarrow> string \<Rightarrow> time option \<Rightarrow> time option \<Rightarrow> (metrics_message list, 'w) rpc" where
  "monitors_GetMonitorMetrics cu c hdr i a b =
     CallUnary cu (ncl_getMonitorMetrics c) hdr (Call_GetMonitorMetrics i a b) (\<lambda>a. case a of Re_GetMonitorMetrics r \<Rightarrow> Some r | _ \<Rightarrow> None)"

definition monitors_GetMonitorUptime ::
  "('st, 'w) transport \<Rightarrow> monitors_service_client \<Rightarrow> string \<Rightarrow> string \<Rightarrow> string \<Rightarrow> (uptime_row, 'w) rpc" where
  "monitors_GetMonitorUptime cu c hdr i rng =
     CallUnary cu (ncl_getMonitorUptime c) hdr (Call_GetMonitorUptime i rng) (\<lambda>a. case a of Re_GetMonitorUptime r \<Rightarrow> Some r | _ \<Rightarrow> None)"

definition monitors_GetMonitorUptimeTimeline ::
  "('st, 'w) transport \<Rightarrow> monitors_service_client \<Rightarrow> string \<Rightarrow> string \<Rightarrow> string \<Rightarrow> (timeline_row list, 'w) rpc" where
  "monitors_GetMonitorUptimeTimeline cu c hdr i rng =
     CallUnary cu (ncl_getMonitorUptimeTimeline c) hdr (Call_GetMonitorUptimeTimeline i rng) (\<lambda>a. case a of Re_GetMonitorUptimeTimeline r \<Rightarrow> Some r | _ \<Rightarrow> None)"

section \<open>DashboardService\<close>

record dashboard_service_client =
  bcl_getDashboardOverview :: string
  bcl_getRegionHealth :: string

definition NewDashboardServiceClient :: "string \<Rightarrow> dashboard_service_client" where
  "NewDashboardServiceClient baseURL =
     (let base = trim_right (CHR ''/'') baseURL
      in \<lparr>bcl_getDashboardOverview = base @ DashboardServiceGetDashboardOverviewProcedure,
          bcl_getRegionHealth = base @ DashboardServiceGetRegionHealthProcedure\<rparr>)"

definition dashboard_GetDashboardOverview ::
  "('st, 'w) transport \<Rightarrow> dashboard_service_client \<Rightarrow> string \<Rightarrow> (dashboard_overview, 'w) rpc" where
  "dashboard_GetDashboardOverview cu c hdr =
     CallUnary cu (bcl_getDashboardOverview c) hdr Call_GetDashboardOverview (\<lambda>a. case a of Re_GetDashboardOverview r \<Rightarrow> Some r | _ \<Rightarrow> None)"

definition dashboard_GetRegionHealth ::
  "('st, 'w) transport \<Rightarrow> dashboard_service_client \<Rightarrow> string \<Rightarrow> ((string \<times> int) list, 'w) rpc" where
  "dashboard_GetRegionHealth cu c hdr =
     CallUnary cu (bcl_getRegionHealth c) hdr Call_GetRegionHealth (\<lambda>a. case a of Re_GetRegionHealth r \<Rightarrow> Some r | _ \<Rightarrow> None)"

section \<open>UserService\<close>

record user_service_client =
  ucl_getUserProfile :: string

definition NewUserServiceClient :: "string \<Rightarrow> user_service_client" where
  "NewUserServiceClient baseURL =
     (let base = trim_right (CHR ''/'') baseURL
      in \<lparr>ucl_getUserProfile = base @ UserServiceGetUserProfileProcedure\<rparr>)"

definition user_GetUserProfile ::
  "('st, 'w) transport \<Rightarrow> user_service_client \<Rightarrow> string \<Rightarrow> (user_message, 'w) rpc" where
  "user_GetUserProfile cu c hdr =
     CallUnary cu (ucl_getUserProfile c) hdr Call_GetUserProfile (\<lambda>a. case a of Re_GetUserProfile r \<Rightarrow> Some r | _ \<Rightarrow> None)"

section \<open>HealthService\<close>

record health_service_client =
  hcl_check :: string

definition NewHealthServiceClient :: "string \<Rightarrow> health_service_client" where
  "NewHealthServiceClient baseURL =
     (let base = trim_right (CHR ''/'') baseURL
      in \<lparr>hcl_check = base @ HealthServiceCheckProcedure\<rparr>)"

definition health_Check ::
  "('st, 'w) transport \<Rightarrow> health_service_client \<Rightarrow> string \<Rightarrow> (health_status, 'w) rpc" where
  "health_Check cu c hdr =
     CallUnary cu (hcl_check c) hdr Call_HealthCheck (\<lambda>a. case a of Re_HealthCheck r \<Rightarrow> Some r | _ \<Rightarrow> None)"

section \<open>The clients of a worker\<close>

text \<open>
  \<open>enroll\<close> makes the enrollment client on the enrollment URL and, once enrolled, the worker client
  on the API endpoint it was told. An enrollment call has no Authorization header.
\<close>

definition worker_clients ::
  "('st, 'w) transport \<Rightarrow> (duration \<Rightarrow> 'w \<Rightarrow> bool \<times> 'w) \<Rightarrow> string \<Rightarrow> string \<Rightarrow> 'w clients" where
  "worker_clients cu wait enrollmentURL apiEndpoint =
     (let enrollmentClient = NewEnrollmentServiceClient enrollmentURL; workerClient = NewWorkerServiceClient apiEndpoint
      in \<lparr>rc_enroll = enrollment_EnrollWorker cu enrollmentClient [],
          rc_renewEnrollment = enrollment_RenewEnrollment cu enrollmentClient [],
          rc_getJobs = worker_GetJobs cu workerClient,
          rc_submitResult = (\<lambda>hdr x. worker_SubmitResult cu workerClient hdr (Some x)),
          rc_renewLease = worker_RenewLease cu workerClient,
          rc_wait = wait\<rparr>)"

end
