(* ===== verification/Worker_Link.thy ===== *)
theory Worker_Link
  imports Routing Worker_Client Connect_Clients
begin

text \<open>
  The worker's generated clients, over HTTP, in front of the control plane's mux: what is sent to
  a URL of the control plane is served by \<open>serve_http\<close>. They are the clients \<open>real_clients\<close> of
  Worker_Client, so all that is proved there holds of a worker that talks HTTP.
\<close>

section \<open>URLs\<close>

text \<open>Scheme, host and path of an absolute URL.\<close>

definition split_host :: "string \<Rightarrow> string \<times> string" where
  "split_host s = (takeWhile (\<lambda>c. c \<noteq> CHR ''/'') s, dropWhile (\<lambda>c. c \<noteq> CHR ''/'') s)"

definition split_url :: "string \<Rightarrow> (string \<times> string) option" where
  "split_url url =
     (if has_prefix ''http://'' url then Some (split_host (drop 7 url))
      else if has_prefix ''https://'' url then Some (split_host (drop 8 url))
      else None)"

lemma split_host_append: "split_host s = (host, []) \<Longrightarrow> split_host (s @ CHR ''/'' # path) = (host, CHR ''/'' # path)"
proof -
  assume s: "split_host s = (host, [])"
  then have "\<forall>c \<in> set s. c \<noteq> CHR ''/''" by (simp add: split_host_def dropWhile_eq_Nil_conv)
  then have t: "takeWhile (\<lambda>c. c \<noteq> CHR ''/'') (s @ r) = s @ takeWhile (\<lambda>c. c \<noteq> CHR ''/'') r"
    "dropWhile (\<lambda>c. c \<noteq> CHR ''/'') (s @ r) = dropWhile (\<lambda>c. c \<noteq> CHR ''/'') r" for r
    by (simp_all add: takeWhile_append2 dropWhile_append2)
  have "host = s" using s t(1) [of "[]"] by (simp add: split_host_def)
  then show ?thesis unfolding split_host_def t by simp
qed

lemma split_url_append:
  assumes "split_url base = Some (host, [])"
  shows "split_url (base @ CHR ''/'' # path) = Some (host, CHR ''/'' # path)"
proof (cases "has_prefix ''http://'' base")
  case True
  then obtain t where t: "base = ''http://'' @ t" by (auto simp: has_prefix_iff)
  with assms have "split_host t = (host, [])" by (simp add: split_url_def)
  from split_host_append [OF this] t show ?thesis by (simp add: split_url_def)
next
  case False
  then obtain t where t: "base = ''https://'' @ t"
    using assms by (auto simp: split_url_def has_prefix_iff split: if_splits)
  with assms have "split_host t = (host, [])" by (simp add: split_url_def)
  from split_host_append [OF this] t show ?thesis by (simp add: split_url_def)
qed

section \<open>HTTP\<close>

text \<open>
  A site: the names under which the control plane is reached, and what its deployment has
  beside what the \<open>world\<close> of the worker says.
\<close>

record 'st site =
  si_hosts :: "string list"
  si_secret :: string
  si_codec :: "'st struct_codec"
  si_sessions :: "session_row list"
  si_session_query :: "nat \<Rightarrow> outcome"

definition site_deployment :: "'st site \<Rightarrow> world \<Rightarrow> 'st deployment" where
  "site_deployment si w =
     \<lparr>dp_enrollment = rw_config w, dp_lease = rw_lease w, dp_secret = si_secret si, dp_codec = si_codec si,
      dp_sessions = si_sessions si\<rparr>"

definition site_circumstances :: "'st site \<Rightarrow> world \<Rightarrow> circumstances" where
  "site_circumstances si w =
     \<lparr>ci_env = now_env w, ci_session = si_session_query si (rw_tick w),
      ci_random_id = rw_random w (rw_tick w), ci_random_token = rw_random w (Suc (rw_tick w))\<rparr>"

text \<open>
  How a connect client reads an HTTP answer: an error of a handler travels with its code; of a
  plain answer the status counts: 404 is \<open>Unimplemented\<close>, 401 is \<open>Unauthenticated\<close>, and a
  message that cannot be decoded is answered \<open>InvalidArgument\<close>.
\<close>

fun http_answer :: "'st http \<Rightarrow> rpc_code + 'st reply" where
  "http_answer Page_not_found = Inl Unimplemented"
| "http_answer Unauthorized = Inl Unauthenticated"
| "http_answer Refused_message = Inl InvalidArgument"
| "http_answer (Failed code) = Inl code"
| "http_answer (Reply a) = Inr a"

definition serve_site :: "'st site \<Rightarrow> string \<Rightarrow> string \<Rightarrow> 'st call \<Rightarrow> world \<Rightarrow> server \<Rightarrow> (rpc_code + 'st reply) \<times> server" where
  "serve_site si path hdr body w s =
     map_prod http_answer id (serve_http (site_deployment si w) (site_circumstances si w)
       \<lparr>q_path = path, q_authorization = hdr, q_cookies = [], q_body = body\<rparr> s)"

definition post :: "'st site \<Rightarrow> ('st, world) transport" where
  "post si url hdr body w =
     (case split_url url of
        None \<Rightarrow> (Inl Transport, w\<lparr>rw_tick := Suc (rw_tick w)\<rparr>)
      | Some (host, path) \<Rightarrow>
          if host \<in> set (si_hosts si) then remote (serve_site si path hdr body) w
          else (Inl Transport, w\<lparr>rw_tick := Suc (rw_tick w)\<rparr>))"

text \<open>A base URL that leads to the site.\<close>

definition reaches :: "'st site \<Rightarrow> string \<Rightarrow> bool" where
  "reaches si base \<longleftrightarrow>
     (case split_url (trim_right (CHR ''/'') base) of None \<Rightarrow> False | Some (host, path) \<Rightarrow> host \<in> set (si_hosts si) \<and> path = [])"

lemma CallUnary_reaches:
  assumes "reaches si base" and "has_prefix ''/'' path"
    and serve: "\<And>w s. serve_site si path hdr body w s = map_prod (map_sum id encode) id (h w s)"
    and decode: "\<And>r. decode (encode r) = Some r"
  shows "CallUnary (post si) (trim_right (CHR ''/'') base @ path) hdr body decode = remote h"
proof
  fix w
  obtain host where "split_url (trim_right (CHR ''/'') base) = Some (host, [])" "host \<in> set (si_hosts si)"
    using assms(1) by (auto simp: reaches_def split: option.splits)
  moreover obtain p where "path = CHR ''/'' # p" using assms(2) by (auto simp: has_prefix_iff)
  ultimately have "post si (trim_right (CHR ''/'') base @ path) hdr body w = remote (serve_site si path hdr body) w"
    using split_url_append [of "trim_right (CHR ''/'') base" host p] by (simp add: post_def)
  then show "CallUnary (post si) (trim_right (CHR ''/'') base @ path) hdr body decode w = remote h w"
    by (simp add: CallUnary_def remote_def serve decode Let_def map_prod_def map_sum_def
        split: outcome.split prod.split sum.split)
qed

lemma worker_procedures:
  "has_prefix ''/'' EnrollmentServiceEnrollWorkerProcedure" "has_prefix ''/'' EnrollmentServiceRenewEnrollmentProcedure"
  "has_prefix ''/'' WorkerServiceGetJobsProcedure" "has_prefix ''/'' WorkerServiceSubmitResultProcedure"
  "has_prefix ''/'' WorkerServiceRenewLeaseProcedure"
  by (simp_all add: procedure_defs)

lemma http_answer_reply: "map_prod http_answer id (reply_with f p) = map_prod (map_sum id f) id p"
  by (cases p; cases "fst p") (auto simp: reply_with_def)

text \<open>The procedures a worker calls.\<close>

lemma serve_enrollment:
  "serve_site si EnrollmentServiceEnrollWorkerProcedure hdr (Call_EnrollWorker m) w s
     = map_prod (map_sum id Re_EnrollWorker) id
         (EnrollWorker (now_env w) (rw_config w) (rw_random w (rw_tick w)) (rw_random w (Suc (rw_tick w))) m s)"
  "serve_site si EnrollmentServiceRenewEnrollmentProcedure hdr (Call_RenewEnrollment i) w s
     = map_prod (map_sum id Re_RenewEnrollment) id (RenewEnrollment (now_env w) (rw_random w (Suc (rw_tick w))) i s)"
  by (simp_all add: serve_site_def serve_http_def serve_mux_cases Let_def http_defs handler_defs procedure_defs service_defs
      unary_handler_def http_answer_reply site_deployment_def site_circumstances_def)

lemma token_auth_answer:
  assumes "\<And>i s. h (ctx\<lparr>ctx_worker_id := i\<rparr>) path body s = reply_with f (g i s)"
  shows "map_prod http_answer id (token_auth e hdr h ctx path body s) = map_prod (map_sum id f) id (TokenAuthHandlerWithCache e hdr g s)"
proof (cases "authenticateWorkerToken e hdr s")
  case (Pair r s1)
  show ?thesis
  proof (cases r)
    case (Inl err)
    with Pair show ?thesis by (simp add: token_auth_def TokenAuthHandlerWithCache_def)
  next
    case (Inr i)
    have "token_auth e hdr h ctx path body s = reply_with f (g (Some i) s1)"
      using Pair Inr by (cases "reply_with f (g (Some i) s1)") (simp add: token_auth_def TokenAuthHandlerWithCache_def assms)
    with Pair Inr show ?thesis by (simp add: TokenAuthHandlerWithCache_def http_answer_reply)
  qed
qed

lemma serve_worker_service:
  "serve_site si (''/openseer.v1.WorkerService/'' @ name) hdr body w s =
     map_prod http_answer id (token_auth (now_env w) hdr (worker_http (site_deployment si w) (site_circumstances si w))
       \<lparr>ctx_worker_id = None, ctx_user = session_of (site_deployment si w) (site_circumstances si w)
          \<lparr>q_path = ''/openseer.v1.WorkerService/'' @ name, q_authorization = hdr, q_cookies = [], q_body = body\<rparr>\<rparr>
       (''/openseer.v1.WorkerService/'' @ name) body s)"
  by (simp add: serve_site_def serve_http_def serve_mux_cases Let_def) (simp add: site_circumstances_def)

lemma serve_worker:
  "serve_site si WorkerServiceGetJobsProcedure hdr (Call_GetJobs n) w s
     = map_prod (map_sum id Re_GetJobs) id (TokenAuthHandlerWithCache (now_env w) hdr (GetJobs (now_env w) (rw_lease w) n) s)"
  "serve_site si WorkerServiceSubmitResultProcedure hdr (Call_SubmitResult m) w s
     = map_prod (map_sum id Re_SubmitResult) id (TokenAuthHandlerWithCache (now_env w) hdr (SubmitResult (now_env w) m) s)"
  "serve_site si WorkerServiceRenewLeaseProcedure hdr (Call_RenewLease run) w s
     = map_prod (map_sum id Re_RenewLease) id (TokenAuthHandlerWithCache (now_env w) hdr (RenewLease (now_env w) (rw_lease w) run) s)"
proof -
  have p: "WorkerServiceGetJobsProcedure = ''/openseer.v1.WorkerService/'' @ ''GetJobs''"
    "WorkerServiceSubmitResultProcedure = ''/openseer.v1.WorkerService/'' @ ''SubmitResult''"
    "WorkerServiceRenewLeaseProcedure = ''/openseer.v1.WorkerService/'' @ ''RenewLease''"
    by (simp_all add: procedure_defs)
  note defs = http_defs handler_defs procedure_defs service_defs unary_handler_def site_deployment_def site_circumstances_def
  show "serve_site si WorkerServiceGetJobsProcedure hdr (Call_GetJobs n) w s
     = map_prod (map_sum id Re_GetJobs) id (TokenAuthHandlerWithCache (now_env w) hdr (GetJobs (now_env w) (rw_lease w) n) s)"
    unfolding p serve_worker_service by (rule token_auth_answer) (simp add: defs)
  show "serve_site si WorkerServiceSubmitResultProcedure hdr (Call_SubmitResult m) w s
     = map_prod (map_sum id Re_SubmitResult) id (TokenAuthHandlerWithCache (now_env w) hdr (SubmitResult (now_env w) m) s)"
    unfolding p serve_worker_service by (rule token_auth_answer) (simp add: defs)
  show "serve_site si WorkerServiceRenewLeaseProcedure hdr (Call_RenewLease run) w s
     = map_prod (map_sum id Re_RenewLease) id (TokenAuthHandlerWithCache (now_env w) hdr (RenewLease (now_env w) (rw_lease w) run) s)"
    unfolding p serve_worker_service by (rule token_auth_answer) (simp add: defs)
qed

section \<open>The generated clients are the real ones\<close>

definition http_clients :: "'st site \<Rightarrow> string \<Rightarrow> string \<Rightarrow> world clients" where
  "http_clients si = worker_clients (post si) (rc_wait real_clients)"

lemma http_clients_eq:
  assumes "reaches si enrollmentURL" and "reaches si apiEndpoint"
  shows "http_clients si enrollmentURL apiEndpoint = real_clients"
proof -
  note call = CallUnary_reaches [OF assms(1)] CallUnary_reaches [OF assms(2)]
  note client = NewEnrollmentServiceClient_def NewWorkerServiceClient_def Let_def real_clients_def worker_procedures
  have "enrollment_EnrollWorker (post si) (NewEnrollmentServiceClient enrollmentURL) [] m = rc_enroll real_clients m" for m
    using call(1) [OF _ serve_enrollment(1)] by (simp add: client enrollment_EnrollWorker_def)
  moreover have "enrollment_RenewEnrollment (post si) (NewEnrollmentServiceClient enrollmentURL) [] i
      = rc_renewEnrollment real_clients i" for i
    using call(1) [OF _ serve_enrollment(2)] by (simp add: client enrollment_RenewEnrollment_def)
  moreover have "worker_GetJobs (post si) (NewWorkerServiceClient apiEndpoint) hdr n = rc_getJobs real_clients hdr n" for hdr n
    using call(2) [OF _ serve_worker(1)] by (simp add: client worker_GetJobs_def)
  moreover have "worker_SubmitResult (post si) (NewWorkerServiceClient apiEndpoint) hdr (Some x)
      = rc_submitResult real_clients hdr x" for hdr x
    using call(2) [OF _ serve_worker(2)] by (simp add: client worker_SubmitResult_def)
  moreover have "worker_RenewLease (post si) (NewWorkerServiceClient apiEndpoint) hdr run
      = rc_renewLease real_clients hdr run" for hdr run
    using call(2) [OF _ serve_worker(3)] by (simp add: client worker_RenewLease_def)
  ultimately show ?thesis by (simp add: http_clients_def worker_clients_def Let_def fun_eq_iff)
qed

lemma reaches_host:
  assumes "host \<in> set (si_hosts si)" and "host \<noteq> []" and "CHR ''/'' \<notin> set host"
  shows "reaches si (''http://'' @ host @ replicate n (CHR ''/''))" and "reaches si (''https://'' @ host @ replicate n (CHR ''/''))"
proof -
  have "last host \<noteq> CHR ''/''" using assms(2,3) last_in_set by metis
  then have l: "last (p @ host) \<noteq> CHR ''/''" for p :: string using assms(2) by simp
  have "trim_right (CHR ''/'') (p @ host @ replicate n (CHR ''/'')) = p @ host" for p
    using trim_right_replicate [of "p @ host" "CHR ''/''" n] l [of p] by simp
  moreover have "split_host host = (host, [])"
    using assms(3) by (auto simp: split_host_def takeWhile_eq_all_conv dropWhile_eq_Nil_conv)
  ultimately show "reaches si (''http://'' @ host @ replicate n (CHR ''/''))" "reaches si (''https://'' @ host @ replicate n (CHR ''/''))"
    using assms(1) by (simp_all add: reaches_def split_url_def del: append.simps(2)) (simp_all)
qed

text \<open>
  C13. A worker's generated clients, on base URLs that name the control plane's host, with any
  number of trailing slashes, do exactly what \<open>real_clients\<close> do: every call reaches the handler
  of its own procedure through the mux and the token check, and answers and errors come back
  as they were given.
\<close>

theorem http_clients_real:
  assumes "host \<in> set (si_hosts si)" and "host \<noteq> []" and "CHR ''/'' \<notin> set host"
  shows "http_clients si (''http://'' @ host @ replicate m (CHR ''/'')) (''http://'' @ host @ replicate n (CHR ''/'')) = real_clients"
  by (rule http_clients_eq) (rule reaches_host [OF assms])+

end
