(* ===== verification/Worker_Liveness.thy ===== *)
theory Worker_Liveness
  imports Worker_Link
begin

text \<open>
  A worker from enrolling to a committed check, over HTTP and a network that loses requests and
  answers: the enrollment gives it an identity, a poll hands it jobs that it then holds, and the
  execution of such a job, renewals included, ends in a commit once the network recovers within
  the attempts.
\<close>

section \<open>Enrolling\<close>


section \<open>Polling\<close>

lemma polled_phase:
  assumes id: "identified h i s" and get: "GetJobs e svc n (Some i) s = (Inr jobs, s')" and job: "job \<in> set jobs"
  shows "phase_of (mj_run_id job) (s_db s') = Held i"
proof -
  have ok: "db_ok (s_db s)" using id by (simp add: identified_def)
  obtain x where "x \<in> set (d_workers (s_db s))" "w_id x = i"
    and eff: "lease_effect (go_now e + svc) i (picked_for e (w_region x) n (s_db s)) (s_db s) (s_db s') jobs"
    and "length jobs \<le> nat (max_jobs n)"
    using GetJobs_effect [OF db_okD(1) [OF ok] get] .
  note upd = eff [unfolded lease_effect_def, THEN conjunct1] and out = eff [unfolded lease_effect_def, THEN conjunct2]
  from out job obtain j m where j: "j \<in> set (picked_for e (w_region x) n (s_db s))" "job = api_job (j, m)" by blast
  have "lease_mark i (go_now e + svc) j \<in> set (d_jobs (s_db s'))"
    unfolding upd by (rule update_where_hit) (use set_picked_for(1) [OF j(1)] j(1) in auto)
  moreover have "jobs_inv (s_db s')"
    using statements_ok [OF GetJobs_statements [of i s e svc n] ok] get by (simp add: db_okD)
  ultimately show ?thesis
    using phase_of_row [of "s_db s'" "lease_mark i (go_now e + svc) j"]
    by (simp add: j(2) api_job_def lease_mark_def job_phase_def)
qed

lemma real_getJobs:
  "rc_getJobs real_clients hdr n = remote (\<lambda>w. TokenAuthHandlerWithCache (now_env w) hdr (GetJobs (now_env w) (rw_lease w) n))"
  by (simp add: real_clients_def)

lemma GetJobs_not_unauthenticated: "fst (GetJobs e svc n (Some i) s) \<noteq> Inl Unauthenticated"
  by (simp add: GetJobs_def Let_def split: prod.split sum.split)

lemma remote_Inl: "remote h w = (Inl err, w') \<Longrightarrow>
  err = Transport \<or> (\<exists>code. err = Rpc code \<and> fst (h w (rw_others w (rw_tick w) (rw_server w))) = Inl code)"
  by (auto simp: remote_def Let_def split: outcome.splits prod.splits sum.splits)

lemma poll_hands_over:
  assumes poll: "pollForJobs real_clients k w = (n, err, jobs, k', w')" and job: "job \<in> set jobs"
    and id: "identified (HashToken tok) i (rw_others w (rw_tick w) (rw_server w))"
    and tok: "parseBearerToken (authHeader k) = Inr tok"
    and auth: "net (now_env w) Q_GetWorkerByTokenHash (HashToken tok) = Served"
  shows "k' = k \<and> holding (HashToken tok) i (mj_run_id job) (rw_server w') \<and> rw_tick w' = Suc (rw_tick w)
     \<and> rw_others w' = rw_others w \<and> rw_env w' = rw_env w \<and> rw_link w' = rw_link w \<and> rw_go_on w' = rw_go_on w"
proof -
  let ?n = "wrap32 (k_maxConcurrency k - wrap32 (active_count k))"
  let ?e = "now_env w" and ?s = "rw_others w (rw_tick w) (rw_server w)"
  let ?g = "GetJobs ?e (rw_lease w) ?n"
  have "\<not> ?n \<le> 0" using poll job by (auto simp: pollForJobs_def Let_def split: if_splits)
  with poll job have rec: "getJobsWithAuthRecovery real_clients ?n k w = (Inr jobs, k', w')"
    by (auto simp: pollForJobs_def split: prod.splits sum.splits)
  obtain s1 where call: "TokenAuthHandlerWithCache ?e (authHeader k) ?g ?s = ?g (Some i) s1"
    and s1: "identified (HashToken tok) i s1" "cache_ok (snd (?g (Some i) s1))"
    using identified_call [where h = ?g and s = ?s, OF id tok auth GetJobs_statements worker_rpc_cache(1)] .
  obtain q w1 where r: "rc_getJobs real_clients (authHeader k) ?n w = (q, w1)"
    by (cases "rc_getJobs real_clients (authHeader k) ?n w")
  have "\<not> isUnauthenticatedError er" if "q = Inl er" for er
  proof
    assume "isUnauthenticatedError er"
    then have "er = Rpc Unauthenticated" by (simp add: isUnauthenticatedError_def)
    with remote_Inl [OF r [unfolded real_getJobs that]]
    have "fst (TokenAuthHandlerWithCache ?e (authHeader k) ?g ?s) = Inl Unauthenticated" by simp
    with GetJobs_not_unauthenticated show False unfolding call by blast
  qed
  then have q: "q = Inr jobs \<and> k' = k \<and> w' = w1"
    using rec by (cases q) (simp_all add: getJobsWithAuthRecovery_def r)
  have get: "?g (Some i) s1 = (Inr jobs, rw_server w')"
    using remote_Inr [OF r [unfolded real_getJobs q [THEN conjunct1]]] call q by simp
  have "identified (HashToken tok) i (rw_server w')"
    using identified_path [OF s1(1) GetJobs_statements [of i s1 ?e "rw_lease w" ?n]] s1(2) get by simp
  moreover have "phase_of (mj_run_id job) (s_db (rw_server w')) = Held i" by (rule polled_phase [OF s1(1) get job])
  moreover have "rw_tick w' = Suc (rw_tick w) \<and> rw_others w' = rw_others w \<and> rw_env w' = rw_env w
      \<and> rw_link w' = rw_link w \<and> rw_go_on w' = rw_go_on w"
    using remote_frame [of "\<lambda>w. TokenAuthHandlerWithCache (now_env w) (authHeader k) (GetJobs (now_env w) (rw_lease w) ?n)" w]
      r [unfolded real_getJobs] q by simp
  ultimately show ?thesis using q by (simp add: holding_def)
qed

section \<open>Executing a check\<close>

text \<open>A renewal while the job is held: the worker keeps its token and the job, and only time goes by.\<close>

lemma renew_tick_holding:
  assumes un: "undisturbed (HashToken tok) i run w" and tok: "parseBearerToken (authHeader k) = Inr tok"
    and tick: "renew_tick real_clients r k w = (b, k', w')"
  shows "k' = k \<and> undisturbed (HashToken tok) i run w' \<and> rw_tick w' = Suc (rw_tick w)
     \<and> rw_link w' = rw_link w \<and> rw_env w' = rw_env w"
proof -
  let ?e = "now_env w" and ?s = "rw_others w (rw_tick w) (rw_server w)"
  let ?g = "RenewLease ?e (rw_lease w) r" and ?h = "\<lambda>w. TokenAuthHandlerWithCache (now_env w) (authHeader k) (RenewLease (now_env w) (rw_lease w) r)"
  have hold: "holding (HashToken tok) i run ?s" and auth: "net ?e Q_GetWorkerByTokenHash (HashToken tok) = Served"
    using un by (simp_all add: undisturbed_def now_env_def)
  obtain s1 where call: "TokenAuthHandlerWithCache ?e (authHeader k) ?g ?s = ?g (Some i) s1"
    and s1: "identified (HashToken tok) i s1" "s_db s1 = s_db ?s" "cache_ok (snd (?g (Some i) s1))"
    using identified_call [where h = ?g and s = ?s, OF _ tok auth RenewLease_statements worker_rpc_cache(3)] hold
    unfolding holding_def by metis
  have "holding (HashToken tok) i run s1" using hold s1(1,2) by (simp add: holding_def)
  from holding_path [OF this RenewLease_statements s1(3)]
  have hold': "holding (HashToken tok) i run (snd (?h w ?s))" by (simp add: call)
  obtain q w1 where r: "rc_renewLease real_clients (authHeader k) r w = (q, w1)"
    by (cases "rc_renewLease real_clients (authHeader k) r w")
  then have rm: "remote ?h w = (q, w1)" by (simp add: real_clients_def)
  have "\<not> isUnauthenticatedError er" if "q = Inl er" for er
  proof
    assume "isUnauthenticatedError er"
    then have "er = Rpc Unauthenticated" by (simp add: isUnauthenticatedError_def)
    with remote_Inl [OF rm [unfolded that]] have "fst (?h w ?s) = Inl Unauthenticated" by simp
    then show False unfolding call by (simp add: RenewLease_def Let_def split: prod.splits sum.splits)
  qed
  then have k': "k' = k \<and> w' = w1" using tick r by (cases q) (simp_all add: renew_tick_def)
  have fr: "rw_tick w' = Suc (rw_tick w)" "rw_link w' = rw_link w" "rw_env w' = rw_env w" "rw_others w' = rw_others w"
    "rw_go_on w' = rw_go_on w"
    using remote_frame [of ?h w] rm k' by simp_all
  have "rw_server w' = ?s \<or> rw_server w' = snd (?h w ?s)" using remote_server [of ?h w] rm k' by simp
  then have "undisturbed (HashToken tok) i run w'" using un hold hold' fr by (auto simp: undisturbed_def)
  with k' fr show ?thesis by simp
qed

lemma renewals_holding:
  assumes "undisturbed (HashToken tok) i run w" and tok: "parseBearerToken (authHeader k) = Inr tok"
    and "renewLease_ticks real_clients r n k w = (b, k', w')"
  shows "k' = k \<and> undisturbed (HashToken tok) i run w' \<and> rw_tick w \<le> rw_tick w'
     \<and> rw_link w' = rw_link w \<and> rw_env w' = rw_env w"
  using assms(1,3)
proof (induction n arbitrary: w)
  case (Suc n)
  obtain b1 k1 w1 where t: "renew_tick real_clients r k w = (b1, k1, w1)" by (cases "renew_tick real_clients r k w")
  note h = renew_tick_holding [OF Suc.prems(1) tok t]
  show ?case
  proof (cases b1)
    case True
    with Suc.prems(2) t h have "renewLease_ticks real_clients r n k w1 = (b, k', w')" by simp
    with Suc.IH [of w1] h show ?thesis by auto
  next
    case False
    with Suc.prems(2) t h show ?thesis by auto
  qed
qed simp

lemma authHeader_start_job [simp]: "authHeader (start_job job k) = authHeader k"
  by (simp add: authHeader_def start_job_def)

lemma check_result_start_job [simp]: "check_result (start_job job' k) job b = check_result k job b"
  by (simp add: check_result_def blank_result_def start_job_def)

text \<open>A check of a job the worker holds, renewals included, is committed once the network recovers.\<close>

lemma held_check_commits:
  assumes ok: "world_ok w" and un: "undisturbed (HashToken tok) i (mj_run_id job) w"
    and tok: "parseBearerToken (authHeader k) = Inr tok"
    and late: "\<forall>t \<ge> T. rw_link w t = Served \<and> (\<forall>q b. net (rw_env w t) q b = Served)"
    and budget: "int T < int (rw_tick w) + k_resultSubmitMaxAttempts k" "1 \<le> k_resultSubmitMaxAttempts k"
  shows "\<exists>k' w'. executeCheck real_clients job b ticks k w = Some ((True, True), k', w')
     \<and> recorded (check_result k job b) w' \<and> \<not> isJobActive (mj_run_id job) k'"
proof -
  let ?k = "start_job job k" and ?x = "check_result k job b"
  define p where "p = (if needs_renewal ?k job then renewLease_ticks real_clients (mj_run_id job) ticks ?k w else (True, ?k, w))"
  obtain g k2 w2 where p: "p = (g, k2, w2)" by (cases p)
  have tok': "parseBearerToken (authHeader ?k) = Inr tok" using tok by simp
  have "k2 = ?k \<and> undisturbed (HashToken tok) i (mj_run_id job) w2 \<and> rw_tick w \<le> rw_tick w2
     \<and> rw_link w2 = rw_link w \<and> rw_env w2 = rw_env w"
  proof (cases "needs_renewal ?k job")
    case True
    with p have "renewLease_ticks real_clients (mj_run_id job) ticks ?k w = (g, k2, w2)" by (simp add: p_def)
    from renewals_holding [OF un tok' this] show ?thesis .
  qed (use p un in \<open>simp add: p_def\<close>)
  then have k2: "k2 = ?k" and un2: "undisturbed (HashToken tok) i (x_run_id ?x) w2"
    and fr: "rw_tick w \<le> rw_tick w2" "rw_link w2 = rw_link w" "rw_env w2 = rw_env w" by simp_all
  have run: "executeCheck real_clients job b ticks k w = sendResult real_clients ?x ?k w2"
    using p k2 by (simp add: executeCheck_def Let_def p_def [symmetric])
  have act: "isJobActive (x_run_id ?x) ?k" by (simp add: isJobActive_def start_job_def)
  let ?j = "T - rw_tick w2"
  have m: "k_resultSubmitMaxAttempts ?k = k_resultSubmitMaxAttempts k" by (simp add: start_job_def)
  have "1 + int ?j \<le> k_resultSubmitMaxAttempts ?k" using budget fr(1) m by linarith
  moreover have "rw_link w2 (rw_tick w2 + ?j) = Served" "\<forall>q b. net (rw_env w2 (rw_tick w2 + ?j)) q b = Served"
    using late fr(2,3) by simp_all
  ultimately obtain k3 w3 where "send_loop real_clients ?x 1 ?k w2 = Some ((True, True), k3, w3)"
    using attempts_commit [OF un2 tok' act check_result_status_ok, of 1] by blast
  then have s: "sendResult real_clients ?x ?k w2 = Some ((True, True), worker_completeJob (x_run_id ?x) k3, w3)"
    by (simp add: sendResult_def)
  have "world_ok w2"
  proof (cases "needs_renewal ?k job")
    case True
    with p show ?thesis using cp.renewals_ok [OF ok, of "mj_run_id job" ticks ?k g k2 w2] by (simp add: p_def)
  qed (use p ok in \<open>simp add: p_def\<close>)
  from cp.sendResult_committed [OF s this] s run show ?thesis by simp
qed


section \<open>A worker over HTTP\<close>

definition day_site :: "string site" where
  "day_site = \<lparr>si_hosts = [''cp:8080''], si_secret = ''s'', si_codec = sample_codec, si_sessions = [],
     si_session_query = \<lambda>_. Served\<rparr>"

definition new_day :: world where
  "new_day = bad_day\<lparr>rw_server := day_ready, rw_env := \<lambda>n. calm (6000000000 + int n),
     rw_link := \<lambda>n. if n = 1 then LostAfter else if n = 2 then LostBefore else Served\<rparr>"

lemma day_reaches: "reaches day_site ''http://cp:8080/''" "reaches day_site ''http://cp:8080''"
  using reaches_host(1) [of "''cp:8080''" day_site 1] reaches_host(1) [of "''cp:8080''" day_site 0]
  by (simp_all add: day_site_def)

theorem http_clients_real_witness:
  "http_clients day_site ''http://cp:8080//'' ''http://cp:8080'' = real_clients"
  using http_clients_real [of "''cp:8080''" day_site 2 0] by (simp add: day_site_def numeral_2_eq_2)

lemma day_sole: "identified (HashToken sample_token) day_w day_ready"
proof -
  have "db_ok (s_db day_ready)" using reachable_db_ok [OF day_scheduled] by simp
  then show ?thesis
    by (simp add: identified_def cache_ok_def token_of_def token_usable_def day_ready_def day_server_def day_worker_def empty_db_def)
qed

lemma day_poll:
  "\<exists>job k' w'. pollForJobs real_clients (day_agent\<lparr>k_activeJobs := []\<rparr>) new_day = (1, False, [job], k', w') \<and> mj_run_id job = day_run"
proof -
  have g: "GetJobs (calm 6000000000) (45 * second) 5 (Some day_w) day_ready
      = (Inr [api_job (day_job Leased (Some day_w) (Some (pg_ts (6000000000 + 45 * second))), day_mon)], day_leased)"
    by (simp add: day_ready_def GetJobs_def day_heartbeat_defs day_leased_def GetWorkerByID_def LeaseJobsWithMonitorData_def
      lease_rows_def leasable_def day_job_def sql_limit_def max_jobs_def update_jobs_def lease_order_def
      region_rank_def lease_mark_def pg_ts_def second_def day_mon_def day_monitor_def empty_db_def)
  have "TokenAuthHandlerWithCache (calm 6000000000) day_hdr (GetJobs (calm 6000000000) (45 * second) 5) day_ready
      = GetJobs (calm 6000000000) (45 * second) 5 (Some day_w) day_ready"
    by (simp add: TokenAuthHandlerWithCache_def day_auth day_ready_def)
  note served = this [unfolded g]
  let ?k = "day_agent\<lparr>k_activeJobs := []\<rparr>"
  have k: "authHeader ?k = day_hdr" "k_maxConcurrency ?k = 5" "active_count ?k = 0"
    by (simp_all add: authHeader_def day_agent_def day_hdr_def NewWorker_def active_count_def)
  have r: "rc_getJobs real_clients day_hdr 5 new_day
      = (Inr [api_job (day_job Leased (Some day_w) (Some (pg_ts (6000000000 + 45 * second))), day_mon)],
         new_day\<lparr>rw_server := day_leased, rw_tick := Suc 0\<rparr>)"
    using served by (simp add: real_getJobs remote_def new_day_def bad_day_def now_env_def)
  have "wrap32 (5 - wrap32 0) = 5" by (simp add: wrap32_def)
  then have "pollForJobs real_clients ?k new_day
      = (1, False, [api_job (day_job Leased (Some day_w) (Some (pg_ts (6000000000 + 45 * second))), day_mon)],
         ?k, new_day\<lparr>rw_server := day_leased, rw_tick := Suc 0\<rparr>)"
    unfolding pollForJobs_def getJobsWithAuthRecovery_def getJobs_def k Let_def by (simp add: r)
  then show ?thesis by (simp add: api_job_def day_job_def)
qed


definition first_day :: world where
  "first_day = bad_day\<lparr>rw_server := day_server [] [] [] [], rw_link := \<lambda>_. Served\<rparr>"

definition new_agent :: worker where
  "new_agent = NewWorker ''h'' [] ''1'' ''http://cp:8080/'' ''c'' 5"

lemma first_day_enroll: "\<exists>k' w'. worker_enroll real_clients new_agent first_day = (True, k', w')"
  by (simp add: worker_enroll_def real_clients_def remote_def first_day_def bad_day_def new_agent_def NewWorker_def
      now_env_def EnrollWorker_def sample_enroll_config_def generateWorkerID_def sample_generate
      EnrollWorker_query_def SetWorkerToken_def day_server_def empty_db_def Let_def)


end
