(* ===== verification/Client_Server.thy ===== *)
theory Client_Server
  imports Routing Connect_Clients
begin

text \<open>
  The generated clients and the generated handlers fit together: the URL a client keeps for a
  procedure is the path under which the handler serves that procedure, the handler takes its
  message, and its reply is of the type the client reads.
\<close>

section \<open>Procedures and their replies\<close>

fun procedure :: "'st call \<Rightarrow> string" where
  "procedure (Call_EnrollWorker m) = EnrollmentServiceEnrollWorkerProcedure"
| "procedure (Call_RenewEnrollment w) = EnrollmentServiceRenewEnrollmentProcedure"
| "procedure (Call_RevokeEnrollment w reason) = EnrollmentServiceRevokeEnrollmentProcedure"
| "procedure (Call_GetWorkerStatus w) = EnrollmentServiceGetWorkerStatusProcedure"
| "procedure (Call_ListWorkers n region status) = EnrollmentServiceListWorkersProcedure"
| "procedure (Call_GetJobs n) = WorkerServiceGetJobsProcedure"
| "procedure (Call_SubmitResult m) = WorkerServiceSubmitResultProcedure"
| "procedure (Call_RenewLease run) = WorkerServiceRenewLeaseProcedure"
| "procedure (Call_CreateMonitor m) = MonitorsServiceCreateMonitorProcedure"
| "procedure (Call_GetMonitor i) = MonitorsServiceGetMonitorProcedure"
| "procedure (Call_UpdateMonitor m) = MonitorsServiceUpdateMonitorProcedure"
| "procedure (Call_DeleteMonitor i) = MonitorsServiceDeleteMonitorProcedure"
| "procedure Call_ListMonitors = MonitorsServiceListMonitorsProcedure"
| "procedure (Call_GetMonitorResults i n) = MonitorsServiceGetMonitorResultsProcedure"
| "procedure (Call_GetMonitorMetrics i a b) = MonitorsServiceGetMonitorMetricsProcedure"
| "procedure (Call_GetMonitorUptime i rng) = MonitorsServiceGetMonitorUptimeProcedure"
| "procedure (Call_GetMonitorUptimeTimeline i rng) = MonitorsServiceGetMonitorUptimeTimelineProcedure"
| "procedure Call_GetDashboardOverview = DashboardServiceGetDashboardOverviewProcedure"
| "procedure Call_GetRegionHealth = DashboardServiceGetRegionHealthProcedure"
| "procedure Call_GetUserProfile = UserServiceGetUserProfileProcedure"
| "procedure Call_HealthCheck = HealthServiceCheckProcedure"

lemmas client_defs = NewEnrollmentServiceClient_def NewWorkerServiceClient_def NewMonitorsServiceClient_def NewDashboardServiceClient_def NewUserServiceClient_def NewHealthServiceClient_def

text \<open>The procedure at which a client of the base URL \<open>base\<close> calls.\<close>

lemma client_urls:
  fixes base :: string
  defines "b \<equiv> trim_right (CHR ''/'') base"
  shows "ecl_enrollWorker (NewEnrollmentServiceClient base) = b @ procedure (Call_EnrollWorker m0)"
    "ecl_renewEnrollment (NewEnrollmentServiceClient base) = b @ procedure (Call_RenewEnrollment w1)"
    "ecl_revokeEnrollment (NewEnrollmentServiceClient base) = b @ procedure (Call_RevokeEnrollment w2 reason2)"
    "ecl_getWorkerStatus (NewEnrollmentServiceClient base) = b @ procedure (Call_GetWorkerStatus w3)"
    "ecl_listWorkers (NewEnrollmentServiceClient base) = b @ procedure (Call_ListWorkers n4 region4 status4)"
    "wcl_getJobs (NewWorkerServiceClient base) = b @ procedure (Call_GetJobs n5)"
    "wcl_submitResult (NewWorkerServiceClient base) = b @ procedure (Call_SubmitResult m6)"
    "wcl_renewLease (NewWorkerServiceClient base) = b @ procedure (Call_RenewLease run7)"
    "ncl_createMonitor (NewMonitorsServiceClient base) = b @ procedure (Call_CreateMonitor m8)"
    "ncl_getMonitor (NewMonitorsServiceClient base) = b @ procedure (Call_GetMonitor i9)"
    "ncl_updateMonitor (NewMonitorsServiceClient base) = b @ procedure (Call_UpdateMonitor m10)"
    "ncl_deleteMonitor (NewMonitorsServiceClient base) = b @ procedure (Call_DeleteMonitor i11)"
    "ncl_listMonitors (NewMonitorsServiceClient base) = b @ procedure Call_ListMonitors"
    "ncl_getMonitorResults (NewMonitorsServiceClient base) = b @ procedure (Call_GetMonitorResults i13 n13)"
    "ncl_getMonitorMetrics (NewMonitorsServiceClient base) = b @ procedure (Call_GetMonitorMetrics i14 a14 b14)"
    "ncl_getMonitorUptime (NewMonitorsServiceClient base) = b @ procedure (Call_GetMonitorUptime i15 rng15)"
    "ncl_getMonitorUptimeTimeline (NewMonitorsServiceClient base) = b @ procedure (Call_GetMonitorUptimeTimeline i16 rng16)"
    "bcl_getDashboardOverview (NewDashboardServiceClient base) = b @ procedure Call_GetDashboardOverview"
    "bcl_getRegionHealth (NewDashboardServiceClient base) = b @ procedure Call_GetRegionHealth"
    "ucl_getUserProfile (NewUserServiceClient base) = b @ procedure Call_GetUserProfile"
    "hcl_check (NewHealthServiceClient base) = b @ procedure Call_HealthCheck"
  by (simp_all add: client_defs b_def Let_def)

text \<open>Which reply the client of a call can read.\<close>

definition answers :: "'st call \<Rightarrow> 'st reply \<Rightarrow> bool" where
  "answers b r =
     (case b of
        Call_EnrollWorker _ \<Rightarrow> (case r of Re_EnrollWorker _ \<Rightarrow> True | _ \<Rightarrow> False)
      | Call_RenewEnrollment _ \<Rightarrow> (case r of Re_RenewEnrollment _ \<Rightarrow> True | _ \<Rightarrow> False)
      | Call_RevokeEnrollment _ _ \<Rightarrow> (case r of Re_RevokeEnrollment _ \<Rightarrow> True | _ \<Rightarrow> False)
      | Call_GetWorkerStatus _ \<Rightarrow> (case r of Re_GetWorkerStatus _ \<Rightarrow> True | _ \<Rightarrow> False)
      | Call_ListWorkers _ _ _ \<Rightarrow> (case r of Re_ListWorkers _ \<Rightarrow> True | _ \<Rightarrow> False)
      | Call_GetJobs _ \<Rightarrow> (case r of Re_GetJobs _ \<Rightarrow> True | _ \<Rightarrow> False)
      | Call_SubmitResult _ \<Rightarrow> (case r of Re_SubmitResult _ \<Rightarrow> True | _ \<Rightarrow> False)
      | Call_RenewLease _ \<Rightarrow> (case r of Re_RenewLease _ \<Rightarrow> True | _ \<Rightarrow> False)
      | Call_CreateMonitor _ \<Rightarrow> (case r of Re_CreateMonitor _ \<Rightarrow> True | _ \<Rightarrow> False)
      | Call_GetMonitor _ \<Rightarrow> (case r of Re_GetMonitor _ \<Rightarrow> True | _ \<Rightarrow> False)
      | Call_UpdateMonitor _ \<Rightarrow> (case r of Re_UpdateMonitor _ \<Rightarrow> True | _ \<Rightarrow> False)
      | Call_DeleteMonitor _ \<Rightarrow> (case r of Re_DeleteMonitor _ \<Rightarrow> True | _ \<Rightarrow> False)
      | Call_ListMonitors \<Rightarrow> (case r of Re_ListMonitors _ \<Rightarrow> True | _ \<Rightarrow> False)
      | Call_GetMonitorResults _ _ \<Rightarrow> (case r of Re_GetMonitorResults _ \<Rightarrow> True | _ \<Rightarrow> False)
      | Call_GetMonitorMetrics _ _ _ \<Rightarrow> (case r of Re_GetMonitorMetrics _ \<Rightarrow> True | _ \<Rightarrow> False)
      | Call_GetMonitorUptime _ _ \<Rightarrow> (case r of Re_GetMonitorUptime _ \<Rightarrow> True | _ \<Rightarrow> False)
      | Call_GetMonitorUptimeTimeline _ _ \<Rightarrow> (case r of Re_GetMonitorUptimeTimeline _ \<Rightarrow> True | _ \<Rightarrow> False)
      | Call_GetDashboardOverview \<Rightarrow> (case r of Re_GetDashboardOverview _ \<Rightarrow> True | _ \<Rightarrow> False)
      | Call_GetRegionHealth \<Rightarrow> (case r of Re_GetRegionHealth _ \<Rightarrow> True | _ \<Rightarrow> False)
      | Call_GetUserProfile \<Rightarrow> (case r of Re_GetUserProfile _ \<Rightarrow> True | _ \<Rightarrow> False)
      | Call_HealthCheck \<Rightarrow> (case r of Re_HealthCheck _ \<Rightarrow> True | _ \<Rightarrow> False))"

section \<open>No method is left unimplemented\<close>

lemma enrollment_implemented:
  "fst (EnrollWorker e cfg ri rt msg s) \<noteq> Inl Unimplemented" "fst (RenewEnrollment e rt w s) \<noteq> Inl Unimplemented"
  "fst (RevokeEnrollment e w reason s) \<noteq> Inl Unimplemented" "fst (GetWorkerStatus e w s) \<noteq> Inl Unimplemented"
  "fst (ListWorkers e n region status s) \<noteq> Inl Unimplemented"
  by (simp_all add: EnrollWorker_def RenewEnrollment_def RevokeEnrollment_def GetWorkerStatus_def ListWorkers_def Let_def
      split: prod.split sum.split option.split)

lemma worker_implemented:
  "fst (GetJobs e svc n ctx s) \<noteq> Inl Unimplemented" "fst (SubmitResult e msg ctx s) \<noteq> Inl Unimplemented"
  "fst (RenewLease e svc run ctx s) \<noteq> Inl Unimplemented"
  by (simp_all add: GetJobs_def SubmitResult_def RenewLease_def Let_def split: prod.split sum.split option.split)

lemma owned_monitor_implemented: "owned_monitor e i u s = (Inl code, s') \<Longrightarrow> code \<noteq> Unimplemented"
  by (auto simp: owned_monitor_def split: prod.splits sum.splits if_splits)

lemma timeline_implemented: "fetch_timeline e rng i s = (Inl code, s') \<Longrightarrow> code \<noteq> Unimplemented"
  by (auto simp: fetch_timeline_def split: prod.splits sum.splits list.splits if_splits)

lemma monitors_implemented:
  "fst (CreateMonitor k e cmsg ctx s) \<noteq> Inl Unimplemented" "fst (GetMonitor k e i ctx s) \<noteq> Inl Unimplemented"
  "fst (UpdateMonitor k e umsg ctx s) \<noteq> Inl Unimplemented" "fst (DeleteMonitor e i ctx s) \<noteq> Inl Unimplemented"
  "fst (ListMonitors k e ctx s) \<noteq> Inl Unimplemented" "fst (GetMonitorResults e i n ctx s) \<noteq> Inl Unimplemented"
  "fst (GetMonitorMetrics e i a b ctx s) \<noteq> Inl Unimplemented" "fst (GetMonitorUptime e i rng ctx s) \<noteq> Inl Unimplemented"
  "fst (GetMonitorUptimeTimeline e i rng ctx s) \<noteq> Inl Unimplemented"
proof -
  show "fst (CreateMonitor k e cmsg ctx s) \<noteq> Inl Unimplemented"
    by (simp add: CreateMonitor_def Let_def split: prod.split sum.split option.split)
  show "fst (UpdateMonitor k e umsg ctx s) \<noteq> Inl Unimplemented"
    by (auto simp: UpdateMonitor_def Let_def split: prod.split sum.split option.split dest: owned_monitor_implemented)
  show "fst (DeleteMonitor e i ctx s) \<noteq> Inl Unimplemented"
    by (simp add: DeleteMonitor_def split: prod.split sum.split option.split)
  show "fst (GetMonitor k e i ctx s) \<noteq> Inl Unimplemented" "fst (GetMonitorResults e i n ctx s) \<noteq> Inl Unimplemented"
    "fst (GetMonitorMetrics e i a b ctx s) \<noteq> Inl Unimplemented" "fst (GetMonitorUptime e i rng ctx s) \<noteq> Inl Unimplemented"
    "fst (GetMonitorUptimeTimeline e i rng ctx s) \<noteq> Inl Unimplemented"
    by (auto simp: GetMonitor_def GetMonitorResults_def GetMonitorMetrics_def GetMonitorUptime_def GetMonitorUptimeTimeline_def
        split: prod.split sum.split option.split dest: owned_monitor_implemented timeline_implemented)
  show "fst (ListMonitors k e ctx s) \<noteq> Inl Unimplemented"
    by (simp add: ListMonitors_def split: prod.split sum.split option.split)
qed

lemma dashboard_implemented:
  "fst (GetDashboardOverview e ctx s) \<noteq> Inl Unimplemented" "fst (GetRegionHealth e ctx s) \<noteq> Inl Unimplemented"
  by (simp_all add: GetDashboardOverview_def GetRegionHealth_def Let_def split: prod.split sum.split option.split)

lemma user_implemented: "GetUserProfile u \<noteq> Inl Unimplemented"
  by (simp add: GetUserProfile_def split: option.split)

section \<open>What a client gets\<close>

text \<open>The answer fits the call.\<close>

definition fits :: "'st call \<Rightarrow> 'st http \<Rightarrow> bool" where
  "fits b out =
     (case out of
        Page_not_found \<Rightarrow> False | Refused_message \<Rightarrow> False
      | Unauthorized \<Rightarrow> has_prefix ''/openseer.v1.WorkerService/'' (procedure b)
      | Failed code \<Rightarrow> code \<noteq> Unimplemented
      | Reply a \<Rightarrow> answers b a)"

lemma fits_reply:
  assumes "fst p \<noteq> Inl Unimplemented" and "\<And>r. answers b (f r)"
  shows "fits b (fst (reply_with f p))"
  using assms by (cases p) (auto simp: fits_def reply_with_def split: sum.splits)

lemma fits_token_auth:
  assumes "\<And>i s. fits b (fst (h (ctx\<lparr>ctx_worker_id := i\<rparr>) path b s))" and "has_prefix ''/openseer.v1.WorkerService/'' (procedure b)"
  shows "fits b (fst (token_auth e hdr h ctx path b s))"
proof (cases "authenticateWorkerToken e hdr s")
  case (Pair r s1)
  show ?thesis
  proof (cases r)
    case (Inl err)
    with Pair assms(2) show ?thesis by (simp add: token_auth_def TokenAuthHandlerWithCache_def fits_def)
  next
    case (Inr w)
    with Pair assms(1) [of "Some w" s1] show ?thesis
      by (cases "h (ctx\<lparr>ctx_worker_id := Some w\<rparr>) path b s1") (simp add: token_auth_def TokenAuthHandlerWithCache_def)
  qed
qed



end
