(* ===== verification/Replicas.thy ===== *)
theory Replicas
  imports System
begin

text \<open>
  Several replicas of the control plane over one database, as \<open>docs/production-multicloud.md\<close>
  asks for: the tables and the advisory locks are shared, a token cache and a heartbeat tracker
  each replica has of its own (\<open>main\<close> makes one of each per process).
\<close>

section \<open>A fleet\<close>

record fleet =
  fl_locks :: locks
  fl_db :: db
  fl_local :: "nat \<Rightarrow> worker_auth_cache option \<times> heartbeat_tracker option"

text \<open>The control plane as one replica sees it, and what is left when it has acted.\<close>

definition replica :: "fleet \<Rightarrow> nat \<Rightarrow> cluster" where
  "replica fl i = \<lparr>cl_locks = fl_locks fl,
     cl_server = \<lparr>s_db = fl_db fl, s_cache = fst (fl_local fl i), s_hb = snd (fl_local fl i)\<rparr>\<rparr>"

definition absorb :: "nat \<Rightarrow> cluster \<Rightarrow> fleet \<Rightarrow> fleet" where
  "absorb i c fl = fl\<lparr>fl_locks := cl_locks c, fl_db := s_db (cl_server c),
     fl_local := (fl_local fl)(i := (s_cache (cl_server c), s_hb (cl_server c)))\<rparr>"

inductive fleet_step :: "bool \<Rightarrow> 'st struct_codec \<Rightarrow> actor \<Rightarrow> fleet \<Rightarrow> fleet \<Rightarrow> bool" for reliable k where
  acts: "system_step reliable k a (replica fl i) c \<Longrightarrow> fleet_step reliable k a fl (absorb i c fl)"

definition fleet_start :: "(nat \<Rightarrow> worker_auth_cache option \<times> heartbeat_tracker option) \<Rightarrow> fleet" where
  "fleet_start l = \<lparr>fl_locks = Map.empty, fl_db = empty_db, fl_local = l\<rparr>"

definition fresh_replica :: "worker_auth_cache option \<times> heartbeat_tracker option \<Rightarrow> bool" where
  "fresh_replica x \<longleftrightarrow> fst x = None \<or> (\<exists>t n. fst x = Some (NewWorkerAuthCache t n))"

inductive fleet_reachable :: "bool \<Rightarrow> 'st struct_codec \<Rightarrow> fleet \<Rightarrow> bool" for reliable k where
  start: "\<forall>i. fresh_replica (l i) \<Longrightarrow> fleet_reachable reliable k (fleet_start l)"
| step: "fleet_reachable reliable k fl \<Longrightarrow> fleet_step reliable k a fl fl' \<Longrightarrow> fleet_reachable reliable k fl'"

lemma replica_sel [simp]:
  "s_db (cl_server (replica fl i)) = fl_db fl" "cl_locks (replica fl i) = fl_locks fl"
  "s_cache (cl_server (replica fl i)) = fst (fl_local fl i)"
  by (simp_all add: replica_def)

lemma absorb_sel [simp]:
  "fl_db (absorb i c fl) = s_db (cl_server c)" "fl_locks (absorb i c fl) = cl_locks c"
  "replica (absorb i c fl) i = c"
  by (simp_all add: absorb_def replica_def)

section \<open>What the shared database keeps\<close>

lemma fleet_statements: "fleet_step reliable k a fl fl' \<Longrightarrow> statements a (fl_db fl) (fl_db fl')"
  by (auto elim!: fleet_step.cases dest: system_step_statements)

lemma fleet_db_ok: "fleet_reachable reliable k fl \<Longrightarrow> db_ok (fl_db fl)"
proof (induction rule: fleet_reachable.induct)
  case (start l)
  show ?case by (simp add: fleet_start_def db_ok_empty)
next
  case (step fl a fl')
  then show ?case using statements_ok fleet_statements by blast
qed

text \<open>
  C1. However many replicas serve requests and run the services over the shared database, whatever
  the network loses: in every state reached from an empty database run ids are unique, rows of
  \<open>app.jobs\<close> agree with their status, at most one active job has a slot, the keys of all tables
  are unique, and the monitor of every job exists.
\<close>

theorem fleet_store_ok:
  assumes "fleet_reachable reliable k fl"
  shows "store_inv (fl_db fl) \<and> refs_ok (fl_db fl)"
  using fleet_db_ok [OF assms] by (simp add: db_ok_def)

text \<open>
  C2. The fleet refines the life of a job: whatever a step of any replica does, every run id moves
  along the abstract machine \<open>life\<close>, and only by the moves of the actor of that step.
\<close>

theorem fleet_refinement:
  assumes "fleet_reachable reliable k fl" and "fleet_step reliable k a fl fl'"
  shows "lives a (phase_of run (fl_db fl)) (phase_of run (fl_db fl'))"
  by (rule statements_life [OF fleet_statements [OF assms(2)] fleet_db_ok [OF assms(1)]])

text \<open>
  C5. A lease protects a job: while a worker holds a run, no request of another worker or of a
  user and no work of the scheduler or the cleaner, on any replica, takes it away. The run goes
  back to the queue only in a tick of a reaper after the lease's expiry by the database's clock.
\<close>

theorem lease_protects:
  assumes "fleet_reachable reliable k fl" and "fleet_step reliable k a fl fl'" and "a \<noteq> Worker_Actor w"
    and "j \<in> set (d_jobs (fl_db fl))" and "job_phase j = Held w"
  shows "phase_of (j_run_id j) (fl_db fl') = Held w
     \<or> (\<exists>i e p q. fl' = absorb i (reaper_tick e p q (replica fl i)) fl \<and> lease_expired (sql_now e) j
          \<and> phase_of (j_run_id j) (fl_db fl') = Waiting)"
  using assms(2)
proof cases
  case (acts i c)
  with held_kept [OF _ acts(2) assms(3), of j] assms(4,5) fleet_db_ok [OF assms(1)] show ?thesis by auto
qed

section \<open>A single replica\<close>

text \<open>One replica alone is the machine of System.\<close>

definition alone :: "cluster \<Rightarrow> fleet" where
  "alone c = absorb 0 c (fleet_start (\<lambda>_. (None, None)))"

lemma alone_sel [simp]: "replica (alone c) 0 = c" "absorb 0 c' (alone c) = alone c'" "fl_db (alone c) = s_db (cl_server c)"
  by (simp_all add: alone_def) (simp add: absorb_def)

lemma alone_step: "system_step reliable k a c c' \<Longrightarrow> fleet_step reliable k a (alone c) (alone c')"
  using fleet_step.acts [of reliable k a "alone c" 0 c'] by simp

lemma alone_initial:
  "alone (initial_cluster ch hb) = fleet_start ((\<lambda>_. (None, None))(0 := (ch, hb)))"
  by (simp add: alone_def absorb_def fleet_start_def initial_cluster_def)

lemma alone_reachable: "reachable reliable k c \<Longrightarrow> fleet_reachable reliable k (alone c)"
proof (induction rule: reachable.induct)
  case (initial hb)
  show ?case by (simp add: alone_initial fleet_reachable.start fresh_replica_def)
next
  case (initial_cached t n hb)
  show ?case unfolding alone_initial by (rule fleet_reachable.start) (auto simp: fresh_replica_def)
next
  case (step c a c')
  then show ?case using fleet_reachable.step alone_step by blast
qed

theorem fleet_store_ok_witness: "store_inv (s_db day_leased)"
  using fleet_store_ok [OF alone_reachable [OF day_reachable [of True]]] by simp

theorem fleet_refinement_witness:
  "lives Reaper_Actor (phase_of day_run (s_db day_leased))
     (phase_of day_run (s_db (cl_server (reaper_tick (calm 60000000000) 1 1 (day_cluster day_leased)))))"
  using fleet_refinement [OF alone_reachable [OF day_reachable [of True]] alone_step [OF system_step.reap], of day_run
      "calm 60000000000" 1 1]
  by simp

theorem lease_protects_witness:
  "\<exists>i e p q. alone (reaper_tick (calm 60000000000) 1 1 (day_cluster day_leased))
         = absorb i (reaper_tick e p q (replica (alone (day_cluster day_leased)) i)) (alone (day_cluster day_leased))
     \<and> lease_expired (sql_now e) (day_job Leased (Some day_w) (Some (pg_ts (6000000000 + 45 * second))))"
proof -
  let ?j = "day_job Leased (Some day_w) (Some (pg_ts (6000000000 + 45 * second)))"
  have j: "?j \<in> set (d_jobs (fl_db (alone (day_cluster day_leased))))" "job_phase ?j = Held day_w" "j_run_id ?j = day_run"
    by (simp_all add: day_leased_def day_server_def empty_db_def job_phase_def Let_def day_job_def)
  have w: "phase_of day_run (s_db (cl_server (reaper_tick (calm 60000000000) 1 1 (day_cluster day_leased)))) = Waiting"
    by (simp add: reaper_tick_def with_advisory_lock_def pg_try_advisory_lock_def lock_call_def pg_advisory_unlock_def
        reclaim_work_def sql_def ReclaimExpiredLeases_def update_where_def lease_expired_def day_cluster_def day_leased_def
        day_server_def day_job_def empty_db_def phase_of_def job_phase_def pg_ts_def second_def)
  have "Reaper_Actor \<noteq> Worker_Actor day_w" by simp
  from lease_protects [OF alone_reachable [OF day_reachable [of True]] alone_step [OF system_step.reap] this j(1,2),
      of "calm 60000000000" 1 1] j(3) w
  show ?thesis by auto
qed

section \<open>Revocation on another replica\<close>

text \<open>
  A request on one replica while the others write the database: the tables are as they are at
  that moment, the cache is the replica's own.
\<close>

definition authenticate_at :: "db \<times> env \<times> string \<Rightarrow> server \<Rightarrow> (rpc_code + string) \<times> server" where
  "authenticate_at x s = (case x of (d, e, hdr) \<Rightarrow> authenticateWorkerToken e hdr (s\<lparr>s_db := d\<rparr>))"

definition gone_from_cache :: "string \<Rightarrow> time \<Rightarrow> server \<Rightarrow> bool" where
  "gone_from_cache w D s \<longleftrightarrow> (case s_cache s of None \<Rightarrow> True | Some c \<Rightarrow> wage.gone_by w D c)"

definition has_no_token :: "string \<Rightarrow> db \<Rightarrow> bool" where
  "has_no_token w d \<longleftrightarrow> (\<forall>x \<in> set (d_workers d). w_id x = w \<longrightarrow> (\<forall>h. \<not> token_usable h x))"

lemma has_no_token: "has_no_token w d \<longleftrightarrow> (\<forall>h. \<not> token_of d h w)"
  by (auto simp: has_no_token_def token_of_def)

lemma authenticate_at_gone:
  assumes "gone_from_cache w D s" and "has_no_token w d" and "authenticate_at (d, e, hdr) s = (r, s')"
  shows "gone_from_cache w D s'" and "r = Inr w \<Longrightarrow> go_now e \<le> D"
proof -
  let ?s = "s\<lparr>s_db := d\<rparr>"
  have "gone_from_cache w D s' \<and> (r = Inr w \<longrightarrow> go_now e \<le> D)"
  proof (cases "parseBearerToken hdr")
    case (Inl err)
    with assms show ?thesis by (auto simp: authenticate_at_def authenticateWorkerToken_def gone_from_cache_def)
  next
    case (Inr token)
    let ?h = "HashToken token"
    obtain r1 s1 where l: "cache_lookup (go_now e) ?h ?s = (r1, s1)" by (cases "cache_lookup (go_now e) ?h ?s")
    have g: "gone_from_cache w D s1" "r1 = Some w \<Longrightarrow> go_now e \<le> D" "s_db s1 = d"
      using l assms(1) wage.gone_by_get [of w D _ "go_now e" ?h] wage.gone_by_hit [of w D _ "go_now e" ?h]
      by (auto simp: cache_lookup_def gone_from_cache_def split: option.splits prod.splits) (metis fst_conv snd_conv)+
    show ?thesis
    proof (cases r1)
      case (Some v)
      with l Inr assms(3) have "r = Inr v" "s' = s1"
        by (simp_all add: authenticate_at_def authenticateWorkerToken_def Let_def)
      with g Some show ?thesis by simp
    next
      case None
      obtain r2 s2 where q: "sql (net e Q_GetWorkerByTokenHash ?h) (GetWorkerByTokenHash ?h) s1 = (r2, s2)"
        by (cases "sql (net e Q_GetWorkerByTokenHash ?h) (GetWorkerByTokenHash ?h) s1")
      have s2: "gone_from_cache w D s2" using g(1) sql_eq [OF q] by (simp add: gone_from_cache_def)
      show ?thesis
      proof (cases r2)
        case (Inl err)
        with None l Inr q assms(3) have "r = Inl Unauthenticated" "s' = s2"
          by (simp_all add: authenticate_at_def authenticateWorkerToken_def Let_def)
        with s2 show ?thesis by simp
      next
        case (Inr x)
        with None l \<open>parseBearerToken hdr = Inr token\<close> q assms(3)
        have r: "r = Inr (w_id x)" "s' = cache_store (go_now e) ?h (w_id x) s2"
          by (simp_all add: authenticate_at_def authenticateWorkerToken_def Let_def)
        have "w_id x \<noteq> w"
          using sql_Inr [OF q [unfolded Inr]] g(3) assms(2) by (auto simp: has_no_token_def dest!: GetWorkerByTokenHash_Inr)
        with r s2 show ?thesis
          by (auto simp: gone_from_cache_def cache_store_def wage.gone_by_put split: option.splits)
      qed
    qed
  qed
  then show "gone_from_cache w D s'" "r = Inr w \<Longrightarrow> go_now e \<le> D" by simp_all
qed

definition authenticate_run :: "(db \<times> env \<times> string) list \<Rightarrow> server \<Rightarrow> server" where
  "authenticate_run reqs s = fold (\<lambda>x s. snd (authenticate_at x s)) reqs s"

lemma authenticate_run_gone:
  assumes "gone_from_cache w D s" and "\<forall>(d, _, _) \<in> set reqs. has_no_token w d"
  shows "gone_from_cache w D (authenticate_run reqs s)"
  using assms
proof (induction reqs arbitrary: s)
  case (Cons x reqs)
  obtain d e hdr where x: "x = (d, e, hdr)" by (cases x)
  with Cons.prems have "gone_from_cache w D (snd (authenticate_at x s))"
    using authenticate_at_gone(1) [of w D s d e hdr] by (cases "authenticate_at x s") auto
  with Cons.IH Cons.prems(2) show ?case by (simp add: authenticate_run_def)
qed (simp add: authenticate_run_def)

lemma cache_ops_gone:
  assumes "wage.gone_by w (T + ttl c) c" and "\<forall>now h v. OpSet now h v \<in> set ops \<longrightarrow> now \<le> T"
  shows "wage.gone_by w (T + ttl c) (foldl cache_step c ops)"
  using assms
proof (induction ops arbitrary: c)
  case (Cons x ops)
  have "wage.gone_by w (T + ttl c) (cache_step c x) \<and> ttl (cache_step c x) = ttl c"
  proof (cases x)
    case (OpSet now h v)
    with Cons.prems have "now + ttl c \<le> T + ttl c" by auto
    with OpSet Cons.prems(1) show ?thesis by (simp add: wage.gone_by_put wage.life_put)
  qed (use Cons.prems(1) in \<open>simp_all add: wage.gone_by_get wage.gone_by_invalidate wage.life_get wage.life_invalidate\<close>)
  with Cons.IH [of "cache_step c x"] Cons.prems(2) show ?case by auto
qed simp



section \<open>Until then\<close>

text \<open>
  Before that the other replica goes on: a worker enrolled on one replica and revoked on another
  is still let in by the first, though no row holds its token any more.
\<close>

definition day_fleet :: fleet where
  "day_fleet = fleet_start (\<lambda>_. (Some (NewWorkerAuthCache (30 * second) 10), None))"

lemma day_enroll_cached:
  "EnrollWorker (calm 1) sample_enroll_config (Some ''i'') (Some sample_bytes) sample_enroll_request
      ((day_server [] [] [] [])\<lparr>s_cache := Some c\<rparr>)
    = (Inr \<lparr>er_worker_id = day_w, er_accepted = True, er_api_token = sample_token,
            er_api_endpoint = ec_apiEndpoint sample_enroll_config\<rparr>,
       (day_server [] [] [day_worker Enrolled 1] [])
         \<lparr>s_cache := Some (cache_Set 1 (HashToken sample_token) day_w (InvalidateWorker day_w c))\<rparr>)"
  by (simp add: EnrollWorker_def sample_enroll_config_def sample_enroll_request_def generateWorkerID_def
      normalize_global cache_store_def cache_drop_def update_workers_def update_where_def sample_generate
      EnrollWorker_query_def SetWorkerToken_def day_server_def empty_db_def Let_def day_worker_def)

lemma fleet_serve:
  assumes "fleet_reachable r k fl" and "server_step r k a (cl_server (replica fl i)) s"
  shows "fleet_reachable r k (absorb i ((replica fl i)\<lparr>cl_server := s\<rparr>) fl)"
  using fleet_reachable.step [OF assms(1) fleet_step.acts [OF system_step.serve [OF assms(2)]]] .

theorem revoked_still_served_elsewhere:
  "\<exists>fl. fleet_reachable True sample_codec fl
     \<and> fst (RevokeEnrollment (calm 2) day_w [] (cl_server (replica fl 0))) = Inr True
     \<and> (let fl' = absorb 0 ((replica fl 0)\<lparr>cl_server := snd (RevokeEnrollment (calm 2) day_w [] (cl_server (replica fl 0)))\<rparr>) fl
        in has_no_token day_w (fl_db fl')
           \<and> fst (authenticateWorkerToken (calm 3) day_hdr (cl_server (replica fl' 1))) = Inr day_w)"
proof -
  let ?new = "NewWorkerAuthCache (30 * second) 10"
  let ?c = "cache_Set 1 (HashToken sample_token) day_w (InvalidateWorker day_w ?new)"
  let ?db = "s_db (day_server [] [] [day_worker Enrolled 1] [])"
  have r0: "fleet_reachable True sample_codec day_fleet"
    unfolding day_fleet_def by (rule fleet_reachable.start) (auto simp: fresh_replica_def)
  have v1: "cl_server (replica day_fleet 1) = (day_server [] [] [] [])\<lparr>s_cache := Some ?new\<rparr>"
    by (simp add: day_fleet_def fleet_start_def replica_def day_server_def empty_db_def)
  define fl where "fl = absorb 1 ((replica day_fleet 1)\<lparr>cl_server := (day_server [] [] [day_worker Enrolled 1] [])\<lparr>s_cache := Some ?c\<rparr>\<rparr>) day_fleet"
  have "fleet_reachable True sample_codec fl" unfolding fl_def
    using fleet_serve [OF r0, of Anyone 1] server_step.enroll [of True sample_codec "(day_server [] [] [] [])\<lparr>s_cache := Some ?new\<rparr>"
        "calm 1" sample_enroll_config "Some ''i''" "Some sample_bytes" sample_enroll_request, unfolded day_enroll_cached snd_conv]
    unfolding v1 .
  moreover have v0: "cl_server (replica fl 0) = \<lparr>s_db = ?db, s_cache = Some ?new, s_hb = None\<rparr>"
    by (simp add: fl_def absorb_def replica_def day_fleet_def fleet_start_def)
  moreover have rev: "fst (RevokeEnrollment (calm 2) day_w [] (cl_server (replica fl 0))) = Inr True"
    "has_no_token day_w (s_db (snd (RevokeEnrollment (calm 2) day_w [] (cl_server (replica fl 0)))))"
    unfolding v0
    by (simp_all add: RevokeEnrollment_def GetWorkerByID_def SetWorkerToken_def RevokeWorker_def cache_drop_def Let_def
        day_server_def day_worker_def empty_db_def update_workers_def update_where_def has_no_token_def token_usable_def)
  moreover have hit: "fst (cache_lookup 3 (HashToken sample_token) (cl_server (replica (absorb 0 x fl) 1))) = Some day_w" for x
    by (simp add: fl_def absorb_def replica_def cache_lookup_def cache_Set_def InvalidateWorker_def NewWorkerAuthCache_def
        cache_enabled_def second_def reassign_def store_entry_def Let_def evictLocked_def prune_def evict_loop.simps
        cache_Get_def day_worker_def)
  moreover have "parseBearerToken day_hdr = Inr sample_token" unfolding day_hdr_def
    by (rule parse_issued_token(1) [OF sample_bytes_length sample_generate])
  then have "fst (authenticateWorkerToken (calm 3) day_hdr (cl_server (replica (absorb 0 x fl) 1))) = Inr day_w" for x
    using hit [of x] by (cases "cache_lookup 3 (HashToken sample_token) (cl_server (replica (absorb 0 x fl) 1))")
      (simp add: authenticateWorkerToken_def Let_def)
  ultimately show ?thesis by (intro exI [of _ fl]) (simp add: Let_def)
qed

end
