(* ===== verification/Spec2Isabelle.thy ===== *)
theory Spec2Isabelle
  imports Advisory_Lock Dashboard Monitors_Service Scheduler Maintenance Session Executor Config Recovery Process System Worker_Client Lease_Variants Routing Worker_Liveness Client_Server Replicas
begin

text \<open>
  OpenSeer: a control plane that schedules HTTP checks of its users' monitors as jobs in
  PostgreSQL, and workers that lease jobs, run the checks and submit results. This library
  models the Go code of both processes (\<open>internal/\<close>, \<open>cmd/\<close>), the generated store
  (\<open>store/sqlc\<close>) with its SQL and the constraints of \<open>migrations/\<close>, and the generated clients
  and handlers (\<open>gen/openseer/v1/openseerv1connect\<close>).

  \<^bold>\<open>How the parts interact.\<close> A request reaches \<open>serve_http\<close> (Routing): session middleware, mux,
  token middleware for the worker service, handler. Handlers and background services act on a
  \<open>server\<close> (Server): the shared database \<open>db\<close> (Store_Types) and the process's token cache and
  heartbeat tracker. They reach the database only through \<open>sql\<close>, which applies one statement of
  a store theory and lets the network lose the request or the answer (\<open>outcome\<close>). The environment
  \<open>env\<close> of a call has both clocks, the network's behaviour per query, and the rows locked
  elsewhere. Go's errors are sums: \<open>db_error + 'a\<close> from the store, \<open>rpc_code + 'a\<close> from a
  handler. Randomness, HTTP answers and the zone of a clock are arguments.

  \<^bold>\<open>Vocabulary.\<close> Prelude (Go's fixed-width integers over \<open>int\<close> with their wrap-around, truncating
  division, clock readings, error codes, \<open>update_where\<close>, keys and LIMIT); Go_Strings, Go_Time,
  Go_JSON, Go_Hash (the standard library the code calls: trimming, splitting, decimal and
  hexadecimal text, compact time stamps, JSON objects of strings, FNV-1a, SHA-1, SHA-256, HMAC,
  base64, on 32-bit words and checked on published vectors).

  \<^bold>\<open>Store.\<close> Store_Types (\<open>models.go\<close>: one record per row), Jobs_Store, Monitors_Store,
  Workers_Store, Results_Store (\<open>jobs.sql.go\<close>, \<open>monitors.sql.go\<close>, \<open>workers.sql.go\<close>,
  \<open>results.sql.go\<close>: one definition per query, its SQL text read as a function on the tables).
  Their lemmas say what each statement changes, keeps and answers; \<open>store_inv\<close> (Server) collects
  the invariants of the tables: unique keys, rows that agree with their status, at most one
  active job per monitor, region and time. Lease_Variants relates the three leasing statements.

  \<^bold>\<open>Control plane.\<close> Worker_Service and Heartbeat (\<open>api/worker\<close>), Ingest (\<open>metrics/ingest.go\<close>),
  Tokens, Auth_Cache and Token_Auth (\<open>internal/pkg/auth\<close>, \<open>middleware\<close>), Enrollment
  (\<open>api/enrollment\<close>), Monitors_Service and Regions (\<open>api/monitors\<close>, \<open>internal/pkg/regions\<close>),
  Dashboard, Session (\<open>api/dashboard\<close>, \<open>auth/session\<close>, \<open>api/user\<close>), Scheduler and
  Advisory_Lock (\<open>scheduler.go\<close>), Maintenance (\<open>lease_reaper.go\<close>, \<open>job_cleaner.go\<close>,
  \<open>inactivity_monitor.go\<close>), Recovery (\<open>internal/pkg/recovery\<close>), Config (both \<open>main.go\<close>: the
  environment and what is built from it), Process (the control plane's \<open>main.go\<close> from the first
  goroutine to the exit, as a step relation over the process, its services and its requests).
  Auth_Cache states the contract of a token cache as the locale \<open>token_cache\<close> and interprets it
  on the cache's own operations (\<open>wac\<close>); Token_Auth and Enrollment reason about the cache through
  it alone, with \<open>cache_ok\<close>: every entry names a worker whose row holds that token.

  \<^bold>\<open>Worker.\<close> Worker_Agent (\<open>worker.go\<close>, \<open>polling.go\<close>) over a record of RPC clients; Executor
  (\<open>executor.go\<close>); Worker_Protocol: when \<open>sendResult\<close> returns, and the locale
  \<open>control_plane_contract\<close> of what a worker relies on; Worker_Client: clients that are the
  control plane's handlers behind a lossy link while others act on the same server, with the
  interpretation \<open>cp\<close> of the contract, and retries that get through.

  \<^bold>\<open>The whole.\<close> Statements: every operation changes the database through statements of the store
  alone, as steps of an actor (\<open>statement\<close>). Job_Lifecycle: the invariant \<open>db_ok\<close> under every
  statement, so under any interleaving of statements, and the abstract life of a job, which every
  statement refines. System: requests and ticks as a step relation, the reachable states from an
  empty database, and what holds of all of them; a concrete run from enrolling to a committed
  result. Replicas: any number of control planes over one database, each with its
  own token cache; the invariant and the refinement hold of all of them together, a lease protects
  its job from every other actor (\<open>lease_protects\<close>), and a revocation reaches the other replicas
  when their caches forget (\<open>aging_token_cache\<close> extends the contract of the cache by time).

  \<^bold>\<open>The wire.\<close> Connect (messages, procedures, the generated handlers over a record of methods,
  the \<open>Unimplemented\<close> bases) and Connect_Clients (the generated clients over a transport).
  Routing: the services as overrides of those bases, the mux and its middlewares, and what an
  HTTP request can do at all. Worker_Link: a transport that resolves a URL, posts to the mux of
  \<open>serve_http\<close> and may lose the answer; a worker over the generated clients on it does what it
  does over the handlers (\<open>http_clients_real\<close>), so that Worker_Protocol and Worker_Client speak of
  the network too. Worker_Liveness: a worker that enrolls is known by its id from then on, and a
  check it polls, runs and renews ends committed. Client_Server: no request of a generated client
  is refused for its path or its message.

  \<^bold>\<open>Loops.\<close> The cleaner's batches and \<open>sendResult\<close> are \<open>partial_function (option)\<close>: \<open>None\<close> is
  a run without end, and that they return is proved (\<open>cleanup_ends_exact\<close>,
  \<open>send_result_returns\<close>) or refuted (\<open>send_result_diverges\<close>). The cache's eviction and the
  duration parser are functions with a measure. The scheduler's loop has a budget of monitors,
  which stands for the deadline of its context; the run of a ticker is the list of its ticks, and
  of a lease renewal the number of ticks before the check is over.

  \<^bold>\<open>Choices.\<close> An UPDATE rewrites rows in place and RETURNING keeps the order of the table, which
  PostgreSQL leaves open. A \<open>timestamptz\<close> holds microseconds (\<open>pg_ts\<close>). A run of a map in Go has
  no order; where the order could matter the map is a list and the facts do not depend on it.
  A mutex makes an operation of the cache or the tracker one step; a request is one step of
  System, while Statements gives the finer grain.

  \<^bold>\<open>Not modelled.\<close> The protobuf messages (records here), the codec of the connect library (a
  request carries its decoded message), the Struct codec of protojson (the parameter
  \<open>struct_codec\<close>), CORS, logging outside Recovery and Process, HTTP transport settings, the rounding of a fraction in \<open>ParseDuration\<close> beyond nanoseconds, strings with NUL
  or invalid UTF-8 (which PostgreSQL refuses), isolation anomalies inside one statement, the
  continuous aggregates' refresh (their rows are part of the database), the web front end, the
  test helpers. The health service is generated and never mounted: its handler and client are
  modelled, an implementation does not exist.
\<close>

end
